(* ===== verification/Prelude.thy ===== *)
theory Prelude
  imports Main "HOL-Library.Word"
begin

text \<open>
  Shared vocabulary of the development: the types that stand for Go values (byte strings, errors,
  results), the standard-library routines the Go sources call on strings
  (\<^verbatim>\<open>strings.TrimSpace\<close>, \<^verbatim>\<open>strings.Split\<close>, \<^verbatim>\<open>strings.ToLower\<close>,
  \<^verbatim>\<open>base64.RawURLEncoding\<close>, \<^verbatim>\<open>strconv\<close>'s decimal conversions), and the generic lemmas
  that the component theories share. Go strings are byte sequences, so they are \<^typ>\<open>string\<close>
  with one \<^typ>\<open>char\<close> per byte.
\<close>

named_theorems go_simps \<open>unfolding rules for the small Go helpers\<close>

type_synonym goerror = string
type_synonym bytes = "8 word list"
type_synonym 'a result = "goerror + 'a"

section \<open>Results\<close>

definition bind_result :: "'a result \<Rightarrow> ('a \<Rightarrow> 'b result) \<Rightarrow> 'b result" where
  "bind_result r f = (case r of Inl e \<Rightarrow> Inl e | Inr a \<Rightarrow> f a)"

lemma bind_result_simps [simp]:
  "bind_result (Inl e) f = Inl e"
  "bind_result (Inr a) f = f a"
  by (simp_all add: bind_result_def)

lemma bind_result_eq_Inr [simp]:
  "bind_result r f = Inr b \<longleftrightarrow> (\<exists>a. r = Inr a \<and> f a = Inr b)"
  by (cases r) simp_all

definition of_option :: "goerror \<Rightarrow> 'a option \<Rightarrow> 'a result" where
  "of_option e x = (case x of None \<Rightarrow> Inl e | Some a \<Rightarrow> Inr a)"

lemma of_option_simps [simp]:
  "of_option e None = Inl e"
  "of_option e (Some a) = Inr a"
  by (simp_all add: of_option_def)

section \<open>\<^verbatim>\<open>strings.TrimSpace\<close>\<close>

text \<open>
  Go's \<^verbatim>\<open>unicode.IsSpace\<close> accepts the six ASCII spaces, U+0085, U+00A0 and the code points
  with the White\_Space property above Latin-1. Each is listed here by its UTF-8 bytes.
\<close>

definition go_spaces :: "string list" where
  "go_spaces =
    [[CHR 0x09], [CHR 0x0A], [CHR 0x0B], [CHR 0x0C], [CHR 0x0D], [CHR 0x20],
     [CHR 0xC2, CHR 0x85], [CHR 0xC2, CHR 0xA0], [CHR 0xE1, CHR 0x9A, CHR 0x80],
     [CHR 0xE2, CHR 0x80, CHR 0x80], [CHR 0xE2, CHR 0x80, CHR 0x81], [CHR 0xE2, CHR 0x80, CHR 0x82],
     [CHR 0xE2, CHR 0x80, CHR 0x83], [CHR 0xE2, CHR 0x80, CHR 0x84], [CHR 0xE2, CHR 0x80, CHR 0x85],
     [CHR 0xE2, CHR 0x80, CHR 0x86], [CHR 0xE2, CHR 0x80, CHR 0x87], [CHR 0xE2, CHR 0x80, CHR 0x88],
     [CHR 0xE2, CHR 0x80, CHR 0x89], [CHR 0xE2, CHR 0x80, CHR 0x8A], [CHR 0xE2, CHR 0x80, CHR 0xA8],
     [CHR 0xE2, CHR 0x80, CHR 0xA9], [CHR 0xE2, CHR 0x80, CHR 0xAF], [CHR 0xE2, CHR 0x81, CHR 0x9F],
     [CHR 0xE3, CHR 0x80, CHR 0x80]]"

text \<open>Dropping one of the given non-empty words from the front as long as one is there.\<close>

fun starts_with :: "'a list \<Rightarrow> 'a list \<Rightarrow> bool" where
  "starts_with [] s = True"
| "starts_with (p # ps) [] = False"
| "starts_with (p # ps) (c # cs) = (p = c \<and> starts_with ps cs)"

lemma starts_with_iff: "starts_with p s \<longleftrightarrow> (\<exists>t. s = p @ t)"
  by (induction p s rule: starts_with.induct) auto

function strip_words :: "'a list list \<Rightarrow> 'a list \<Rightarrow> 'a list" where
  "strip_words ws s =
     (case find (\<lambda>w. w \<noteq> [] \<and> starts_with w s) ws of
        None \<Rightarrow> s
      | Some w \<Rightarrow> strip_words ws (drop (length w) s))"
  by pat_completeness auto
termination
  by (relation "measure (\<lambda>(ws, s). length s)")
    (auto dest!: find_Some_iff [THEN iffD1] simp: starts_with_iff)

declare strip_words.simps [simp del]

definition trim_left :: "string \<Rightarrow> string" where
  "trim_left s = strip_words go_spaces s"

definition trim_right :: "string \<Rightarrow> string" where
  "trim_right s = rev (strip_words (map rev go_spaces) (rev s))"

definition trim_space :: "string \<Rightarrow> string" where
  "trim_space s = trim_right (trim_left s)"

lemma strip_words_None:
  "find (\<lambda>w. w \<noteq> [] \<and> starts_with w s) ws = None \<Longrightarrow> strip_words ws s = s"
  by (subst strip_words.simps) simp

lemma strip_words_Some:
  "find (\<lambda>w. w \<noteq> [] \<and> starts_with w s) ws = Some w \<Longrightarrow>
   strip_words ws s = strip_words ws (drop (length w) s)"
  by (subst strip_words.simps) simp

lemma strip_words_suffix: "\<exists>p. s = p @ strip_words ws s"
proof (induction ws s rule: strip_words.induct)
  case (1 ws s)
  show ?case
  proof (cases "find (\<lambda>w. w \<noteq> [] \<and> starts_with w s) ws")
    case None
    then show ?thesis by (simp add: strip_words_None)
  next
    case (Some w)
    from 1 [OF Some] obtain p where p: "drop (length w) s = p @ strip_words ws (drop (length w) s)"
      by blast
    have "s = take (length w) s @ drop (length w) s" by simp
    then have "s = (take (length w) s @ p) @ strip_words ws (drop (length w) s)"
      using p by (metis append.assoc)
    with strip_words_Some [OF Some] show ?thesis by metis
  qed
qed

lemma strip_words_stop:
  "w \<in> set ws \<Longrightarrow> w \<noteq> [] \<Longrightarrow> \<not> starts_with w (strip_words ws s)"
proof (induction ws s rule: strip_words.induct)
  case (1 ws s)
  show ?case
  proof (cases "find (\<lambda>w. w \<noteq> [] \<and> starts_with w s) ws")
    case None
    then have "strip_words ws s = s" by (rule strip_words_None)
    moreover have "\<not> (w \<noteq> [] \<and> starts_with w s)"
      using None 1(2) by (auto simp: find_None_iff)
    ultimately show ?thesis using 1(3) by simp
  next
    case (Some v)
    with 1 show ?thesis by (simp add: strip_words_Some)
  qed
qed

lemma strip_words_id:
  "(\<And>w. w \<in> set ws \<Longrightarrow> w \<noteq> [] \<Longrightarrow> \<not> starts_with w s) \<Longrightarrow> strip_words ws s = s"
  by (rule strip_words_None) (auto simp: find_None_iff)

lemma trim_right_prefix: "\<exists>q. s = trim_right s @ q"
proof -
  obtain p where "rev s = p @ strip_words (map rev go_spaces) (rev s)"
    using strip_words_suffix by blast
  then have "s = trim_right s @ rev p"
    by (metis rev_append rev_rev_ident trim_right_def)
  then show ?thesis by blast
qed

lemma trim_space_no_leading: "w \<in> set go_spaces \<Longrightarrow> \<not> starts_with w (trim_space s)"
proof
  assume w: "w \<in> set go_spaces" and st: "starts_with w (trim_space s)"
  obtain q where "trim_left s = trim_space s @ q"
    using trim_right_prefix [of "trim_left s"] by (auto simp: trim_space_def)
  with st have "starts_with w (trim_left s)"
    by (auto simp: starts_with_iff)
  moreover have "w \<noteq> []" using w by (auto simp: go_spaces_def)
  ultimately show False
    using w strip_words_stop [of w go_spaces s] by (simp add: trim_left_def)
qed

lemma trim_space_no_trailing:
  "w \<in> set go_spaces \<Longrightarrow> \<not> starts_with (rev w) (rev (trim_space s))"
proof -
  assume w: "w \<in> set go_spaces"
  then have "rev w \<noteq> []" by (auto simp: go_spaces_def)
  then show ?thesis
    using w strip_words_stop [of "rev w" "map rev go_spaces" "rev (trim_left s)"]
    by (simp add: trim_space_def trim_right_def)
qed

lemma trim_space_id:
  assumes "\<And>w. w \<in> set go_spaces \<Longrightarrow> \<not> starts_with w s"
    and "\<And>w. w \<in> set go_spaces \<Longrightarrow> \<not> starts_with (rev w) (rev s)"
  shows "trim_space s = s"
proof -
  have "trim_left s = s"
    unfolding trim_left_def by (rule strip_words_id) (use assms(1) in blast)
  moreover have "strip_words (map rev go_spaces) (rev s) = rev s"
    by (rule strip_words_id) (use assms(2) in auto)
  ultimately show ?thesis by (simp add: trim_space_def trim_right_def)
qed

lemma trim_space_idem [simp]: "trim_space (trim_space s) = trim_space s"
  by (rule trim_space_id) (simp_all add: trim_space_no_leading trim_space_no_trailing)

lemma trim_space_Nil [simp]: "trim_space [] = []"
  by (rule trim_space_id) (auto simp: go_spaces_def)

text \<open>A string of bytes above space and below 0x80 is left alone; so is its concatenation.\<close>

definition plain_char :: "char \<Rightarrow> bool" where
  "plain_char c \<longleftrightarrow> 0x20 < (of_char c :: nat) \<and> (of_char c :: nat) < 0x80"

lemma go_spaces_head: "w \<in> set go_spaces \<Longrightarrow> w \<noteq> [] \<and> \<not> plain_char (hd w) \<and> \<not> plain_char (last w)"
  by (auto simp: go_spaces_def plain_char_def)

lemma trim_space_plain_ends:
  assumes "s \<noteq> []" "plain_char (hd s)" "plain_char (last s)"
  shows "trim_space s = s"
proof (rule trim_space_id)
  fix w assume w: "w \<in> set go_spaces"
  show "\<not> starts_with w s"
    using go_spaces_head [OF w] assms by (cases w) (auto simp: starts_with_iff)
  show "\<not> starts_with (rev w) (rev s)"
  proof
    assume "starts_with (rev w) (rev s)"
    then obtain t where "rev s = rev w @ t" by (auto simp: starts_with_iff)
    then have "s = rev t @ w" by (metis rev_append rev_rev_ident)
    with go_spaces_head [OF w] assms(3) show False by (simp add: last_append)
  qed
qed

lemma trim_space_plain: "list_all plain_char s \<Longrightarrow> trim_space s = s"
  by (cases "s = []") (auto intro!: trim_space_plain_ends simp: list_all_iff)

section \<open>\<^verbatim>\<open>strings.Split\<close>, \<^verbatim>\<open>strings.Join\<close>, \<^verbatim>\<open>strings.ToLower\<close>\<close>

text \<open>Splitting at a one-byte separator; the result always has at least one part.\<close>

fun split_on :: "'a \<Rightarrow> 'a list \<Rightarrow> 'a list list" where
  "split_on d [] = [[]]"
| "split_on d (c # cs) =
     (if c = d then [] # split_on d cs
      else (case split_on d cs of [] \<Rightarrow> [[c]] | p # ps \<Rightarrow> (c # p) # ps))"

fun join_with :: "'a list \<Rightarrow> 'a list list \<Rightarrow> 'a list" where
  "join_with d [] = []"
| "join_with d [p] = p"
| "join_with d (p # q # ps) = p @ d @ join_with d (q # ps)"

lemma split_on_not_Nil [simp]: "split_on d s \<noteq> []"
  by (induction s) (auto split: list.split)

lemma join_split_on: "join_with [d] (split_on d s) = s"
proof (induction s)
  case (Cons c cs)
  then show ?case
    by (cases "split_on d cs"; cases "tl (split_on d cs)") (auto split: list.splits)
qed simp

lemma split_on_no_sep: "p \<in> set (split_on d s) \<Longrightarrow> d \<notin> set p"
proof (induction s arbitrary: p)
  case (Cons c cs)
  then show ?case by (cases "split_on d cs") (auto split: if_splits)
qed simp

lemma split_on_single: "d \<notin> set s \<Longrightarrow> split_on d s = [s]"
  by (induction s) auto

lemma split_on_append: "d \<notin> set p \<Longrightarrow> split_on d (p @ d # s) = p # split_on d s"
  by (induction p) auto

text \<open>ASCII lower-casing, which is what \<^verbatim>\<open>strings.ToLower\<close> does on bytes below 0x80.\<close>

definition lower_char :: "char \<Rightarrow> char" where
  "lower_char c = (if 65 \<le> (of_char c :: nat) \<and> (of_char c :: nat) \<le> 90
                   then char_of ((of_char c :: nat) + 32) else c)"

definition to_lower :: "string \<Rightarrow> string" where
  "to_lower s = map lower_char s"

lemma lower_char_idem [simp]: "lower_char (lower_char c) = lower_char c"
  by (simp add: lower_char_def)

lemma to_lower_idem [simp]: "to_lower (to_lower s) = to_lower s"
  by (simp add: to_lower_def)

section \<open>Systems of steps\<close>

text \<open>A component that several goroutines or callbacks run on is a step relation with its starting states.
  An invariant that every step keeps holds in every state that is reached, and a relation between
  states that every step respects holds along a run.\<close>

locale step_system =
  fixes start :: "'s \<Rightarrow> bool" and step :: "'s \<Rightarrow> 's \<Rightarrow> bool" and inv :: "'s \<Rightarrow> bool"
  assumes start_inv: "start s \<Longrightarrow> inv s"
    and step_inv: "step s t \<Longrightarrow> inv s \<Longrightarrow> inv t"
begin

lemma run_inv: "step\<^sup>*\<^sup>* s t \<Longrightarrow> inv s \<Longrightarrow> inv t"
  by (induction rule: rtranclp_induct) (auto intro: step_inv)

lemma reachable: "step\<^sup>*\<^sup>* s t \<Longrightarrow> start s \<Longrightarrow> inv t"
  by (rule run_inv [OF _ start_inv])

end

end
