(* ===== verification/Encoding.thy ===== *)
theory Encoding
  imports Prelude
begin

text \<open>
  The standard-library encodings the protocol relies on: \<^verbatim>\<open>base64.RawURLEncoding\<close>
  (identifiers, keys, challenges and signatures travel in it) and the decimal conversions of
  \<^verbatim>\<open>strconv\<close>. Both come with their round trips, from which the identity lemmas of the
  handshake follow.
\<close>

section \<open>\<^verbatim>\<open>base64.RawURLEncoding\<close>\<close>

text \<open>The URL-safe alphabet: A--Z, a--z, 0--9, minus, underscore.\<close>

definition b64_char :: "nat \<Rightarrow> char" where
  "b64_char n =
     (if n < 26 then char_of (n + 65)
      else if n < 52 then char_of (n + 71)
      else if n < 62 then char_of (n - 4)
      else if n = 62 then CHR 0x2D else CHR 0x5F)"

definition b64_value :: "char \<Rightarrow> nat option" where
  "b64_value c =
     (let n = (of_char c :: nat) in
      if 65 \<le> n \<and> n \<le> 90 then Some (n - 65)
      else if 97 \<le> n \<and> n \<le> 122 then Some (n - 71)
      else if 48 \<le> n \<and> n \<le> 57 then Some (n + 4)
      else if n = 45 then Some 62
      else if n = 95 then Some 63
      else None)"

fun b64_sextets :: "bytes \<Rightarrow> nat list" where
  "b64_sextets [] = []"
| "b64_sextets [a] = [unat a div 4, (unat a mod 4) * 16]"
| "b64_sextets [a, b] =
     [unat a div 4, (unat a mod 4) * 16 + unat b div 16, (unat b mod 16) * 4]"
| "b64_sextets (a # b # c # rest) =
     [unat a div 4, (unat a mod 4) * 16 + unat b div 16,
      (unat b mod 16) * 4 + unat c div 64, unat c mod 64] @ b64_sextets rest"

definition b64_encode :: "bytes \<Rightarrow> string" where
  "b64_encode bs = map b64_char (b64_sextets bs)"

text \<open>The decoder is not strict: unused trailing bits are dropped, as Go's default decoder does.\<close>

fun b64_octets :: "nat list \<Rightarrow> bytes option" where
  "b64_octets [] = Some []"
| "b64_octets [x] = None"
| "b64_octets [x, y] = Some [of_nat (x * 4 + y div 16)]"
| "b64_octets [x, y, z] = Some [of_nat (x * 4 + y div 16), of_nat ((y mod 16) * 16 + z div 4)]"
| "b64_octets (x # y # z # w # rest) =
     map_option (\<lambda>bs. of_nat (x * 4 + y div 16) # of_nat ((y mod 16) * 16 + z div 4)
                        # of_nat ((z mod 4) * 64 + w) # bs) (b64_octets rest)"

text \<open>\<^verbatim>\<open>DecodeString\<close> skips carriage returns and newlines.\<close>

definition b64_decode :: "string \<Rightarrow> bytes option" where
  "b64_decode s =
     (let vs = map b64_value (filter (\<lambda>c. c \<noteq> CHR 0x0A \<and> c \<noteq> CHR 0x0D) s) in
      if None \<in> set vs then None else b64_octets (map the vs))"

lemma unat8_less: "unat (a :: 8 word) < 256"
  using unsigned_less [of a] by simp

lemma b64_sextets_bound: "x \<in> set (b64_sextets bs) \<Longrightarrow> x < 64"
proof (induction bs rule: b64_sextets.induct)
  case (2 a)
  have "unat a < 256" using unat8_less [of a] by simp
  with 2 show ?case by auto
next
  case (3 a b)
  have "unat a < 256" "unat b < 256" using unat8_less [of a] unat8_less [of b] by simp_all
  with 3 show ?case by auto
next
  case (4 a b c rest)
  have "unat a < 256" "unat b < 256" "unat c < 256"
    using unat8_less [of a] unat8_less [of b] unat8_less [of c] by simp_all
  with 4 show ?case by auto
qed simp

lemma of_char_b64_char:
  "n < 64 \<Longrightarrow> (of_char (b64_char n) :: nat) =
     (if n < 26 then n + 65 else if n < 52 then n + 71 else if n < 62 then n - 4
      else if n = 62 then 45 else 95)"
  by (simp add: b64_char_def)

lemma b64_value_char: "n < 64 \<Longrightarrow> b64_value (b64_char n) = Some n"
  by (auto simp: b64_value_def of_char_b64_char Let_def)

lemma b64_char_plain: "n < 64 \<Longrightarrow> plain_char (b64_char n)"
  by (auto simp: plain_char_def of_char_b64_char)

lemma word8_of_nat_unat: "n = unat a \<Longrightarrow> of_nat n = (a :: 8 word)"
  by simp

lemma b64_octets_sextets: "b64_octets (b64_sextets bs) = Some bs"
proof (induction bs rule: b64_sextets.induct)
  case (2 a)
  show ?case by (simp add: word8_of_nat_unat)
next
  case (3 a b)
  have "unat b < 256" using unat8_less [of b] by simp
  then have "unat b div 16 < 16" by simp
  then show ?case by (simp add: word8_of_nat_unat)
next
  case (4 a b c rest)
  have "unat b < 256" "unat c < 256" using unat8_less [of b] unat8_less [of c] by simp_all
  then have "unat b div 16 < 16" "unat c div 64 < 4" by simp_all
  with 4 show ?case by (simp add: word8_of_nat_unat)
qed simp

lemma b64_encode_plain: "list_all plain_char (b64_encode bs)"
  by (auto simp: b64_encode_def list_all_iff b64_char_plain b64_sextets_bound)

lemma trim_space_b64 [simp]: "trim_space (b64_encode bs) = b64_encode bs"
  by (simp add: trim_space_plain b64_encode_plain)

lemma b64_decode_encode [simp]: "b64_decode (b64_encode bs) = Some bs"
proof -
  have nl: "filter (\<lambda>c. c \<noteq> CHR 0x0A \<and> c \<noteq> CHR 0x0D) (b64_encode bs) = b64_encode bs"
    using b64_encode_plain [of bs] by (auto simp: filter_id_conv list_all_iff plain_char_def)
  have "map b64_value (b64_encode bs) = map Some (b64_sextets bs)"
    by (auto simp: b64_encode_def b64_value_char b64_sextets_bound)
  with nl show ?thesis by (simp add: b64_decode_def Let_def b64_octets_sextets o_def image_iff)
qed

lemma b64_encode_inj: "b64_encode xs = b64_encode ys \<longleftrightarrow> xs = ys"
  by (metis b64_decode_encode option.inject)

lemma b64_sextets_Nil [simp]: "b64_sextets bs = [] \<longleftrightarrow> bs = []"
  by (cases bs rule: b64_sextets.cases) auto

lemma b64_encode_Nil [simp]: "b64_encode bs = [] \<longleftrightarrow> bs = []"
  by (simp add: b64_encode_def)

lemma b64_encode_Nil' [simp]: "[] = b64_encode bs \<longleftrightarrow> bs = []"
  by (metis b64_encode_Nil)

lemma length_b64_encode: "length (b64_encode bs) = (length bs * 4 + 2) div 3"
proof -
  have "length (b64_sextets bs) = (length bs * 4 + 2) div 3"
    by (induction bs rule: b64_sextets.induct) auto
  then show ?thesis by (simp add: b64_encode_def)
qed

section \<open>Decimal numerals\<close>

definition digit_char :: "nat \<Rightarrow> char" where
  "digit_char d = char_of (48 + d)"

definition is_digit :: "char \<Rightarrow> bool" where
  "is_digit c \<longleftrightarrow> 48 \<le> (of_char c :: nat) \<and> (of_char c :: nat) \<le> 57"

definition digit_value :: "char \<Rightarrow> nat" where
  "digit_value c = (of_char c :: nat) - 48"

fun show_nat :: "nat \<Rightarrow> string" where
  "show_nat n = (if n < 10 then [digit_char n] else show_nat (n div 10) @ [digit_char (n mod 10)])"

declare show_nat.simps [simp del]

definition show_int :: "int \<Rightarrow> string" where
  "show_int i = (if i < 0 then CHR ''-'' # show_nat (nat (- i)) else show_nat (nat i))"

definition read_digits :: "string \<Rightarrow> nat" where
  "read_digits s = foldl (\<lambda>n c. n * 10 + digit_value c) 0 s"

text \<open>\<^verbatim>\<open>strconv.ParseUint(s, 10, 64)\<close>: digits only, value below \<open>2 ^ 64\<close>.\<close>

definition parse_uint64 :: "string \<Rightarrow> nat option" where
  "parse_uint64 s =
     (if s = [] \<or> \<not> list_all is_digit s then None
      else if read_digits s < 2 ^ 64 then Some (read_digits s) else None)"

text \<open>\<^verbatim>\<open>strconv.Atoi\<close>: an optional sign, digits, value within a 64-bit signed integer.\<close>

definition parse_int64 :: "string \<Rightarrow> int option" where
  "parse_int64 s =
     (let (neg, ds) = (case s of
            [] \<Rightarrow> (False, [])
          | c # cs \<Rightarrow> if c = CHR ''-'' then (True, cs)
                      else if c = CHR ''+'' then (False, cs) else (False, s)) in
      if ds = [] \<or> \<not> list_all is_digit ds then None
      else if neg then (if read_digits ds \<le> 2 ^ 63 then Some (- int (read_digits ds)) else None)
      else (if read_digits ds < 2 ^ 63 then Some (int (read_digits ds)) else None))"

lemma digit_char_props [simp]:
  assumes "d < 10"
  shows "is_digit (digit_char d)" "digit_value (digit_char d) = d"
proof -
  have "(of_char (digit_char d) :: nat) = 48 + d"
    using assms by (simp add: digit_char_def)
  then show "is_digit (digit_char d)" "digit_value (digit_char d) = d"
    using assms by (simp_all add: is_digit_def digit_value_def)
qed

lemma show_nat_not_Nil [simp]: "show_nat n \<noteq> []"
  by (subst show_nat.simps) simp

lemma show_nat_digits: "list_all is_digit (show_nat n)"
proof (induction n rule: show_nat.induct)
  case (1 n)
  then show ?case by (subst show_nat.simps) auto
qed

lemma read_show_nat [simp]: "read_digits (show_nat n) = n"
proof (induction n rule: show_nat.induct)
  case (1 n)
  then show ?case
    by (subst show_nat.simps) (auto simp: read_digits_def)
qed

lemma parse_show_uint64: "n < 2 ^ 64 \<Longrightarrow> parse_uint64 (show_nat n) = Some n"
  by (simp add: parse_uint64_def show_nat_digits)

lemma parse_uint64_bound: "parse_uint64 s = Some n \<Longrightarrow> n < 2 ^ 64"
  by (auto simp: parse_uint64_def split: if_splits)

lemma parse_int64_bound: "parse_int64 s = Some i \<Longrightarrow> - (2 ^ 63) \<le> i \<and> i < 2 ^ 63"
  by (auto simp: parse_int64_def Let_def split: if_splits list.splits prod.splits)

lemma show_nat_plain: "list_all plain_char (show_nat n)"
  using show_nat_digits [of n] by (auto simp: list_all_iff is_digit_def plain_char_def)

end
