(* ===== verification/Json.thy ===== *)
theory Json
  imports Encoding
begin

text \<open>
  The part of \<^verbatim>\<open>encoding/json\<close> that the protocol uses: JSON values, the text that
  \<^verbatim>\<open>json.Marshal\<close> writes for them (compact, with Go's HTML-safe string escapes) and the
  recursive-descent reader behind \<^verbatim>\<open>json.Unmarshal\<close>. A number is kept as its literal, so a
  field decoder sees exactly what the text says. The string escapes treat bytes from 0x80 up as
  parts of well-formed UTF-8 (no U+2028/U+2029) and pass them through. The reader runs on fuel;
  the length of the text is enough (\<open>parse_print\<close>), and every result consumes input.
\<close>

datatype json =
    JNull
  | JBool bool
  | JNum string
  | JStr string
  | JArr "json list"
  | JObj "(string \<times> json) list"

section \<open>Writing\<close>

definition hex_digit :: "nat \<Rightarrow> char" where
  "hex_digit d = (if d < 10 then char_of (48 + d) else char_of (87 + d))"

definition esc_char :: "char \<Rightarrow> string" where
  "esc_char c =
     (let n = (of_char c :: nat) in
      if n = 0x22 then [CHR 0x5C, CHR 0x22]
      else if n = 0x5C then [CHR 0x5C, CHR 0x5C]
      else if n = 0x08 then [CHR 0x5C, CHR ''b'']
      else if n = 0x0C then [CHR 0x5C, CHR ''f'']
      else if n = 0x0A then [CHR 0x5C, CHR ''n'']
      else if n = 0x0D then [CHR 0x5C, CHR ''r'']
      else if n = 0x09 then [CHR 0x5C, CHR ''t'']
      else if n < 0x20 \<or> n = 0x3C \<or> n = 0x3E \<or> n = 0x26
        then [CHR 0x5C, CHR ''u'', CHR ''0'', CHR ''0'', hex_digit (n div 16), hex_digit (n mod 16)]
      else [c])"

definition print_str :: "string \<Rightarrow> string" where
  "print_str s = CHR 0x22 # concat (map esc_char s) @ [CHR 0x22]"

fun print_json :: "json \<Rightarrow> string"
  and print_elems :: "json list \<Rightarrow> string"
  and print_members :: "(string \<times> json) list \<Rightarrow> string" where
  "print_json JNull = ''null''"
| "print_json (JBool b) = (if b then ''true'' else ''false'')"
| "print_json (JNum s) = s"
| "print_json (JStr s) = print_str s"
| "print_json (JArr xs) = CHR ''['' # print_elems xs"
| "print_json (JObj kvs) = CHR ''{'' # print_members kvs"
| "print_elems [] = '']''"
| "print_elems [x] = print_json x @ '']''"
| "print_elems (x # y # ys) = print_json x @ '','' @ print_elems (y # ys)"
| "print_members [] = ''}''"
| "print_members [(k, v)] = print_str k @ '':'' @ print_json v @ ''}''"
| "print_members ((k, v) # m # ms) =
     print_str k @ '':'' @ print_json v @ '','' @ print_members (m # ms)"

section \<open>Reading\<close>

definition is_ws :: "char \<Rightarrow> bool" where
  "is_ws c \<longleftrightarrow> c = CHR 0x20 \<or> c = CHR 0x09 \<or> c = CHR 0x0A \<or> c = CHR 0x0D"

definition skip_ws :: "string \<Rightarrow> string" where
  "skip_ws s = dropWhile is_ws s"

definition hex_value :: "char \<Rightarrow> nat option" where
  "hex_value c =
     (let n = (of_char c :: nat) in
      if 48 \<le> n \<and> n \<le> 57 then Some (n - 48)
      else if 97 \<le> n \<and> n \<le> 102 then Some (n - 87)
      else if 65 \<le> n \<and> n \<le> 70 then Some (n - 55)
      else None)"

definition read_u4 :: "string \<Rightarrow> (nat \<times> string) option" where
  "read_u4 s = (case s of
       a # b # c # d # r \<Rightarrow>
         (case (hex_value a, hex_value b, hex_value c, hex_value d) of
            (Some p, Some q, Some t, Some u) \<Rightarrow> Some (((p * 16 + q) * 16 + t) * 16 + u, r)
          | _ \<Rightarrow> None)
     | _ \<Rightarrow> None)"

definition utf8_encode :: "nat \<Rightarrow> string" where
  "utf8_encode n =
     (if n < 0x80 then [char_of n]
      else if n < 0x800 then [char_of (0xC0 + n div 64), char_of (0x80 + n mod 64)]
      else if n < 0x10000
        then [char_of (0xE0 + n div 4096), char_of (0x80 + n div 64 mod 64), char_of (0x80 + n mod 64)]
      else [char_of (0xF0 + n div 262144), char_of (0x80 + n div 4096 mod 64),
            char_of (0x80 + n div 64 mod 64), char_of (0x80 + n mod 64)])"

text \<open>A \<open>\\u\<close> escape; surrogate pairs combine, a lone surrogate becomes U+FFFD.\<close>

definition read_unicode :: "string \<Rightarrow> (string \<times> string) option" where
  "read_unicode s = (case read_u4 s of
       None \<Rightarrow> None
     | Some (u, r) \<Rightarrow>
         if 0xD800 \<le> u \<and> u < 0xDC00 then
           (case r of
              b # e # r' \<Rightarrow>
                (if b = CHR 0x5C \<and> e = CHR ''u'' then
                   (case read_u4 r' of
                      Some (l, r'') \<Rightarrow>
                        if 0xDC00 \<le> l \<and> l < 0xE000
                        then Some (utf8_encode ((u - 0xD800) * 1024 + (l - 0xDC00) + 0x10000), r'')
                        else Some (utf8_encode 0xFFFD, r)
                    | None \<Rightarrow> Some (utf8_encode 0xFFFD, r))
                 else Some (utf8_encode 0xFFFD, r))
            | _ \<Rightarrow> Some (utf8_encode 0xFFFD, r))
         else if 0xDC00 \<le> u \<and> u < 0xE000 then Some (utf8_encode 0xFFFD, r)
         else Some (utf8_encode u, r))"

definition read_escape :: "string \<Rightarrow> (string \<times> string) option" where
  "read_escape s = (case s of
       [] \<Rightarrow> None
     | c # cs \<Rightarrow>
         if c = CHR 0x22 \<or> c = CHR 0x5C \<or> c = CHR ''/'' then Some ([c], cs)
         else if c = CHR ''b'' then Some ([CHR 0x08], cs)
         else if c = CHR ''f'' then Some ([CHR 0x0C], cs)
         else if c = CHR ''n'' then Some ([CHR 0x0A], cs)
         else if c = CHR ''r'' then Some ([CHR 0x0D], cs)
         else if c = CHR ''t'' then Some ([CHR 0x09], cs)
         else if c = CHR ''u'' then read_unicode cs
         else None)"

lemma read_u4_shorter: "read_u4 s = Some (u, r) \<Longrightarrow> length r < length s"
  by (auto simp: read_u4_def split: list.splits option.splits)

lemma read_unicode_shorter: "read_unicode s = Some (u, r) \<Longrightarrow> length r < length s"
  by (auto simp: read_unicode_def split: list.splits option.splits if_splits dest!: read_u4_shorter)

lemma read_escape_shorter: "read_escape s = Some (u, r) \<Longrightarrow> length r < length s"
  by (auto simp: read_escape_def split: list.splits if_splits dest!: read_unicode_shorter)

function read_str :: "string \<Rightarrow> (string \<times> string) option" where
  "read_str [] = None"
| "read_str (c # cs) =
     (if c = CHR 0x22 then Some ([], cs)
      else if c = CHR 0x5C then
        (case read_escape cs of
           None \<Rightarrow> None
         | Some (u, r) \<Rightarrow> map_option (apfst (\<lambda>t. u @ t)) (read_str r))
      else if (of_char c :: nat) < 0x20 then None
      else map_option (apfst (\<lambda>t. c # t)) (read_str cs))"
  by pat_completeness auto
termination
  by (relation "measure length") (auto dest!: read_escape_shorter)

definition read_int_part :: "string \<Rightarrow> (string \<times> string) option" where
  "read_int_part s = (case s of
       [] \<Rightarrow> None
     | c # cs \<Rightarrow>
         if c = CHR ''0'' then Some ([c], cs)
         else if is_digit c then Some (takeWhile is_digit s, dropWhile is_digit s)
         else None)"

definition read_frac :: "string \<Rightarrow> (string \<times> string) option" where
  "read_frac s = (case s of
       [] \<Rightarrow> Some ([], [])
     | c # cs \<Rightarrow>
         if c = CHR ''.'' then
           (if takeWhile is_digit cs = [] then None
            else Some (c # takeWhile is_digit cs, dropWhile is_digit cs))
         else Some ([], s))"

definition read_exp :: "string \<Rightarrow> (string \<times> string) option" where
  "read_exp s = (case s of
       [] \<Rightarrow> Some ([], [])
     | c # cs \<Rightarrow>
         if c = CHR ''e'' \<or> c = CHR ''E'' then
           (let (sg, ds) = (case cs of
                  [] \<Rightarrow> ([], [])
                | x # xs \<Rightarrow> if x = CHR ''+'' \<or> x = CHR ''-'' then ([x], xs) else ([], cs)) in
            if takeWhile is_digit ds = [] then None
            else Some (c # sg @ takeWhile is_digit ds, dropWhile is_digit ds))
         else Some ([], s))"

definition read_num :: "string \<Rightarrow> (string \<times> string) option" where
  "read_num s =
     (let (sg, t) = (case s of
            [] \<Rightarrow> ([], [])
          | c # cs \<Rightarrow> if c = CHR ''-'' then ([c], cs) else ([], s)) in
      case read_int_part t of
        None \<Rightarrow> None
      | Some (a, r1) \<Rightarrow>
          (case read_frac r1 of
             None \<Rightarrow> None
           | Some (b, r2) \<Rightarrow>
               (case read_exp r2 of
                  None \<Rightarrow> None
                | Some (c, r3) \<Rightarrow> Some (sg @ a @ b @ c, r3))))"

fun parse_value :: "nat \<Rightarrow> string \<Rightarrow> (json \<times> string) option"
  and parse_elems :: "nat \<Rightarrow> string \<Rightarrow> (json list \<times> string) option"
  and parse_members :: "nat \<Rightarrow> string \<Rightarrow> ((string \<times> json) list \<times> string) option" where
  "parse_value 0 s = None"
| "parse_value (Suc n) s = (case skip_ws s of
       [] \<Rightarrow> None
     | c # cs \<Rightarrow>
         if c = CHR ''{'' then
           (if starts_with ''}'' (skip_ws cs) then Some (JObj [], tl (skip_ws cs))
            else map_option (apfst JObj) (parse_members n cs))
         else if c = CHR ''['' then
           (if starts_with '']'' (skip_ws cs) then Some (JArr [], tl (skip_ws cs))
            else map_option (apfst JArr) (parse_elems n cs))
         else if c = CHR 0x22 then map_option (apfst JStr) (read_str cs)
         else if c = CHR ''n'' then
           (if starts_with ''ull'' cs then Some (JNull, drop 3 cs) else None)
         else if c = CHR ''t'' then
           (if starts_with ''rue'' cs then Some (JBool True, drop 3 cs) else None)
         else if c = CHR ''f'' then
           (if starts_with ''alse'' cs then Some (JBool False, drop 4 cs) else None)
         else map_option (apfst JNum) (read_num (c # cs)))"
| "parse_elems 0 s = None"
| "parse_elems (Suc n) s = (case parse_value n s of
       None \<Rightarrow> None
     | Some (v, r) \<Rightarrow>
         (case skip_ws r of
            [] \<Rightarrow> None
          | c # cs \<Rightarrow>
              if c = CHR '','' then map_option (apfst (\<lambda>vs. v # vs)) (parse_elems n cs)
              else if c = CHR '']'' then Some ([v], cs) else None))"
| "parse_members 0 s = None"
| "parse_members (Suc n) s = (case skip_ws s of
       [] \<Rightarrow> None
     | q # cs \<Rightarrow>
         if q \<noteq> CHR 0x22 then None
         else (case read_str cs of
            None \<Rightarrow> None
          | Some (k, r) \<Rightarrow>
              (case skip_ws r of
                 [] \<Rightarrow> None
               | d # ds \<Rightarrow>
                   if d \<noteq> CHR '':'' then None
                   else (case parse_value n ds of
                      None \<Rightarrow> None
                    | Some (v, r') \<Rightarrow>
                        (case skip_ws r' of
                           [] \<Rightarrow> None
                         | e # es \<Rightarrow>
                             if e = CHR '','' then map_option (apfst (\<lambda>m. (k, v) # m)) (parse_members n es)
                             else if e = CHR ''}'' then Some ([(k, v)], es) else None)))))"

definition parse_json :: "string \<Rightarrow> json result" where
  "parse_json s = (case parse_value (length s) s of
       None \<Rightarrow> Inl ''invalid JSON''
     | Some (j, r) \<Rightarrow> if skip_ws r = [] then Inr j else Inl ''invalid JSON'')"

section \<open>Round trip\<close>

text \<open>Well-formed values: every number is a JSON number literal.\<close>

fun wf_json :: "json \<Rightarrow> bool"
  and wf_elems :: "json list \<Rightarrow> bool"
  and wf_members :: "(string \<times> json) list \<Rightarrow> bool" where
  "wf_json (JNum s) \<longleftrightarrow> read_num s = Some (s, [])"
| "wf_json (JArr xs) \<longleftrightarrow> wf_elems xs"
| "wf_json (JObj kvs) \<longleftrightarrow> wf_members kvs"
| "wf_json _ \<longleftrightarrow> True"
| "wf_elems [] \<longleftrightarrow> True"
| "wf_elems (x # xs) \<longleftrightarrow> wf_json x \<and> wf_elems xs"
| "wf_members [] \<longleftrightarrow> True"
| "wf_members ((k, v) # ms) \<longleftrightarrow> wf_json v \<and> wf_members ms"

definition num_stop :: "string \<Rightarrow> bool" where
  "num_stop r \<longleftrightarrow> (case r of [] \<Rightarrow> True
     | c # _ \<Rightarrow> \<not> is_digit c \<and> c \<notin> {CHR ''.'', CHR ''e'', CHR ''E'', CHR ''+'', CHR ''-''})"

lemma span_append:
  assumes "r = [] \<or> \<not> P (hd r)"
  shows "takeWhile P (s @ r) = takeWhile P s" "dropWhile P (s @ r) = dropWhile P s @ r"
  using assms by (induction s; cases r; simp)+

lemma num_stop_digit: "num_stop r \<Longrightarrow> r = [] \<or> \<not> is_digit (hd r)"
  by (cases r) (simp_all add: num_stop_def)

lemmas digit_span_append = span_append [where P = is_digit, OF num_stop_digit]

lemma read_int_part_append:
  "read_int_part s = Some (a, t) \<Longrightarrow> num_stop r \<Longrightarrow> read_int_part (s @ r) = Some (a, t @ r)"
  by (cases s) (auto simp: read_int_part_def digit_span_append split: if_splits)

lemma read_frac_append:
  "read_frac s = Some (a, t) \<Longrightarrow> num_stop r \<Longrightarrow> read_frac (s @ r) = Some (a, t @ r)"
proof (cases s)
  case Nil
  assume "read_frac s = Some (a, t)" "num_stop r"
  with Nil show ?thesis by (cases r) (auto simp: read_frac_def num_stop_def)
qed (auto simp: read_frac_def digit_span_append split: if_splits)

lemma read_exp_append:
  assumes "read_exp s = Some (a, t)" "num_stop r"
  shows "read_exp (s @ r) = Some (a, t @ r)"
proof (cases s)
  case Nil
  with assms show ?thesis by (cases r) (auto simp: read_exp_def num_stop_def)
next
  case (Cons c cs)
  with assms show ?thesis
    by (cases cs) (auto simp: read_exp_def digit_span_append Let_def split: if_splits)
qed

lemma read_num_tail_append:
  assumes "read_int_part t = Some (a, r1)" "read_frac r1 = Some (b, r2)" "read_exp r2 = Some (c, r3)"
    and r: "num_stop r"
  shows "read_int_part (t @ r) = Some (a, r1 @ r) \<and> read_frac (r1 @ r) = Some (b, r2 @ r)
    \<and> read_exp (r2 @ r) = Some (c, r3 @ r)"
  using assms by (simp add: read_int_part_append read_frac_append read_exp_append)

lemma read_num_append:
  assumes "read_num s = Some (a, t)" "num_stop r"
  shows "read_num (s @ r) = Some (a, t @ r)"
proof -
  define sg where "sg = (if starts_with ''-'' s then ''-'' else [])"
  define u where "u = (if starts_with ''-'' s then tl s else s)"
  have split: "(case s of [] \<Rightarrow> ([], []) | c # cs \<Rightarrow> if c = CHR ''-'' then ([c], cs) else ([], s)) = (sg, u)"
    by (cases s) (auto simp: sg_def u_def)
  obtain x r1 y r2 z where
    parts: "read_int_part u = Some (x, r1)" "read_frac r1 = Some (y, r2)" "read_exp r2 = Some (z, t)"
    and a: "a = sg @ x @ y @ z"
    using assms(1) by (auto simp: read_num_def split split: option.splits)
  have "s \<noteq> []" using parts(1) by (auto simp: u_def read_int_part_def split: if_splits)
  then have "(case s @ r of [] \<Rightarrow> ([], []) | c # cs \<Rightarrow> if c = CHR ''-'' then ([c], cs) else ([], s @ r))
      = (sg, u @ r)"
    by (cases s) (auto simp: sg_def u_def)
  with read_num_tail_append [OF parts assms(2)] a show ?thesis
    by (simp add: read_num_def)
qed

lemma read_num_start:
  "read_num (c # cs) = Some p \<Longrightarrow> c = CHR ''-'' \<or> is_digit c"
  by (auto simp: read_num_def read_int_part_def Let_def is_digit_def
      split: option.splits if_splits prod.splits)

lemma hex_value_digit: "d < 16 \<Longrightarrow> hex_value (hex_digit d) = Some d"
  by (auto simp: hex_value_def hex_digit_def Let_def)

lemma hex_value_0: "hex_value CHR ''0'' = Some 0"
  by (simp add: hex_value_def)

lemma append_singleton: "(@) [c] = (#) c"
  by (rule ext) simp

lemma read_u4_00: "x < 16 \<Longrightarrow> y < 16 \<Longrightarrow>
  read_u4 (CHR ''0'' # CHR ''0'' # hex_digit x # hex_digit y # r) = Some (x * 16 + y, r)"
  by (simp add: read_u4_def hex_value_digit hex_value_0)

lemma read_escape_u00:
  assumes "n < 128"
  shows "read_escape (CHR ''u'' # CHR ''0'' # CHR ''0'' # hex_digit (n div 16) # hex_digit (n mod 16) # r)
    = Some ([char_of n], r)"
proof -
  have "n div 16 < 16" using assms by simp
  then have "read_u4 (CHR ''0'' # CHR ''0'' # hex_digit (n div 16) # hex_digit (n mod 16) # r) = Some (n, r)"
    using read_u4_00 [of "n div 16" "n mod 16" r] by simp
  with assms show ?thesis
    by (simp add: read_escape_def read_unicode_def utf8_encode_def)
qed

lemma read_str_escaped:
  "read_escape e = Some (u, r) \<Longrightarrow> read_str (CHR 0x5C # e) = map_option (apfst ((@) u)) (read_str r)"
  by simp

lemma read_str_esc_char:
  "read_str (esc_char c @ r) = map_option (apfst ((#) c)) (read_str r)"
proof -
  let ?n = "of_char c :: nat"
  consider (two) "?n \<in> {0x22, 0x5C, 0x08, 0x0C, 0x0A, 0x0D, 0x09}"
    | (hex) "?n \<notin> {0x22, 0x5C, 0x08, 0x0C, 0x0A, 0x0D, 0x09}"
        "?n < 0x20 \<or> ?n = 0x3C \<or> ?n = 0x3E \<or> ?n = 0x26"
    | (raw) "?n \<notin> {0x22, 0x5C}" "\<not> ?n < 0x20" "?n \<noteq> 0x3C" "?n \<noteq> 0x3E" "?n \<noteq> 0x26"
    by auto
  then show ?thesis
  proof cases
    case two
    have "c \<in> {CHR 0x22, CHR 0x5C, CHR 0x08, CHR 0x0C, CHR 0x0A, CHR 0x0D, CHR 0x09}"
    proof -
      have "?n \<in> of_char ` {CHR 0x22, CHR 0x5C, CHR 0x08, CHR 0x0C, CHR 0x0A, CHR 0x0D, CHR 0x09}"
        using two by simp
      then show ?thesis by (simp only: image_iff of_char_eq_iff) blast
    qed
    then show ?thesis
      by (auto simp: esc_char_def read_escape_def append_singleton)
  next
    case hex
    have "read_escape (CHR ''u'' # CHR ''0'' # CHR ''0'' # hex_digit (?n div 16)
        # hex_digit (?n mod 16) # r) = Some ([c], r)"
      using hex(2) read_escape_u00 [of ?n r] by auto
    then have "read_str (CHR 0x5C # CHR ''u'' # CHR ''0'' # CHR ''0'' # hex_digit (?n div 16)
        # hex_digit (?n mod 16) # r) = map_option (apfst ((#) c)) (read_str r)"
      by (metis read_str_escaped append_singleton)
    moreover have "esc_char c = [CHR 0x5C, CHR ''u'', CHR ''0'', CHR ''0'', hex_digit (?n div 16),
        hex_digit (?n mod 16)]"
      using hex by (simp add: esc_char_def Let_def)
    ultimately show ?thesis by simp
  next
    case raw
    have "c \<noteq> CHR 0x22" "c \<noteq> CHR 0x5C" using raw(1) by auto
    moreover have "esc_char c = [c]"
    proof -
      have "?n \<noteq> 8" "?n \<noteq> 12" "?n \<noteq> 10" "?n \<noteq> 13" "?n \<noteq> 9" using raw(2) by auto
      with raw show ?thesis by (simp add: esc_char_def)
    qed
    ultimately show ?thesis using raw by simp
  qed
qed

lemma read_str_print: "read_str (concat (map esc_char s) @ CHR 0x22 # r) = Some (s, r)"
  by (induction s) (simp_all add: read_str_esc_char)

lemma skip_ws_id: "s = [] \<or> \<not> is_ws (hd s) \<Longrightarrow> skip_ws s = s"
  by (cases s) (simp_all add: skip_ws_def)

lemma print_json_start:
  assumes "wf_json j"
  obtains c cs where "print_json j = c # cs" "\<not> is_ws c" "c \<noteq> CHR '']''" "c \<noteq> CHR ''}''"
proof (cases j)
  case (JNum s)
  with assms have n: "read_num s = Some (s, [])" by simp
  then obtain c cs where s: "s = c # cs"
    by (cases s) (auto simp: read_num_def read_int_part_def)
  with read_num_start n have "c = CHR ''-'' \<or> is_digit c" by blast
  then have "\<not> is_ws c \<and> c \<noteq> CHR '']'' \<and> c \<noteq> CHR ''}''"
    by (auto simp: is_ws_def is_digit_def)
  with that s JNum show ?thesis by simp
next
  case (JBool b)
  with that show ?thesis by (cases b) (auto simp: is_ws_def)
qed (use that in \<open>auto simp: is_ws_def print_str_def\<close>)

lemma print_elems_start: "print_elems xs \<noteq> []"
  by (cases xs rule: print_elems.cases) auto

lemma num_stop_punct [simp]:
  "num_stop (CHR '','' # r)" "num_stop (CHR '']'' # r)" "num_stop (CHR ''}'' # r)" "num_stop []"
  by (simp_all add: num_stop_def is_digit_def)

lemma skip_ws_punct [simp]:
  "skip_ws (CHR '','' # r) = CHR '','' # r" "skip_ws (CHR '']'' # r) = CHR '']'' # r"
  "skip_ws (CHR ''}'' # r) = CHR ''}'' # r" "skip_ws (CHR '':'' # r) = CHR '':'' # r"
  "skip_ws (CHR 0x22 # r) = CHR 0x22 # r" "skip_ws (CHR ''['' # r) = CHR ''['' # r"
  "skip_ws (CHR ''{'' # r) = CHR ''{'' # r" "skip_ws [] = []"
  by (simp_all add: skip_ws_def is_ws_def)

lemma parse_value_num:
  assumes "read_num s = Some (s, [])" "num_stop r"
  shows "parse_value (Suc n) (s @ r) = Some (JNum s, r)"
proof -
  obtain c cs where s: "s = c # cs"
    using assms(1) by (cases s) (auto simp: read_num_def read_int_part_def)
  have "c = CHR ''-'' \<or> is_digit c" using read_num_start assms(1) s by blast
  then have c: "\<not> is_ws c" "c \<notin> {CHR ''{'', CHR ''['', CHR 0x22, CHR ''n'', CHR ''t'', CHR ''f''}"
    by (auto simp: is_ws_def is_digit_def)
  have "read_num (s @ r) = Some (s, r)" using read_num_append [OF assms] by simp
  with c s show ?thesis by (simp add: skip_ws_id)
qed

text \<open>Reading back what was written, with any text after it that cannot extend a number.\<close>

lemma parse_print:
  "wf_json j \<Longrightarrow> length (print_json j) \<le> n \<Longrightarrow> num_stop r \<Longrightarrow>
     parse_value n (print_json j @ r) = Some (j, r)"
  "wf_elems xs \<Longrightarrow> xs \<noteq> [] \<Longrightarrow> length (print_elems xs) \<le> n \<Longrightarrow>
     parse_elems n (print_elems xs @ r) = Some (xs, r)"
  "wf_members ms \<Longrightarrow> ms \<noteq> [] \<Longrightarrow> length (print_members ms) \<le> n \<Longrightarrow>
     parse_members n (print_members ms @ r) = Some (ms, r)"
proof (induction j and xs and ms arbitrary: n r and n r and n r
    rule: print_json_print_elems_print_members.induct)
  case 1
  then show ?case by (cases n) (simp_all add: skip_ws_id is_ws_def)
next
  case (2 b)
  then show ?case by (cases n; cases b) (simp_all add: skip_ws_id is_ws_def)
next
  case (3 s)
  then obtain m where "n = Suc m"
    by (cases n; cases s) (auto simp: read_num_def read_int_part_def)
  with 3 parse_value_num show ?case by simp
next
  case (4 s)
  then show ?case by (cases n) (simp_all add: print_str_def read_str_print)
next
  case (5 xs)
  then obtain m where n: "n = Suc m" by (cases n) auto
  show ?case
  proof (cases "xs = []")
    case False
    then have "parse_elems m (print_elems xs @ r) = Some (xs, r)" using 5 n by simp
    moreover have "\<not> starts_with '']'' (skip_ws (print_elems xs @ r))"
    proof (cases xs)
      case (Cons y ys)
      with 5 have "wf_json y" by simp
      then obtain c cs where c: "print_json y = c # cs" "\<not> is_ws c" "c \<noteq> CHR '']''"
        by (rule print_json_start)
      then show ?thesis using Cons by (cases ys) (simp_all add: skip_ws_id)
    qed (use False in simp)
    ultimately show ?thesis using n by simp
  qed (simp add: n)
next
  case (6 kvs)
  then obtain m where n: "n = Suc m" by (cases n) auto
  show ?case
  proof (cases kvs)
    case (Cons kv rest)
    obtain k v where kv: "kv = (k, v)" by force
    have "parse_members m (print_members kvs @ r) = Some (kvs, r)" using 6 n Cons by simp
    moreover have "\<not> starts_with ''}'' (skip_ws (print_members kvs @ r))"
      using Cons kv by (cases rest) (simp_all add: print_str_def)
    ultimately show ?thesis using n by simp
  qed (simp add: n)
next
  case (8 x)
  then obtain m where n: "n = Suc m" by (cases n) auto
  with 8 show ?case by simp
next
  case (9 x y ys)
  then obtain m where n: "n = Suc m" by (cases n) auto
  with 9 show ?case by simp
next
  case (11 k v)
  then obtain m where n: "n = Suc m" by (cases n) auto
  with 11 show ?case by (simp add: print_str_def read_str_print)
next
  case (12 k v m ms)
  then obtain l where n: "n = Suc l" by (cases n) auto
  with 12 show ?case by (cases m) (simp add: print_str_def read_str_print)
qed simp_all

theorem parse_json_print [simp]: "wf_json j \<Longrightarrow> parse_json (print_json j) = Inr j"
  using parse_print(1) [of j "length (print_json j)" "[]"] by (simp add: parse_json_def)

section \<open>The text is one line\<close>

definition num_char :: "char \<Rightarrow> bool" where
  "num_char c \<longleftrightarrow> is_digit c \<or> c \<in> {CHR ''.'', CHR ''e'', CHR ''E'', CHR ''+'', CHR ''-''}"

lemma takeWhile_num_char: "list_all num_char (takeWhile is_digit s)"
  by (auto simp: list_all_iff num_char_def dest: set_takeWhileD)

lemma read_int_part_chars: "read_int_part s = Some (a, r) \<Longrightarrow> list_all num_char a"
  using takeWhile_num_char [of s]
  by (auto simp: read_int_part_def num_char_def is_digit_def split: list.splits if_splits)

lemma read_frac_chars: "read_frac s = Some (a, r) \<Longrightarrow> list_all num_char a"
  using takeWhile_num_char [of "tl s"]
  by (auto simp: read_frac_def num_char_def split: list.splits if_splits)

lemma read_exp_chars: "read_exp s = Some (a, r) \<Longrightarrow> list_all num_char a"
  using takeWhile_num_char [of "tl s"] takeWhile_num_char [of "tl (tl s)"]
  by (auto simp: read_exp_def num_char_def Let_def split: list.splits if_splits)

lemma read_num_chars: "read_num s = Some (a, r) \<Longrightarrow> list_all num_char a"
  by (auto simp: read_num_def Let_def num_char_def split: option.splits list.splits if_splits
      dest!: read_int_part_chars read_frac_chars read_exp_chars)

lemma esc_char_printable: "x \<in> set (esc_char c) \<Longrightarrow> 0x20 \<le> (of_char x :: nat)"
proof -
  have hex: "0x20 \<le> (of_char (hex_digit d) :: nat)" if "d < 16" for d
    using that by (auto simp: hex_digit_def)
  assume "x \<in> set (esc_char c)"
  then show ?thesis
    by (auto simp: esc_char_def Let_def hex split: if_splits)
qed

lemma print_str_printable: "x \<in> set (print_str s) \<Longrightarrow> 0x20 \<le> (of_char x :: nat)"
  by (auto simp: print_str_def dest: esc_char_printable)

lemma print_json_printable:
  "wf_json j \<Longrightarrow> x \<in> set (print_json j) \<Longrightarrow> 0x20 \<le> (of_char x :: nat)"
  "wf_elems xs \<Longrightarrow> x \<in> set (print_elems xs) \<Longrightarrow> 0x20 \<le> (of_char x :: nat)"
  "wf_members ms \<Longrightarrow> x \<in> set (print_members ms) \<Longrightarrow> 0x20 \<le> (of_char x :: nat)"
proof (induction j and xs and ms rule: print_json_print_elems_print_members.induct)
  case (3 s)
  then have "list_all num_char s" by (auto dest: read_num_chars)
  with 3 have "num_char x" by (simp add: list_all_iff)
  then show ?case by (auto simp: num_char_def is_digit_def)
next
  case (12 k v m ms)
  then show ?case by (cases m) (auto dest: print_str_printable)
qed (auto dest: print_str_printable split: if_splits)

lemma print_json_one_line: "wf_json j \<Longrightarrow> CHR 0x0A \<notin> set (print_json j)"
  using print_json_printable(1) [of j "CHR 0x0A"] by auto

lemma print_members_last: "last (print_members ms) = CHR ''}'' \<and> print_members ms \<noteq> []"
proof (induction ms)
  case (Cons m ms)
  then show ?case by (cases m; cases ms) auto
qed simp

lemma trim_space_print_obj: "trim_space (print_json (JObj kvs)) = print_json (JObj kvs)"
  using print_members_last [of kvs] by (intro trim_space_plain_ends) (simp_all add: plain_char_def)

lemma wf_members_append [simp]: "wf_members (xs @ ys) \<longleftrightarrow> wf_members xs \<and> wf_members ys"
  by (induction xs) (auto simp: wf_members.simps)

lemma wf_elems_iff: "wf_elems xs \<longleftrightarrow> (\<forall>x \<in> set xs. wf_json x)"
  by (induction xs) auto

lemma wf_members_iff: "wf_members ms \<longleftrightarrow> (\<forall>(k, v) \<in> set ms. wf_json v)"
  by (induction ms) auto

section \<open>Encoding and decoding struct fields\<close>

text \<open>
  \<^verbatim>\<open>json.Unmarshal\<close> into a struct walks the members of the object in order; a member sets the
  field whose tag it matches up to case, a \<^verbatim>\<open>null\<close> leaves the field alone, a value of the wrong
  kind makes the whole call fail. \<open>dec_field\<close> is that walk for one field. An optional
  \<^verbatim>\<open>omitempty\<close> member is left out of the text when it is empty (\<open>omit\<close>).
\<close>

definition key_matches :: "string \<Rightarrow> string \<Rightarrow> bool" where
  "key_matches k name \<longleftrightarrow> to_lower k = to_lower name"

definition dec_step :: "(json \<Rightarrow> 'a option) \<Rightarrow> string \<Rightarrow> 'a result \<Rightarrow> string \<times> json \<Rightarrow> 'a result" where
  "dec_step conv name acc kv =
     (if \<not> key_matches (fst kv) name \<or> snd kv = JNull then acc
      else case (acc, conv (snd kv)) of
             (Inl e, _) \<Rightarrow> Inl e
           | (Inr _, None) \<Rightarrow> Inl (''json: cannot unmarshal into field '' @ name)
           | (Inr _, Some x) \<Rightarrow> Inr x)"

definition dec_from :: "(json \<Rightarrow> 'a option) \<Rightarrow> string \<Rightarrow> 'a result \<Rightarrow> (string \<times> json) list \<Rightarrow> 'a result" where
  "dec_from conv name acc kvs = foldl (dec_step conv name) acc kvs"

definition dec_field :: "(json \<Rightarrow> 'a option) \<Rightarrow> 'a \<Rightarrow> string \<Rightarrow> (string \<times> json) list \<Rightarrow> 'a result" where
  "dec_field conv d name kvs = dec_from conv name (Inr d) kvs"

text \<open>A \<^verbatim>\<open>json.RawMessage\<close> field takes the last matching member as it is, \<^verbatim>\<open>null\<close> included.\<close>

definition dec_raw :: "string \<Rightarrow> (string \<times> json) list \<Rightarrow> json option" where
  "dec_raw name kvs = foldl (\<lambda>acc kv. if key_matches (fst kv) name then Some (snd kv) else acc) None kvs"

definition json_members :: "json \<Rightarrow> (string \<times> json) list result" where
  "json_members j = (case j of
       JObj kvs \<Rightarrow> Inr kvs
     | JNull \<Rightarrow> Inr []
     | _ \<Rightarrow> Inl ''json: cannot unmarshal into struct'')"

definition omit :: "bool \<Rightarrow> string \<Rightarrow> json \<Rightarrow> (string \<times> json) list" where
  "omit e name v = (if e then [] else [(name, v)])"

fun as_str :: "json \<Rightarrow> string option" where
  "as_str (JStr s) = Some s"
| "as_str _ = None"

fun as_bool :: "json \<Rightarrow> bool option" where
  "as_bool (JBool b) = Some b"
| "as_bool _ = None"

fun as_uint :: "nat \<Rightarrow> json \<Rightarrow> nat option" where
  "as_uint w (JNum s) = (case parse_uint64 s of
       Some n \<Rightarrow> if n < 2 ^ w then Some n else None
     | None \<Rightarrow> None)"
| "as_uint w _ = None"

fun as_int :: "json \<Rightarrow> int option" where
  "as_int (JNum s) = (if starts_with ''+'' s then None else parse_int64 s)"
| "as_int _ = None"

fun as_float :: "json \<Rightarrow> string option" where
  "as_float (JNum s) = Some s"
| "as_float _ = None"

text \<open>Slices: \<^verbatim>\<open>null\<close> elements decode to the zero value of the element type.\<close>

fun as_list :: "(json \<Rightarrow> 'a option) \<Rightarrow> 'a \<Rightarrow> json \<Rightarrow> 'a list option" where
  "as_list conv z (JArr xs) =
     (let ys = map (\<lambda>x. if x = JNull then Some z else conv x) xs in
      if None \<in> set ys then None else Some (map the ys))"
| "as_list conv z _ = None"

fun as_strmap :: "json \<Rightarrow> (string \<times> string) list option" where
  "as_strmap (JObj kvs) =
     (let ys = map (\<lambda>(k, x). if x = JNull then Some (k, []) else map_option (Pair k) (as_str x)) kvs in
      if None \<in> set ys then None else Some (map the ys))"
| "as_strmap _ = None"

definition as_struct :: "(json \<Rightarrow> 'a result) \<Rightarrow> json \<Rightarrow> 'a option" where
  "as_struct dec j = (case dec j of Inl e \<Rightarrow> None | Inr x \<Rightarrow> Some x)"

lemma dec_from_simps [simp]:
  "dec_from conv name acc [] = acc"
  "dec_from conv name acc (kv # kvs) = dec_from conv name (dec_step conv name acc kv) kvs"
  "dec_from conv name acc (xs @ ys) = dec_from conv name (dec_from conv name acc xs) ys"
  by (simp_all add: dec_from_def)

lemma dec_from_omit [simp]:
  "dec_from conv name acc (omit e k v) = (if e then acc else dec_step conv name acc (k, v))"
  by (simp add: omit_def)

lemma dec_step_other [simp]: "\<not> key_matches k name \<Longrightarrow> dec_step conv name acc (k, v) = acc"
  by (simp add: dec_step_def)

lemma dec_step_hit [simp]:
  "key_matches k name \<Longrightarrow> v \<noteq> JNull \<Longrightarrow> conv v = Some x \<Longrightarrow> dec_step conv name (Inr d) (k, v) = Inr x"
  by (simp add: dec_step_def)

lemma dec_raw_append:
  "dec_raw name (xs @ ys) = (case dec_raw name ys of None \<Rightarrow> dec_raw name xs | Some j \<Rightarrow> Some j)"
proof -
  have "foldl (\<lambda>acc kv. if key_matches (fst kv) name then Some (snd kv) else acc) a ys
      = (case dec_raw name ys of None \<Rightarrow> a | Some j \<Rightarrow> Some j)" for a :: "json option"
    by (induction ys rule: rev_induct) (auto simp: dec_raw_def)
  then show ?thesis
    by (simp only: dec_raw_def [of name "xs @ ys"] dec_raw_def [of name xs] foldl_append)
qed

lemma dec_raw_simps [simp]:
  "dec_raw name [] = None"
  "dec_raw name (omit e k v) = (if \<not> e \<and> key_matches k name then Some v else None)"
  "dec_raw name [(k, v)] = (if key_matches k name then Some v else None)"
  by (simp_all add: dec_raw_def omit_def)

lemma dec_raw_Cons [simp]:
  "dec_raw name ((k, v) # kvs) =
     (case dec_raw name kvs of None \<Rightarrow> if key_matches k name then Some v else None | Some j \<Rightarrow> Some j)"
  using dec_raw_append [of name "[(k, v)]" kvs] by (simp split: option.split)

lemma wf_members_omit [simp]: "wf_members (omit e k v) \<longleftrightarrow> e \<or> wf_json v"
  by (simp add: omit_def)

lemma as_uint_show [simp]: "w \<le> 64 \<Longrightarrow> n < 2 ^ w \<Longrightarrow> as_uint w (JNum (show_nat n)) = Some n"
proof -
  assume w: "w \<le> 64" "n < 2 ^ w"
  then have "(2::nat) ^ w \<le> 2 ^ 64" by (intro power_increasing) simp_all
  with w have "n < 2 ^ 64" by (meson less_le_trans)
  with w show ?thesis by (simp add: parse_show_uint64)
qed

lemma as_list_map: "(\<And>x. x \<in> set xs \<Longrightarrow> conv (f x) = Some x \<and> f x \<noteq> JNull) \<Longrightarrow>
    as_list conv z (JArr (map f xs)) = Some xs"
proof -
  assume "\<And>x. x \<in> set xs \<Longrightarrow> conv (f x) = Some x \<and> f x \<noteq> JNull"
  then have "map (\<lambda>x. if x = JNull then Some z else conv x) (map f xs) = map Some xs"
    by simp
  moreover have "None \<notin> set (map Some xs)" "map the (map Some xs) = xs" by (auto simp: o_def)
  ultimately show ?thesis by (simp only: as_list.simps Let_def if_False)
qed

lemma as_int_show: "- (2 ^ 63) \<le> i \<Longrightarrow> i < 2 ^ 63 \<Longrightarrow> as_int (JNum (show_int i)) = Some i"
proof -
  assume b: "- (2 ^ 63) \<le> i" "i < 2 ^ 63"
  show ?thesis
  proof (cases "i < 0")
    case True
    with b have "nat (- i) \<le> 2 ^ 63" by simp
    with True show ?thesis
      by (simp add: show_int_def parse_int64_def show_nat_digits)
  next
    case False
    obtain c cs where s: "show_nat (nat i) = c # cs" by (cases "show_nat (nat i)") auto
    then have "is_digit c" using show_nat_digits [of "nat i"] by simp
    then have "c \<noteq> CHR ''-''" "c \<noteq> CHR ''+''" by (auto simp: is_digit_def)
    moreover have "read_digits (c # cs) = nat i" by (metis s read_show_nat)
    moreover have "list_all is_digit (c # cs)" using show_nat_digits [of "nat i"] s by simp
    moreover have "nat i < 2 ^ 63" using b by simp
    ultimately show ?thesis using False s by (simp add: show_int_def parse_int64_def)
  qed
qed

end
