(* ===== verification/Types.thy ===== *)
theory Types
  imports Json
begin

text \<open>
  The payload structs of \<^verbatim>\<open>src/src/core/protocol/types.go\<close>, one record each, with the
  text form their \<^verbatim>\<open>json\<close> tags give them: \<open>enc_S\<close> is \<^verbatim>\<open>json.Marshal\<close> of a value of
  struct \<open>S\<close>, \<open>dec_S\<close> is \<^verbatim>\<open>json.Unmarshal\<close> into a zero \<open>S\<close>. Record fields carry a
  prefix for their struct. Unsigned and signed integers are \<^typ>\<open>nat\<close> and \<^typ>\<open>int\<close>, and the decoders
  reject literals outside the field's width; a \<^verbatim>\<open>float64\<close> is kept as its JSON literal; a
  \<^verbatim>\<open>json.RawMessage\<close> is the JSON value it holds, \<^term>\<open>None\<close> when it has no bytes; a slice is a
  list (\<^verbatim>\<open>nil\<close> and empty are not told apart); a string map is its list of entries by key.
\<close>

section \<open>Packet types\<close>

definition PacketError :: string where
  "PacketError = ''error''"

definition PacketAuthHello :: string where
  "PacketAuthHello = ''auth.hello''"

definition PacketAuthChallenge :: string where
  "PacketAuthChallenge = ''auth.challenge''"

definition PacketAuthProof :: string where
  "PacketAuthProof = ''auth.proof''"

definition PacketAuthOK :: string where
  "PacketAuthOK = ''auth.ok''"

definition PacketHeartbeat :: string where
  "PacketHeartbeat = ''heartbeat''"

definition PacketHeartbeatReply :: string where
  "PacketHeartbeatReply = ''heartbeat.reply''"

definition PacketNodeCommand :: string where
  "PacketNodeCommand = ''node.command''"

definition PacketNodeCommandReply :: string where
  "PacketNodeCommandReply = ''node.command.reply''"

definition PacketOrchCommand :: string where
  "PacketOrchCommand = ''orchestrator.command''"

definition PacketOrchCommandReply :: string where
  "PacketOrchCommandReply = ''orchestrator.command.reply''"

definition PacketMasterRegister :: string where
  "PacketMasterRegister = ''master.register''"

definition PacketMasterHeartbeat :: string where
  "PacketMasterHeartbeat = ''master.heartbeat''"

lemmas packet_type_defs [go_simps] =
  PacketError_def PacketAuthHello_def PacketAuthChallenge_def PacketAuthProof_def
  PacketAuthOK_def PacketHeartbeat_def PacketHeartbeatReply_def PacketNodeCommand_def
  PacketNodeCommandReply_def PacketOrchCommand_def PacketOrchCommandReply_def PacketMasterRegister_def
  PacketMasterHeartbeat_def

section \<open>Payload structs\<close>

record AuthHello =
  ah_ID :: string
  ah_PubKey :: string
  ah_Role :: string
  ah_Name :: string
  ah_Cluster :: string
  ah_Advertise :: string

definition zero_AuthHello :: AuthHello where
  "zero_AuthHello = \<lparr>ah_ID = [], ah_PubKey = [], ah_Role = [], ah_Name = [], ah_Cluster = [], ah_Advertise = []\<rparr>"

definition enc_AuthHello :: "AuthHello \<Rightarrow> json" where
  "enc_AuthHello x = JObj (
     [(''id'', JStr (ah_ID x))] @
     [(''pubkey'', JStr (ah_PubKey x))] @
     [(''role'', JStr (ah_Role x))] @
     omit (ah_Name x = []) ''name'' (JStr (ah_Name x)) @
     omit (ah_Cluster x = []) ''cluster'' (JStr (ah_Cluster x)) @
     omit (ah_Advertise x = []) ''advertise'' (JStr (ah_Advertise x)))"

definition dec_AuthHello :: "json \<Rightarrow> AuthHello result" where
  "dec_AuthHello j =
     bind_result (json_members j) (\<lambda>kvs.
     bind_result (dec_field as_str [] ''id'' kvs) (\<lambda>v0.
     bind_result (dec_field as_str [] ''pubkey'' kvs) (\<lambda>v1.
     bind_result (dec_field as_str [] ''role'' kvs) (\<lambda>v2.
     bind_result (dec_field as_str [] ''name'' kvs) (\<lambda>v3.
     bind_result (dec_field as_str [] ''cluster'' kvs) (\<lambda>v4.
     bind_result (dec_field as_str [] ''advertise'' kvs) (\<lambda>v5.
     Inr \<lparr>ah_ID = v0, ah_PubKey = v1, ah_Role = v2, ah_Name = v3, ah_Cluster = v4, ah_Advertise = v5\<rparr>)))))))"

record AuthChallenge =
  ac_Challenge :: string

definition zero_AuthChallenge :: AuthChallenge where
  "zero_AuthChallenge = \<lparr>ac_Challenge = []\<rparr>"

definition enc_AuthChallenge :: "AuthChallenge \<Rightarrow> json" where
  "enc_AuthChallenge x = JObj (
     [(''challenge'', JStr (ac_Challenge x))])"

definition dec_AuthChallenge :: "json \<Rightarrow> AuthChallenge result" where
  "dec_AuthChallenge j =
     bind_result (json_members j) (\<lambda>kvs.
     bind_result (dec_field as_str [] ''challenge'' kvs) (\<lambda>v0.
     Inr \<lparr>ac_Challenge = v0\<rparr>))"

record AuthProof =
  ap_Signature :: string

definition zero_AuthProof :: AuthProof where
  "zero_AuthProof = \<lparr>ap_Signature = []\<rparr>"

definition enc_AuthProof :: "AuthProof \<Rightarrow> json" where
  "enc_AuthProof x = JObj (
     [(''signature'', JStr (ap_Signature x))])"

definition dec_AuthProof :: "json \<Rightarrow> AuthProof result" where
  "dec_AuthProof j =
     bind_result (json_members j) (\<lambda>kvs.
     bind_result (dec_field as_str [] ''signature'' kvs) (\<lambda>v0.
     Inr \<lparr>ap_Signature = v0\<rparr>))"

record NodeInfo =
  ni_ID :: string
  ni_Name :: string
  ni_IP :: string

definition zero_NodeInfo :: NodeInfo where
  "zero_NodeInfo = \<lparr>ni_ID = [], ni_Name = [], ni_IP = []\<rparr>"

definition enc_NodeInfo :: "NodeInfo \<Rightarrow> json" where
  "enc_NodeInfo x = JObj (
     [(''id'', JStr (ni_ID x))] @
     [(''name'', JStr (ni_Name x))] @
     [(''ip'', JStr (ni_IP x))])"

definition dec_NodeInfo :: "json \<Rightarrow> NodeInfo result" where
  "dec_NodeInfo j =
     bind_result (json_members j) (\<lambda>kvs.
     bind_result (dec_field as_str [] ''id'' kvs) (\<lambda>v0.
     bind_result (dec_field as_str [] ''name'' kvs) (\<lambda>v1.
     bind_result (dec_field as_str [] ''ip'' kvs) (\<lambda>v2.
     Inr \<lparr>ni_ID = v0, ni_Name = v1, ni_IP = v2\<rparr>))))"

record MasterInfo =
  mi_ID :: string
  mi_Name :: string
  mi_Cluster :: string
  mi_Advertise :: string
  mi_PubKey :: string
  mi_Nodes :: "NodeInfo list"

definition zero_MasterInfo :: MasterInfo where
  "zero_MasterInfo = \<lparr>mi_ID = [], mi_Name = [], mi_Cluster = [], mi_Advertise = [], mi_PubKey = [], mi_Nodes = []\<rparr>"

definition enc_MasterInfo :: "MasterInfo \<Rightarrow> json" where
  "enc_MasterInfo x = JObj (
     [(''id'', JStr (mi_ID x))] @
     [(''name'', JStr (mi_Name x))] @
     [(''cluster'', JStr (mi_Cluster x))] @
     [(''advertise'', JStr (mi_Advertise x))] @
     [(''pubKey'', JStr (mi_PubKey x))] @
     [(''nodes'', JArr (map enc_NodeInfo (mi_Nodes x)))])"

definition dec_MasterInfo :: "json \<Rightarrow> MasterInfo result" where
  "dec_MasterInfo j =
     bind_result (json_members j) (\<lambda>kvs.
     bind_result (dec_field as_str [] ''id'' kvs) (\<lambda>v0.
     bind_result (dec_field as_str [] ''name'' kvs) (\<lambda>v1.
     bind_result (dec_field as_str [] ''cluster'' kvs) (\<lambda>v2.
     bind_result (dec_field as_str [] ''advertise'' kvs) (\<lambda>v3.
     bind_result (dec_field as_str [] ''pubKey'' kvs) (\<lambda>v4.
     bind_result (dec_field (as_list (as_struct dec_NodeInfo) zero_NodeInfo) [] ''nodes'' kvs) (\<lambda>v5.
     Inr \<lparr>mi_ID = v0, mi_Name = v1, mi_Cluster = v2, mi_Advertise = v3, mi_PubKey = v4, mi_Nodes = v5\<rparr>)))))))"

record HeartbeatUsage =
  hu_CPUPercent :: string
  hu_RAMPercent :: string

definition zero_HeartbeatUsage :: HeartbeatUsage where
  "zero_HeartbeatUsage = \<lparr>hu_CPUPercent = ''0'', hu_RAMPercent = ''0''\<rparr>"

definition enc_HeartbeatUsage :: "HeartbeatUsage \<Rightarrow> json" where
  "enc_HeartbeatUsage x = JObj (
     [(''cpu_percent'', JNum (hu_CPUPercent x))] @
     [(''ram_percent'', JNum (hu_RAMPercent x))])"

definition dec_HeartbeatUsage :: "json \<Rightarrow> HeartbeatUsage result" where
  "dec_HeartbeatUsage j =
     bind_result (json_members j) (\<lambda>kvs.
     bind_result (dec_field as_float ''0'' ''cpu_percent'' kvs) (\<lambda>v0.
     bind_result (dec_field as_float ''0'' ''ram_percent'' kvs) (\<lambda>v1.
     Inr \<lparr>hu_CPUPercent = v0, hu_RAMPercent = v1\<rparr>)))"

record HeartbeatHardware =
  hh_CPUCores :: int
  hh_RAMBytes :: nat

definition zero_HeartbeatHardware :: HeartbeatHardware where
  "zero_HeartbeatHardware = \<lparr>hh_CPUCores = 0, hh_RAMBytes = 0\<rparr>"

definition enc_HeartbeatHardware :: "HeartbeatHardware \<Rightarrow> json" where
  "enc_HeartbeatHardware x = JObj (
     [(''cpu_cores'', JNum (show_int (hh_CPUCores x)))] @
     [(''ram_bytes'', JNum (show_nat (hh_RAMBytes x)))])"

definition dec_HeartbeatHardware :: "json \<Rightarrow> HeartbeatHardware result" where
  "dec_HeartbeatHardware j =
     bind_result (json_members j) (\<lambda>kvs.
     bind_result (dec_field as_int 0 ''cpu_cores'' kvs) (\<lambda>v0.
     bind_result (dec_field (as_uint 64) 0 ''ram_bytes'' kvs) (\<lambda>v1.
     Inr \<lparr>hh_CPUCores = v0, hh_RAMBytes = v1\<rparr>)))"

record Heartbeat =
  hb_Usage :: HeartbeatUsage
  hb_Hardware :: HeartbeatHardware

definition zero_Heartbeat :: Heartbeat where
  "zero_Heartbeat = \<lparr>hb_Usage = zero_HeartbeatUsage, hb_Hardware = zero_HeartbeatHardware\<rparr>"

definition enc_Heartbeat :: "Heartbeat \<Rightarrow> json" where
  "enc_Heartbeat x = JObj (
     [(''usage'', enc_HeartbeatUsage (hb_Usage x))] @
     [(''hardware'', enc_HeartbeatHardware (hb_Hardware x))])"

definition dec_Heartbeat :: "json \<Rightarrow> Heartbeat result" where
  "dec_Heartbeat j =
     bind_result (json_members j) (\<lambda>kvs.
     bind_result (dec_field (as_struct dec_HeartbeatUsage) zero_HeartbeatUsage ''usage'' kvs) (\<lambda>v0.
     bind_result (dec_field (as_struct dec_HeartbeatHardware) zero_HeartbeatHardware ''hardware'' kvs) (\<lambda>v1.
     Inr \<lparr>hb_Usage = v0, hb_Hardware = v1\<rparr>)))"

record OrchestratorCommand =
  oc_NodeID :: string
  oc_Command :: "json option"

definition zero_OrchestratorCommand :: OrchestratorCommand where
  "zero_OrchestratorCommand = \<lparr>oc_NodeID = [], oc_Command = None\<rparr>"

definition enc_OrchestratorCommand :: "OrchestratorCommand \<Rightarrow> json" where
  "enc_OrchestratorCommand x = JObj (
     [(''node_id'', JStr (oc_NodeID x))] @
     [(''command'', case oc_Command x of None \<Rightarrow> JNull | Some v \<Rightarrow> v)])"

definition dec_OrchestratorCommand :: "json \<Rightarrow> OrchestratorCommand result" where
  "dec_OrchestratorCommand j =
     bind_result (json_members j) (\<lambda>kvs.
     bind_result (dec_field as_str [] ''node_id'' kvs) (\<lambda>v0.
     bind_result (Inr (dec_raw ''command'' kvs)) (\<lambda>v1.
     Inr \<lparr>oc_NodeID = v0, oc_Command = v1\<rparr>)))"

record CommandReply =
  cr_NodeID :: string
  cr_Status :: string
  cr_Message :: string
  cr_Output :: "json option"

definition zero_CommandReply :: CommandReply where
  "zero_CommandReply = \<lparr>cr_NodeID = [], cr_Status = [], cr_Message = [], cr_Output = None\<rparr>"

definition enc_CommandReply :: "CommandReply \<Rightarrow> json" where
  "enc_CommandReply x = JObj (
     omit (cr_NodeID x = []) ''node_id'' (JStr (cr_NodeID x)) @
     [(''status'', JStr (cr_Status x))] @
     omit (cr_Message x = []) ''message'' (JStr (cr_Message x)) @
     (case cr_Output x of None \<Rightarrow> [] | Some v \<Rightarrow> [(''output'', v)]))"

definition dec_CommandReply :: "json \<Rightarrow> CommandReply result" where
  "dec_CommandReply j =
     bind_result (json_members j) (\<lambda>kvs.
     bind_result (dec_field as_str [] ''node_id'' kvs) (\<lambda>v0.
     bind_result (dec_field as_str [] ''status'' kvs) (\<lambda>v1.
     bind_result (dec_field as_str [] ''message'' kvs) (\<lambda>v2.
     bind_result (Inr (dec_raw ''output'' kvs)) (\<lambda>v3.
     Inr \<lparr>cr_NodeID = v0, cr_Status = v1, cr_Message = v2, cr_Output = v3\<rparr>)))))"

record NodeCommand =
  nc_Action :: string
  nc_Params :: "json option"

definition zero_NodeCommand :: NodeCommand where
  "zero_NodeCommand = \<lparr>nc_Action = [], nc_Params = None\<rparr>"

definition enc_NodeCommand :: "NodeCommand \<Rightarrow> json" where
  "enc_NodeCommand x = JObj (
     [(''action'', JStr (nc_Action x))] @
     (case nc_Params x of None \<Rightarrow> [] | Some v \<Rightarrow> [(''params'', v)]))"

definition dec_NodeCommand :: "json \<Rightarrow> NodeCommand result" where
  "dec_NodeCommand j =
     bind_result (json_members j) (\<lambda>kvs.
     bind_result (dec_field as_str [] ''action'' kvs) (\<lambda>v0.
     bind_result (Inr (dec_raw ''params'' kvs)) (\<lambda>v1.
     Inr \<lparr>nc_Action = v0, nc_Params = v1\<rparr>)))"

record VMDomain =
  vd_ID :: nat
  vd_UUID :: string
  vd_Name :: string
  vd_Active :: bool
  vd_Persistent :: bool
  vd_Autostart :: bool
  vd_State :: string
  vd_MaxMemMB :: nat
  vd_MemoryMB :: nat
  vd_VCPUs :: nat
  vd_ISOPath :: string

definition zero_VMDomain :: VMDomain where
  "zero_VMDomain = \<lparr>vd_ID = 0, vd_UUID = [], vd_Name = [], vd_Active = False, vd_Persistent = False, vd_Autostart = False, vd_State = [], vd_MaxMemMB = 0, vd_MemoryMB = 0, vd_VCPUs = 0, vd_ISOPath = []\<rparr>"

definition enc_VMDomain :: "VMDomain \<Rightarrow> json" where
  "enc_VMDomain x = JObj (
     [(''id'', JNum (show_nat (vd_ID x)))] @
     [(''uuid'', JStr (vd_UUID x))] @
     [(''name'', JStr (vd_Name x))] @
     [(''active'', JBool (vd_Active x))] @
     omit (\<not> vd_Persistent x) ''persistent'' (JBool (vd_Persistent x)) @
     omit (\<not> vd_Autostart x) ''autostart'' (JBool (vd_Autostart x)) @
     omit (vd_State x = []) ''state'' (JStr (vd_State x)) @
     omit (vd_MaxMemMB x = 0) ''max_mem_mb'' (JNum (show_nat (vd_MaxMemMB x))) @
     omit (vd_MemoryMB x = 0) ''memory_mb'' (JNum (show_nat (vd_MemoryMB x))) @
     omit (vd_VCPUs x = 0) ''vcpus'' (JNum (show_nat (vd_VCPUs x))) @
     omit (vd_ISOPath x = []) ''iso_path'' (JStr (vd_ISOPath x)))"

definition dec_VMDomain :: "json \<Rightarrow> VMDomain result" where
  "dec_VMDomain j =
     bind_result (json_members j) (\<lambda>kvs.
     bind_result (dec_field (as_uint 32) 0 ''id'' kvs) (\<lambda>v0.
     bind_result (dec_field as_str [] ''uuid'' kvs) (\<lambda>v1.
     bind_result (dec_field as_str [] ''name'' kvs) (\<lambda>v2.
     bind_result (dec_field as_bool False ''active'' kvs) (\<lambda>v3.
     bind_result (dec_field as_bool False ''persistent'' kvs) (\<lambda>v4.
     bind_result (dec_field as_bool False ''autostart'' kvs) (\<lambda>v5.
     bind_result (dec_field as_str [] ''state'' kvs) (\<lambda>v6.
     bind_result (dec_field (as_uint 64) 0 ''max_mem_mb'' kvs) (\<lambda>v7.
     bind_result (dec_field (as_uint 64) 0 ''memory_mb'' kvs) (\<lambda>v8.
     bind_result (dec_field (as_uint 64) 0 ''vcpus'' kvs) (\<lambda>v9.
     bind_result (dec_field as_str [] ''iso_path'' kvs) (\<lambda>v10.
     Inr \<lparr>vd_ID = v0, vd_UUID = v1, vd_Name = v2, vd_Active = v3, vd_Persistent = v4, vd_Autostart = v5, vd_State = v6, vd_MaxMemMB = v7, vd_MemoryMB = v8, vd_VCPUs = v9, vd_ISOPath = v10\<rparr>))))))))))))"

record VMListNode =
  vl_NodeID :: string
  vl_Domains :: "VMDomain list"
  vl_Error :: string

definition zero_VMListNode :: VMListNode where
  "zero_VMListNode = \<lparr>vl_NodeID = [], vl_Domains = [], vl_Error = []\<rparr>"

definition enc_VMListNode :: "VMListNode \<Rightarrow> json" where
  "enc_VMListNode x = JObj (
     [(''node_id'', JStr (vl_NodeID x))] @
     omit (vl_Domains x = []) ''domains'' (JArr (map enc_VMDomain (vl_Domains x))) @
     omit (vl_Error x = []) ''error'' (JStr (vl_Error x)))"

definition dec_VMListNode :: "json \<Rightarrow> VMListNode result" where
  "dec_VMListNode j =
     bind_result (json_members j) (\<lambda>kvs.
     bind_result (dec_field as_str [] ''node_id'' kvs) (\<lambda>v0.
     bind_result (dec_field (as_list (as_struct dec_VMDomain) zero_VMDomain) [] ''domains'' kvs) (\<lambda>v1.
     bind_result (dec_field as_str [] ''error'' kvs) (\<lambda>v2.
     Inr \<lparr>vl_NodeID = v0, vl_Domains = v1, vl_Error = v2\<rparr>))))"

record VMListAggregate =
  va_Nodes :: "VMListNode list"

definition zero_VMListAggregate :: VMListAggregate where
  "zero_VMListAggregate = \<lparr>va_Nodes = []\<rparr>"

definition enc_VMListAggregate :: "VMListAggregate \<Rightarrow> json" where
  "enc_VMListAggregate x = JObj (
     [(''nodes'', JArr (map enc_VMListNode (va_Nodes x)))])"

definition dec_VMListAggregate :: "json \<Rightarrow> VMListAggregate result" where
  "dec_VMListAggregate j =
     bind_result (json_members j) (\<lambda>kvs.
     bind_result (dec_field (as_list (as_struct dec_VMListNode) zero_VMListNode) [] ''nodes'' kvs) (\<lambda>v0.
     Inr \<lparr>va_Nodes = v0\<rparr>))"

record LibvirtStorageVolume =
  sv_Name :: string
  sv_Key :: string
  sv_Path :: string
  sv_Format :: string
  sv_Capacity :: nat
  sv_Allocation :: nat

definition zero_LibvirtStorageVolume :: LibvirtStorageVolume where
  "zero_LibvirtStorageVolume = \<lparr>sv_Name = [], sv_Key = [], sv_Path = [], sv_Format = [], sv_Capacity = 0, sv_Allocation = 0\<rparr>"

definition enc_LibvirtStorageVolume :: "LibvirtStorageVolume \<Rightarrow> json" where
  "enc_LibvirtStorageVolume x = JObj (
     [(''name'', JStr (sv_Name x))] @
     omit (sv_Key x = []) ''key'' (JStr (sv_Key x)) @
     omit (sv_Path x = []) ''path'' (JStr (sv_Path x)) @
     omit (sv_Format x = []) ''format'' (JStr (sv_Format x)) @
     omit (sv_Capacity x = 0) ''capacity'' (JNum (show_nat (sv_Capacity x))) @
     omit (sv_Allocation x = 0) ''allocation'' (JNum (show_nat (sv_Allocation x))))"

definition dec_LibvirtStorageVolume :: "json \<Rightarrow> LibvirtStorageVolume result" where
  "dec_LibvirtStorageVolume j =
     bind_result (json_members j) (\<lambda>kvs.
     bind_result (dec_field as_str [] ''name'' kvs) (\<lambda>v0.
     bind_result (dec_field as_str [] ''key'' kvs) (\<lambda>v1.
     bind_result (dec_field as_str [] ''path'' kvs) (\<lambda>v2.
     bind_result (dec_field as_str [] ''format'' kvs) (\<lambda>v3.
     bind_result (dec_field (as_uint 64) 0 ''capacity'' kvs) (\<lambda>v4.
     bind_result (dec_field (as_uint 64) 0 ''allocation'' kvs) (\<lambda>v5.
     Inr \<lparr>sv_Name = v0, sv_Key = v1, sv_Path = v2, sv_Format = v3, sv_Capacity = v4, sv_Allocation = v5\<rparr>)))))))"

record LibvirtStoragePool =
  sp_Name :: string
  sp_UUID :: string
  sp_Active :: bool
  sp_Persistent :: bool
  sp_Autostart :: bool
  sp_Capacity :: nat
  sp_Allocation :: nat
  sp_Available :: nat
  sp_Volumes :: "LibvirtStorageVolume list"

definition zero_LibvirtStoragePool :: LibvirtStoragePool where
  "zero_LibvirtStoragePool = \<lparr>sp_Name = [], sp_UUID = [], sp_Active = False, sp_Persistent = False, sp_Autostart = False, sp_Capacity = 0, sp_Allocation = 0, sp_Available = 0, sp_Volumes = []\<rparr>"

definition enc_LibvirtStoragePool :: "LibvirtStoragePool \<Rightarrow> json" where
  "enc_LibvirtStoragePool x = JObj (
     [(''name'', JStr (sp_Name x))] @
     omit (sp_UUID x = []) ''uuid'' (JStr (sp_UUID x)) @
     omit (\<not> sp_Active x) ''active'' (JBool (sp_Active x)) @
     omit (\<not> sp_Persistent x) ''persistent'' (JBool (sp_Persistent x)) @
     omit (\<not> sp_Autostart x) ''autostart'' (JBool (sp_Autostart x)) @
     omit (sp_Capacity x = 0) ''capacity'' (JNum (show_nat (sp_Capacity x))) @
     omit (sp_Allocation x = 0) ''allocation'' (JNum (show_nat (sp_Allocation x))) @
     omit (sp_Available x = 0) ''available'' (JNum (show_nat (sp_Available x))) @
     omit (sp_Volumes x = []) ''volumes'' (JArr (map enc_LibvirtStorageVolume (sp_Volumes x))))"

definition dec_LibvirtStoragePool :: "json \<Rightarrow> LibvirtStoragePool result" where
  "dec_LibvirtStoragePool j =
     bind_result (json_members j) (\<lambda>kvs.
     bind_result (dec_field as_str [] ''name'' kvs) (\<lambda>v0.
     bind_result (dec_field as_str [] ''uuid'' kvs) (\<lambda>v1.
     bind_result (dec_field as_bool False ''active'' kvs) (\<lambda>v2.
     bind_result (dec_field as_bool False ''persistent'' kvs) (\<lambda>v3.
     bind_result (dec_field as_bool False ''autostart'' kvs) (\<lambda>v4.
     bind_result (dec_field (as_uint 64) 0 ''capacity'' kvs) (\<lambda>v5.
     bind_result (dec_field (as_uint 64) 0 ''allocation'' kvs) (\<lambda>v6.
     bind_result (dec_field (as_uint 64) 0 ''available'' kvs) (\<lambda>v7.
     bind_result (dec_field (as_list (as_struct dec_LibvirtStorageVolume) zero_LibvirtStorageVolume) [] ''volumes'' kvs) (\<lambda>v8.
     Inr \<lparr>sp_Name = v0, sp_UUID = v1, sp_Active = v2, sp_Persistent = v3, sp_Autostart = v4, sp_Capacity = v5, sp_Allocation = v6, sp_Available = v7, sp_Volumes = v8\<rparr>))))))))))"

record LibvirtNetwork =
  ln_Name :: string
  ln_UUID :: string
  ln_Active :: bool
  ln_Persistent :: bool
  ln_Autostart :: bool

definition zero_LibvirtNetwork :: LibvirtNetwork where
  "zero_LibvirtNetwork = \<lparr>ln_Name = [], ln_UUID = [], ln_Active = False, ln_Persistent = False, ln_Autostart = False\<rparr>"

definition enc_LibvirtNetwork :: "LibvirtNetwork \<Rightarrow> json" where
  "enc_LibvirtNetwork x = JObj (
     [(''name'', JStr (ln_Name x))] @
     omit (ln_UUID x = []) ''uuid'' (JStr (ln_UUID x)) @
     omit (\<not> ln_Active x) ''active'' (JBool (ln_Active x)) @
     omit (\<not> ln_Persistent x) ''persistent'' (JBool (ln_Persistent x)) @
     omit (\<not> ln_Autostart x) ''autostart'' (JBool (ln_Autostart x)))"

definition dec_LibvirtNetwork :: "json \<Rightarrow> LibvirtNetwork result" where
  "dec_LibvirtNetwork j =
     bind_result (json_members j) (\<lambda>kvs.
     bind_result (dec_field as_str [] ''name'' kvs) (\<lambda>v0.
     bind_result (dec_field as_str [] ''uuid'' kvs) (\<lambda>v1.
     bind_result (dec_field as_bool False ''active'' kvs) (\<lambda>v2.
     bind_result (dec_field as_bool False ''persistent'' kvs) (\<lambda>v3.
     bind_result (dec_field as_bool False ''autostart'' kvs) (\<lambda>v4.
     Inr \<lparr>ln_Name = v0, ln_UUID = v1, ln_Active = v2, ln_Persistent = v3, ln_Autostart = v4\<rparr>))))))"

record LibvirtVMActionParams =
  vap_Name :: string

definition zero_LibvirtVMActionParams :: LibvirtVMActionParams where
  "zero_LibvirtVMActionParams = \<lparr>vap_Name = []\<rparr>"

definition enc_LibvirtVMActionParams :: "LibvirtVMActionParams \<Rightarrow> json" where
  "enc_LibvirtVMActionParams x = JObj (
     [(''name'', JStr (vap_Name x))])"

definition dec_LibvirtVMActionParams :: "json \<Rightarrow> LibvirtVMActionParams result" where
  "dec_LibvirtVMActionParams j =
     bind_result (json_members j) (\<lambda>kvs.
     bind_result (dec_field as_str [] ''name'' kvs) (\<lambda>v0.
     Inr \<lparr>vap_Name = v0\<rparr>))"

record LibvirtVMCreateParams =
  vcp_Name :: string
  vcp_MemoryMB :: nat
  vcp_VCPUs :: nat
  vcp_DiskPool :: string
  vcp_DiskName :: string
  vcp_DiskSizeGB :: nat
  vcp_Network :: string
  vcp_ISOPath :: string
  vcp_Autostart :: bool
  vcp_Start :: bool

definition zero_LibvirtVMCreateParams :: LibvirtVMCreateParams where
  "zero_LibvirtVMCreateParams = \<lparr>vcp_Name = [], vcp_MemoryMB = 0, vcp_VCPUs = 0, vcp_DiskPool = [], vcp_DiskName = [], vcp_DiskSizeGB = 0, vcp_Network = [], vcp_ISOPath = [], vcp_Autostart = False, vcp_Start = False\<rparr>"

definition enc_LibvirtVMCreateParams :: "LibvirtVMCreateParams \<Rightarrow> json" where
  "enc_LibvirtVMCreateParams x = JObj (
     [(''name'', JStr (vcp_Name x))] @
     [(''memory_mb'', JNum (show_nat (vcp_MemoryMB x)))] @
     [(''vcpus'', JNum (show_nat (vcp_VCPUs x)))] @
     [(''disk_pool'', JStr (vcp_DiskPool x))] @
     omit (vcp_DiskName x = []) ''disk_name'' (JStr (vcp_DiskName x)) @
     [(''disk_size_gb'', JNum (show_nat (vcp_DiskSizeGB x)))] @
     omit (vcp_Network x = []) ''network'' (JStr (vcp_Network x)) @
     omit (vcp_ISOPath x = []) ''iso_path'' (JStr (vcp_ISOPath x)) @
     omit (\<not> vcp_Autostart x) ''autostart'' (JBool (vcp_Autostart x)) @
     omit (\<not> vcp_Start x) ''start'' (JBool (vcp_Start x)))"

definition dec_LibvirtVMCreateParams :: "json \<Rightarrow> LibvirtVMCreateParams result" where
  "dec_LibvirtVMCreateParams j =
     bind_result (json_members j) (\<lambda>kvs.
     bind_result (dec_field as_str [] ''name'' kvs) (\<lambda>v0.
     bind_result (dec_field (as_uint 64) 0 ''memory_mb'' kvs) (\<lambda>v1.
     bind_result (dec_field (as_uint 64) 0 ''vcpus'' kvs) (\<lambda>v2.
     bind_result (dec_field as_str [] ''disk_pool'' kvs) (\<lambda>v3.
     bind_result (dec_field as_str [] ''disk_name'' kvs) (\<lambda>v4.
     bind_result (dec_field (as_uint 64) 0 ''disk_size_gb'' kvs) (\<lambda>v5.
     bind_result (dec_field as_str [] ''network'' kvs) (\<lambda>v6.
     bind_result (dec_field as_str [] ''iso_path'' kvs) (\<lambda>v7.
     bind_result (dec_field as_bool False ''autostart'' kvs) (\<lambda>v8.
     bind_result (dec_field as_bool False ''start'' kvs) (\<lambda>v9.
     Inr \<lparr>vcp_Name = v0, vcp_MemoryMB = v1, vcp_VCPUs = v2, vcp_DiskPool = v3, vcp_DiskName = v4, vcp_DiskSizeGB = v5, vcp_Network = v6, vcp_ISOPath = v7, vcp_Autostart = v8, vcp_Start = v9\<rparr>)))))))))))"

record LibvirtVMCreateResult =
  vcr_Name :: string
  vcr_UUID :: string
  vcr_DiskVolume :: string
  vcr_DiskPath :: string

definition zero_LibvirtVMCreateResult :: LibvirtVMCreateResult where
  "zero_LibvirtVMCreateResult = \<lparr>vcr_Name = [], vcr_UUID = [], vcr_DiskVolume = [], vcr_DiskPath = []\<rparr>"

definition enc_LibvirtVMCreateResult :: "LibvirtVMCreateResult \<Rightarrow> json" where
  "enc_LibvirtVMCreateResult x = JObj (
     [(''name'', JStr (vcr_Name x))] @
     omit (vcr_UUID x = []) ''uuid'' (JStr (vcr_UUID x)) @
     omit (vcr_DiskVolume x = []) ''disk_volume'' (JStr (vcr_DiskVolume x)) @
     omit (vcr_DiskPath x = []) ''disk_path'' (JStr (vcr_DiskPath x)))"

definition dec_LibvirtVMCreateResult :: "json \<Rightarrow> LibvirtVMCreateResult result" where
  "dec_LibvirtVMCreateResult j =
     bind_result (json_members j) (\<lambda>kvs.
     bind_result (dec_field as_str [] ''name'' kvs) (\<lambda>v0.
     bind_result (dec_field as_str [] ''uuid'' kvs) (\<lambda>v1.
     bind_result (dec_field as_str [] ''disk_volume'' kvs) (\<lambda>v2.
     bind_result (dec_field as_str [] ''disk_path'' kvs) (\<lambda>v3.
     Inr \<lparr>vcr_Name = v0, vcr_UUID = v1, vcr_DiskVolume = v2, vcr_DiskPath = v3\<rparr>)))))"

record LibvirtVMSetAutostartParams =
  vsp_Name :: string
  vsp_Enabled :: bool

definition zero_LibvirtVMSetAutostartParams :: LibvirtVMSetAutostartParams where
  "zero_LibvirtVMSetAutostartParams = \<lparr>vsp_Name = [], vsp_Enabled = False\<rparr>"

definition enc_LibvirtVMSetAutostartParams :: "LibvirtVMSetAutostartParams \<Rightarrow> json" where
  "enc_LibvirtVMSetAutostartParams x = JObj (
     [(''name'', JStr (vsp_Name x))] @
     [(''enabled'', JBool (vsp_Enabled x))])"

definition dec_LibvirtVMSetAutostartParams :: "json \<Rightarrow> LibvirtVMSetAutostartParams result" where
  "dec_LibvirtVMSetAutostartParams j =
     bind_result (json_members j) (\<lambda>kvs.
     bind_result (dec_field as_str [] ''name'' kvs) (\<lambda>v0.
     bind_result (dec_field as_bool False ''enabled'' kvs) (\<lambda>v1.
     Inr \<lparr>vsp_Name = v0, vsp_Enabled = v1\<rparr>)))"

record LibvirtVMAttachISOParams =
  vip_Name :: string
  vip_ISOPath :: string

definition zero_LibvirtVMAttachISOParams :: LibvirtVMAttachISOParams where
  "zero_LibvirtVMAttachISOParams = \<lparr>vip_Name = [], vip_ISOPath = []\<rparr>"

definition enc_LibvirtVMAttachISOParams :: "LibvirtVMAttachISOParams \<Rightarrow> json" where
  "enc_LibvirtVMAttachISOParams x = JObj (
     [(''name'', JStr (vip_Name x))] @
     [(''iso_path'', JStr (vip_ISOPath x))])"

definition dec_LibvirtVMAttachISOParams :: "json \<Rightarrow> LibvirtVMAttachISOParams result" where
  "dec_LibvirtVMAttachISOParams j =
     bind_result (json_members j) (\<lambda>kvs.
     bind_result (dec_field as_str [] ''name'' kvs) (\<lambda>v0.
     bind_result (dec_field as_str [] ''iso_path'' kvs) (\<lambda>v1.
     Inr \<lparr>vip_Name = v0, vip_ISOPath = v1\<rparr>)))"

record LibvirtVMDeleteParams =
  vdp_Name :: string
  vdp_ForceStop :: bool
  vdp_RemoveVolumes :: bool

definition zero_LibvirtVMDeleteParams :: LibvirtVMDeleteParams where
  "zero_LibvirtVMDeleteParams = \<lparr>vdp_Name = [], vdp_ForceStop = False, vdp_RemoveVolumes = False\<rparr>"

definition enc_LibvirtVMDeleteParams :: "LibvirtVMDeleteParams \<Rightarrow> json" where
  "enc_LibvirtVMDeleteParams x = JObj (
     [(''name'', JStr (vdp_Name x))] @
     omit (\<not> vdp_ForceStop x) ''force_stop'' (JBool (vdp_ForceStop x)) @
     omit (\<not> vdp_RemoveVolumes x) ''remove_volumes'' (JBool (vdp_RemoveVolumes x)))"

definition dec_LibvirtVMDeleteParams :: "json \<Rightarrow> LibvirtVMDeleteParams result" where
  "dec_LibvirtVMDeleteParams j =
     bind_result (json_members j) (\<lambda>kvs.
     bind_result (dec_field as_str [] ''name'' kvs) (\<lambda>v0.
     bind_result (dec_field as_bool False ''force_stop'' kvs) (\<lambda>v1.
     bind_result (dec_field as_bool False ''remove_volumes'' kvs) (\<lambda>v2.
     Inr \<lparr>vdp_Name = v0, vdp_ForceStop = v1, vdp_RemoveVolumes = v2\<rparr>))))"

record DockerContainer =
  dc_ID :: string
  dc_Image :: string
  dc_Names :: "string list"
  dc_State :: string
  dc_Status :: string
  dc_Created :: int

definition zero_DockerContainer :: DockerContainer where
  "zero_DockerContainer = \<lparr>dc_ID = [], dc_Image = [], dc_Names = [], dc_State = [], dc_Status = [], dc_Created = 0\<rparr>"

definition enc_DockerContainer :: "DockerContainer \<Rightarrow> json" where
  "enc_DockerContainer x = JObj (
     [(''id'', JStr (dc_ID x))] @
     [(''image'', JStr (dc_Image x))] @
     omit (dc_Names x = []) ''names'' (JArr (map JStr (dc_Names x))) @
     omit (dc_State x = []) ''state'' (JStr (dc_State x)) @
     omit (dc_Status x = []) ''status'' (JStr (dc_Status x)) @
     omit (dc_Created x = 0) ''created'' (JNum (show_int (dc_Created x))))"

definition dec_DockerContainer :: "json \<Rightarrow> DockerContainer result" where
  "dec_DockerContainer j =
     bind_result (json_members j) (\<lambda>kvs.
     bind_result (dec_field as_str [] ''id'' kvs) (\<lambda>v0.
     bind_result (dec_field as_str [] ''image'' kvs) (\<lambda>v1.
     bind_result (dec_field (as_list as_str []) [] ''names'' kvs) (\<lambda>v2.
     bind_result (dec_field as_str [] ''state'' kvs) (\<lambda>v3.
     bind_result (dec_field as_str [] ''status'' kvs) (\<lambda>v4.
     bind_result (dec_field as_int 0 ''created'' kvs) (\<lambda>v5.
     Inr \<lparr>dc_ID = v0, dc_Image = v1, dc_Names = v2, dc_State = v3, dc_Status = v4, dc_Created = v5\<rparr>)))))))"

record DockerImage =
  di_ID :: string
  di_RepoTags :: "string list"
  di_Size :: int
  di_Created :: int
  di_Labels :: "(string \<times> string) list"

definition zero_DockerImage :: DockerImage where
  "zero_DockerImage = \<lparr>di_ID = [], di_RepoTags = [], di_Size = 0, di_Created = 0, di_Labels = []\<rparr>"

definition enc_DockerImage :: "DockerImage \<Rightarrow> json" where
  "enc_DockerImage x = JObj (
     [(''id'', JStr (di_ID x))] @
     omit (di_RepoTags x = []) ''repo_tags'' (JArr (map JStr (di_RepoTags x))) @
     omit (di_Size x = 0) ''size'' (JNum (show_int (di_Size x))) @
     omit (di_Created x = 0) ''created'' (JNum (show_int (di_Created x))) @
     omit (di_Labels x = []) ''labels'' (JObj (map (\<lambda>(k, v). (k, JStr v)) (di_Labels x))))"

definition dec_DockerImage :: "json \<Rightarrow> DockerImage result" where
  "dec_DockerImage j =
     bind_result (json_members j) (\<lambda>kvs.
     bind_result (dec_field as_str [] ''id'' kvs) (\<lambda>v0.
     bind_result (dec_field (as_list as_str []) [] ''repo_tags'' kvs) (\<lambda>v1.
     bind_result (dec_field as_int 0 ''size'' kvs) (\<lambda>v2.
     bind_result (dec_field as_int 0 ''created'' kvs) (\<lambda>v3.
     bind_result (dec_field as_strmap [] ''labels'' kvs) (\<lambda>v4.
     Inr \<lparr>di_ID = v0, di_RepoTags = v1, di_Size = v2, di_Created = v3, di_Labels = v4\<rparr>))))))"

record DockerImagePullParams =
  dpp_Image :: string

definition zero_DockerImagePullParams :: DockerImagePullParams where
  "zero_DockerImagePullParams = \<lparr>dpp_Image = []\<rparr>"

definition enc_DockerImagePullParams :: "DockerImagePullParams \<Rightarrow> json" where
  "enc_DockerImagePullParams x = JObj (
     [(''image'', JStr (dpp_Image x))])"

definition dec_DockerImagePullParams :: "json \<Rightarrow> DockerImagePullParams result" where
  "dec_DockerImagePullParams j =
     bind_result (json_members j) (\<lambda>kvs.
     bind_result (dec_field as_str [] ''image'' kvs) (\<lambda>v0.
     Inr \<lparr>dpp_Image = v0\<rparr>))"

record DockerImageRemoveParams =
  drp_Image :: string
  drp_Force :: bool
  drp_PruneChildren :: bool

definition zero_DockerImageRemoveParams :: DockerImageRemoveParams where
  "zero_DockerImageRemoveParams = \<lparr>drp_Image = [], drp_Force = False, drp_PruneChildren = False\<rparr>"

definition enc_DockerImageRemoveParams :: "DockerImageRemoveParams \<Rightarrow> json" where
  "enc_DockerImageRemoveParams x = JObj (
     [(''image'', JStr (drp_Image x))] @
     omit (\<not> drp_Force x) ''force'' (JBool (drp_Force x)) @
     omit (\<not> drp_PruneChildren x) ''prune_children'' (JBool (drp_PruneChildren x)))"

definition dec_DockerImageRemoveParams :: "json \<Rightarrow> DockerImageRemoveParams result" where
  "dec_DockerImageRemoveParams j =
     bind_result (json_members j) (\<lambda>kvs.
     bind_result (dec_field as_str [] ''image'' kvs) (\<lambda>v0.
     bind_result (dec_field as_bool False ''force'' kvs) (\<lambda>v1.
     bind_result (dec_field as_bool False ''prune_children'' kvs) (\<lambda>v2.
     Inr \<lparr>drp_Image = v0, drp_Force = v1, drp_PruneChildren = v2\<rparr>))))"

record DockerImageRemoveResult =
  drr_Deleted :: "string list"
  drr_Untagged :: "string list"

definition zero_DockerImageRemoveResult :: DockerImageRemoveResult where
  "zero_DockerImageRemoveResult = \<lparr>drr_Deleted = [], drr_Untagged = []\<rparr>"

definition enc_DockerImageRemoveResult :: "DockerImageRemoveResult \<Rightarrow> json" where
  "enc_DockerImageRemoveResult x = JObj (
     omit (drr_Deleted x = []) ''deleted'' (JArr (map JStr (drr_Deleted x))) @
     omit (drr_Untagged x = []) ''untagged'' (JArr (map JStr (drr_Untagged x))))"

definition dec_DockerImageRemoveResult :: "json \<Rightarrow> DockerImageRemoveResult result" where
  "dec_DockerImageRemoveResult j =
     bind_result (json_members j) (\<lambda>kvs.
     bind_result (dec_field (as_list as_str []) [] ''deleted'' kvs) (\<lambda>v0.
     bind_result (dec_field (as_list as_str []) [] ''untagged'' kvs) (\<lambda>v1.
     Inr \<lparr>drr_Deleted = v0, drr_Untagged = v1\<rparr>)))"

record DockerContainerCreateParams =
  dcp_Image :: string
  dcp_Name :: string
  dcp_Command :: string
  dcp_Entrypoint :: string
  dcp_WorkingDir :: string
  dcp_Env :: "string list"
  dcp_Ports :: "string list"
  dcp_PublishAll :: bool
  dcp_AutoRemove :: bool
  dcp_RestartPolicy :: string
  dcp_Start :: bool

definition zero_DockerContainerCreateParams :: DockerContainerCreateParams where
  "zero_DockerContainerCreateParams = \<lparr>dcp_Image = [], dcp_Name = [], dcp_Command = [], dcp_Entrypoint = [], dcp_WorkingDir = [], dcp_Env = [], dcp_Ports = [], dcp_PublishAll = False, dcp_AutoRemove = False, dcp_RestartPolicy = [], dcp_Start = False\<rparr>"

definition enc_DockerContainerCreateParams :: "DockerContainerCreateParams \<Rightarrow> json" where
  "enc_DockerContainerCreateParams x = JObj (
     [(''image'', JStr (dcp_Image x))] @
     omit (dcp_Name x = []) ''name'' (JStr (dcp_Name x)) @
     omit (dcp_Command x = []) ''command'' (JStr (dcp_Command x)) @
     omit (dcp_Entrypoint x = []) ''entrypoint'' (JStr (dcp_Entrypoint x)) @
     omit (dcp_WorkingDir x = []) ''working_dir'' (JStr (dcp_WorkingDir x)) @
     omit (dcp_Env x = []) ''env'' (JArr (map JStr (dcp_Env x))) @
     omit (dcp_Ports x = []) ''ports'' (JArr (map JStr (dcp_Ports x))) @
     omit (\<not> dcp_PublishAll x) ''publish_all'' (JBool (dcp_PublishAll x)) @
     omit (\<not> dcp_AutoRemove x) ''auto_remove'' (JBool (dcp_AutoRemove x)) @
     omit (dcp_RestartPolicy x = []) ''restart_policy'' (JStr (dcp_RestartPolicy x)) @
     omit (\<not> dcp_Start x) ''start'' (JBool (dcp_Start x)))"

definition dec_DockerContainerCreateParams :: "json \<Rightarrow> DockerContainerCreateParams result" where
  "dec_DockerContainerCreateParams j =
     bind_result (json_members j) (\<lambda>kvs.
     bind_result (dec_field as_str [] ''image'' kvs) (\<lambda>v0.
     bind_result (dec_field as_str [] ''name'' kvs) (\<lambda>v1.
     bind_result (dec_field as_str [] ''command'' kvs) (\<lambda>v2.
     bind_result (dec_field as_str [] ''entrypoint'' kvs) (\<lambda>v3.
     bind_result (dec_field as_str [] ''working_dir'' kvs) (\<lambda>v4.
     bind_result (dec_field (as_list as_str []) [] ''env'' kvs) (\<lambda>v5.
     bind_result (dec_field (as_list as_str []) [] ''ports'' kvs) (\<lambda>v6.
     bind_result (dec_field as_bool False ''publish_all'' kvs) (\<lambda>v7.
     bind_result (dec_field as_bool False ''auto_remove'' kvs) (\<lambda>v8.
     bind_result (dec_field as_str [] ''restart_policy'' kvs) (\<lambda>v9.
     bind_result (dec_field as_bool False ''start'' kvs) (\<lambda>v10.
     Inr \<lparr>dcp_Image = v0, dcp_Name = v1, dcp_Command = v2, dcp_Entrypoint = v3, dcp_WorkingDir = v4, dcp_Env = v5, dcp_Ports = v6, dcp_PublishAll = v7, dcp_AutoRemove = v8, dcp_RestartPolicy = v9, dcp_Start = v10\<rparr>))))))))))))"

record DockerContainerCreateResult =
  dcr_ID :: string
  dcr_Warnings :: "string list"

definition zero_DockerContainerCreateResult :: DockerContainerCreateResult where
  "zero_DockerContainerCreateResult = \<lparr>dcr_ID = [], dcr_Warnings = []\<rparr>"

definition enc_DockerContainerCreateResult :: "DockerContainerCreateResult \<Rightarrow> json" where
  "enc_DockerContainerCreateResult x = JObj (
     [(''id'', JStr (dcr_ID x))] @
     omit (dcr_Warnings x = []) ''warnings'' (JArr (map JStr (dcr_Warnings x))))"

definition dec_DockerContainerCreateResult :: "json \<Rightarrow> DockerContainerCreateResult result" where
  "dec_DockerContainerCreateResult j =
     bind_result (json_members j) (\<lambda>kvs.
     bind_result (dec_field as_str [] ''id'' kvs) (\<lambda>v0.
     bind_result (dec_field (as_list as_str []) [] ''warnings'' kvs) (\<lambda>v1.
     Inr \<lparr>dcr_ID = v0, dcr_Warnings = v1\<rparr>)))"

record DockerContainerStartParams =
  dsp_ID :: string

definition zero_DockerContainerStartParams :: DockerContainerStartParams where
  "zero_DockerContainerStartParams = \<lparr>dsp_ID = []\<rparr>"

definition enc_DockerContainerStartParams :: "DockerContainerStartParams \<Rightarrow> json" where
  "enc_DockerContainerStartParams x = JObj (
     [(''id'', JStr (dsp_ID x))])"

definition dec_DockerContainerStartParams :: "json \<Rightarrow> DockerContainerStartParams result" where
  "dec_DockerContainerStartParams j =
     bind_result (json_members j) (\<lambda>kvs.
     bind_result (dec_field as_str [] ''id'' kvs) (\<lambda>v0.
     Inr \<lparr>dsp_ID = v0\<rparr>))"

record DockerContainerStopParams =
  dtp_ID :: string
  dtp_TimeoutSeconds :: "int option"

definition zero_DockerContainerStopParams :: DockerContainerStopParams where
  "zero_DockerContainerStopParams = \<lparr>dtp_ID = [], dtp_TimeoutSeconds = None\<rparr>"

definition enc_DockerContainerStopParams :: "DockerContainerStopParams \<Rightarrow> json" where
  "enc_DockerContainerStopParams x = JObj (
     [(''id'', JStr (dtp_ID x))] @
     omit (dtp_TimeoutSeconds x = None) ''timeout_seconds'' (JNum (show_int (the (dtp_TimeoutSeconds x)))))"

definition dec_DockerContainerStopParams :: "json \<Rightarrow> DockerContainerStopParams result" where
  "dec_DockerContainerStopParams j =
     bind_result (json_members j) (\<lambda>kvs.
     bind_result (dec_field as_str [] ''id'' kvs) (\<lambda>v0.
     bind_result (dec_field (\<lambda>v. map_option Some (as_int v)) None ''timeout_seconds'' kvs) (\<lambda>v1.
     Inr \<lparr>dtp_ID = v0, dtp_TimeoutSeconds = v1\<rparr>)))"

record DockerContainerRestartParams =
  dxp_ID :: string
  dxp_TimeoutSeconds :: "int option"

definition zero_DockerContainerRestartParams :: DockerContainerRestartParams where
  "zero_DockerContainerRestartParams = \<lparr>dxp_ID = [], dxp_TimeoutSeconds = None\<rparr>"

definition enc_DockerContainerRestartParams :: "DockerContainerRestartParams \<Rightarrow> json" where
  "enc_DockerContainerRestartParams x = JObj (
     [(''id'', JStr (dxp_ID x))] @
     omit (dxp_TimeoutSeconds x = None) ''timeout_seconds'' (JNum (show_int (the (dxp_TimeoutSeconds x)))))"

definition dec_DockerContainerRestartParams :: "json \<Rightarrow> DockerContainerRestartParams result" where
  "dec_DockerContainerRestartParams j =
     bind_result (json_members j) (\<lambda>kvs.
     bind_result (dec_field as_str [] ''id'' kvs) (\<lambda>v0.
     bind_result (dec_field (\<lambda>v. map_option Some (as_int v)) None ''timeout_seconds'' kvs) (\<lambda>v1.
     Inr \<lparr>dxp_ID = v0, dxp_TimeoutSeconds = v1\<rparr>)))"

record DockerContainerRemoveParams =
  dvp_ID :: string
  dvp_Force :: bool
  dvp_RemoveVolumes :: bool

definition zero_DockerContainerRemoveParams :: DockerContainerRemoveParams where
  "zero_DockerContainerRemoveParams = \<lparr>dvp_ID = [], dvp_Force = False, dvp_RemoveVolumes = False\<rparr>"

definition enc_DockerContainerRemoveParams :: "DockerContainerRemoveParams \<Rightarrow> json" where
  "enc_DockerContainerRemoveParams x = JObj (
     [(''id'', JStr (dvp_ID x))] @
     omit (\<not> dvp_Force x) ''force'' (JBool (dvp_Force x)) @
     omit (\<not> dvp_RemoveVolumes x) ''remove_volumes'' (JBool (dvp_RemoveVolumes x)))"

definition dec_DockerContainerRemoveParams :: "json \<Rightarrow> DockerContainerRemoveParams result" where
  "dec_DockerContainerRemoveParams j =
     bind_result (json_members j) (\<lambda>kvs.
     bind_result (dec_field as_str [] ''id'' kvs) (\<lambda>v0.
     bind_result (dec_field as_bool False ''force'' kvs) (\<lambda>v1.
     bind_result (dec_field as_bool False ''remove_volumes'' kvs) (\<lambda>v2.
     Inr \<lparr>dvp_ID = v0, dvp_Force = v1, dvp_RemoveVolumes = v2\<rparr>))))"

end
