(* ===== verification/Protocol.thy ===== *)
theory Protocol
  imports Types
begin

text \<open>
  The shared protocol code of \<^verbatim>\<open>src/src/core/protocol\<close>: line framing
  (\<^verbatim>\<open>line.go\<close>), packets (\<^verbatim>\<open>packet.go\<close>) and the handshake helpers
  (\<^verbatim>\<open>handshake.go\<close>). A \<^verbatim>\<open>bufio.Reader\<close> is the bytes still to be delivered with the error
  that follows them, a \<^verbatim>\<open>bufio.Writer\<close> the bytes flushed so far with the error, if any, that its
  connection reports; a \<^verbatim>\<open>nil\<close> pointer is \<^term>\<open>None\<close>. SHA-256 and ed25519 are the fields of a
  \<open>crypto\<close> record that every definition using them takes as an argument; random bytes are arguments.
\<close>

section \<open>Readers and writers\<close>

record reader =
  r_buf :: string
  r_err :: goerror

record writer =
  w_out :: string
  w_err :: "goerror option"

text \<open>\<^verbatim>\<open>ReadString('\n')\<close>: the text up to and including the newline, or the stream's error.\<close>

definition read_string :: "reader \<Rightarrow> string result \<times> reader" where
  "read_string r =
     (if CHR 0x0A \<in> set (r_buf r)
      then (Inr (takeWhile (\<lambda>c. c \<noteq> CHR 0x0A) (r_buf r) @ [CHR 0x0A]),
            r\<lparr>r_buf := tl (dropWhile (\<lambda>c. c \<noteq> CHR 0x0A) (r_buf r))\<rparr>)
      else (Inl (r_err r), r\<lparr>r_buf := []\<rparr>))"

text \<open>\<^verbatim>\<open>WriteString\<close> followed by \<^verbatim>\<open>Flush\<close>.\<close>

definition write_flush :: "writer \<Rightarrow> string \<Rightarrow> goerror option \<times> writer" where
  "write_flush w s = (case w_err w of
       Some e \<Rightarrow> (Some e, w)
     | None \<Rightarrow> (None, w\<lparr>w_out := w_out w @ s\<rparr>))"

definition WriteLine :: "writer option \<Rightarrow> string \<Rightarrow> goerror option \<times> writer option" where
  "WriteLine wr line = (case wr of
       None \<Rightarrow> (Some ''nil writer'', None)
     | Some w \<Rightarrow>
         let line = trim_space line in
         if line = [] then (Some ''empty line'', Some w)
         else apsnd Some (write_flush w (line @ [CHR 0x0A])))"

definition ReadLine :: "reader option \<Rightarrow> string result \<times> reader option" where
  "ReadLine rd = (case rd of
       None \<Rightarrow> (Inl ''nil reader'', None)
     | Some r \<Rightarrow>
         (case read_string r of
            (Inl e, r') \<Rightarrow> (Inl e, Some r')
          | (Inr line, r') \<Rightarrow>
              let line = trim_space line in
              if line = [] then (Inl ''empty line'', Some r') else (Inr line, Some r')))"

section \<open>Packets\<close>

record Packet =
  pk_Type :: string
  pk_ID :: string
  pk_ReplyTo :: string
  pk_Error :: string
  pk_Payload :: "json option"

definition zero_Packet :: Packet where
  "zero_Packet = \<lparr>pk_Type = [], pk_ID = [], pk_ReplyTo = [], pk_Error = [], pk_Payload = None\<rparr>"

definition enc_Packet :: "Packet \<Rightarrow> json" where
  "enc_Packet p = JObj (
     [(''type'', JStr (pk_Type p))] @
     omit (pk_ID p = []) ''id'' (JStr (pk_ID p)) @
     omit (pk_ReplyTo p = []) ''reply_to'' (JStr (pk_ReplyTo p)) @
     omit (pk_Error p = []) ''error'' (JStr (pk_Error p)) @
     (case pk_Payload p of None \<Rightarrow> [] | Some v \<Rightarrow> [(''payload'', v)]))"

definition dec_Packet :: "json \<Rightarrow> Packet result" where
  "dec_Packet j =
     bind_result (json_members j) (\<lambda>kvs.
     bind_result (dec_field as_str [] ''type'' kvs) (\<lambda>t.
     bind_result (dec_field as_str [] ''id'' kvs) (\<lambda>i.
     bind_result (dec_field as_str [] ''reply_to'' kvs) (\<lambda>r.
     bind_result (dec_field as_str [] ''error'' kvs) (\<lambda>e.
     Inr \<lparr>pk_Type = t, pk_ID = i, pk_ReplyTo = r, pk_Error = e,
           pk_Payload = dec_raw ''payload'' kvs\<rparr>)))))"

text \<open>The payload argument is the JSON value of the Go value, \<^term>\<open>None\<close> for \<^verbatim>\<open>nil\<close>.\<close>

definition NewPacket :: "string \<Rightarrow> json option \<Rightarrow> Packet result" where
  "NewPacket packetType payload =
     (if trim_space packetType = [] then Inl ''packet type is empty''
      else Inr (zero_Packet\<lparr>pk_Type := packetType, pk_Payload := payload\<rparr>))"

definition NewError :: "string \<Rightarrow> Packet" where
  "NewError message = zero_Packet\<lparr>pk_Type := PacketError, pk_Error := trim_space message\<rparr>"

definition NewReply :: "string \<Rightarrow> string \<Rightarrow> json option \<Rightarrow> Packet result" where
  "NewReply packetType replyTo payload =
     bind_result (NewPacket packetType payload) (\<lambda>p. Inr (p\<lparr>pk_ReplyTo := trim_space replyTo\<rparr>))"

definition DecodePayload :: "(json \<Rightarrow> 'a result) \<Rightarrow> Packet \<Rightarrow> 'a result" where
  "DecodePayload dec p = (case pk_Payload p of
       None \<Rightarrow> Inl ''payload is empty''
     | Some v \<Rightarrow> dec v)"

definition WritePacket :: "writer option \<Rightarrow> Packet \<Rightarrow> goerror option \<times> writer option" where
  "WritePacket wr p = (case wr of
       None \<Rightarrow> (Some ''nil writer'', None)
     | Some w \<Rightarrow>
         if trim_space (pk_Type p) = [] then (Some ''packet type is empty'', Some w)
         else apsnd Some (write_flush w (print_json (enc_Packet p) @ [CHR 0x0A])))"

definition ReadPacket :: "reader option \<Rightarrow> Packet result \<times> reader option" where
  "ReadPacket rd = (case rd of
       None \<Rightarrow> (Inl ''nil reader'', None)
     | Some r \<Rightarrow>
         (case read_string r of
            (Inl e, r') \<Rightarrow> (Inl e, Some r')
          | (Inr line, r') \<Rightarrow>
              let line = trim_space line in
              if line = [] then (Inl ''empty packet line'', Some r')
              else (bind_result (bind_result (parse_json line) dec_Packet) (\<lambda>p.
                      if trim_space (pk_Type p) = [] then Inl ''packet type missing'' else Inr p),
                    Some r')))"

text \<open>\<^verbatim>\<open>NewID\<close> of the 16 bytes the random source delivers.\<close>

definition NewID :: "bytes \<Rightarrow> string" where
  "NewID b = b64_encode b"

section \<open>Handshake\<close>

record crypto =
  sha256 :: "bytes \<Rightarrow> bytes"
  ed_sign :: "bytes \<Rightarrow> bytes \<Rightarrow> bytes"
  ed_verify :: "bytes \<Rightarrow> bytes \<Rightarrow> bytes \<Rightarrow> bool"

definition str_bytes :: "string \<Rightarrow> bytes" where
  "str_bytes s = map (\<lambda>c. of_nat (of_char c)) s"

definition HeaderMasterSlave :: string where
  "HeaderMasterSlave = ''CENTRALISD-MS/1''"

definition HeaderOrchestrator :: string where
  "HeaderOrchestrator = ''CENTRALISD-ORCH/1''"

definition PublicKeySize :: nat where
  "PublicKeySize = 32"

definition IDFromPublicKey :: "crypto \<Rightarrow> bytes \<Rightarrow> string result" where
  "IDFromPublicKey C pubKey =
     (if length pubKey \<noteq> PublicKeySize then Inl ''invalid ed25519 public key length''
      else Inr (b64_encode (sha256 C pubKey)))"

definition VerifyIDForPublicKey :: "crypto \<Rightarrow> string \<Rightarrow> bytes \<Rightarrow> bool" where
  "VerifyIDForPublicKey C ident pubKey =
     (let ident = trim_space ident in
      if ident = [] then False else ident = b64_encode (sha256 C pubKey))"

definition GenerateChallenge :: "bytes \<Rightarrow> string" where
  "GenerateChallenge b = b64_encode b"

definition SignChallenge :: "crypto \<Rightarrow> bytes \<Rightarrow> string \<Rightarrow> string result" where
  "SignChallenge C privKey challenge =
     (if privKey = [] then Inl ''private key missing''
      else let challenge = trim_space challenge in
        if challenge = [] then Inl ''challenge empty''
        else Inr (b64_encode (ed_sign C privKey (str_bytes challenge))))"

definition VerifyChallengeSignature :: "crypto \<Rightarrow> bytes \<Rightarrow> string \<Rightarrow> string \<Rightarrow> bool" where
  "VerifyChallengeSignature C pubKey challenge sigB64 =
     (if length pubKey \<noteq> PublicKeySize then False
      else case b64_decode (trim_space sigB64) of
             None \<Rightarrow> False
           | Some sig \<Rightarrow> ed_verify C pubKey (str_bytes challenge) sig)"

definition WriteHello :: "writer option \<Rightarrow> string \<Rightarrow> goerror option \<times> writer option" where
  "WriteHello wr header =
     (let header = trim_space header in
      if header = [] then (Some ''header empty'', wr) else WriteLine wr header)"

definition ReadHello :: "reader option \<Rightarrow> string \<Rightarrow> goerror option \<times> reader option" where
  "ReadHello rd expected =
     (let expected = trim_space expected in
      if expected = [] then (Some ''expected header empty'', rd)
      else (case ReadLine rd of
              (Inl e, rd') \<Rightarrow> (Some e, rd')
            | (Inr line, rd') \<Rightarrow>
                if line \<noteq> expected then (Some (''unexpected header '' @ line), rd') else (None, rd')))"

section \<open>Struct codecs read back what they write\<close>

lemmas key_simps = key_matches_def to_lower_def lower_char_def

lemma dec_enc_AuthHello [simp]: "dec_AuthHello (enc_AuthHello x) = Inr x"
  by (simp add: dec_AuthHello_def enc_AuthHello_def json_members_def dec_field_def key_simps)

lemma dec_enc_AuthChallenge [simp]: "dec_AuthChallenge (enc_AuthChallenge x) = Inr x"
  by (simp add: dec_AuthChallenge_def enc_AuthChallenge_def json_members_def dec_field_def key_simps)

lemma dec_enc_AuthProof [simp]: "dec_AuthProof (enc_AuthProof x) = Inr x"
  by (simp add: dec_AuthProof_def enc_AuthProof_def json_members_def dec_field_def key_simps)

lemma dec_enc_NodeInfo [simp]: "dec_NodeInfo (enc_NodeInfo x) = Inr x"
  by (simp add: dec_NodeInfo_def enc_NodeInfo_def json_members_def dec_field_def key_simps)

lemma dec_enc_MasterInfo [simp]: "dec_MasterInfo (enc_MasterInfo x) = Inr x"
proof -
  have "as_list (as_struct dec_NodeInfo) zero_NodeInfo (JArr (map enc_NodeInfo ns)) = Some ns" for ns
    by (rule as_list_map) (simp add: as_struct_def, simp add: enc_NodeInfo_def)
  then show ?thesis
    by (simp add: dec_MasterInfo_def enc_MasterInfo_def json_members_def dec_field_def key_simps)
qed

lemma dec_enc_NodeCommand [simp]: "dec_NodeCommand (enc_NodeCommand x) = Inr x"
  by (cases "nc_Params x")
    (simp_all add: dec_NodeCommand_def enc_NodeCommand_def json_members_def dec_field_def
      dec_raw_append key_simps dec_step_def)

lemma dec_enc_CommandReply [simp]: "dec_CommandReply (enc_CommandReply x) = Inr x"
  by (cases "cr_Output x")
    (simp_all add: dec_CommandReply_def enc_CommandReply_def json_members_def dec_field_def
      dec_raw_append key_simps)

lemma dec_enc_OrchestratorCommand [simp]:
  "dec_OrchestratorCommand (enc_OrchestratorCommand x) =
     Inr (x\<lparr>oc_Command := Some (case oc_Command x of None \<Rightarrow> JNull | Some v \<Rightarrow> v)\<rparr>)"
  by (simp add: dec_OrchestratorCommand_def enc_OrchestratorCommand_def json_members_def dec_field_def
      dec_raw_def key_simps)

lemma dec_enc_Packet [simp]: "dec_Packet (enc_Packet p) = Inr p"
  by (cases "pk_Payload p")
    (simp_all add: dec_Packet_def enc_Packet_def json_members_def dec_field_def
      dec_raw_append key_simps)

section \<open>Framing\<close>

text \<open>A packet is sendable when its type is not blank and its payload is well-formed JSON.\<close>

definition wf_packet :: "Packet \<Rightarrow> bool" where
  "wf_packet p \<longleftrightarrow> trim_space (pk_Type p) \<noteq> []
     \<and> (case pk_Payload p of None \<Rightarrow> True | Some v \<Rightarrow> wf_json v)"

definition packet_line :: "Packet \<Rightarrow> string" where
  "packet_line p = print_json (enc_Packet p) @ [CHR 0x0A]"

lemma wf_enc_Packet: "wf_packet p \<Longrightarrow> wf_json (enc_Packet p)"
  by (cases "pk_Payload p") (simp_all add: wf_packet_def enc_Packet_def)

lemma enc_Packet_obj: "\<exists>kvs. enc_Packet p = JObj kvs"
  by (simp add: enc_Packet_def)

lemma read_string_line:
  assumes "CHR 0x0A \<notin> set s"
  shows "read_string \<lparr>r_buf = s @ CHR 0x0A # rest, r_err = e\<rparr> =
    (Inr (s @ [CHR 0x0A]), \<lparr>r_buf = rest, r_err = e\<rparr>)"
proof -
  have "takeWhile (\<lambda>c. c \<noteq> CHR 0x0A) (s @ CHR 0x0A # rest) = s"
    using assms by (induction s) auto
  moreover have "dropWhile (\<lambda>c. c \<noteq> CHR 0x0A) (s @ CHR 0x0A # rest) = CHR 0x0A # rest"
    using assms by (induction s) auto
  ultimately show ?thesis by (simp add: read_string_def)
qed

lemma trim_space_newline:
  assumes "trim_space s = s" "s \<noteq> []" "plain_char (hd s)"
  shows "trim_space (s @ [CHR 0x0A]) = s"
proof -
  have "trim_left (s @ [CHR 0x0A]) = s @ [CHR 0x0A]"
    unfolding trim_left_def
  proof (rule strip_words_id)
    fix w assume "w \<in> set go_spaces"
    then have "w \<noteq> [] \<and> \<not> plain_char (hd w)" using go_spaces_head by blast
    with assms(2,3) show "\<not> starts_with w (s @ [CHR 0x0A])"
      by (cases s; cases w) auto
  qed
  moreover have "trim_right (s @ [CHR 0x0A]) = trim_right s"
  proof -
    have f: "find (\<lambda>w. w \<noteq> [] \<and> starts_with w (CHR 0x0A # rev s)) (map rev go_spaces) = Some [CHR 0x0A]"
      by (simp add: go_spaces_def)
    show ?thesis by (simp add: trim_right_def strip_words_Some [OF f])
  qed
  moreover have "trim_left s = s"
    unfolding trim_left_def
  proof (rule strip_words_id)
    fix w assume "w \<in> set go_spaces"
    then have "w \<noteq> [] \<and> \<not> plain_char (hd w)" using go_spaces_head by blast
    with assms(2,3) show "\<not> starts_with w s" by (cases s; cases w) auto
  qed
  ultimately show ?thesis using assms(1) by (simp add: trim_space_def)
qed

lemma ReadPacket_line:
  assumes "wf_packet p"
  shows "ReadPacket (Some \<lparr>r_buf = packet_line p @ rest, r_err = e\<rparr>) =
    (Inr p, Some \<lparr>r_buf = rest, r_err = e\<rparr>)"
proof -
  let ?t = "print_json (enc_Packet p)"
  have wf: "wf_json (enc_Packet p)" using assms by (rule wf_enc_Packet)
  obtain kvs where kvs: "enc_Packet p = JObj kvs" using enc_Packet_obj by blast
  have "trim_space (?t @ [CHR 0x0A]) = ?t"
    by (rule trim_space_newline) (simp_all add: kvs trim_space_print_obj [simplified] plain_char_def)
  moreover have "?t \<noteq> []" by (simp add: kvs)
  moreover have "read_string \<lparr>r_buf = packet_line p @ rest, r_err = e\<rparr> =
      (Inr (?t @ [CHR 0x0A]), \<lparr>r_buf = rest, r_err = e\<rparr>)"
    using read_string_line [OF print_json_one_line [OF wf]] by (simp add: packet_line_def)
  ultimately show ?thesis
    using assms by (simp add: ReadPacket_def wf wf_packet_def)
qed

lemma WritePacket_ok:
  "wf_packet p \<Longrightarrow> w_err w = None \<Longrightarrow>
     WritePacket (Some w) p = (None, Some (w\<lparr>w_out := w_out w @ packet_line p\<rparr>))"
  by (simp add: WritePacket_def wf_packet_def write_flush_def packet_line_def)

text \<open>Sending a sequence of packets, and draining a stream until it ends.\<close>

fun write_packets :: "writer option \<Rightarrow> Packet list \<Rightarrow> writer option" where
  "write_packets wr [] = wr"
| "write_packets wr (p # ps) = write_packets (snd (WritePacket wr p)) ps"

fun read_packets :: "nat \<Rightarrow> reader option \<Rightarrow> Packet list \<times> goerror" where
  "read_packets 0 rd = ([], [])"
| "read_packets (Suc n) rd = (case ReadPacket rd of
       (Inl e, rd') \<Rightarrow> ([], e)
     | (Inr p, rd') \<Rightarrow> apfst ((#) p) (read_packets n rd'))"

lemma write_packets_out:
  "list_all wf_packet ps \<Longrightarrow> w_err w = None \<Longrightarrow>
   write_packets (Some w) ps = Some (w\<lparr>w_out := w_out w @ concat (map packet_line ps)\<rparr>)"
  by (induction ps arbitrary: w) (simp_all add: WritePacket_ok)

lemma read_packets_lines:
  "list_all wf_packet ps \<Longrightarrow> length ps < n \<Longrightarrow>
   read_packets n (Some \<lparr>r_buf = concat (map packet_line ps), r_err = e\<rparr>) = (ps, e)"
proof (induction ps arbitrary: n)
  case Nil
  then show ?case by (cases n) (simp_all add: ReadPacket_def read_string_def)
next
  case (Cons p ps)
  then show ?case by (cases n) (simp_all add: ReadPacket_line)
qed



section \<open>Hello lines\<close>

lemma header_plain:
  "trim_space HeaderMasterSlave = HeaderMasterSlave"
  "trim_space HeaderOrchestrator = HeaderOrchestrator"
  by (rule trim_space_plain; simp add: HeaderMasterSlave_def HeaderOrchestrator_def plain_char_def)+

lemma ReadHello_line:
  assumes "trim_space h = h" "h \<noteq> []" "plain_char (hd h)" "CHR 0x0A \<notin> set h"
  shows "ReadHello (Some \<lparr>r_buf = h @ CHR 0x0A # rest, r_err = e\<rparr>) expected =
    (if trim_space expected = [] then (Some ''expected header empty'',
         Some \<lparr>r_buf = h @ CHR 0x0A # rest, r_err = e\<rparr>)
     else (if h = trim_space expected then None else Some (''unexpected header '' @ h),
         Some \<lparr>r_buf = rest, r_err = e\<rparr>))"
  using assms by (simp add: ReadHello_def ReadLine_def read_string_line trim_space_newline Let_def)

section \<open>Identity and signatures\<close>

text \<open>What the handshake relies on of ed25519: a signature made with a key's private half verifies.\<close>

definition signs :: "crypto \<Rightarrow> bytes \<Rightarrow> bytes \<Rightarrow> bool" where
  "signs C priv pub \<longleftrightarrow> (\<forall>m. ed_verify C pub m (ed_sign C priv m))"

lemma VerifyIDForPublicKey_iff:
  "sha256 C pub \<noteq> [] \<Longrightarrow>
   VerifyIDForPublicKey C ident pub \<longleftrightarrow> trim_space ident = b64_encode (sha256 C pub)"
  by (auto simp: VerifyIDForPublicKey_def Let_def)

lemma VerifyIDForPublicKey_own:
  "IDFromPublicKey C pub = Inr own \<Longrightarrow> sha256 C pub \<noteq> [] \<Longrightarrow> VerifyIDForPublicKey C own pub"
  by (auto simp: VerifyIDForPublicKey_iff IDFromPublicKey_def split: if_splits)

lemma SignChallenge_verifies:
  assumes "signs C priv pub" "length pub = PublicKeySize" "SignChallenge C priv ch = Inr sig"
    and "trim_space ch = ch"
  shows "VerifyChallengeSignature C pub ch sig"
  using assms
  by (auto simp: SignChallenge_def VerifyChallengeSignature_def signs_def Let_def split: if_splits)

text \<open>
  Identity: with a key of the right length, the identifier that \<^verbatim>\<open>IDFromPublicKey\<close>
  derives is accepted by \<^verbatim>\<open>VerifyIDForPublicKey\<close> for that key, and it is accepted for another key
  only if the two keys have the same SHA-256.
\<close>

lemma identity_binds_key:
  assumes "length pub = PublicKeySize" and "\<And>m. sha256 C m \<noteq> []"
  shows "\<exists>own. IDFromPublicKey C pub = Inr own \<and> VerifyIDForPublicKey C own pub \<and>
    (\<forall>other. VerifyIDForPublicKey C own other \<longleftrightarrow> sha256 C other = sha256 C pub)"
  using assms by (auto simp: IDFromPublicKey_def VerifyIDForPublicKey_iff b64_encode_inj)

definition demo_crypto :: crypto where
  "demo_crypto = \<lparr>sha256 = (\<lambda>m. 7 # m), ed_sign = (\<lambda>k m. k @ m), ed_verify = (\<lambda>k m s. s = k @ m)\<rparr>"

lemma identity_binds_key_example:
  "\<exists>own. IDFromPublicKey demo_crypto (replicate 32 5) = Inr own
     \<and> VerifyIDForPublicKey demo_crypto own (replicate 32 5)
     \<and> (\<forall>other. VerifyIDForPublicKey demo_crypto own other \<longleftrightarrow>
          sha256 demo_crypto other = sha256 demo_crypto (replicate 32 5))"
  by (rule identity_binds_key) (simp_all add: PublicKeySize_def demo_crypto_def)

text \<open>
  Challenge--response: the signature a peer produces with \<^verbatim>\<open>SignChallenge\<close> for a
  challenge drawn by \<^verbatim>\<open>GenerateChallenge\<close> is accepted by \<^verbatim>\<open>VerifyChallengeSignature\<close> for the
  matching public key; the base64 text and the trimming on both sides lose nothing.
\<close>

lemma challenge_response:
  assumes "signs C priv pub" and "length pub = PublicKeySize" and "priv \<noteq> []" and "rnd \<noteq> []"
  shows "\<exists>sig. SignChallenge C priv (GenerateChallenge rnd) = Inr sig
    \<and> VerifyChallengeSignature C pub (GenerateChallenge rnd) sig"
proof -
  have ch: "trim_space (GenerateChallenge rnd) = GenerateChallenge rnd" "GenerateChallenge rnd \<noteq> []"
    using assms(4) by (simp_all add: GenerateChallenge_def)
  then obtain sig where "SignChallenge C priv (GenerateChallenge rnd) = Inr sig"
    using assms(3) by (simp add: SignChallenge_def)
  with SignChallenge_verifies [OF assms(1,2) this ch(1)] show ?thesis by blast
qed

lemma challenge_response_example:
  "\<exists>sig. SignChallenge demo_crypto (replicate 32 5) (GenerateChallenge [1, 2]) = Inr sig
    \<and> VerifyChallengeSignature demo_crypto (replicate 32 5) (GenerateChallenge [1, 2]) sig"
  by (rule challenge_response) (simp_all add: signs_def demo_crypto_def PublicKeySize_def)

text \<open>
  The identity check trims its argument and nothing after it does: any identifier that is
  the right text with white space around it passes as well, so one key passes under several distinct
  identifiers.
\<close>

lemma padded_identifier_accepted:
  assumes "IDFromPublicKey C pub = Inr own" and "sha256 C pub \<noteq> []"
  shows "VerifyIDForPublicKey C (own @ [CHR 0x0A]) pub \<and> own @ [CHR 0x0A] \<noteq> own"
proof -
  have own: "own = b64_encode (sha256 C pub)"
    using assms(1) by (auto simp: IDFromPublicKey_def split: if_splits)
  then have "own \<noteq> []" using assms(2) by simp
  moreover have "list_all plain_char own" using own b64_encode_plain by simp
  ultimately have "trim_space (own @ [CHR 0x0A]) = own"
    using own by (intro trim_space_newline) (auto simp: list_all_iff)
  then show ?thesis using own assms(2) by (simp add: VerifyIDForPublicKey_iff)
qed

lemma padded_identifier_accepted_example:
  "VerifyIDForPublicKey demo_crypto (b64_encode (7 # replicate 32 5) @ [CHR 0x0A]) (replicate 32 5)
    \<and> b64_encode (7 # replicate 32 5) @ [CHR 0x0A] \<noteq> b64_encode (7 # replicate 32 5)"
  by (rule padded_identifier_accepted)
    (simp_all add: IDFromPublicKey_def PublicKeySize_def demo_crypto_def)

end
