(* ===== verification/Registry.thy ===== *)
theory Registry
  imports Protocol "HOL-Library.List_Lexorder" "HOL-Library.Char_ord"
begin

text \<open>
  The orchestrator's registry, \<^verbatim>\<open>src/src/orchestrator/registry\<close>: the persisted list of
  allowed clusters, the authentication check for masters and the in-memory store of masters with
  their time to live. The database layer (gorm over SQLite) is the record \<open>gorm\<close> of the operations
  the code calls, an argument of every definition that reaches it. Times are integers in
  nanoseconds; the current time is an argument. A Go \<^verbatim>\<open>range\<close> over a map visits the keys in an
  unspecified order, so each definition that ranges over the store takes that order as a list of
  keys, and \<open>range_order\<close> says it enumerates the map.
\<close>

section \<open>Allowed clusters\<close>

record 'db gorm =
  g_migrate :: "'db \<Rightarrow> goerror option \<times> 'db"
  g_first_or_create :: "'db \<Rightarrow> string \<Rightarrow> goerror option \<times> 'db"
  g_find_ordered :: "'db \<Rightarrow> string list result"
  g_count :: "'db \<Rightarrow> nat result"
  g_first :: "'db \<Rightarrow> string \<Rightarrow> unit result"

definition ErrRecordNotFound :: goerror where
  "ErrRecordNotFound = ''record not found''"

text \<open>An \<^verbatim>\<open>AllowedClusters\<close> is its connection; \<^term>\<open>None\<close> when the pointer or its \<^verbatim>\<open>db\<close> is nil.\<close>

type_synonym 'db allowed = "'db option"

definition NewAllowedClusters :: "'db option \<Rightarrow> 'db allowed" where
  "NewAllowedClusters dbConn = dbConn"

definition AutoMigrate :: "'db gorm \<Rightarrow> 'db allowed \<Rightarrow> goerror option \<times> 'db allowed" where
  "AutoMigrate G a = (case a of
       None \<Rightarrow> (None, None)
     | Some d \<Rightarrow> apsnd Some (g_migrate G d))"

fun seed_loop :: "'db gorm \<Rightarrow> 'db \<Rightarrow> string list \<Rightarrow> 'db" where
  "seed_loop G d [] = d"
| "seed_loop G d (c # cs) =
     (if c = [] then seed_loop G d cs else seed_loop G (snd (g_first_or_create G d c)) cs)"

definition EnsureSeed :: "'db gorm \<Rightarrow> 'db allowed \<Rightarrow> string list \<Rightarrow> goerror option \<times> 'db allowed" where
  "EnsureSeed G a clusters = (None, map_option (\<lambda>d. seed_loop G d clusters) a)"

definition List_clusters :: "'db gorm \<Rightarrow> 'db allowed \<Rightarrow> string list result" where
  "List_clusters G a = (case a of None \<Rightarrow> Inr [] | Some d \<Rightarrow> g_find_ordered G d)"

definition IsAllowed :: "'db gorm \<Rightarrow> 'db allowed \<Rightarrow> string \<Rightarrow> bool \<times> goerror option" where
  "IsAllowed G a clusterID = (case a of
       None \<Rightarrow> (True, None)
     | Some d \<Rightarrow>
         if g_count G d = Inr 0 then (True, None)
         else if clusterID = [] then (False, None)
         else (case g_first G d clusterID of
                 Inr _ \<Rightarrow> (True, None)
               | Inl e \<Rightarrow> if e = ErrRecordNotFound then (False, None) else (False, Some e)))"

section \<open>The store\<close>

record RMasterInfo =
  rm_info :: MasterInfo
  rm_LastSeen :: int

text \<open>\<open>s_allowed\<close> is \<^term>\<open>None\<close> for a nil pointer.\<close>

record 'db Store =
  s_masters :: "string \<rightharpoonup> RMasterInfo"
  s_ttl :: int
  s_allowed :: "'db allowed option"

definition second :: int where
  "second = 1000000000"

definition NewStore :: "int \<Rightarrow> 'db allowed option \<Rightarrow> 'db Store" where
  "NewStore ttl allowed =
     \<lparr>s_masters = Map.empty, s_ttl = (if ttl \<le> 0 then 60 * second else ttl), s_allowed = allowed\<rparr>"

definition UpsertMaster :: "'db gorm \<Rightarrow> int \<Rightarrow> 'db Store \<Rightarrow> RMasterInfo \<Rightarrow> bool \<times> 'db Store" where
  "UpsertMaster G now s mi =
     (if mi_ID (rm_info mi) = [] then (False, s)
      else case s_allowed s of
             Some a \<Rightarrow>
               (let (ok, err) = IsAllowed G a (mi_Cluster (rm_info mi)) in
                if err \<noteq> None \<or> \<not> ok then (False, s)
                else (True, s\<lparr>s_masters := (s_masters s)(mi_ID (rm_info mi) \<mapsto> mi\<lparr>rm_LastSeen := now\<rparr>)\<rparr>))
           | None \<Rightarrow>
               (True, s\<lparr>s_masters := (s_masters s)(mi_ID (rm_info mi) \<mapsto> mi\<lparr>rm_LastSeen := now\<rparr>)\<rparr>))"

definition range_order :: "('k \<rightharpoonup> 'v) \<Rightarrow> 'k list \<Rightarrow> bool" where
  "range_order m ks \<longleftrightarrow> distinct ks \<and> set ks = dom m"

definition range_values :: "('k \<rightharpoonup> 'v) \<Rightarrow> 'k list \<Rightarrow> 'v list" where
  "range_values m ks = map (\<lambda>k. the (m k)) ks"

definition expired :: "'db Store \<Rightarrow> int \<Rightarrow> RMasterInfo \<Rightarrow> bool" where
  "expired s now m \<longleftrightarrow> now - rm_LastSeen m > s_ttl s"

abbreviation cluster_of :: "RMasterInfo \<Rightarrow> string" where
  "cluster_of m \<equiv> mi_Cluster (rm_info m)"

definition ActiveClusters :: "'db gorm \<Rightarrow> int \<Rightarrow> string list \<Rightarrow> 'db Store \<Rightarrow> string list" where
  "ActiveClusters G now ks s =
     (let derived = sort (remdups (map cluster_of
            (filter (\<lambda>m. \<not> expired s now m \<and> cluster_of m \<noteq> []) (range_values (s_masters s) ks)))) in
      case s_allowed s of
        Some a \<Rightarrow> (case List_clusters G a of Inr cs \<Rightarrow> cs | Inl e \<Rightarrow> derived)
      | None \<Rightarrow> derived)"

definition IsKnownCluster :: "'db gorm \<Rightarrow> int \<Rightarrow> string list \<Rightarrow> 'db Store \<Rightarrow> string \<Rightarrow> bool" where
  "IsKnownCluster G now ks s clusterID =
     (if clusterID = [] then False
      else let derived = list_ex (\<lambda>m. \<not> expired s now m \<and> cluster_of m = clusterID)
                           (range_values (s_masters s) ks) in
        case s_allowed s of
          Some a \<Rightarrow> (case IsAllowed G a clusterID of (ok, None) \<Rightarrow> ok | (ok, Some e) \<Rightarrow> derived)
        | None \<Rightarrow> derived)"

definition IsClusterOnline :: "int \<Rightarrow> string list \<Rightarrow> 'db Store \<Rightarrow> string \<Rightarrow> bool" where
  "IsClusterOnline now ks s clusterID =
     (if clusterID = [] then False
      else list_ex (\<lambda>m. cluster_of m = clusterID \<and> \<not> expired s now m) (range_values (s_masters s) ks))"

definition NodesForCluster :: "int \<Rightarrow> string list \<Rightarrow> 'db Store \<Rightarrow> string \<Rightarrow> NodeInfo list" where
  "NodesForCluster now ks s clusterID =
     (if clusterID = [] then []
      else concat (map (\<lambda>m. mi_Nodes (rm_info m))
             (filter (\<lambda>m. cluster_of m = clusterID \<and> \<not> expired s now m) (range_values (s_masters s) ks))))"

definition MastersForCluster :: "int \<Rightarrow> string list \<Rightarrow> 'db Store \<Rightarrow> string \<Rightarrow> RMasterInfo list" where
  "MastersForCluster now ks s clusterID =
     (if clusterID = [] then []
      else filter (\<lambda>m. cluster_of m = clusterID \<and> \<not> expired s now m) (range_values (s_masters s) ks))"

definition MasterHasNode :: "RMasterInfo \<Rightarrow> string \<Rightarrow> bool" where
  "MasterHasNode master nodeID =
     (if nodeID = [] then False
      else list_ex (\<lambda>node. ni_ID node = nodeID) (mi_Nodes (rm_info master)))"

section \<open>Authentication of masters\<close>

definition VerifyMasterAuth :: "crypto \<Rightarrow> string \<Rightarrow> RMasterInfo \<Rightarrow> string \<Rightarrow> bool" where
  "VerifyMasterAuth C challenge master sigB64 =
     (case b64_decode (mi_PubKey (rm_info master)) of
        None \<Rightarrow> False
      | Some pubKeyBytes \<Rightarrow>
          if length pubKeyBytes \<noteq> PublicKeySize then False
          else if \<not> VerifyIDForPublicKey C (mi_ID (rm_info master)) pubKeyBytes then False
          else VerifyChallengeSignature C pubKeyBytes challenge sigB64)"

section \<open>Properties of the store\<close>

text \<open>The store's invariant: entries sit under their own non-empty identifier and belong to
  clusters the allow list accepts; the time to live is positive.\<close>

definition cluster_ok :: "'db gorm \<Rightarrow> 'db Store \<Rightarrow> string \<Rightarrow> bool" where
  "cluster_ok G s c \<longleftrightarrow> (case s_allowed s of None \<Rightarrow> True | Some a \<Rightarrow> IsAllowed G a c = (True, None))"

definition store_inv :: "'db gorm \<Rightarrow> 'db Store \<Rightarrow> bool" where
  "store_inv G s \<longleftrightarrow> 0 < s_ttl s \<and>
     (\<forall>k m. s_masters s k = Some m \<longrightarrow>
        k \<noteq> [] \<and> mi_ID (rm_info m) = k \<and> cluster_ok G s (cluster_of m))"

lemma UpsertMaster_cases:
  obtains (accept) "mi_ID (rm_info mi) \<noteq> []" "cluster_ok G s (cluster_of mi)"
      "UpsertMaster G now s mi =
         (True, s\<lparr>s_masters := (s_masters s)(mi_ID (rm_info mi) \<mapsto> mi\<lparr>rm_LastSeen := now\<rparr>)\<rparr>)"
    | (reject) "mi_ID (rm_info mi) = [] \<or> \<not> cluster_ok G s (cluster_of mi)"
      "UpsertMaster G now s mi = (False, s)"
proof (cases "mi_ID (rm_info mi) \<noteq> [] \<and> cluster_ok G s (cluster_of mi)")
  case True
  then show ?thesis
    by (intro accept) (auto simp: UpsertMaster_def cluster_ok_def split: option.splits)
next
  case False
  then show ?thesis
    by (intro reject)
      (auto simp: UpsertMaster_def cluster_ok_def split: option.splits prod.splits)
qed

lemma NewStore_inv: "store_inv G (NewStore ttl a)"
  by (simp add: store_inv_def NewStore_def second_def)

lemma UpsertMaster_inv: "store_inv G s \<Longrightarrow> store_inv G (snd (UpsertMaster G now s mi))"
  by (rule UpsertMaster_cases [of mi G s now])
    (auto simp: store_inv_def cluster_ok_def split: option.splits)

lemma range_values_set: "range_order m ks \<Longrightarrow> set (range_values m ks) = ran m"
  by (force simp: range_order_def range_values_def ran_def dom_def)

lemma MastersForCluster_set:
  "range_order (s_masters s) ks \<Longrightarrow> c \<noteq> [] \<Longrightarrow>
   set (MastersForCluster now ks s c) =
     {m \<in> ran (s_masters s). cluster_of m = c \<and> now - rm_LastSeen m \<le> s_ttl s}"
  by (auto simp: MastersForCluster_def range_values_set expired_def)

text \<open>A run of the registry: updates arriving in some order, each at its own time.\<close>

fun upserts :: "'db gorm \<Rightarrow> 'db Store \<Rightarrow> (int \<times> RMasterInfo) list \<Rightarrow> 'db Store" where
  "upserts G s [] = s"
| "upserts G s ((now, mi) # us) = upserts G (snd (UpsertMaster G now s mi)) us"

lemma upserts_inv: "store_inv G s \<Longrightarrow> store_inv G (upserts G s us)"
  by (induction G s us rule: upserts.induct) (auto intro: UpsertMaster_inv)

lemma UpsertMaster_frame [simp]:
  "s_ttl (snd (UpsertMaster G now s mi)) = s_ttl s"
  "s_allowed (snd (UpsertMaster G now s mi)) = s_allowed s"
  by (rule UpsertMaster_cases [of mi G s now]; simp)+

lemma upserts_frame [simp]:
  "s_ttl (upserts G s us) = s_ttl s" "s_allowed (upserts G s us) = s_allowed s"
  by (induction G s us rule: upserts.induct) auto

section \<open>The contract the store gives its clients\<close>

text \<open>
  What the command router and the web pages rely on: a store of stamped masters, at most one per
  identifier, where an accepted update replaces the entry of its identifier and an entry is visible
  in its cluster exactly while it is not older than the time to live.
\<close>

locale master_store =
  fixes put :: "int \<Rightarrow> 's \<Rightarrow> RMasterInfo \<Rightarrow> bool \<times> 's"
    and live :: "int \<Rightarrow> 's \<Rightarrow> string \<Rightarrow> RMasterInfo set"
    and ttl :: "'s \<Rightarrow> int"
    and inv :: "'s \<Rightarrow> bool"
  assumes put_inv: "inv s \<Longrightarrow> inv (snd (put t s mi))"
    and put_ttl: "ttl (snd (put t s mi)) = ttl s"
    and put_reject: "\<not> fst (put t s mi) \<Longrightarrow> snd (put t s mi) = s"
    and put_accept: "inv s \<Longrightarrow> fst (put t s mi) \<Longrightarrow>
      live now (snd (put t s mi)) c =
        {m \<in> live now s c. mi_ID (rm_info m) \<noteq> mi_ID (rm_info mi)} \<union>
        (if cluster_of mi = c \<and> now - t \<le> ttl s then {mi\<lparr>rm_LastSeen := t\<rparr>} else {})"
begin

fun puts :: "'s \<Rightarrow> (int \<times> RMasterInfo) list \<Rightarrow> 's" where
  "puts s [] = s"
| "puts s ((t, mi) # us) = puts (snd (put t s mi)) us"

lemma puts_inv: "inv s \<Longrightarrow> inv (puts s us)"
  by (induction us arbitrary: s) (auto simp: put_inv)

lemma puts_ttl: "ttl (puts s us) = ttl s"
  by (induction us arbitrary: s) (auto simp: put_ttl)

lemma puts_append: "puts s (us @ vs) = puts (puts s us) vs"
  by (induction us arbitrary: s) auto

lemma put_other:
  assumes "inv s" "mi_ID (rm_info mi) \<noteq> x"
  shows "{m \<in> live now (snd (put t s mi)) c. mi_ID (rm_info m) = x} =
    {m \<in> live now s c. mi_ID (rm_info m) = x}"
proof (cases "fst (put t s mi)")
  case True
  then show ?thesis using assms by (auto simp: put_accept)
next
  case False
  then show ?thesis by (simp add: put_reject)
qed

lemma puts_other:
  assumes "inv s" "\<And>t mi. (t, mi) \<in> set us \<Longrightarrow> mi_ID (rm_info mi) \<noteq> x"
  shows "{m \<in> live now (puts s us) c. mi_ID (rm_info m) = x} =
    {m \<in> live now s c. mi_ID (rm_info m) = x}"
  using assms
proof (induction us arbitrary: s)
  case (Cons u us)
  obtain t mi where u: "u = (t, mi)" by force
  have "inv (snd (put t s mi))" using Cons.prems(1) by (rule put_inv)
  then have "{m \<in> live now (puts (snd (put t s mi)) us) c. mi_ID (rm_info m) = x} =
      {m \<in> live now (snd (put t s mi)) c. mi_ID (rm_info m) = x}"
    by (rule Cons.IH) (auto intro!: Cons.prems(2))
  then have "{m \<in> live now (puts s (u # us)) c. mi_ID (rm_info m) = x} =
      {m \<in> live now (snd (put t s mi)) c. mi_ID (rm_info m) = x}"
    using u by simp
  also have "\<dots> = {m \<in> live now s c. mi_ID (rm_info m) = x}"
    using Cons.prems u by (intro put_other) auto
  finally show ?case .
qed simp

text \<open>After an accepted update, and as long as no other update names the same master, the master
  is visible in its cluster exactly while the update is not older than the time to live, and in no
  other cluster.\<close>

lemma last_update_decides:
  assumes "inv s" "fst (put t (puts s us) mi)"
    and "\<And>u mj. (u, mj) \<in> set vs \<Longrightarrow> mi_ID (rm_info mj) \<noteq> mi_ID (rm_info mi)"
  shows "{m \<in> live now (puts s (us @ (t, mi) # vs)) c. mi_ID (rm_info m) = mi_ID (rm_info mi)} =
    (if cluster_of mi = c \<and> now - t \<le> ttl s then {mi\<lparr>rm_LastSeen := t\<rparr>} else {})"
proof -
  let ?s = "snd (put t (puts s us) mi)"
  have "inv ?s" using assms(1) by (simp add: put_inv puts_inv)
  then have "{m \<in> live now (puts ?s vs) c. mi_ID (rm_info m) = mi_ID (rm_info mi)} =
      {m \<in> live now ?s c. mi_ID (rm_info m) = mi_ID (rm_info mi)}"
    using assms(3) by (rule puts_other)
  also have "\<dots> = (if cluster_of mi = c \<and> now - t \<le> ttl s then {mi\<lparr>rm_LastSeen := t\<rparr>} else {})"
    using assms(1,2) by (auto simp: put_accept puts_inv puts_ttl)
  finally show ?thesis by (simp add: puts_append)
qed

end

definition live_masters :: "int \<Rightarrow> 'db Store \<Rightarrow> string \<Rightarrow> RMasterInfo set" where
  "live_masters now s c = {m \<in> ran (s_masters s). cluster_of m = c \<and> now - rm_LastSeen m \<le> s_ttl s}"

lemma ran_upd_inv:
  assumes "store_inv G s"
  shows "ran ((s_masters s)(k \<mapsto> v)) = {m \<in> ran (s_masters s). mi_ID (rm_info m) \<noteq> k} \<union> {v}"
  using assms by (force simp: store_inv_def ran_def)

interpretation reg: master_store "UpsertMaster G" live_masters s_ttl "store_inv G" for G
proof
  fix s :: "'a Store" and t mi now c
  show "store_inv G s \<Longrightarrow> store_inv G (snd (UpsertMaster G t s mi))" by (rule UpsertMaster_inv)
  show "s_ttl (snd (UpsertMaster G t s mi)) = s_ttl s" by simp
  show "\<not> fst (UpsertMaster G t s mi) \<Longrightarrow> snd (UpsertMaster G t s mi) = s"
    by (rule UpsertMaster_cases [of mi G s t]) auto
  show "live_masters now (snd (UpsertMaster G t s mi)) c =
        {m \<in> live_masters now s c. mi_ID (rm_info m) \<noteq> mi_ID (rm_info mi)} \<union>
        (if cluster_of mi = c \<and> now - t \<le> s_ttl s then {mi\<lparr>rm_LastSeen := t\<rparr>} else {})"
    if "store_inv G s" "fst (UpsertMaster G t s mi)"
    using that
    by (rule_tac UpsertMaster_cases [of mi G s t]) (auto simp: live_masters_def ran_upd_inv)
qed

lemma puts_upserts: "reg.puts G s us = upserts G s us"
  by (induction G s us rule: upserts.induct) auto

text \<open>
  Presence of masters: take any history of updates of a fresh store in which the update
  of a master at time \<open>t\<close> was accepted and no later update names that master. At any time, in
  whatever order the map is visited, \<^verbatim>\<open>MastersForCluster\<close> lists for that identifier exactly the
  stamped update when its cluster is asked for and \<open>t\<close> is at most the time to live ago, and
  nothing otherwise.
\<close>

lemma presence_until_ttl:
  assumes acc: "fst (UpsertMaster G t (upserts G (NewStore d a) us) mi)"
    and silent: "\<And>u mj. (u, mj) \<in> set vs \<Longrightarrow> mi_ID (rm_info mj) \<noteq> mi_ID (rm_info mi)"
    and final: "s = upserts G (NewStore d a) (us @ (t, mi) # vs)"
    and ks: "range_order (s_masters s) ks" and c: "c \<noteq> []"
  shows "{m \<in> set (MastersForCluster now ks s c). mi_ID (rm_info m) = mi_ID (rm_info mi)} =
    (if cluster_of mi = c \<and> now - t \<le> s_ttl s then {mi\<lparr>rm_LastSeen := t\<rparr>} else {})"
proof -
  have "set (MastersForCluster now ks s c) = live_masters now s c"
    using ks c by (simp add: MastersForCluster_set live_masters_def)
  moreover have "s_ttl s = s_ttl (NewStore d a)" using final by simp
  ultimately show ?thesis
    using reg.last_update_decides [where G = G and s = "NewStore d a" and t = t and us = us and mi = mi and vs = vs
        and now = now and c = c, OF NewStore_inv] acc silent final
    by (simp add: puts_upserts)
qed

definition demo_gorm :: "string list gorm" where
  "demo_gorm = \<lparr>g_migrate = (\<lambda>d. (None, d)),
     g_first_or_create = (\<lambda>d c. (None, if c \<in> set d then d else d @ [c])),
     g_find_ordered = (\<lambda>d. Inr (sort d)), g_count = (\<lambda>d. Inr (card (set d))),
     g_first = (\<lambda>d c. if c \<in> set d then Inr () else Inl ErrRecordNotFound)\<rparr>"

definition demo_master :: "string \<Rightarrow> string \<Rightarrow> RMasterInfo" where
  "demo_master i c = \<lparr>rm_info = zero_MasterInfo\<lparr>mi_ID := i, mi_Cluster := c\<rparr>, rm_LastSeen = 0\<rparr>"

lemma presence_until_ttl_example:
  "let s = upserts demo_gorm (NewStore 60 (Some (Some [''eu'']))) [(5, demo_master ''m1'' ''eu''),
             (9, demo_master ''m2'' ''eu'')] in
   {m \<in> set (MastersForCluster 65 [''m1'', ''m2''] s ''eu''). mi_ID (rm_info m) = ''m1''} =
     {(demo_master ''m1'' ''eu'')\<lparr>rm_LastSeen := 5\<rparr>}"
proof -
  let ?init = "NewStore 60 (Some (Some [''eu'']))"
  let ?s = "upserts demo_gorm ?init ([] @ (5, demo_master ''m1'' ''eu'') # [(9, demo_master ''m2'' ''eu'')])"
  have acc: "fst (UpsertMaster demo_gorm 5 (upserts demo_gorm ?init []) (demo_master ''m1'' ''eu''))"
    by (simp add: UpsertMaster_def NewStore_def demo_master_def demo_gorm_def IsAllowed_def zero_MasterInfo_def)
  have ks: "range_order (s_masters ?s) [''m1'', ''m2'']"
    by (auto simp: range_order_def UpsertMaster_def NewStore_def demo_master_def demo_gorm_def
        IsAllowed_def zero_MasterInfo_def)
  have ttl: "s_ttl ?s = 60" by (simp only: upserts_frame) (simp add: NewStore_def)
  show ?thesis
    using presence_until_ttl [where us = "[]" and vs = "[(9, demo_master ''m2'' ''eu'')]" and c = "''eu''" and now = 65,
        OF acc _ refl ks] ttl
    by (simp add: demo_master_def zero_MasterInfo_def Let_def)
qed

text \<open>
  The three views of a cluster agree: a cluster is online exactly when it has live
  masters, its node list is the nodes of those masters in the order they are listed, and the answer
  to "is it online" does not depend on the order in which the map is visited.
\<close>

lemma cluster_views_agree:
  assumes "range_order (s_masters s) ks" and "range_order (s_masters s) ks'"
  shows "(IsClusterOnline now ks s c \<longleftrightarrow> MastersForCluster now ks s c \<noteq> [])
    \<and> NodesForCluster now ks s c = concat (map (\<lambda>m. mi_Nodes (rm_info m)) (MastersForCluster now ks s c))
    \<and> IsClusterOnline now ks s c = IsClusterOnline now ks' s c
    \<and> set (NodesForCluster now ks s c) = set (NodesForCluster now ks' s c)"
proof -
  have "set (range_values (s_masters s) ks) = set (range_values (s_masters s) ks')"
    using assms by (simp add: range_values_set)
  then show ?thesis
    by (auto simp: IsClusterOnline_def MastersForCluster_def NodesForCluster_def list_ex_iff
        filter_empty_conv)
qed

lemma cluster_views_agree_example:
  "let s = upserts demo_gorm (NewStore 60 None) [(5, demo_master ''m1'' ''eu''), (9, demo_master ''m2'' ''eu'')] in
    (IsClusterOnline 10 [''m1'', ''m2''] s ''eu'' \<longleftrightarrow> MastersForCluster 10 [''m1'', ''m2''] s ''eu'' \<noteq> [])
    \<and> NodesForCluster 10 [''m1'', ''m2''] s ''eu'' =
        concat (map (\<lambda>m. mi_Nodes (rm_info m)) (MastersForCluster 10 [''m1'', ''m2''] s ''eu''))
    \<and> IsClusterOnline 10 [''m1'', ''m2''] s ''eu'' = IsClusterOnline 10 [''m2'', ''m1''] s ''eu''
    \<and> set (NodesForCluster 10 [''m1'', ''m2''] s ''eu'') = set (NodesForCluster 10 [''m2'', ''m1''] s ''eu'')"
  unfolding Let_def
  by (rule cluster_views_agree)
    (auto simp: range_order_def UpsertMaster_def NewStore_def demo_master_def zero_MasterInfo_def)

text \<open>
  Registry invariant: whatever updates a fresh store has received, accepted or not, every
  entry sits under its own non-empty identifier, its cluster is one the allow list accepts, and the
  time to live is positive.
\<close>

lemma registry_invariant: "store_inv G (upserts G (NewStore d a) us)"
  by (rule upserts_inv) (rule NewStore_inv)

section \<open>The store as a view of the history\<close>

text \<open>The specification: of the updates so far, in order of arrival, the latest acceptable one of each
  identifier, stamped with its time.\<close>

definition acceptable :: "'db gorm \<Rightarrow> 'db allowed option \<Rightarrow> RMasterInfo \<Rightarrow> bool" where
  "acceptable G a mi \<longleftrightarrow> mi_ID (rm_info mi) \<noteq> [] \<and>
     (case a of None \<Rightarrow> True | Some al \<Rightarrow> IsAllowed G al (cluster_of mi) = (True, None))"

definition latest :: "(RMasterInfo \<Rightarrow> bool) \<Rightarrow> (int \<times> RMasterInfo) list \<Rightarrow> string \<rightharpoonup> RMasterInfo" where
  "latest ok us i = map_option (\<lambda>(t, mi). mi\<lparr>rm_LastSeen := t\<rparr>)
     (find (\<lambda>(t, mi). ok mi \<and> mi_ID (rm_info mi) = i) (rev us))"

lemma latest_snoc:
  "latest ok (us @ [(t, mi)]) =
     (if ok mi then (latest ok us)(mi_ID (rm_info mi) \<mapsto> mi\<lparr>rm_LastSeen := t\<rparr>) else latest ok us)"
  by (auto simp: latest_def fun_eq_iff)

lemma upserts_append: "upserts G s (us @ vs) = upserts G (upserts G s us) vs"
  by (induction G s us rule: upserts.induct) auto

lemma upserts_latest: "s_masters (upserts G (NewStore d a) us) = latest (acceptable G a) us"
proof (induction us rule: rev_induct)
  case Nil
  then show ?case by (simp add: NewStore_def latest_def fun_eq_iff)
next
  case (snoc u us)
  obtain t mi where u: "u = (t, mi)" by fastforce
  let ?s = "upserts G (NewStore d a) us"
  have "s_allowed ?s = a" by (simp add: NewStore_def)
  then have acc: "acceptable G a mi \<longleftrightarrow> mi_ID (rm_info mi) \<noteq> [] \<and> cluster_ok G ?s (cluster_of mi)"
    by (simp add: acceptable_def cluster_ok_def)
  show ?case
    by (rule UpsertMaster_cases [of mi G ?s t]) (auto simp: u upserts_append latest_snoc snoc.IH acc)
qed

text \<open>
  Claim C7. The store refines its specification: after any sequence of updates of a fresh store, what
  it holds is the latest acceptable update of each identifier, and the views are those of the
  specification, whatever order the map is visited in: a cluster's masters are the latest updates
  that name it and are not older than the time to live, its nodes theirs, and it is online exactly
  when there is one.
\<close>

theorem store_refines_history:
  assumes "s = upserts G (NewStore d a) us" and "range_order (s_masters s) ks" and "c \<noteq> []"
  shows "s_masters s = latest (acceptable G a) us
    \<and> set (MastersForCluster now ks s c) =
        {m \<in> ran (latest (acceptable G a) us). cluster_of m = c \<and> now - rm_LastSeen m \<le> s_ttl s}
    \<and> set (NodesForCluster now ks s c) =
        (\<Union>m \<in> {m \<in> ran (latest (acceptable G a) us). cluster_of m = c \<and> now - rm_LastSeen m \<le> s_ttl s}. set (mi_Nodes (rm_info m)))
    \<and> (IsClusterOnline now ks s c \<longleftrightarrow>
        (\<exists>m \<in> ran (latest (acceptable G a) us). cluster_of m = c \<and> now - rm_LastSeen m \<le> s_ttl s))"
proof -
  have eq: "s_masters s = latest (acceptable G a) us" using assms(1) by (simp add: upserts_latest)
  then have vals: "set (range_values (s_masters s) ks) = ran (latest (acceptable G a) us)"
    using range_values_set [OF assms(2)] by simp
  show ?thesis
    using eq vals assms(3)
    by (auto simp: MastersForCluster_def NodesForCluster_def IsClusterOnline_def expired_def list_ex_iff)
qed

theorem store_refines_history_witness:
  "set (MastersForCluster 65 [''m''] (upserts demo_gorm (NewStore 60 None) [(1, demo_master ''m'' ''us''), (5, demo_master ''m'' ''eu'')]) ''eu'') =
   {m \<in> ran (latest (acceptable demo_gorm None) [(1, demo_master ''m'' ''us''), (5, demo_master ''m'' ''eu'')]).
      cluster_of m = ''eu'' \<and> 65 - rm_LastSeen m \<le> 60}"
proof -
  let ?s = "upserts demo_gorm (NewStore 60 None) [(1, demo_master ''m'' ''us''), (5, demo_master ''m'' ''eu'')]"
  have ks: "range_order (s_masters ?s) [''m'']"
    by (auto simp: range_order_def UpsertMaster_def NewStore_def demo_master_def zero_MasterInfo_def)
  have "s_ttl ?s = 60" by (simp only: upserts_frame) (simp add: NewStore_def)
  with store_refines_history [OF refl ks, of "''eu''" 65] show ?thesis by simp
qed

section \<open>Allow list and authentication\<close>

text \<open>What the code relies on of the database layer, over the set of rows a connection holds.\<close>

definition gorm_ok :: "'db gorm \<Rightarrow> ('db \<Rightarrow> string set) \<Rightarrow> bool" where
  "gorm_ok G rows \<longleftrightarrow> (\<forall>d. finite (rows d))
     \<and> (\<forall>d c. rows (snd (g_first_or_create G d c)) = insert c (rows d))
     \<and> (\<forall>d. g_count G d = Inr (card (rows d)))
     \<and> (\<forall>d c. g_first G d c = (if c \<in> rows d then Inr () else Inl ErrRecordNotFound))"

lemma seed_loop_rows:
  "gorm_ok G rows \<Longrightarrow> rows (seed_loop G d cs) = rows d \<union> {c \<in> set cs. c \<noteq> []}"
  by (induction G d cs rule: seed_loop.induct) (auto simp: gorm_ok_def)

lemma IsAllowed_rows:
  "gorm_ok G rows \<Longrightarrow> IsAllowed G (Some d) c = (rows d = {} \<or> c \<noteq> [] \<and> c \<in> rows d, None)"
  by (auto simp: gorm_ok_def IsAllowed_def card_gt_0_iff)

text \<open>
  Allow list: after the start-up seeding of an empty table with the configured clusters, a
  cluster is allowed exactly when it is a configured non-empty name, or no non-empty name is
  configured at all, in which case every cluster is allowed; no database error is reported.
\<close>

lemma seeded_allow_list:
  assumes "gorm_ok G rows" and "rows d = {}" and "EnsureSeed G (Some d) clusters = (err, a)"
  shows "IsAllowed G a c = ((\<forall>x \<in> set clusters. x = []) \<or> c \<noteq> [] \<and> c \<in> set clusters, None)"
proof -
  have "a = Some (seed_loop G d clusters)" using assms(3) by (simp add: EnsureSeed_def)
  then show ?thesis
    using assms by (auto simp: IsAllowed_rows seed_loop_rows)
qed

lemma seeded_allow_list_example:
  "IsAllowed demo_gorm (snd (EnsureSeed demo_gorm (Some []) [''eu'', [], ''us''])) ''eu'' =
     ((\<forall>x \<in> set [''eu'', [], ''us'']. x = []) \<or> ''eu'' \<noteq> [] \<and> ''eu'' \<in> set [''eu'', [], ''us''], None)"
proof (rule seeded_allow_list [where rows = set])
  show "EnsureSeed demo_gorm (Some []) [''eu'', [], ''us''] =
      (None, snd (EnsureSeed demo_gorm (Some []) [''eu'', [], ''us'']))"
    by (simp add: EnsureSeed_def)
  show "gorm_ok demo_gorm set" by (auto simp: gorm_ok_def demo_gorm_def)
qed simp

end
