(* ===== verification/Config.thy ===== *)
theory Config
  imports Registry
begin

text \<open>
  Configuration and start-up: \<^verbatim>\<open>src/src/core/config/config.go\<close>, \<^verbatim>\<open>src/src/main.go\<close> and the opening of the
  database in \<^verbatim>\<open>src/src/orchestrator/db/db.go\<close>. The YAML decoder, the file system and the database
  driver are arguments. A Go map is here the list of its
  entries in the order a \<^verbatim>\<open>range\<close> visits them, with distinct keys; a set is the list of its members.
  The process is what \<^verbatim>\<open>main\<close> starts: the goroutines with their arguments.
\<close>

section \<open>The configuration file\<close>

record SlaveYamlObject =
  sl_Master :: string
  sl_PrivKeyPath :: string
  sl_PubKeyPath :: string

record MasterYamlObject =
  ma_Orchestrator :: string
  ma_Cluster :: string
  ma_Name :: string
  ma_Advertise :: string
  ma_PrivKeyPath :: string
  ma_PubKeyPath :: string
  ma_AllowedNodes :: "string list"

type_synonym whitelist = "(string \<times> string list) list"

record OrchestratorYamlObject =
  or_WebListen :: string
  or_TCPListen :: string
  or_DBPath :: string
  or_MasterWhitelist :: whitelist
  or_StateTTLSeconds :: int

record Config =
  cf_NodeType :: string
  cf_Slave :: SlaveYamlObject
  cf_Master :: MasterYamlObject
  cf_Orchestrator :: OrchestratorYamlObject

definition NodeType_Master :: string where
  "NodeType_Master = ''master''"

definition NodeType_Orchestrator :: string where
  "NodeType_Orchestrator = ''orchestrator''"

definition NodeType_Slave :: string where
  "NodeType_Slave = ''slave''"

definition LoadConfig :: "(string \<Rightarrow> 'f result) \<Rightarrow> ('f \<Rightarrow> Config result) \<Rightarrow> string \<Rightarrow> Config result" where
  "LoadConfig readFile unmarshal path = bind_result (readFile path) unmarshal"

section \<open>Sets from the configuration\<close>

definition sliceToSet :: "string list \<Rightarrow> string list" where
  "sliceToSet xs = remdups (filter (\<lambda>v. v \<noteq> []) xs)"

definition whitelistClusters :: "whitelist \<Rightarrow> string list" where
  "whitelistClusters wl = filter (\<lambda>c. c \<noteq> []) (map fst wl)"

fun whitelist_loop :: "whitelist \<Rightarrow> whitelist" where
  "whitelist_loop [] = []"
| "whitelist_loop ((clusterID, entries) # wl) =
     (let ids = remdups (filter (\<lambda>i. i \<noteq> []) entries)
      in if clusterID = [] \<or> ids = [] then whitelist_loop wl else (clusterID, ids) # whitelist_loop wl)"

text \<open>The nil map and the empty one are told apart nowhere: the callers ask for the length only.\<close>

definition whitelistClusterMasters :: "whitelist \<Rightarrow> whitelist" where
  "whitelistClusterMasters wl = whitelist_loop wl"

section \<open>Start-up\<close>

datatype 'db goroutine =
    TCPServer string "'db Store" whitelist
  | WebServer string "'db Store"
  | MasterServer nat "string list"
  | OrchestratorClient Config
  | SlaveClient string Config

text \<open>\<open>Inl\<close> is an exit status.\<close>

definition wrap64 :: "int \<Rightarrow> int" where
  "wrap64 i = (i + 2 ^ 63) mod 2 ^ 64 - 2 ^ 63"

definition db_Open :: "(string \<Rightarrow> 'db result) \<Rightarrow> string \<Rightarrow> 'db result" where
  "db_Open gormOpen path = gormOpen (if path = [] then ''./centralis.db'' else path)"

definition main_run ::
  "'db gorm \<Rightarrow> (string \<Rightarrow> 'db result) \<Rightarrow> (string \<Rightarrow> 'f result) \<Rightarrow> ('f \<Rightarrow> Config result) \<Rightarrow> string
    \<Rightarrow> int + 'db goroutine list" where
  "main_run G openDB readFile unmarshal CONFIG_PATH =
     (let configPath = (if CONFIG_PATH = [] then ''/etc/centralisd.yaml'' else CONFIG_PATH)
      in case LoadConfig readFile unmarshal configPath of
           Inl e \<Rightarrow> Inl 1
         | Inr cfg \<Rightarrow>
             if cf_NodeType cfg = NodeType_Orchestrator then
               let oc = cf_Orchestrator cfg;
                   ttlSeconds = (if or_StateTTLSeconds oc \<le> 0 then 60 else or_StateTTLSeconds oc)
               in case db_Open openDB (or_DBPath oc) of
                    Inl e \<Rightarrow> Inl 1
                  | Inr d \<Rightarrow>
                      (case AutoMigrate G (NewAllowedClusters (Some d)) of
                         (Some e, a) \<Rightarrow> Inl 1
                       | (None, a) \<Rightarrow>
                           let (_, a) = EnsureSeed G a (whitelistClusters (or_MasterWhitelist oc));
                               store = NewStore (wrap64 (ttlSeconds * second)) (Some a)
                           in Inr [TCPServer (or_TCPListen oc) store (whitelistClusterMasters (or_MasterWhitelist oc)),
                                   WebServer (or_WebListen oc) store])
             else if cf_NodeType cfg = NodeType_Master then
               Inr [MasterServer 49149 (sliceToSet (ma_AllowedNodes (cf_Master cfg))), OrchestratorClient cfg]
             else if cf_NodeType cfg = NodeType_Slave then
               Inr [SlaveClient (sl_Master (cf_Slave cfg)) cfg]
             else Inr [])"

section \<open>What the whitelist means\<close>

lemma whitelist_loop_lookup:
  "distinct (map fst wl) \<Longrightarrow> map_of (whitelist_loop wl) c =
     (case map_of wl c of
        Some entries \<Rightarrow> if c \<noteq> [] \<and> (\<exists>i \<in> set entries. i \<noteq> []) then Some (remdups (filter (\<lambda>i. i \<noteq> []) entries)) else None
      | None \<Rightarrow> None)"
proof (induction wl)
  case (Cons p wl)
  obtain d entries where p: "p = (d, entries)" by fastforce
  have "map_of wl d = None" using Cons.prems by (simp add: p map_of_eq_None_iff)
  moreover have "filter (\<lambda>i. i \<noteq> []) entries = [] \<longleftrightarrow> \<not> (\<exists>i \<in> set entries. i \<noteq> [])"
    by (simp add: filter_empty_conv)
  ultimately show ?case using Cons by (auto simp: p Let_def)
qed simp

lemma whitelist_loop_Nil:
  "whitelist_loop wl = [] \<longleftrightarrow> (\<forall>(c, entries) \<in> set wl. c = [] \<or> (\<forall>i \<in> set entries. i = []))"
  by (induction wl rule: whitelist_loop.induct) (auto simp: Let_def filter_empty_conv)

section \<open>What a start leaves in the allow list\<close>

lemma main_run_store:
  assumes "main_run G openDB readFile unmarshal path = Inr gs" "TCPServer listen store wl \<in> set gs"
    and "LoadConfig readFile unmarshal (if path = [] then ''/etc/centralisd.yaml'' else path) = Inr cfg"
  shows "\<exists>d. db_Open openDB (or_DBPath (cf_Orchestrator cfg)) = Inr d \<and> s_allowed store
    = Some (Some (seed_loop G (snd (g_migrate G d)) (whitelistClusters (or_MasterWhitelist (cf_Orchestrator cfg)))))"
proof -
  have "AutoMigrate G (NewAllowedClusters (Some d)) = (fst (g_migrate G d), Some (snd (g_migrate G d)))" for d
    by (cases "g_migrate G d") (simp add: AutoMigrate_def NewAllowedClusters_def)
  then show ?thesis
    using assms by (auto simp: main_run_def Let_def EnsureSeed_def NewStore_def split: sum.splits if_splits option.splits)
qed

text \<open>
  Claim C17. The allow list after a start: it is what the database held before, together with the non-empty clusters of
  the configuration, so a cluster that an earlier configuration named is still allowed after it was taken
  out; with neither, every cluster is allowed. The database layer behaves as documented and a migration
  keeps the rows.
\<close>

theorem allow_list_after_start:
  assumes "main_run G openDB readFile unmarshal path = Inr gs" "TCPServer listen store wl \<in> set gs"
    and "LoadConfig readFile unmarshal (if path = [] then ''/etc/centralisd.yaml'' else path) = Inr cfg"
    and "gorm_ok G rows" "\<And>d. rows (snd (g_migrate G d)) = rows d"
  shows "\<exists>d a. db_Open openDB (or_DBPath (cf_Orchestrator cfg)) = Inr d \<and> s_allowed store = Some a
    \<and> (let named = rows d \<union> {c \<in> fst ` set (or_MasterWhitelist (cf_Orchestrator cfg)). c \<noteq> []}
       in IsAllowed G a c = (named = {} \<or> c \<noteq> [] \<and> c \<in> named, None))"
proof -
  let ?wl = "or_MasterWhitelist (cf_Orchestrator cfg)"
  obtain d where d: "db_Open openDB (or_DBPath (cf_Orchestrator cfg)) = Inr d"
    "s_allowed store = Some (Some (seed_loop G (snd (g_migrate G d)) (whitelistClusters ?wl)))"
    using main_run_store [OF assms(1-3)] by blast
  have "rows (seed_loop G (snd (g_migrate G d)) (whitelistClusters ?wl)) = rows d \<union> {c \<in> fst ` set ?wl. c \<noteq> []}"
    by (auto simp: seed_loop_rows [OF assms(4)] assms(5) whitelistClusters_def)
  then show ?thesis using d by (simp add: IsAllowed_rows [OF assms(4)] Let_def)
qed

definition demo_orch_config :: Config where
  "demo_orch_config = \<lparr>cf_NodeType = NodeType_Orchestrator, cf_Slave = \<lparr>sl_Master = [], sl_PrivKeyPath = [], sl_PubKeyPath = []\<rparr>,
     cf_Master = \<lparr>ma_Orchestrator = [], ma_Cluster = [], ma_Name = [], ma_Advertise = [], ma_PrivKeyPath = [], ma_PubKeyPath = [],
       ma_AllowedNodes = []\<rparr>,
     cf_Orchestrator = \<lparr>or_WebListen = [], or_TCPListen = [], or_DBPath = [], or_MasterWhitelist = [(''eu'', [''m''])], or_StateTTLSeconds = 0\<rparr>\<rparr>"

text \<open>A database that holds a cluster the configuration does not name.\<close>

theorem allow_list_after_start_witness:
  "\<exists>listen store wl a. TCPServer listen store wl \<in> set (projr (main_run demo_gorm (\<lambda>p. Inr [''old'']) Inr (\<lambda>f. Inr demo_orch_config) []))
    \<and> s_allowed store = Some a \<and> IsAllowed demo_gorm a ''old'' = (True, None)"
proof -
  obtain gs where run: "main_run demo_gorm (\<lambda>p. Inr [''old'']) Inr (\<lambda>f. Inr demo_orch_config) [] = Inr gs"
    and "\<exists>listen store wl. TCPServer listen store wl \<in> set gs"
    by (simp add: main_run_def LoadConfig_def demo_orch_config_def demo_gorm_def AutoMigrate_def NewAllowedClusters_def EnsureSeed_def
        db_Open_def Let_def)
  then obtain listen store wl where wl: "TCPServer listen store wl \<in> set gs" by blast
  have "gorm_ok demo_gorm set" by (auto simp: gorm_ok_def demo_gorm_def)
  then have "\<exists>d a. db_Open (\<lambda>p. Inr [''old'']) (or_DBPath (cf_Orchestrator demo_orch_config)) = Inr d \<and> s_allowed store = Some a
      \<and> (let named = set d \<union> {c \<in> fst ` set (or_MasterWhitelist (cf_Orchestrator demo_orch_config)). c \<noteq> []}
         in IsAllowed demo_gorm a ''old'' = (named = {} \<or> ''old'' \<noteq> [] \<and> ''old'' \<in> named, None))"
    by (intro allow_list_after_start [OF run wl]) (simp_all add: LoadConfig_def demo_gorm_def)
  then show ?thesis using run wl by (fastforce simp: db_Open_def)
qed

end
