(* ===== verification/Pending.thy ===== *)
theory Pending
  imports Protocol
begin

text \<open>
  Requests that wait for their reply over a shared connection: \<^verbatim>\<open>sendRequest\<close> and
  \<^verbatim>\<open>resolveReply\<close> of \<^verbatim>\<open>masterConn\<close> (\<^verbatim>\<open>src/src/orchestrator/tcp/server.go\<close>) and of
  \<^verbatim>\<open>nodeConn\<close> (\<^verbatim>\<open>src/src/master/nodes.go\<close>). A call of \<^verbatim>\<open>sendRequest\<close> is split where it blocks:
  up to its \<^verbatim>\<open>select\<close>, and the two arms of that; in between the other goroutines run. The state of a
  connection is its map \<^verbatim>\<open>pend\<close> and its writer; with it go the channels made by the calls in
  progress, numbered in order of creation, with the reply each buffers (their capacity is one) and
  the identifier its owner waits for. The contract of the two variants is the locale
  \<open>request_table\<close>.
\<close>

section \<open>State\<close>

record pconn =
  pc_writer :: "writer option"
  pc_pend :: "string \<rightharpoonup> nat"
  pc_chan :: "nat \<rightharpoonup> Packet"
  pc_owner :: "nat \<rightharpoonup> string"
  pc_made :: nat

definition new_pconn :: "writer option \<Rightarrow> pconn" where
  "new_pconn w = \<lparr>pc_writer = w, pc_pend = Map.empty, pc_chan = Map.empty, pc_owner = Map.empty, pc_made = 0\<rparr>"

definition with_id :: "Packet \<Rightarrow> string \<Rightarrow> Packet" where
  "with_id p newID = (if pk_ID p = [] then p\<lparr>pk_ID := newID\<rparr> else p)"

text \<open>The entry of a request: a fresh channel under the packet's identifier.\<close>

definition enter :: "pconn \<Rightarrow> string \<Rightarrow> pconn" where
  "enter c ident = c\<lparr>pc_pend := (pc_pend c)(ident \<mapsto> pc_made c),
     pc_owner := (pc_owner c)(pc_made c \<mapsto> ident), pc_made := Suc (pc_made c)\<rparr>"

section \<open>Operations\<close>

text \<open>The orchestrator's variant; \<open>newID\<close> is what \<^verbatim>\<open>NewID\<close> returns if it is called. On a write error
  it returns with its entry still in the map.\<close>

definition orch_sendRequest_begin :: "pconn \<Rightarrow> Packet \<Rightarrow> string \<Rightarrow> nat result \<times> pconn" where
  "orch_sendRequest_begin c p newID =
     (let p = with_id p newID; ch = pc_made c; c = enter c (pk_ID p)
      in case WritePacket (pc_writer c) p of
           (Some e, w) \<Rightarrow> (Inl e, c\<lparr>pc_writer := w\<rparr>)
         | (None, w) \<Rightarrow> (Inr ch, c\<lparr>pc_writer := w\<rparr>))"

text \<open>The master's variant takes the entry back on a write error.\<close>

definition node_sendRequest_begin :: "pconn \<Rightarrow> Packet \<Rightarrow> string \<Rightarrow> nat result \<times> pconn" where
  "node_sendRequest_begin c p newID =
     (let p = with_id p newID; ch = pc_made c; c = enter c (pk_ID p)
      in case WritePacket (pc_writer c) p of
           (Some e, w) \<Rightarrow> (Inl e, c\<lparr>pc_writer := w, pc_pend := (pc_pend c)(pk_ID p := None)\<rparr>)
         | (None, w) \<Rightarrow> (Inr ch, c\<lparr>pc_writer := w\<rparr>))"

text \<open>The arms of the \<^verbatim>\<open>select\<close>: a reply is taken from the channel, or the time is up and the entry
  of the identifier, whoever's it is by then, is deleted.\<close>

definition sendRequest_receive :: "pconn \<Rightarrow> nat \<Rightarrow> Packet option \<times> pconn" where
  "sendRequest_receive c ch = (pc_chan c ch, c\<lparr>pc_chan := (pc_chan c)(ch := None)\<rparr>)"

definition sendRequest_timeout :: "pconn \<Rightarrow> string \<Rightarrow> goerror \<times> pconn" where
  "sendRequest_timeout c ident =
     (''timeout waiting for reply'', c\<lparr>pc_pend := (pc_pend c)(ident := None)\<rparr>)"

definition resolveReply :: "pconn \<Rightarrow> Packet \<Rightarrow> bool \<times> pconn" where
  "resolveReply c p =
     (if pk_ReplyTo p = [] then (False, c)
      else case pc_pend c (pk_ReplyTo p) of
             None \<Rightarrow> (False, c)
           | Some ch \<Rightarrow> (True, c\<lparr>pc_pend := (pc_pend c)(pk_ReplyTo p := None), pc_chan := (pc_chan c)(ch \<mapsto> p)\<rparr>))"

section \<open>The contract\<close>

text \<open>Every entry leads to a channel that its owner still waits on and that is empty, so a send to it
  cannot block; what a channel buffers answers the identifier of its owner.\<close>

definition pconn_inv :: "pconn \<Rightarrow> bool" where
  "pconn_inv c \<longleftrightarrow>
     (\<forall>i ch. pc_pend c i = Some ch \<longrightarrow> pc_owner c ch = Some i \<and> pc_chan c ch = None) \<and>
     (\<forall>ch p. pc_chan c ch = Some p \<longrightarrow> pc_owner c ch = Some (pk_ReplyTo p)) \<and>
     (\<forall>ch. pc_made c \<le> ch \<longrightarrow> pc_owner c ch = None)"

lemma pconn_invD:
  "pconn_inv c \<Longrightarrow> pc_pend c i = Some ch \<Longrightarrow> pc_owner c ch = Some i"
  "pconn_inv c \<Longrightarrow> pc_pend c i = Some ch \<Longrightarrow> pc_chan c ch = None"
  "pconn_inv c \<Longrightarrow> pc_chan c ch = Some p \<Longrightarrow> pc_owner c ch = Some (pk_ReplyTo p)"
  "pconn_inv c \<Longrightarrow> pc_made c \<le> ch \<Longrightarrow> pc_owner c ch = None"
  by (auto simp: pconn_inv_def)

text \<open>One step of any goroutine on the connection.\<close>

datatype table_op = Request Packet string | Receive nat | Timeout string | Reply Packet

fun table_step :: "(pconn \<Rightarrow> Packet \<Rightarrow> string \<Rightarrow> nat result \<times> pconn) \<Rightarrow> pconn \<Rightarrow> table_op \<Rightarrow> pconn" where
  "table_step begin_request c (Request p newID) = snd (begin_request c p newID)"
| "table_step begin_request c (Receive ch) = snd (sendRequest_receive c ch)"
| "table_step begin_request c (Timeout i) = snd (sendRequest_timeout c i)"
| "table_step begin_request c (Reply p) = snd (resolveReply c p)"

locale request_table =
  fixes begin_request :: "pconn \<Rightarrow> Packet \<Rightarrow> string \<Rightarrow> nat result \<times> pconn"
  assumes begin_enters:
    "\<exists>w. snd (begin_request c p newID) = (enter c (pk_ID (with_id p newID)))\<lparr>pc_writer := w\<rparr>
       \<or> fst (begin_request c p newID) \<noteq> Inr (pc_made c) \<and>
         snd (begin_request c p newID) = (enter c (pk_ID (with_id p newID)))
           \<lparr>pc_writer := w, pc_pend := (pc_pend c)(pk_ID (with_id p newID) := None)\<rparr>"
    and begin_channel: "fst (begin_request c p newID) = Inr ch \<Longrightarrow> ch = pc_made c"
    and begin_works: "pc_writer c = Some w \<Longrightarrow> w_err w = None \<Longrightarrow> wf_packet (with_id p newID) \<Longrightarrow>
      begin_request c p newID = (Inr (pc_made c), (enter c (pk_ID (with_id p newID)))
        \<lparr>pc_writer := Some (w\<lparr>w_out := w_out w @ packet_line (with_id p newID)\<rparr>)\<rparr>)"
begin

lemma enter_inv:
  assumes "pconn_inv c"
  shows "pconn_inv (enter c i)"
proof -
  have "pc_chan c (pc_made c) = None"
    using assms unfolding pconn_inv_def by (metis le_refl not_None_eq option.distinct(1))
  with assms show ?thesis unfolding pconn_inv_def enter_def by (auto simp: le_Suc_eq)
qed

lemma drop_inv: "pconn_inv c \<Longrightarrow> pconn_inv (c\<lparr>pc_pend := (pc_pend c)(i := None)\<rparr>)"
  by (auto simp: pconn_inv_def)

lemma begin_inv: "pconn_inv c \<Longrightarrow> pconn_inv (snd (begin_request c p newID))"
proof -
  assume inv: "pconn_inv c"
  let ?i = "pk_ID (with_id p newID)"
  have e: "pconn_inv (enter c ?i)" using enter_inv [OF inv] .
  then have "pconn_inv ((enter c ?i)\<lparr>pc_writer := w\<rparr>)" for w by (simp add: pconn_inv_def)
  moreover have "pconn_inv ((enter c ?i)\<lparr>pc_writer := w, pc_pend := (pc_pend c)(?i := None)\<rparr>)" for w
    using drop_inv [OF e, of ?i] by (simp add: pconn_inv_def enter_def)
  ultimately show ?thesis using begin_enters [of c p newID] by metis
qed

lemma receive_inv: "pconn_inv c \<Longrightarrow> pconn_inv (snd (sendRequest_receive c ch))"
  by (auto simp: pconn_inv_def sendRequest_receive_def)

lemma timeout_inv: "pconn_inv c \<Longrightarrow> pconn_inv (snd (sendRequest_timeout c i))"
  by (simp add: sendRequest_timeout_def drop_inv)

lemma resolve_inv:
  assumes "pconn_inv c"
  shows "pconn_inv (snd (resolveReply c p))"
proof (cases "pk_ReplyTo p = [] \<or> pc_pend c (pk_ReplyTo p) = None")
  case True
  then show ?thesis using assms by (auto simp: resolveReply_def)
next
  case False
  then obtain ch where ch: "pc_pend c (pk_ReplyTo p) = Some ch" by auto
  have owner: "pc_owner c ch = Some (pk_ReplyTo p)" by (rule pconn_invD(1) [OF assms ch])
  have uniq: "i = pk_ReplyTo p" if "pc_pend c i = Some ch" for i
    using pconn_invD(1) [OF assms that] owner by simp
  let ?c = "c\<lparr>pc_pend := (pc_pend c)(pk_ReplyTo p := None), pc_chan := (pc_chan c)(ch \<mapsto> p)\<rparr>"
  have "pconn_inv ?c"
    unfolding pconn_inv_def using pconn_invD [OF assms] owner uniq by auto
  then show ?thesis using False ch by (simp add: resolveReply_def)
qed

lemma step_inv: "pconn_inv c \<Longrightarrow> pconn_inv (table_step begin_request c op)"
  by (cases op) (simp_all add: begin_inv receive_inv timeout_inv resolve_inv)

lemma run_inv: "pconn_inv c \<Longrightarrow> pconn_inv (foldl (table_step begin_request) c ops)"
  by (induction ops arbitrary: c) (simp_all add: step_inv)

text \<open>A request on a working connection, and the reply that its peer sends to it.\<close>

lemma request_reply:
  assumes "pc_writer c = Some w" "w_err w = None" "wf_packet (with_id p newID)"
    and "pk_ReplyTo q = pk_ID (with_id p newID)" "pk_ReplyTo q \<noteq> []"
  shows "\<exists>c' c''. begin_request c p newID = (Inr (pc_made c), c')
    \<and> pc_writer c' = Some (w\<lparr>w_out := w_out w @ packet_line (with_id p newID)\<rparr>)
    \<and> resolveReply c' q = (True, c'') \<and> pc_writer c'' = pc_writer c'
    \<and> fst (sendRequest_receive c'' (pc_made c)) = Some q"
  using assms by (simp add: begin_works resolveReply_def sendRequest_receive_def enter_def)

lemma accepted_reply:
  assumes "pconn_inv c" "fst (resolveReply c p)"
  shows "\<exists>ch. pc_pend c (pk_ReplyTo p) = Some ch \<and> pc_owner c ch = Some (pk_ReplyTo p) \<and> pc_chan c ch = None
    \<and> fst (sendRequest_receive (snd (resolveReply c p)) ch) = Some p
    \<and> \<not> fst (resolveReply (snd (resolveReply c p)) p)"
  using assms(2) pconn_invD [OF assms(1)]
  by (auto simp: resolveReply_def sendRequest_receive_def split: if_splits option.splits)

end

lemma new_pconn_inv [simp]: "pconn_inv (new_pconn w)"
  by (simp add: pconn_inv_def new_pconn_def)

interpretation orch_table: request_table orch_sendRequest_begin
  by unfold_locales
    (auto simp: orch_sendRequest_begin_def Let_def WritePacket_ok enter_def split: prod.splits option.splits)

interpretation node_table: request_table node_sendRequest_begin
  by unfold_locales
    (auto simp: node_sendRequest_begin_def Let_def WritePacket_ok enter_def split: prod.splits option.splits)


section \<open>Replies reach their requests\<close>


definition demo_request :: Packet where
  "demo_request = zero_Packet\<lparr>pk_Type := ''node.command'', pk_ID := ''x''\<rparr>"


end
