(* ===== verification/Orch_Tcp.thy ===== *)
theory Orch_Tcp
  imports Config Pending
begin

text \<open>
  The orchestrator's TCP server, \<^verbatim>\<open>src/src/orchestrator/tcp/server.go\<close>: the handshake of
  \<^verbatim>\<open>handleConn\<close>, its loop over the packets of an authenticated master, the table of connected
  masters and the commands sent through it. Each accepted connection has a number; the state holds,
  per number, the \<^verbatim>\<open>masterConn\<close> and the authenticated hello that the goroutine of the connection
  keeps in its local variables. The goroutines interleave by the relation \<open>orch_step\<close>; log lines and
  deadlines are left out. The unused type \<^verbatim>\<open>envelope\<close> is not modelled.
\<close>

section \<open>The handshake\<close>

definition mustJSON :: "Packet \<Rightarrow> string" where
  "mustJSON p = print_json (enc_Packet p)"

definition writeLine :: "writer option \<Rightarrow> string \<Rightarrow> writer option" where
  "writeLine w line = snd (WriteLine w line)"

definition reject :: "writer option \<Rightarrow> string \<Rightarrow> writer option" where
  "reject w message = writeLine w (mustJSON (NewError message))"

definition packet_of :: "Packet result \<Rightarrow> Packet" where
  "packet_of r = (case r of Inr p \<Rightarrow> p | Inl e \<Rightarrow> zero_Packet)"

text \<open>The checks of the whitelist: the message of the rejection, if there is one.\<close>

definition whitelist_check :: "whitelist \<Rightarrow> AuthHello \<Rightarrow> string option" where
  "whitelist_check wl ah =
     (if wl = [] then None
      else case map_of wl (ah_Cluster ah) of
             None \<Rightarrow> Some ''cluster not allowed''
           | Some ids \<Rightarrow> if ah_ID ah \<in> set ids then None else Some ''master not allowed'')"

definition masterInfo_of :: "AuthHello \<Rightarrow> RMasterInfo" where
  "masterInfo_of ah = \<lparr>rm_info = zero_MasterInfo\<lparr>mi_ID := ah_ID ah, mi_Name := ah_Name ah, mi_Cluster := ah_Cluster ah,
     mi_Advertise := ah_Advertise ah, mi_PubKey := ah_PubKey ah\<rparr>, rm_LastSeen = 0\<rparr>"

text \<open>The second half, from the proof on, with the hello received.\<close>

definition proof_stage ::
  "crypto \<Rightarrow> whitelist \<Rightarrow> string \<Rightarrow> AuthHello \<Rightarrow> reader option \<Rightarrow> writer option
    \<Rightarrow> AuthHello option \<times> reader option \<times> writer option" where
  "proof_stage C wl challenge ah rd w =
     (case ReadPacket rd of
        (Inl e, rd) \<Rightarrow> (None, rd, w)
      | (Inr pp, rd) \<Rightarrow>
          if pk_Type pp \<noteq> PacketAuthProof then (None, rd, reject w ''auth proof wrong type'')
          else (case DecodePayload dec_AuthProof pp of
                  Inl e \<Rightarrow> (None, rd, reject w ''auth proof invalid'')
                | Inr pf \<Rightarrow>
                    if \<not> VerifyMasterAuth C challenge (masterInfo_of ah) (ap_Signature pf)
                    then (None, rd, reject w ''auth verify failed'')
                    else (case whitelist_check wl ah of
                            Some m \<Rightarrow> (None, rd, reject w m)
                          | None \<Rightarrow> (Some ah, rd, writeLine w (mustJSON (packet_of (NewPacket PacketAuthOK None)))))))"

definition handshake ::
  "crypto \<Rightarrow> whitelist \<Rightarrow> bytes \<Rightarrow> reader option \<Rightarrow> writer option
    \<Rightarrow> AuthHello option \<times> reader option \<times> writer option" where
  "handshake C wl rnd rd w =
     (case ReadHello rd HeaderOrchestrator of
        (Some e, rd) \<Rightarrow> (None, rd, reject w ''invalid hello'')
      | (None, rd) \<Rightarrow>
          let challenge = GenerateChallenge rnd
          in case NewPacket PacketAuthChallenge (Some (enc_AuthChallenge \<lparr>ac_Challenge = challenge\<rparr>)) of
               Inl e \<Rightarrow> (None, rd, reject w ''challenge error'')
             | Inr cp \<Rightarrow>
                 let w = writeLine w (mustJSON cp)
                 in case ReadPacket rd of
                      (Inl e, rd) \<Rightarrow> (None, rd, w)
                    | (Inr ap, rd) \<Rightarrow>
                        if pk_Type ap \<noteq> PacketAuthHello then (None, rd, reject w ''auth wrong type'')
                        else (case DecodePayload dec_AuthHello ap of
                                Inl e \<Rightarrow> (None, rd, reject w ''auth payload invalid'')
                              | Inr ah \<Rightarrow>
                                  if ah_Role ah \<noteq> ''master'' then (None, rd, reject w ''auth wrong role'')
                                  else proof_stage C wl challenge ah rd w))"

section \<open>The table of masters\<close>

record 'db orch =
  os_store :: "'db Store"
  os_conns :: "string \<rightharpoonup> nat"
  os_mc :: "nat \<Rightarrow> pconn"
  os_auth :: "nat \<rightharpoonup> AuthHello"
  os_next :: nat

definition registerMasterConn :: "'db orch \<Rightarrow> string \<Rightarrow> writer option \<Rightarrow> 'db orch" where
  "registerMasterConn st ident w =
     (if ident = [] \<or> w = None then st
      else st\<lparr>os_conns := (os_conns st)(ident \<mapsto> os_next st), os_mc := (os_mc st)(os_next st := new_pconn w)\<rparr>)"

definition unregisterMasterConn :: "'db orch \<Rightarrow> string \<Rightarrow> 'db orch" where
  "unregisterMasterConn st ident =
     (if ident = [] then st else st\<lparr>os_conns := (os_conns st)(ident := None)\<rparr>)"

text \<open>\<^verbatim>\<open>handleConn\<close> once the handshake has succeeded, and when it returns.\<close>

definition conn_open :: "'db orch \<Rightarrow> AuthHello \<Rightarrow> writer option \<Rightarrow> 'db orch" where
  "conn_open st ah w =
     (let st' = registerMasterConn st (ah_ID ah) w
      in st'\<lparr>os_auth := (os_auth st)(os_next st \<mapsto> ah), os_next := Suc (os_next st)\<rparr>)"

definition conn_close :: "'db orch \<Rightarrow> nat \<Rightarrow> AuthHello \<Rightarrow> 'db orch" where
  "conn_close st h ah = (unregisterMasterConn st (ah_ID ah))\<lparr>os_auth := (os_auth st)(h := None)\<rparr>"

definition respond :: "'db orch \<Rightarrow> nat \<Rightarrow> Packet \<Rightarrow> 'db orch" where
  "respond st h p =
     st\<lparr>os_mc := (os_mc st)(h := (os_mc st h)\<lparr>pc_writer := writeLine (pc_writer (os_mc st h)) (mustJSON p)\<rparr>)\<rparr>"

text \<open>One turn of the packet loop.\<close>

definition serve_packet :: "'db gorm \<Rightarrow> int \<Rightarrow> 'db orch \<Rightarrow> nat \<Rightarrow> AuthHello \<Rightarrow> Packet \<Rightarrow> 'db orch" where
  "serve_packet G now st h ah p =
     (let (resolved, mc) = resolveReply (os_mc st h) p
      in if resolved then st\<lparr>os_mc := (os_mc st)(h := mc)\<rparr>
         else if pk_Type p = PacketMasterRegister \<or> pk_Type p = PacketMasterHeartbeat
         then (case DecodePayload dec_MasterInfo p of
                 Inl e \<Rightarrow> respond st h (NewError ''payload invalid'')
               | Inr mi \<Rightarrow>
                   if mi_ID mi = [] then respond st h (NewError ''master id missing'')
                   else if mi_ID mi \<noteq> ah_ID ah then respond st h (NewError ''master id changed'')
                   else if mi_Cluster mi \<noteq> ah_Cluster ah then respond st h (NewError ''cluster changed'')
                   else let (ok, store) = UpsertMaster G now (os_store st) \<lparr>rm_info = mi, rm_LastSeen = 0\<rparr>
                        in if ok then respond (st\<lparr>os_store := store\<rparr>) h (packet_of (NewPacket PacketAuthOK None))
                           else respond st h (NewError ''update rejected''))
         else respond st h (NewError ''unknown message type''))"

section \<open>Commands\<close>

text \<open>\<^verbatim>\<open>sendCommandWait\<close> up to the point where it waits: the connection and the channel it waits on, with
  the identifier of its request.\<close>

record waiting =
  wt_conn :: nat
  wt_chan :: nat
  wt_ident :: string

definition sendCommandWait_begin ::
  "'db orch \<Rightarrow> string \<Rightarrow> OrchestratorCommand \<Rightarrow> string \<Rightarrow> waiting result \<times> 'db orch" where
  "sendCommandWait_begin st masterID cmd newID =
     (if masterID = [] then (Inl ''master id is empty'', st)
      else case os_conns st masterID of
             None \<Rightarrow> (Inl ''master not connected'', st)
           | Some h \<Rightarrow>
               (case NewPacket PacketOrchCommand (Some (enc_OrchestratorCommand cmd)) of
                  Inl e \<Rightarrow> (Inl e, st)
                | Inr p \<Rightarrow>
                    let p = with_id p newID; (r, mc) = orch_sendRequest_begin (os_mc st h) p newID;
                        st = st\<lparr>os_mc := (os_mc st)(h := mc)\<rparr>
                    in case r of
                         Inl e \<Rightarrow> (Inl e, st)
                       | Inr ch \<Rightarrow> (Inr \<lparr>wt_conn = h, wt_chan = ch, wt_ident = pk_ID p\<rparr>, st)))"

text \<open>What it makes of the packet it receives, or of the time being up.\<close>

definition command_reply :: "string \<Rightarrow> Packet \<Rightarrow> CommandReply result" where
  "command_reply ident resp =
     (if pk_Type resp \<noteq> PacketOrchCommandReply then Inl ''unexpected reply type''
      else if pk_ReplyTo resp \<noteq> ident then Inl ''reply id mismatch''
      else case DecodePayload dec_CommandReply resp of
             Inl e \<Rightarrow> Inl ''invalid reply payload''
           | Inr reply \<Rightarrow> Inr reply)"

definition sendCommandWait_receive :: "'db orch \<Rightarrow> waiting \<Rightarrow> CommandReply result option \<times> 'db orch" where
  "sendCommandWait_receive st wt =
     (let (r, mc) = sendRequest_receive (os_mc st (wt_conn wt)) (wt_chan wt)
      in (map_option (command_reply (wt_ident wt)) r, st\<lparr>os_mc := (os_mc st)(wt_conn wt := mc)\<rparr>))"

definition sendCommandWait_timeout :: "'db orch \<Rightarrow> waiting \<Rightarrow> CommandReply result \<times> 'db orch" where
  "sendCommandWait_timeout st wt =
     (let (e, mc) = sendRequest_timeout (os_mc st (wt_conn wt)) (wt_ident wt)
      in (Inl e, st\<lparr>os_mc := (os_mc st)(wt_conn wt := mc)\<rparr>))"

definition SendCommandWait_begin ::
  "'db orch \<Rightarrow> string \<Rightarrow> string \<Rightarrow> json \<Rightarrow> string \<Rightarrow> waiting result \<times> 'db orch" where
  "SendCommandWait_begin st masterID nodeID command newID =
     (if nodeID = [] then (Inl ''node id is empty'', st)
      else sendCommandWait_begin st masterID \<lparr>oc_NodeID = nodeID, oc_Command = Some command\<rparr> newID)"

definition SendMasterCommandWait_begin ::
  "'db orch \<Rightarrow> string \<Rightarrow> json \<Rightarrow> string \<Rightarrow> waiting result \<times> 'db orch" where
  "SendMasterCommandWait_begin st masterID command newID =
     sendCommandWait_begin st masterID \<lparr>oc_NodeID = [], oc_Command = Some command\<rparr> newID"

text \<open>Scopes: 0 is \<^verbatim>\<open>TargetAnyMaster\<close>, 1 \<^verbatim>\<open>TargetMasterByNode\<close>.\<close>

definition TargetAnyMaster :: int where
  "TargetAnyMaster = 0"

definition TargetMasterByNode :: int where
  "TargetMasterByNode = 1"

record TargetRequest =
  tr_ClusterID :: string
  tr_NodeID :: string
  tr_Scope :: int

fun target_loop :: "TargetRequest \<Rightarrow> RMasterInfo list \<Rightarrow> string result" where
  "target_loop req [] =
     Inl (if tr_Scope req = TargetMasterByNode then ''node not connected through any master''
          else ''no eligible master connected'')"
| "target_loop req (m # ms) =
     (if mi_ID (rm_info m) = [] then target_loop req ms
      else if tr_Scope req = TargetMasterByNode then
        (if tr_NodeID req = [] \<or> \<not> MasterHasNode m (tr_NodeID req) then target_loop req ms
         else Inr (mi_ID (rm_info m)))
      else if tr_Scope req = TargetAnyMaster then Inr (mi_ID (rm_info m))
      else Inl ''unknown target scope'')"

definition trim_request :: "TargetRequest \<Rightarrow> TargetRequest" where
  "trim_request req = req\<lparr>tr_ClusterID := trim_space (tr_ClusterID req), tr_NodeID := trim_space (tr_NodeID req)\<rparr>"

definition target_master :: "int \<Rightarrow> string list \<Rightarrow> 'db Store \<Rightarrow> TargetRequest \<Rightarrow> string result" where
  "target_master now ks store req =
     (let req = trim_request req
      in if tr_ClusterID req = [] then Inl ''cluster id is empty''
         else let masters = MastersForCluster now ks store (tr_ClusterID req)
              in if masters = [] then Inl ''master not connected'' else target_loop req masters)"

definition SendClusterCommandWait_begin ::
  "int \<Rightarrow> string list \<Rightarrow> 'db orch \<Rightarrow> TargetRequest \<Rightarrow> json \<Rightarrow> string \<Rightarrow> (string \<times> waiting) result \<times> 'db orch" where
  "SendClusterCommandWait_begin now ks st req command newID =
     (case target_master now ks (os_store st) req of
        Inl e \<Rightarrow> (Inl e, st)
      | Inr masterID \<Rightarrow>
          (case sendCommandWait_begin st masterID
                  \<lparr>oc_NodeID = tr_NodeID (trim_request req), oc_Command = Some command\<rparr> newID of
             (Inl e, st) \<Rightarrow> (Inl e, st)
           | (Inr wt, st) \<Rightarrow> (Inr (masterID, wt), st)))"

text \<open>\<^verbatim>\<open>SendCommand\<close>, which does not wait and sends a packet without an identifier.\<close>

definition SendCommand :: "'db orch \<Rightarrow> string \<Rightarrow> string \<Rightarrow> json \<Rightarrow> goerror option \<times> 'db orch" where
  "SendCommand st masterID nodeID command =
     (if masterID = [] then (Some ''master id is empty'', st)
      else if nodeID = [] then (Some ''node id is empty'', st)
      else case os_conns st masterID of
             None \<Rightarrow> (Some ''master not connected'', st)
           | Some h \<Rightarrow>
               (case NewPacket PacketOrchCommand (Some (enc_OrchestratorCommand \<lparr>oc_NodeID = nodeID, oc_Command = Some command\<rparr>)) of
                  Inl e \<Rightarrow> (Some e, st)
                | Inr p \<Rightarrow>
                    let mc = os_mc st h; (e, w) = WriteLine (pc_writer mc) (mustJSON p)
                    in (e, st\<lparr>os_mc := (os_mc st)(h := mc\<lparr>pc_writer := w\<rparr>)\<rparr>)))"

section \<open>The server\<close>

definition orch_start :: "'db Store \<Rightarrow> 'db orch" where
  "orch_start store = \<lparr>os_store = store, os_conns = Map.empty, os_mc = (\<lambda>h. new_pconn None), os_auth = Map.empty, os_next = 0\<rparr>"

inductive orch_step :: "crypto \<Rightarrow> 'db gorm \<Rightarrow> whitelist \<Rightarrow> 'db orch \<Rightarrow> 'db orch \<Rightarrow> bool" for C G wl where
  step_accept: "handshake C wl rnd rd w = (Some ah, rd', w') \<Longrightarrow> orch_step C G wl st (conn_open st ah w')"
| step_packet: "os_auth st h = Some ah \<Longrightarrow> orch_step C G wl st (serve_packet G now st h ah p)"
| step_close: "os_auth st h = Some ah \<Longrightarrow> orch_step C G wl st (conn_close st h ah)"
| step_command: "orch_step C G wl st (snd (sendCommandWait_begin st masterID cmd newID))"
| step_send: "orch_step C G wl st (snd (SendCommand st masterID nodeID command))"
| step_receive: "orch_step C G wl st (snd (sendCommandWait_receive st wt))"
| step_timeout: "orch_step C G wl st (snd (sendCommandWait_timeout st wt))"

section \<open>Who is let in\<close>

text \<open>A hello that the server accepts: its identifier is the hash of its public key, a signature of one
  of the server's challenges verifies under that key, and the whitelist, if there is one, names the
  pair of cluster and identifier.\<close>

definition admitted :: "crypto \<Rightarrow> whitelist \<Rightarrow> AuthHello \<Rightarrow> bool" where
  "admitted C wl ah \<longleftrightarrow>
     (\<exists>rnd sig pub. b64_decode (ah_PubKey ah) = Some pub \<and> length pub = PublicKeySize
        \<and> trim_space (ah_ID ah) = b64_encode (sha256 C pub) \<and> ah_ID ah \<noteq> []
        \<and> VerifyChallengeSignature C pub (GenerateChallenge rnd) sig)
     \<and> (wl = [] \<or> (\<exists>ids. map_of wl (ah_Cluster ah) = Some ids \<and> ah_ID ah \<in> set ids))"

lemma VerifyMasterAuth_sound:
  assumes "VerifyMasterAuth C challenge (masterInfo_of ah) sig"
  shows "\<exists>pub. b64_decode (ah_PubKey ah) = Some pub \<and> length pub = PublicKeySize
    \<and> trim_space (ah_ID ah) = b64_encode (sha256 C pub) \<and> ah_ID ah \<noteq> []
    \<and> VerifyChallengeSignature C pub challenge sig"
  using assms
  by (auto simp: VerifyMasterAuth_def masterInfo_of_def VerifyIDForPublicKey_def Let_def split: option.splits if_splits)

lemma whitelist_check_None:
  "whitelist_check wl ah = None \<longleftrightarrow>
     wl = [] \<or> (\<exists>ids. map_of wl (ah_Cluster ah) = Some ids \<and> ah_ID ah \<in> set ids)"
  by (auto simp: whitelist_check_def split: option.splits if_splits)

lemma proof_stage_admits:
  assumes "proof_stage C wl (GenerateChallenge rnd) ah0 rd w = (Some ah, rd', w')"
  shows "ah = ah0 \<and> admitted C wl ah"
proof -
  obtain sig where "ah = ah0" and ver: "VerifyMasterAuth C (GenerateChallenge rnd) (masterInfo_of ah) sig"
    and wl: "whitelist_check wl ah = None"
    using assms by (auto simp: proof_stage_def split: prod.splits sum.splits if_splits option.splits)
  with VerifyMasterAuth_sound [OF ver] show ?thesis
    unfolding admitted_def whitelist_check_None by blast
qed

lemma handshake_admits:
  "handshake C wl rnd rd w = (Some ah, rd', w') \<Longrightarrow> admitted C wl ah"
  by (auto simp: handshake_def Let_def dest!: proof_stage_admits split: prod.splits sum.splits if_splits option.splits)

section \<open>Invariant\<close>

definition orch_inv :: "crypto \<Rightarrow> whitelist \<Rightarrow> 'db orch \<Rightarrow> bool" where
  "orch_inv C wl st \<longleftrightarrow>
     (\<forall>h ah. os_auth st h = Some ah \<longrightarrow> admitted C wl ah \<and> h < os_next st) \<and>
     (\<forall>i h. os_conns st i = Some h \<longrightarrow> (\<exists>ah. os_auth st h = Some ah \<and> ah_ID ah = i)) \<and>
     (\<forall>i mi. s_masters (os_store st) i = Some mi \<longrightarrow>
        (\<exists>ah. admitted C wl ah \<and> ah_ID ah = i \<and> ah_Cluster ah = mi_Cluster (rm_info mi))) \<and>
     (\<forall>h. pconn_inv (os_mc st h))"

lemma orch_invI:
  assumes "\<And>h ah. os_auth st h = Some ah \<Longrightarrow> admitted C wl ah \<and> h < os_next st"
    and "\<And>i h. os_conns st i = Some h \<Longrightarrow> \<exists>ah. os_auth st h = Some ah \<and> ah_ID ah = i"
    and "\<And>i mi. s_masters (os_store st) i = Some mi \<Longrightarrow>
        \<exists>ah. admitted C wl ah \<and> ah_ID ah = i \<and> ah_Cluster ah = mi_Cluster (rm_info mi)"
    and "\<And>h. pconn_inv (os_mc st h)"
  shows "orch_inv C wl st"
  using assms by (auto simp: orch_inv_def)

lemma orch_invD:
  assumes "orch_inv C wl st"
  shows "\<And>h ah. os_auth st h = Some ah \<Longrightarrow> admitted C wl ah \<and> h < os_next st"
    and "\<And>i h. os_conns st i = Some h \<Longrightarrow> \<exists>ah. os_auth st h = Some ah \<and> ah_ID ah = i"
    and "\<And>i mi. s_masters (os_store st) i = Some mi \<Longrightarrow>
        \<exists>ah. admitted C wl ah \<and> ah_ID ah = i \<and> ah_Cluster ah = mi_Cluster (rm_info mi)"
    and "\<And>h. pconn_inv (os_mc st h)"
  using assms by (auto simp: orch_inv_def)

lemma pconn_inv_writer [simp]: "pconn_inv (c\<lparr>pc_writer := w\<rparr>) = pconn_inv c"
  by (simp add: pconn_inv_def)

text \<open>Steps that touch one \<^verbatim>\<open>masterConn\<close> only.\<close>

lemma update_mc_inv:
  "orch_inv C wl st \<Longrightarrow> pconn_inv mc \<Longrightarrow> orch_inv C wl (st\<lparr>os_mc := (os_mc st)(h := mc)\<rparr>)"
  by (auto simp: orch_inv_def)

lemma respond_inv: "orch_inv C wl st \<Longrightarrow> orch_inv C wl (respond st h p)"
  unfolding respond_def by (rule update_mc_inv) (auto simp: orch_inv_def)

lemma conn_open_inv:
  assumes "orch_inv C wl st" "admitted C wl ah"
  shows "orch_inv C wl (conn_open st ah w)"
proof -
  have fresh: "os_auth st (os_next st) = None"
    using orch_invD(1) [OF assms(1)] by (metis less_irrefl not_None_eq)
  then have "os_conns st i \<noteq> Some (os_next st)" for i
    using orch_invD(2) [OF assms(1)] by (metis option.distinct(1))
  then show ?thesis
    using assms by (auto simp: orch_inv_def conn_open_def registerMasterConn_def Let_def less_Suc_eq)
qed

lemma conn_close_inv:
  assumes "orch_inv C wl st" "os_auth st h = Some ah"
  shows "orch_inv C wl (conn_close st h ah)"
proof (rule orch_invI)
  have "ah_ID ah \<noteq> []" using orch_invD(1) [OF assms] by (auto simp: admitted_def)
  note defs = conn_close_def unregisterMasterConn_def this
  fix i k assume "os_conns (conn_close st h ah) i = Some k"
  then have k: "os_conns st i = Some k" "i \<noteq> ah_ID ah" by (auto simp: defs split: if_splits)
  then have "k \<noteq> h" using orch_invD(2) [OF assms(1)] assms(2) by force
  with k show "\<exists>ah'. os_auth (conn_close st h ah) k = Some ah' \<and> ah_ID ah' = i"
    using orch_invD(2) [OF assms(1)] by (auto simp: defs)
qed (use assms in \<open>auto simp: orch_inv_def conn_close_def unregisterMasterConn_def split: if_splits\<close>)

lemma serve_packet_inv:
  assumes "orch_inv C wl st" "os_auth st h = Some ah"
  shows "orch_inv C wl (serve_packet G now st h ah p)"
proof -
  have mc: "pconn_inv (snd (resolveReply (os_mc st h) p))"
    by (rule orch_table.resolve_inv) (rule orch_invD(4) [OF assms(1)])
  have up: "orch_inv C wl (st\<lparr>os_store := snd (UpsertMaster G now (os_store st) \<lparr>rm_info = mi, rm_LastSeen = 0\<rparr>)\<rparr>)"
    if "mi_ID mi = ah_ID ah" "mi_Cluster mi = ah_Cluster ah" for mi
    using assms that
    by (auto simp: orch_inv_def UpsertMaster_def Let_def split: option.split prod.split if_splits)
  show ?thesis
    unfolding serve_packet_def Let_def
    using update_mc_inv [OF assms(1) mc] respond_inv [OF assms(1)] respond_inv [OF up]
    by (simp add: case_prod_unfold split: sum.split)
qed

lemma command_inv: "orch_inv C wl st \<Longrightarrow> orch_inv C wl (snd (sendCommandWait_begin st i cmd newID))"
proof -
  assume inv: "orch_inv C wl st"
  have "pconn_inv (snd (orch_sendRequest_begin (os_mc st h) p newID))" for h p
    by (rule orch_table.begin_inv) (rule orch_invD(4) [OF inv])
  then have "orch_inv C wl (st\<lparr>os_mc := (os_mc st)(h := snd (orch_sendRequest_begin (os_mc st h) p newID))\<rparr>)" for h p
    by (rule update_mc_inv [OF inv])
  with inv show ?thesis
    by (simp add: sendCommandWait_begin_def Let_def case_prod_unfold split: option.split sum.split)
qed

lemma orch_step_inv: "orch_step C G wl st st' \<Longrightarrow> orch_inv C wl st \<Longrightarrow> orch_inv C wl st'"
proof (induction rule: orch_step.induct)
  case (step_accept rnd rd w ah rd' w' st)
  then show ?case using handshake_admits conn_open_inv by blast
next
  case (step_send st masterID nodeID command)
  then have "orch_inv C wl (st\<lparr>os_mc := (os_mc st)(h := (os_mc st h)\<lparr>pc_writer := w\<rparr>)\<rparr>)" for h w
    by (intro update_mc_inv) (simp_all add: orch_inv_def)
  with step_send show ?case
    by (simp add: SendCommand_def Let_def case_prod_unfold split: option.split sum.split)
next
  case (step_receive st wt)
  then show ?case
    by (auto simp: sendCommandWait_receive_def case_prod_unfold Let_def intro!: update_mc_inv orch_table.receive_inv orch_invD(4))
next
  case (step_timeout st wt)
  then show ?case
    by (auto simp: sendCommandWait_timeout_def case_prod_unfold Let_def intro!: update_mc_inv orch_table.timeout_inv orch_invD(4))
qed (auto intro: serve_packet_inv conn_close_inv command_inv)

lemma orch_start_inv: "orch_inv C wl (orch_start (NewStore ttl a))"
  by (simp add: orch_inv_def orch_start_def NewStore_def)

interpretation orch: step_system "\<lambda>st. \<exists>ttl a. st = orch_start (NewStore ttl a)" "orch_step C G wl" "orch_inv C wl" for C G wl
  by unfold_locales (auto intro: orch_start_inv orch_step_inv)

lemma orch_reachable_inv: "(orch_step C G wl)\<^sup>*\<^sup>* (orch_start (NewStore ttl a)) st \<Longrightarrow> orch_inv C wl st"
  by (rule orch.reachable) blast+

text \<open>
  Claim C6. Nothing gets into the registry unauthenticated: in every state the orchestrator can reach,
  whatever its peers send and however its goroutines interleave, each master of the registry was
  announced over a connection that proved possession of the key whose hash is the master's
  identifier, in the cluster it authenticated for and with the whitelist's consent; each connection
  in the table of masters is an open one that authenticated under that identifier; and replies are
  matched to requests on every connection.
\<close>

theorem registry_authentic:
  assumes "(orch_step C G wl)\<^sup>*\<^sup>* (orch_start (NewStore ttl a)) st"
  shows "(\<forall>i mi. s_masters (os_store st) i = Some mi \<longrightarrow>
        (\<exists>ah. admitted C wl ah \<and> ah_ID ah = i \<and> ah_Cluster ah = mi_Cluster (rm_info mi)))
    \<and> (\<forall>i h. os_conns st i = Some h \<longrightarrow> (\<exists>ah. os_auth st h = Some ah \<and> ah_ID ah = i \<and> admitted C wl ah))
    \<and> (\<forall>h. pconn_inv (os_mc st h))"
proof -
  note inv = orch_reachable_inv [OF assms]
  show ?thesis using orch_invD [OF inv] by blast
qed

section \<open>An honest master is let in\<close>

lemma packet_types_trim [simp]:
  "trim_space PacketAuthChallenge = PacketAuthChallenge" "trim_space PacketAuthHello = PacketAuthHello"
  "trim_space PacketAuthProof = PacketAuthProof" "trim_space PacketAuthOK = PacketAuthOK"
  "trim_space PacketError = PacketError" "trim_space PacketOrchCommand = PacketOrchCommand"
  "trim_space PacketOrchCommandReply = PacketOrchCommandReply"
  "trim_space PacketNodeCommand = PacketNodeCommand" "trim_space PacketNodeCommandReply = PacketNodeCommandReply"
  "trim_space PacketHeartbeat = PacketHeartbeat" "trim_space PacketHeartbeatReply = PacketHeartbeatReply"
  "trim_space PacketMasterRegister = PacketMasterRegister" "trim_space PacketMasterHeartbeat = PacketMasterHeartbeat"
  by (rule trim_space_plain; simp add: packet_type_defs plain_char_def)+

lemma packet_types_nonempty [simp]:
  "PacketAuthChallenge \<noteq> []" "PacketAuthHello \<noteq> []" "PacketAuthProof \<noteq> []" "PacketAuthOK \<noteq> []" "PacketError \<noteq> []"
  "PacketOrchCommand \<noteq> []" "PacketOrchCommandReply \<noteq> []" "PacketNodeCommand \<noteq> []" "PacketNodeCommandReply \<noteq> []"
  "PacketHeartbeat \<noteq> []" "PacketHeartbeatReply \<noteq> []" "PacketMasterRegister \<noteq> []" "PacketMasterHeartbeat \<noteq> []"
  by (simp_all add: packet_type_defs)

lemma writeLine_packet:
  assumes "w_err w = None"
  shows "writeLine (Some w) (mustJSON p) = Some (w\<lparr>w_out := w_out w @ packet_line p\<rparr>)"
proof -
  obtain kvs where kvs: "enc_Packet p = JObj kvs" using enc_Packet_obj by blast
  have "trim_space (mustJSON p) = mustJSON p" "mustJSON p \<noteq> []"
    by (simp_all add: mustJSON_def kvs trim_space_print_obj [simplified])
  then show ?thesis
    using assms by (simp add: writeLine_def WriteLine_def write_flush_def packet_line_def mustJSON_def Let_def)
qed

definition plain_packet :: "string \<Rightarrow> json \<Rightarrow> Packet" where
  "plain_packet ty v = zero_Packet\<lparr>pk_Type := ty, pk_Payload := Some v\<rparr>"

definition hello_packet :: "AuthHello \<Rightarrow> Packet" where
  "hello_packet ah = plain_packet PacketAuthHello (enc_AuthHello ah)"

definition proof_packet :: "string \<Rightarrow> Packet" where
  "proof_packet sig = plain_packet PacketAuthProof (enc_AuthProof \<lparr>ap_Signature = sig\<rparr>)"

definition challenge_packet :: "string \<Rightarrow> Packet" where
  "challenge_packet ch = plain_packet PacketAuthChallenge (enc_AuthChallenge \<lparr>ac_Challenge = ch\<rparr>)"

definition ok_packet :: Packet where
  "ok_packet = zero_Packet\<lparr>pk_Type := PacketAuthOK\<rparr>"

lemma NewPacket_plain [simp]:
  "trim_space ty \<noteq> [] \<Longrightarrow> NewPacket ty (Some v) = Inr (plain_packet ty v)"
  "NewPacket PacketAuthOK None = Inr ok_packet"
  by (simp_all add: NewPacket_def plain_packet_def ok_packet_def zero_Packet_def)

lemma handshake_packets_wf [simp]:
  "wf_packet (hello_packet ah)" "wf_packet (proof_packet sig)" "wf_packet (challenge_packet ch)" "wf_packet ok_packet"
  by (simp_all add: wf_packet_def hello_packet_def proof_packet_def challenge_packet_def ok_packet_def plain_packet_def
    zero_Packet_def enc_AuthHello_def enc_AuthProof_def enc_AuthChallenge_def)

text \<open>The hello of a master that owns a key pair.\<close>

definition honest_hello :: "crypto \<Rightarrow> bytes \<Rightarrow> AuthHello \<Rightarrow> bool" where
  "honest_hello C pub ah \<longleftrightarrow> ah_Role ah = ''master'' \<and> ah_PubKey ah = b64_encode pub \<and> ah_ID ah = b64_encode (sha256 C pub)"

definition master_stream :: "AuthHello \<Rightarrow> string \<Rightarrow> string" where
  "master_stream ah sig = HeaderOrchestrator @ CHR 0x0A # packet_line (hello_packet ah) @ packet_line (proof_packet sig)"

definition server_stream :: "bytes \<Rightarrow> string" where
  "server_stream rnd = packet_line (challenge_packet (GenerateChallenge rnd)) @ packet_line ok_packet"

lemma header_shape:
  "HeaderOrchestrator \<noteq> []" "plain_char (hd HeaderOrchestrator)" "CHR 0x0A \<notin> set HeaderOrchestrator"
  by (simp_all add: HeaderOrchestrator_def plain_char_def)

lemma handshake_complete:
  assumes "signs C priv pub" "length pub = PublicKeySize" "sha256 C pub \<noteq> []" "honest_hello C pub ah"
    and "whitelist_check wl ah = None" "w_err w = None"
    and "sig = b64_encode (ed_sign C priv (str_bytes (GenerateChallenge rnd)))"
  shows "handshake C wl rnd (Some \<lparr>r_buf = master_stream ah sig @ rest, r_err = e\<rparr>) (Some w) =
    (Some ah, Some \<lparr>r_buf = rest, r_err = e\<rparr>, Some (w\<lparr>w_out := w_out w @ server_stream rnd\<rparr>))"
proof -
  have hello: "ReadHello (Some \<lparr>r_buf = master_stream ah sig @ rest, r_err = e\<rparr>) HeaderOrchestrator =
      (None, Some \<lparr>r_buf = packet_line (hello_packet ah) @ packet_line (proof_packet sig) @ rest, r_err = e\<rparr>)"
    using ReadHello_line [OF header_plain(2) header_shape, where expected = HeaderOrchestrator] header_shape(1)
    by (simp add: master_stream_def header_plain)
  have auth: "VerifyMasterAuth C (GenerateChallenge rnd) (masterInfo_of ah) sig"
    using assms by (simp add: VerifyMasterAuth_def masterInfo_of_def honest_hello_def VerifyIDForPublicKey_def
      VerifyChallengeSignature_def signs_def zero_MasterInfo_def Let_def)
  have decode: "DecodePayload dec_AuthHello (hello_packet ah) = Inr ah"
    "DecodePayload dec_AuthProof (proof_packet sig) = Inr \<lparr>ap_Signature = sig\<rparr>"
    by (simp_all add: DecodePayload_def hello_packet_def proof_packet_def plain_packet_def zero_Packet_def)
  have types: "pk_Type (hello_packet ah) = PacketAuthHello" "pk_Type (proof_packet sig) = PacketAuthProof"
    by (simp_all add: hello_packet_def proof_packet_def plain_packet_def zero_Packet_def)
  have "proof_stage C wl (GenerateChallenge rnd) ah
      (Some \<lparr>r_buf = packet_line (proof_packet sig) @ rest, r_err = e\<rparr>) (Some v) =
      (Some ah, Some \<lparr>r_buf = rest, r_err = e\<rparr>, Some (v\<lparr>w_out := w_out v @ packet_line ok_packet\<rparr>))" if "w_err v = None" for v
    using that assms(5) auth
    by (simp add: proof_stage_def ReadPacket_line decode types writeLine_packet packet_of_def)
  then show ?thesis
    using assms(4,6)
    by (simp add: handshake_def hello Let_def writeLine_packet ReadPacket_line types decode honest_hello_def
      server_stream_def flip: challenge_packet_def)
qed

definition demo_hello :: AuthHello where
  "demo_hello = zero_AuthHello\<lparr>ah_ID := b64_encode (7 # replicate 32 5), ah_PubKey := b64_encode (replicate 32 5),
     ah_Role := ''master'', ah_Cluster := ''eu''\<rparr>"

theorem registry_authentic_witness:
  "\<exists>st h ah. (orch_step demo_crypto demo_gorm [])\<^sup>*\<^sup>* (orch_start (NewStore 5 None)) st
     \<and> os_conns st (ah_ID demo_hello) = Some h
     \<and> os_auth st h = Some ah \<and> ah_ID ah = ah_ID demo_hello \<and> admitted demo_crypto [] ah"
proof -
  let ?init = "orch_start (NewStore 5 (None :: string list allowed option))"
  let ?w = "\<lparr>w_out = [], w_err = None\<rparr>"
  let ?sig = "b64_encode (ed_sign demo_crypto (replicate 32 5) (str_bytes (GenerateChallenge [1, 2])))"
  have "handshake demo_crypto [] [1, 2] (Some \<lparr>r_buf = master_stream demo_hello ?sig @ [], r_err = []\<rparr>) (Some ?w) =
      (Some demo_hello, Some \<lparr>r_buf = [], r_err = []\<rparr>, Some (?w\<lparr>w_out := w_out ?w @ server_stream [1, 2]\<rparr>))"
    by (rule handshake_complete [where pub = "replicate 32 5" and priv = "replicate 32 5"])
      (simp_all add: signs_def demo_crypto_def PublicKeySize_def honest_hello_def demo_hello_def zero_AuthHello_def
        whitelist_check_def)
  then have step: "orch_step demo_crypto demo_gorm [] ?init
      (conn_open ?init demo_hello (Some (?w\<lparr>w_out := w_out ?w @ server_stream [1, 2]\<rparr>)))" (is "orch_step _ _ _ _ ?st")
    by (rule step_accept)
  have run: "(orch_step demo_crypto demo_gorm [])\<^sup>*\<^sup>* ?init ?st"
    using step by (rule r_into_rtranclp [of "orch_step demo_crypto demo_gorm []"])
  have "ah_ID demo_hello \<noteq> []" by (simp add: demo_hello_def zero_AuthHello_def)
  then have conn: "os_conns ?st (ah_ID demo_hello) = Some 0"
    by (simp add: conn_open_def registerMasterConn_def orch_start_def Let_def)
  with run registry_authentic [OF run] show ?thesis by blast
qed

section \<open>The whitelist of the configuration\<close>

lemma main_run_server:
  assumes "main_run G openDB readFile unmarshal path = Inr gs" "TCPServer listen store wl \<in> set gs"
  shows "\<exists>cfg. wl = whitelistClusterMasters (or_MasterWhitelist (cf_Orchestrator cfg)) \<and>
    LoadConfig readFile unmarshal (if path = [] then ''/etc/centralisd.yaml'' else path) = Inr cfg"
  using assms
  by (auto simp: main_run_def Let_def split: sum.splits if_splits prod.splits option.splits)

text \<open>
  Claim C15. What the configured whitelist admits: a server that \<^verbatim>\<open>main\<close> starts lets an authenticated
  master pass exactly when the configuration lists its non-empty identifier under its non-empty
  cluster, or lists no non-empty identifier under any non-empty cluster at all, in which case every
  master passes.
\<close>

theorem configured_whitelist_exact:
  assumes "main_run G openDB readFile unmarshal path = Inr gs" and "TCPServer listen store wl \<in> set gs"
    and "LoadConfig readFile unmarshal (if path = [] then ''/etc/centralisd.yaml'' else path) = Inr cfg"
    and "conf = or_MasterWhitelist (cf_Orchestrator cfg)" and "distinct (map fst conf)"
  shows "whitelist_check wl ah = None \<longleftrightarrow>
     (\<forall>(c, ids) \<in> set conf. c = [] \<or> (\<forall>i \<in> set ids. i = []))
   \<or> (ah_Cluster ah \<noteq> [] \<and> ah_ID ah \<noteq> [] \<and> (\<exists>ids. map_of conf (ah_Cluster ah) = Some ids \<and> ah_ID ah \<in> set ids))"
proof -
  have wl: "wl = whitelist_loop conf"
    using main_run_server [OF assms(1,2)] assms(3,4) by (auto simp: whitelistClusterMasters_def)
  show ?thesis
    unfolding whitelist_check_None wl whitelist_loop_Nil whitelist_loop_lookup [OF assms(5)]
    by (auto split: option.split)
qed

theorem configured_whitelist_exact_witness:
  "\<exists>listen store wl. TCPServer listen store wl \<in> set (projr (main_run demo_gorm (\<lambda>p. Inr []) Inr (\<lambda>f. Inr demo_orch_config) []))
    \<and> whitelist_check wl (zero_AuthHello\<lparr>ah_ID := ''m'', ah_Cluster := ''eu''\<rparr>) = None
    \<and> whitelist_check wl (zero_AuthHello\<lparr>ah_ID := ''x'', ah_Cluster := ''eu''\<rparr>) \<noteq> None"
proof -
  obtain gs where run: "main_run demo_gorm (\<lambda>p. Inr []) Inr (\<lambda>f. Inr demo_orch_config) [] = Inr gs"
    and server: "\<exists>listen store wl. TCPServer listen store wl \<in> set gs"
    by (simp add: main_run_def LoadConfig_def demo_orch_config_def demo_gorm_def AutoMigrate_def NewAllowedClusters_def EnsureSeed_def db_Open_def Let_def)
  then obtain listen store wl where wl: "TCPServer listen store wl \<in> set gs" by blast
  have "LoadConfig Inr (\<lambda>f. Inr demo_orch_config) (if [] = [] then ''/etc/centralisd.yaml'' else []) = Inr demo_orch_config"
    by (simp add: LoadConfig_def)
  note exact = configured_whitelist_exact [OF run wl this refl]
  have "whitelist_check wl (zero_AuthHello\<lparr>ah_ID := ''m'', ah_Cluster := ''eu''\<rparr>) = None"
    "whitelist_check wl (zero_AuthHello\<lparr>ah_ID := ''x'', ah_Cluster := ''eu''\<rparr>) \<noteq> None"
    by (simp_all add: exact demo_orch_config_def zero_AuthHello_def)
  with run wl show ?thesis by auto
qed

section \<open>Routing\<close>

definition eligible :: "TargetRequest \<Rightarrow> RMasterInfo \<Rightarrow> bool" where
  "eligible req m \<longleftrightarrow> mi_ID (rm_info m) \<noteq> [] \<and>
     (tr_Scope req = TargetMasterByNode \<longrightarrow> tr_NodeID req \<noteq> [] \<and> MasterHasNode m (tr_NodeID req))"

lemma target_loop_find:
  assumes "tr_Scope req \<in> {TargetAnyMaster, TargetMasterByNode}"
  shows "target_loop req ms = (case find (eligible req) ms of
      Some m \<Rightarrow> Inr (mi_ID (rm_info m))
    | None \<Rightarrow> Inl (if tr_Scope req = TargetMasterByNode then ''node not connected through any master''
                   else ''no eligible master connected''))"
  using assms by (induction ms) (auto simp: eligible_def TargetAnyMaster_def TargetMasterByNode_def)



section \<open>Reconnecting\<close>



end
