(* ===== verification/Master.thy ===== *)
theory Master
  imports Orch_Tcp
begin

text \<open>
  The master, \<^verbatim>\<open>src/src/master\<close>: the table of connected nodes (\<^verbatim>\<open>nodes.go\<close>), the server the
  nodes connect to (\<^verbatim>\<open>server.go\<close>) and the client side of the orchestrator's protocol with the relay
  of commands (\<^verbatim>\<open>orchestrator_client.go\<close>). Files, PEM and X.509 decoding, the host name and the
  clock are arguments; a call that blocks on a node is the argument \<open>ask\<close> of the definitions that
  make it, with \<open>sendCommandToNodeWait_begin\<close> and its two ends for what it does to the table. In
  the texts of errors, which are only logged, \<^verbatim>\<open>%q\<close> is printed without its quotes. The helpers
  \<^verbatim>\<open>getLocalIPs\<close> and \<^verbatim>\<open>addrToIP\<close> are in \<open>Addresses\<close>.
\<close>

section \<open>Nodes\<close>

record mstate =
  ms_nodes :: "string \<rightharpoonup> nat"
  ms_nc :: "nat \<Rightarrow> pconn"
  ms_auth :: "nat \<rightharpoonup> string"
  ms_next :: nat

definition registerNode :: "mstate \<Rightarrow> string \<Rightarrow> writer option \<Rightarrow> mstate" where
  "registerNode st ident w =
     (if ident = [] \<or> w = None then st
      else st\<lparr>ms_nodes := (ms_nodes st)(ident \<mapsto> ms_next st), ms_nc := (ms_nc st)(ms_next st := new_pconn w)\<rparr>)"

definition unregisterNode :: "mstate \<Rightarrow> string \<Rightarrow> mstate" where
  "unregisterNode st ident = (if ident = [] then st else st\<lparr>ms_nodes := (ms_nodes st)(ident := None)\<rparr>)"

definition node_writePacket :: "pconn \<Rightarrow> Packet \<Rightarrow> string \<Rightarrow> goerror option \<times> pconn" where
  "node_writePacket c p newID =
     (let (e, w) = WritePacket (pc_writer c) (with_id p newID) in (e, c\<lparr>pc_writer := w\<rparr>))"

text \<open>\<^verbatim>\<open>readLoop\<close>: a reply is handed to its request; anything else is only logged.\<close>

definition readLoop_packet :: "mstate \<Rightarrow> nat \<Rightarrow> Packet \<Rightarrow> mstate" where
  "readLoop_packet st h p = st\<lparr>ms_nc := (ms_nc st)(h := snd (resolveReply (ms_nc st h) p))\<rparr>"

definition sendCommandToNode :: "mstate \<Rightarrow> string \<Rightarrow> Packet \<Rightarrow> string \<Rightarrow> goerror option \<times> mstate" where
  "sendCommandToNode st ident payload newID =
     (if ident = [] then (Some ''node id is empty'', st)
      else case ms_nodes st ident of
             None \<Rightarrow> (Some ''node not connected'', st)
           | Some h \<Rightarrow> let (e, c) = node_writePacket (ms_nc st h) payload newID
                       in (e, st\<lparr>ms_nc := (ms_nc st)(h := c)\<rparr>))"

definition sendCommandToNodeWait_begin ::
  "mstate \<Rightarrow> string \<Rightarrow> Packet \<Rightarrow> string \<Rightarrow> waiting result \<times> mstate" where
  "sendCommandToNodeWait_begin st ident payload newID =
     (if ident = [] then (Inl ''node id is empty'', st)
      else case ms_nodes st ident of
             None \<Rightarrow> (Inl ''node not connected'', st)
           | Some h \<Rightarrow>
               let (r, c) = node_sendRequest_begin (ms_nc st h) payload newID;
                   st = st\<lparr>ms_nc := (ms_nc st)(h := c)\<rparr>
               in case r of
                    Inl e \<Rightarrow> (Inl e, st)
                  | Inr ch \<Rightarrow> (Inr \<lparr>wt_conn = h, wt_chan = ch, wt_ident = pk_ID (with_id payload newID)\<rparr>, st))"

definition sendCommandToNodeWait_receive :: "mstate \<Rightarrow> waiting \<Rightarrow> Packet result option \<times> mstate" where
  "sendCommandToNodeWait_receive st wt =
     (let (r, c) = sendRequest_receive (ms_nc st (wt_conn wt)) (wt_chan wt)
      in (map_option Inr r, st\<lparr>ms_nc := (ms_nc st)(wt_conn wt := c)\<rparr>))"

definition sendCommandToNodeWait_timeout :: "mstate \<Rightarrow> waiting \<Rightarrow> Packet result \<times> mstate" where
  "sendCommandToNodeWait_timeout st wt =
     (let (e, c) = sendRequest_timeout (ms_nc st (wt_conn wt)) (wt_ident wt)
      in (Inl e, st\<lparr>ms_nc := (ms_nc st)(wt_conn wt := c)\<rparr>))"

section \<open>The server for nodes\<close>

definition refuse :: "writer option \<Rightarrow> string \<Rightarrow> writer option" where
  "refuse w message = snd (WritePacket w (NewError message))"

text \<open>The second half of the handshake, once the public key is known to match the identifier.\<close>

definition node_proof_stage ::
  "crypto \<Rightarrow> string \<Rightarrow> AuthHello \<Rightarrow> bytes \<Rightarrow> reader option \<Rightarrow> writer option
    \<Rightarrow> AuthHello option \<times> reader option \<times> writer option" where
  "node_proof_stage C challenge ah pub rd w =
     (case ReadPacket rd of
        (Inl e, rd) \<Rightarrow> (None, rd, w)
      | (Inr pp, rd) \<Rightarrow>
          if pk_Type pp \<noteq> PacketAuthProof then (None, rd, refuse w ''auth proof wrong type'')
          else (case DecodePayload dec_AuthProof pp of
                  Inl e \<Rightarrow> (None, rd, refuse w ''auth proof invalid'')
                | Inr pf \<Rightarrow>
                    if \<not> VerifyChallengeSignature C pub challenge (ap_Signature pf)
                    then (None, rd, refuse w ''auth failed'')
                    else (Some ah, rd, snd (WritePacket w (packet_of (NewPacket PacketAuthOK None))))))"

definition node_handshake ::
  "crypto \<Rightarrow> string list \<Rightarrow> bytes \<Rightarrow> reader option \<Rightarrow> writer option
    \<Rightarrow> AuthHello option \<times> reader option \<times> writer option" where
  "node_handshake C allowedNodes rnd rd w =
     (case ReadHello rd HeaderMasterSlave of
        (Some e, rd) \<Rightarrow> (None, rd, refuse w ''invalid hello'')
      | (None, rd) \<Rightarrow>
          (case ReadPacket rd of
             (Inl e, rd) \<Rightarrow> (None, rd, w)
           | (Inr ap, rd) \<Rightarrow>
               if pk_Type ap \<noteq> PacketAuthHello then (None, rd, refuse w ''auth wrong type'')
               else (case DecodePayload dec_AuthHello ap of
                       Inl e \<Rightarrow> (None, rd, refuse w ''auth payload invalid'')
                     | Inr ah \<Rightarrow>
                         if ah_Role ah \<noteq> ''slave'' then (None, rd, refuse w ''auth wrong role'')
                         else (case b64_decode (ah_PubKey ah) of
                                 None \<Rightarrow> (None, rd, refuse w ''invalid pubkey'')
                               | Some pub \<Rightarrow>
                                   if \<not> VerifyIDForPublicKey C (ah_ID ah) pub then (None, rd, refuse w ''id mismatch'')
                                   else if allowedNodes \<noteq> [] \<and> ah_ID ah \<notin> set allowedNodes
                                   then (None, rd, refuse w ''node not allowed'')
                                   else let challenge = GenerateChallenge rnd
                                        in case WritePacket w (packet_of (NewPacket PacketAuthChallenge
                                                  (Some (enc_AuthChallenge \<lparr>ac_Challenge = challenge\<rparr>)))) of
                                             (Some e, w) \<Rightarrow> (None, rd, w)
                                           | (None, w) \<Rightarrow> node_proof_stage C challenge ah pub rd w))))"

text \<open>\<^verbatim>\<open>handleConnection\<close> after the handshake and when it returns; in between it sends heartbeats, each
  a request like any other, and returns when one fails.\<close>

definition node_open :: "mstate \<Rightarrow> AuthHello \<Rightarrow> writer option \<Rightarrow> mstate" where
  "node_open st ah w =
     (let st' = registerNode st (ah_ID ah) w
      in st'\<lparr>ms_auth := (ms_auth st)(ms_next st \<mapsto> ah_ID ah), ms_next := Suc (ms_next st)\<rparr>)"

definition heartbeat_begin :: "mstate \<Rightarrow> nat \<Rightarrow> string \<Rightarrow> waiting result \<times> mstate" where
  "heartbeat_begin st h newID =
     (let p = packet_of (NewPacket PacketHeartbeat None);
          (r, c) = node_sendRequest_begin (ms_nc st h) p newID;
          st = st\<lparr>ms_nc := (ms_nc st)(h := c)\<rparr>
      in case r of
           Inl e \<Rightarrow> (Inl e, st)
         | Inr ch \<Rightarrow> (Inr \<lparr>wt_conn = h, wt_chan = ch, wt_ident = pk_ID (with_id p newID)\<rparr>, st))"

definition node_close :: "mstate \<Rightarrow> nat \<Rightarrow> string \<Rightarrow> mstate" where
  "node_close st h ident = (unregisterNode st ident)\<lparr>ms_auth := (ms_auth st)(h := None)\<rparr>"

definition master_start :: mstate where
  "master_start = \<lparr>ms_nodes = Map.empty, ms_nc = (\<lambda>h. new_pconn None), ms_auth = Map.empty, ms_next = 0\<rparr>"

inductive master_step :: "crypto \<Rightarrow> string list \<Rightarrow> mstate \<Rightarrow> mstate \<Rightarrow> bool" for C allowed where
  node_accept: "node_handshake C allowed rnd rd w = (Some ah, rd', w') \<Longrightarrow> master_step C allowed st (node_open st ah w')"
| node_packet: "master_step C allowed st (readLoop_packet st h p)"
| node_end: "ms_auth st h = Some ident \<Longrightarrow> master_step C allowed st (node_close st h ident)"
| node_heartbeat: "ms_auth st h = Some ident \<Longrightarrow> master_step C allowed st (snd (heartbeat_begin st h newID))"
| node_command: "master_step C allowed st (snd (sendCommandToNodeWait_begin st ident p newID))"
| node_send: "master_step C allowed st (snd (sendCommandToNode st ident p newID))"
| node_receive: "master_step C allowed st (snd (sendCommandToNodeWait_receive st wt))"
| node_timeout: "master_step C allowed st (snd (sendCommandToNodeWait_timeout st wt))"

section \<open>Keys and identity\<close>

text \<open>The standard library's decoders: \<open>ks_read\<close> of files, \<open>ks_pem\<close> the first PEM block, \<open>ks_pkix\<close> and
  \<open>ks_pkcs8\<close> the X.509 parsers, whose result may be a key of another kind.\<close>

datatype parsed_key = Ed25519Key bytes | OtherKey

record keystore =
  ks_read :: "string \<Rightarrow> bytes result"
  ks_pem :: "bytes \<Rightarrow> bytes option"
  ks_pkix :: "bytes \<Rightarrow> parsed_key result"
  ks_pkcs8 :: "bytes \<Rightarrow> parsed_key result"

definition loadEd25519Public :: "keystore \<Rightarrow> string \<Rightarrow> bytes result" where
  "loadEd25519Public K path = bind_result (ks_read K path) (\<lambda>b.
     case ks_pem K b of
       None \<Rightarrow> Inl ''invalid pem public key''
     | Some blk \<Rightarrow> bind_result (ks_pkix K blk) (\<lambda>k.
         case k of Ed25519Key pub \<Rightarrow> Inr pub | OtherKey \<Rightarrow> Inl ''not ed25519 public key''))"

definition loadEd25519Private :: "keystore \<Rightarrow> string \<Rightarrow> bytes result" where
  "loadEd25519Private K path = bind_result (ks_read K path) (\<lambda>b.
     case ks_pem K b of
       None \<Rightarrow> Inl ''invalid pem private key''
     | Some blk \<Rightarrow> bind_result (ks_pkcs8 K blk) (\<lambda>k.
         case k of Ed25519Key priv \<Rightarrow> Inr priv | OtherKey \<Rightarrow> Inl ''not an ed25519 private key''))"

definition loadMasterKeys :: "keystore \<Rightarrow> Config \<Rightarrow> (bytes \<times> bytes) result" where
  "loadMasterKeys K cfg =
     (let pubPath = trim_space (ma_PubKeyPath (cf_Master cfg)); privPath = trim_space (ma_PrivKeyPath (cf_Master cfg))
      in if pubPath = [] \<or> privPath = [] then Inl ''unexpected EOF''
         else bind_result (loadEd25519Public K pubPath) (\<lambda>pub.
              bind_result (loadEd25519Private K privPath) (\<lambda>priv. Inr (pub, priv))))"

text \<open>\<open>nodeIDs\<close> is what \<^verbatim>\<open>listConnectedNodeIDs\<close> returns: the keys of the table in some order.\<close>

definition listConnectedNodeIDs :: "mstate \<Rightarrow> string list \<Rightarrow> bool" where
  "listConnectedNodeIDs st ids \<longleftrightarrow> distinct ids \<and> set ids = dom (ms_nodes st)"

definition buildMasterInfo :: "crypto \<Rightarrow> keystore \<Rightarrow> string \<Rightarrow> string list \<Rightarrow> Config \<Rightarrow> MasterInfo" where
  "buildMasterInfo C K hostname nodeIDs cfg =
     (let m = cf_Master cfg;
          name = (if trim_space (ma_Name m) = [] then hostname else trim_space (ma_Name m));
          cluster = (if trim_space (ma_Cluster m) = [] then ''default'' else trim_space (ma_Cluster m));
          ident = (case loadMasterKeys K cfg of
                     Inr (pub, priv) \<Rightarrow> if pub = [] then [] else b64_encode (sha256 C pub)
                   | Inl e \<Rightarrow> [])
      in \<lparr>mi_ID = ident, mi_Name = name, mi_Cluster = cluster, mi_Advertise = trim_space (ma_Advertise m), mi_PubKey = [],
          mi_Nodes = map (\<lambda>i. zero_NodeInfo\<lparr>ni_ID := i\<rparr>) (filter (\<lambda>i. trim_space i \<noteq> []) nodeIDs)\<rparr>)"

section \<open>The orchestrator's client\<close>

definition writePacket :: "writer option \<Rightarrow> Packet \<Rightarrow> goerror option \<times> writer option" where
  "writePacket w p = (case w of None \<Rightarrow> (Some ''io: read/write on closed pipe'', None) | Some v \<Rightarrow> WritePacket w p)"

definition expect_ok :: "string \<Rightarrow> string \<Rightarrow> Packet \<Rightarrow> goerror option" where
  "expect_ok failed unexpected resp =
     (if pk_Type resp = PacketError
      then Some (if trim_space (pk_Error resp) \<noteq> [] then failed @ '': '' @ trim_space (pk_Error resp) else failed)
      else if pk_Type resp \<noteq> PacketAuthOK then Some (unexpected @ pk_Type resp) else None)"

text \<open>The login of \<^verbatim>\<open>connectLoop\<close>: \<open>None\<close> when it succeeds.\<close>

definition connectLoop_login ::
  "crypto \<Rightarrow> keystore \<Rightarrow> string \<Rightarrow> string list \<Rightarrow> Config \<Rightarrow> reader option \<Rightarrow> writer option
    \<Rightarrow> goerror option \<times> reader option \<times> writer option" where
  "connectLoop_login C K hostname nodeIDs cfg rd w =
     (case WriteHello w HeaderOrchestrator of
        (Some e, w) \<Rightarrow> (Some e, rd, w)
      | (None, w) \<Rightarrow>
          (case ReadPacket rd of
             (Inl e, rd) \<Rightarrow> (Some e, rd, w)
           | (Inr cp, rd) \<Rightarrow>
               if pk_Type cp \<noteq> PacketAuthChallenge then (Some (''unexpected challenge packet type '' @ pk_Type cp), rd, w)
               else (case DecodePayload dec_AuthChallenge cp of
                       Inl e \<Rightarrow> (Some e, rd, w)
                     | Inr ch \<Rightarrow>
                         (case loadMasterKeys K cfg of
                            Inl e \<Rightarrow> (Some e, rd, w)
                          | Inr (pub, priv) \<Rightarrow>
                              let mi = buildMasterInfo C K hostname nodeIDs cfg;
                                  ah = \<lparr>ah_ID = mi_ID mi, ah_PubKey = b64_encode pub, ah_Role = ''master'', ah_Name = mi_Name mi,
                                        ah_Cluster = mi_Cluster mi, ah_Advertise = mi_Advertise mi\<rparr>;
                                  sig = b64_encode (ed_sign C priv (str_bytes (ac_Challenge ch)))
                              in case writePacket w (packet_of (NewPacket PacketAuthHello (Some (enc_AuthHello ah)))) of
                                   (Some e, w) \<Rightarrow> (Some e, rd, w)
                                 | (None, w) \<Rightarrow>
                                     (case writePacket w (packet_of (NewPacket PacketAuthProof (Some (enc_AuthProof \<lparr>ap_Signature = sig\<rparr>)))) of
                                        (Some e, w) \<Rightarrow> (Some e, rd, w)
                                      | (None, w) \<Rightarrow>
                                          (case ReadPacket rd of
                                             (Inl e, rd) \<Rightarrow> (Some e, rd, w)
                                           | (Inr resp, rd) \<Rightarrow>
                                               (expect_ok ''orchestrator auth failed'' ''unexpected auth response '' resp, rd, w)))))))"

text \<open>An announcement, at registration and at each tick, with the packet that the reader hands over, or
  the reader's error.\<close>

definition announcement :: "string \<Rightarrow> MasterInfo \<Rightarrow> Packet" where
  "announcement ty mi = packet_of (NewPacket ty (Some (enc_MasterInfo (mi\<lparr>mi_PubKey := []\<rparr>))))"

definition sendPacketAndExpectAuthOK :: "writer option \<Rightarrow> Packet \<Rightarrow> Packet result \<Rightarrow> goerror option \<times> writer option" where
  "sendPacketAndExpectAuthOK w p resp =
     (case writePacket w p of
        (Some e, w) \<Rightarrow> (Some e, w)
      | (None, w) \<Rightarrow>
          (case resp of
             Inl e \<Rightarrow> (Some e, w)
           | Inr r \<Rightarrow>
               (if pk_Type r = PacketError \<and> trim_space (pk_Error r) \<noteq> []
                then Some (''orchestrator error: '' @ trim_space (pk_Error r))
                else if pk_Type r \<noteq> PacketAuthOK then Some (''orchestrator replied '' @ pk_Type r) else None, w)))"

text \<open>Reconnection: the delay before the next attempt, in seconds.\<close>

definition next_backoff :: "nat \<Rightarrow> nat" where
  "next_backoff b = (if b < 30 then min (b * 2) 30 else b)"

fun backoff :: "nat \<Rightarrow> nat" where
  "backoff 0 = 1"
| "backoff (Suc n) = next_backoff (backoff n)"

text \<open>\<^verbatim>\<open>ConnectToOrchestrator\<close> up to its loop: the address to connect to, if any.\<close>

definition orchestrator_address :: "keystore \<Rightarrow> Config \<Rightarrow> string option" where
  "orchestrator_address K cfg =
     (let addr = trim_space (ma_Orchestrator (cf_Master cfg))
      in if addr = [] \<or> trim_space (ma_PubKeyPath (cf_Master cfg)) = [] \<or> trim_space (ma_PrivKeyPath (cf_Master cfg)) = []
         then None
         else case loadMasterKeys K cfg of Inl e \<Rightarrow> None | Inr k \<Rightarrow> Some addr)"

section \<open>Commands\<close>

definition error_reply :: "string \<Rightarrow> string \<Rightarrow> CommandReply" where
  "error_reply nodeID message = zero_CommandReply\<lparr>cr_NodeID := nodeID, cr_Status := ''error'', cr_Message := message\<rparr>"

text \<open>One node's line of the list of machines.\<close>

definition vm_list_node :: "(string \<Rightarrow> Packet \<Rightarrow> Packet result) \<Rightarrow> json \<Rightarrow> string \<Rightarrow> VMListNode" where
  "vm_list_node ask command nodeID =
     (let failed = (\<lambda>m. zero_VMListNode\<lparr>vl_NodeID := nodeID, vl_Error := m\<rparr>)
      in case ask nodeID (packet_of (NewPacket PacketNodeCommand (Some command))) of
           Inl e \<Rightarrow> failed e
         | Inr resp \<Rightarrow>
             if pk_Type resp \<noteq> PacketNodeCommandReply then failed ''unexpected reply type''
             else (case DecodePayload dec_CommandReply resp of
                     Inl e \<Rightarrow> failed ''invalid reply payload''
                   | Inr r \<Rightarrow>
                       if cr_Status r \<noteq> ''ok'' then failed (cr_Message r)
                       else (case cr_Output r of
                               None \<Rightarrow> failed ''invalid domain list''
                             | Some JNull \<Rightarrow> zero_VMListNode\<lparr>vl_NodeID := nodeID\<rparr>
                             | Some out \<Rightarrow>
                                 (case as_list (as_struct dec_VMDomain) zero_VMDomain out of
                                    None \<Rightarrow> failed ''invalid domain list''
                                  | Some items \<Rightarrow> zero_VMListNode\<lparr>vl_NodeID := nodeID, vl_Domains := items\<rparr>))))"

definition handleMasterCommand ::
  "(string \<Rightarrow> Packet \<Rightarrow> Packet result) \<Rightarrow> string list \<Rightarrow> json \<Rightarrow> CommandReply" where
  "handleMasterCommand ask nodeIDs command =
     (case dec_NodeCommand command of
        Inl e \<Rightarrow> error_reply [] ''invalid command''
      | Inr cmd \<Rightarrow>
          if nc_Action cmd = ''libvirt.domains.list''
          then zero_CommandReply\<lparr>cr_Status := ''ok'',
                 cr_Output := Some (enc_VMListAggregate \<lparr>va_Nodes =
                   map (vm_list_node ask command) (filter (\<lambda>i. trim_space i \<noteq> []) nodeIDs)\<rparr>)\<rparr>
          else error_reply [] ''node id required'')"

text \<open>What \<^verbatim>\<open>readOrchestratorLoop\<close> does with a packet: hand it to the caller that announces, drop it
  with a log line, or answer the command.\<close>

datatype relay_action = Hand Packet | Drop | Answer Packet

definition node_command_reply :: "(string \<Rightarrow> Packet \<Rightarrow> Packet result) \<Rightarrow> string \<Rightarrow> json \<Rightarrow> CommandReply" where
  "node_command_reply ask nodeID command =
     (case ask nodeID (packet_of (NewPacket PacketNodeCommand (Some command))) of
        Inl e \<Rightarrow> error_reply nodeID e
      | Inr resp \<Rightarrow>
          if pk_Type resp \<noteq> PacketNodeCommandReply then error_reply nodeID ''unexpected reply type''
          else (case DecodePayload dec_CommandReply resp of
                  Inl e \<Rightarrow> error_reply nodeID ''invalid reply payload''
                | Inr r \<Rightarrow> r\<lparr>cr_NodeID := nodeID\<rparr>))"

definition readOrchestratorLoop_packet ::
  "(string \<Rightarrow> Packet \<Rightarrow> Packet result) \<Rightarrow> string list \<Rightarrow> Packet \<Rightarrow> relay_action" where
  "readOrchestratorLoop_packet ask nodeIDs p =
     (if pk_Type p = PacketAuthOK \<or> pk_Type p = PacketError then Hand p
      else if pk_Type p \<noteq> PacketOrchCommand then Drop
      else (case DecodePayload dec_OrchestratorCommand p of
              Inl e \<Rightarrow> Drop
            | Inr cmd \<Rightarrow>
                (case oc_Command cmd of
                   None \<Rightarrow> Drop
                 | Some command \<Rightarrow>
                     Answer (packet_of (NewReply PacketOrchCommandReply (pk_ID p) (Some (enc_CommandReply
                       (if oc_NodeID cmd = [] then handleMasterCommand ask nodeIDs command
                        else node_command_reply ask (oc_NodeID cmd) command))))))))"

section \<open>Nodes are authenticated\<close>

definition node_admitted :: "crypto \<Rightarrow> string list \<Rightarrow> string \<Rightarrow> bool" where
  "node_admitted C allowed ident \<longleftrightarrow> ident \<noteq> [] \<and> (allowed = [] \<or> ident \<in> set allowed) \<and>
     (\<exists>rnd sig pub. length pub = PublicKeySize \<and> trim_space ident = b64_encode (sha256 C pub)
        \<and> VerifyChallengeSignature C pub (GenerateChallenge rnd) sig)"

lemma node_proof_stage_admits:
  assumes "node_proof_stage C challenge ah0 pub rd w = (Some ah, rd', w')"
  shows "ah = ah0 \<and> (\<exists>sig. VerifyChallengeSignature C pub challenge sig)"
  using assms by (auto simp: node_proof_stage_def split: prod.splits sum.splits if_splits)

lemma node_handshake_admits:
  assumes "node_handshake C allowed rnd rd w = (Some ah, rd', w')"
  shows "node_admitted C allowed (ah_ID ah)"
proof -
  obtain pub rd1 w1 where ver: "VerifyIDForPublicKey C (ah_ID ah) pub" and al: "allowed = [] \<or> ah_ID ah \<in> set allowed"
    and "node_proof_stage C (GenerateChallenge rnd) ah pub rd1 w1 = (Some ah, rd', w')"
    using assms
    by (auto simp: node_handshake_def Let_def split: prod.splits sum.splits if_splits option.splits
      dest: node_proof_stage_admits)
  then obtain sig where sig: "VerifyChallengeSignature C pub (GenerateChallenge rnd) sig"
    using node_proof_stage_admits by blast
  then have "length pub = PublicKeySize" by (auto simp: VerifyChallengeSignature_def split: if_splits)
  with ver al sig show ?thesis
    by (auto simp: node_admitted_def VerifyIDForPublicKey_def Let_def split: if_splits)
qed

definition master_inv :: "crypto \<Rightarrow> string list \<Rightarrow> mstate \<Rightarrow> bool" where
  "master_inv C allowed st \<longleftrightarrow>
     (\<forall>h i. ms_auth st h = Some i \<longrightarrow> node_admitted C allowed i \<and> h < ms_next st) \<and>
     (\<forall>i h. ms_nodes st i = Some h \<longrightarrow> ms_auth st h = Some i) \<and>
     (\<forall>h. pconn_inv (ms_nc st h))"

lemma master_invD:
  "master_inv C allowed st \<Longrightarrow> ms_auth st h = Some i \<Longrightarrow> node_admitted C allowed i \<and> h < ms_next st"
  "master_inv C allowed st \<Longrightarrow> ms_nodes st i = Some h \<Longrightarrow> ms_auth st h = Some i"
  "master_inv C allowed st \<Longrightarrow> pconn_inv (ms_nc st h)"
  by (auto simp: master_inv_def)

lemma update_nc_inv:
  "master_inv C allowed st \<Longrightarrow> pconn_inv c \<Longrightarrow> master_inv C allowed (st\<lparr>ms_nc := (ms_nc st)(h := c)\<rparr>)"
  by (auto simp: master_inv_def)

lemma node_open_inv:
  assumes "master_inv C allowed st" "node_admitted C allowed (ah_ID ah)"
  shows "master_inv C allowed (node_open st ah w)"
proof -
  have fresh: "ms_auth st (ms_next st) = None"
    using master_invD(1) [OF assms(1)] by (metis less_irrefl not_None_eq)
  then have "ms_nodes st i \<noteq> Some (ms_next st)" for i
    using master_invD(2) [OF assms(1)] by (metis option.distinct(1))
  then show ?thesis
    using assms by (auto simp: master_inv_def node_open_def registerNode_def Let_def less_Suc_eq)
qed

lemma node_close_inv:
  assumes "master_inv C allowed st" "ms_auth st h = Some ident"
  shows "master_inv C allowed (node_close st h ident)"
proof -
  have ne: "ident \<noteq> []" using master_invD(1) [OF assms] by (simp add: node_admitted_def)
  have "k \<noteq> h" if "ms_nodes st i = Some k" "i \<noteq> ident" for i k
    using master_invD(2) [OF assms(1) that(1)] assms(2) that(2) by auto
  then show ?thesis
    using assms ne by (auto simp: master_inv_def node_close_def unregisterNode_def)
qed

lemma master_step_inv: "master_step C allowed st st' \<Longrightarrow> master_inv C allowed st \<Longrightarrow> master_inv C allowed st'"
proof (induction rule: master_step.induct)
  case (node_accept rnd rd w ah rd' w' st)
  then show ?case using node_handshake_admits node_open_inv by blast
next
  case (node_send st ident p newID)
  then show ?case
    by (auto simp: sendCommandToNode_def node_writePacket_def case_prod_unfold Let_def split: option.split
      intro!: update_nc_inv dest: master_invD(3))
qed (auto simp: readLoop_packet_def heartbeat_begin_def sendCommandToNodeWait_begin_def
    sendCommandToNodeWait_receive_def sendCommandToNodeWait_timeout_def case_prod_unfold Let_def
    split: option.split sum.split
    intro!: update_nc_inv node_close_inv node_table.begin_inv node_table.resolve_inv node_table.receive_inv
      node_table.timeout_inv master_invD(3))

lemma master_start_inv: "master_inv C allowed master_start"
  by (simp add: master_inv_def master_start_def)

interpretation mas: step_system "\<lambda>st. st = master_start" "master_step C allowed" "master_inv C allowed" for C allowed
  by unfold_locales (auto intro: master_start_inv master_step_inv)

lemmas master_reachable_inv = mas.reachable [OF _ refl]

text \<open>
  Claim C9. A master talks to authenticated nodes only: in every state it can reach, each entry of its
  table of nodes is an open connection whose peer proved possession of the key with that hash and is
  on the list of allowed nodes, if there is one; and every node that the master announces to the
  orchestrator is such an entry.
\<close>

theorem nodes_authentic:
  assumes "(master_step C allowed)\<^sup>*\<^sup>* master_start st"
    and "listConnectedNodeIDs st nodeIDs"
    and "n \<in> set (mi_Nodes (buildMasterInfo C K hostname nodeIDs cfg))"
  shows "node_admitted C allowed (ni_ID n) \<and>
    (\<exists>h. ms_nodes st (ni_ID n) = Some h \<and> ms_auth st h = Some (ni_ID n) \<and> pconn_inv (ms_nc st h))"
proof -
  note inv = master_reachable_inv [OF assms(1)]
  have "ni_ID n \<in> dom (ms_nodes st)"
    using assms(2,3) by (auto simp: buildMasterInfo_def listConnectedNodeIDs_def zero_NodeInfo_def Let_def)
  then show ?thesis using master_invD [OF inv] by blast
qed

section \<open>An honest node is let in\<close>

definition slave_stream :: "AuthHello \<Rightarrow> string \<Rightarrow> string" where
  "slave_stream ah sig = HeaderMasterSlave @ CHR 0x0A # packet_line (hello_packet ah) @ packet_line (proof_packet sig)"

definition slave_hello :: "crypto \<Rightarrow> bytes \<Rightarrow> AuthHello" where
  "slave_hello C pub = zero_AuthHello\<lparr>ah_ID := b64_encode (sha256 C pub), ah_PubKey := b64_encode pub, ah_Role := ''slave''\<rparr>"

lemma ms_header_shape:
  "HeaderMasterSlave \<noteq> []" "plain_char (hd HeaderMasterSlave)" "CHR 0x0A \<notin> set HeaderMasterSlave"
  by (simp_all add: HeaderMasterSlave_def plain_char_def)

lemma packet_fields [simp]:
  "pk_Type (plain_packet ty v) = ty" "pk_Payload (plain_packet ty v) = Some v" "pk_ID (plain_packet ty v) = []"
  "pk_Type (hello_packet ah) = PacketAuthHello" "pk_Type (proof_packet sig) = PacketAuthProof"
  "pk_Type (challenge_packet ch) = PacketAuthChallenge" "pk_Type ok_packet = PacketAuthOK"
  "DecodePayload dec_AuthHello (hello_packet ah) = Inr ah"
  "DecodePayload dec_AuthProof (proof_packet sig) = Inr \<lparr>ap_Signature = sig\<rparr>"
  "DecodePayload dec_AuthChallenge (challenge_packet ch) = Inr \<lparr>ac_Challenge = ch\<rparr>"
  by (simp_all add: hello_packet_def proof_packet_def challenge_packet_def plain_packet_def ok_packet_def
    zero_Packet_def DecodePayload_def)

lemma packet_of_simps [simp]: "packet_of (Inr p) = p"
  by (simp add: packet_of_def)

lemma slave_hello_fields [simp]:
  "ah_ID (slave_hello C pub) = b64_encode (sha256 C pub)" "ah_PubKey (slave_hello C pub) = b64_encode pub"
  "ah_Role (slave_hello C pub) = ''slave''"
  by (simp_all add: slave_hello_def)

lemma node_handshake_complete:
  assumes "signs C priv pub" "length pub = PublicKeySize" "sha256 C pub \<noteq> []"
    and "allowed = [] \<or> b64_encode (sha256 C pub) \<in> set allowed" "w_err w = None"
    and "sig = b64_encode (ed_sign C priv (str_bytes (GenerateChallenge rnd)))"
  shows "node_handshake C allowed rnd (Some \<lparr>r_buf = slave_stream (slave_hello C pub) sig @ rest, r_err = e\<rparr>) (Some w) =
    (Some (slave_hello C pub), Some \<lparr>r_buf = rest, r_err = e\<rparr>, Some (w\<lparr>w_out := w_out w @ server_stream rnd\<rparr>))"
proof -
  have hello: "ReadHello (Some \<lparr>r_buf = slave_stream ah sig @ rest, r_err = e\<rparr>) HeaderMasterSlave =
      (None, Some \<lparr>r_buf = packet_line (hello_packet ah) @ packet_line (proof_packet sig) @ rest, r_err = e\<rparr>)" for ah
    using ReadHello_line [OF header_plain(1) ms_header_shape, where expected = HeaderMasterSlave] ms_header_shape(1)
    by (simp add: slave_stream_def header_plain)
  have ver: "VerifyChallengeSignature C pub (GenerateChallenge rnd) sig"
    using assms by (simp add: VerifyChallengeSignature_def signs_def)
  have ident: "VerifyIDForPublicKey C (b64_encode (sha256 C pub)) pub"
    using assms(3) by (simp add: VerifyIDForPublicKey_def)
  have stage: "node_proof_stage C (GenerateChallenge rnd) ah pub
      (Some \<lparr>r_buf = packet_line (proof_packet sig) @ rest, r_err = e\<rparr>) (Some v) =
      (Some ah, Some \<lparr>r_buf = rest, r_err = e\<rparr>, Some (v\<lparr>w_out := w_out v @ packet_line ok_packet\<rparr>))" if "w_err v = None" for v ah
    using that ver by (simp add: node_proof_stage_def ReadPacket_line WritePacket_ok)
  show ?thesis
    using assms(4,5) ident stage
    by (simp add: node_handshake_def hello ReadPacket_line WritePacket_ok server_stream_def Let_def flip: challenge_packet_def)
qed

theorem nodes_authentic_witness:
  "node_admitted demo_crypto [] (b64_encode (7 # replicate 32 5))"
proof -
  let ?w = "\<lparr>w_out = [], w_err = None\<rparr>" and ?pub = "replicate 32 5"
  let ?sig = "b64_encode (ed_sign demo_crypto ?pub (str_bytes (GenerateChallenge [1])))"
  let ?cfg = "\<lparr>cf_NodeType = [], cf_Slave = \<lparr>sl_Master = [], sl_PrivKeyPath = [], sl_PubKeyPath = []\<rparr>,
     cf_Master = \<lparr>ma_Orchestrator = [], ma_Cluster = [], ma_Name = [], ma_Advertise = [], ma_PrivKeyPath = [], ma_PubKeyPath = [],
       ma_AllowedNodes = []\<rparr>,
     cf_Orchestrator = \<lparr>or_WebListen = [], or_TCPListen = [], or_DBPath = [], or_MasterWhitelist = [], or_StateTTLSeconds = 0\<rparr>\<rparr>"
  let ?K = "\<lparr>ks_read = Inl, ks_pem = Some, ks_pkix = \<lambda>b. Inr OtherKey, ks_pkcs8 = \<lambda>b. Inr OtherKey\<rparr> :: keystore"
  let ?id = "b64_encode (7 # ?pub)"
  define v where "v = ?w\<lparr>w_out := w_out ?w @ server_stream [1]\<rparr>"
  have "node_handshake demo_crypto [] [1] (Some \<lparr>r_buf = slave_stream (slave_hello demo_crypto ?pub) ?sig @ [], r_err = []\<rparr>) (Some ?w)
      = (Some (slave_hello demo_crypto ?pub), Some \<lparr>r_buf = [], r_err = []\<rparr>, Some v)"
    unfolding v_def by (rule node_handshake_complete) (simp_all add: signs_def demo_crypto_def PublicKeySize_def)
  then have step: "master_step demo_crypto [] master_start (node_open master_start (slave_hello demo_crypto ?pub) (Some v))"
    by (rule node_accept)
  have run: "(master_step demo_crypto [])\<^sup>*\<^sup>* master_start (node_open master_start (slave_hello demo_crypto ?pub) (Some v))"
    using step by (rule r_into_rtranclp [of "master_step demo_crypto []"])
  have ids: "listConnectedNodeIDs (node_open master_start (slave_hello demo_crypto ?pub) (Some v)) [?id]"
    by (simp add: listConnectedNodeIDs_def node_open_def registerNode_def master_start_def demo_crypto_def Let_def)
  have n: "zero_NodeInfo\<lparr>ni_ID := ?id\<rparr> \<in> set (mi_Nodes (buildMasterInfo demo_crypto ?K [] [?id] ?cfg))"
    by (simp add: buildMasterInfo_def)
  show ?thesis using nodes_authentic [OF run ids n] by (simp add: zero_NodeInfo_def)
qed

section \<open>Logging in at the orchestrator\<close>

definition login_hello :: "crypto \<Rightarrow> keystore \<Rightarrow> string \<Rightarrow> string list \<Rightarrow> Config \<Rightarrow> bytes \<Rightarrow> AuthHello" where
  "login_hello C K hostname nodeIDs cfg pub =
     (let mi = buildMasterInfo C K hostname nodeIDs cfg
      in \<lparr>ah_ID = mi_ID mi, ah_PubKey = b64_encode pub, ah_Role = ''master'', ah_Name = mi_Name mi,
          ah_Cluster = mi_Cluster mi, ah_Advertise = mi_Advertise mi\<rparr>)"

lemma WriteHello_ok:
  "w_err w = None \<Longrightarrow> WriteHello (Some w) HeaderOrchestrator = (None, Some (w\<lparr>w_out := w_out w @ HeaderOrchestrator @ [CHR 0x0A]\<rparr>))"
  using header_shape(1) by (simp add: WriteHello_def WriteLine_def write_flush_def header_plain Let_def)

lemma login_client:
  assumes "loadMasterKeys K cfg = Inr (pub, priv)"
  shows "connectLoop_login C K hostname nodeIDs cfg (Some \<lparr>r_buf = server_stream rnd, r_err = e\<rparr>) (Some \<lparr>w_out = [], w_err = None\<rparr>) =
    (None, Some \<lparr>r_buf = [], r_err = e\<rparr>, Some \<lparr>w_out = master_stream (login_hello C K hostname nodeIDs cfg pub)
       (b64_encode (ed_sign C priv (str_bytes (GenerateChallenge rnd)))), w_err = None\<rparr>)"
proof -
  have last: "ReadPacket (Some \<lparr>r_buf = packet_line ok_packet, r_err = e\<rparr>) = (Inr ok_packet, Some \<lparr>r_buf = [], r_err = e\<rparr>)"
    using ReadPacket_line [of ok_packet "[]" e] by simp
  have ok: "expect_ok a b ok_packet = None" for a b by (simp add: expect_ok_def packet_type_defs)
  show ?thesis
    by (simp add: connectLoop_login_def WriteHello_ok server_stream_def ReadPacket_line assms login_hello_def Let_def
      writePacket_def WritePacket_ok last ok master_stream_def flip: hello_packet_def proof_packet_def)
qed

lemma login_hello_honest:
  "loadMasterKeys K cfg = Inr (pub, priv) \<Longrightarrow> length pub = PublicKeySize \<Longrightarrow>
   honest_hello C pub (login_hello C K hostname nodeIDs cfg pub)"
  by (auto simp: honest_hello_def login_hello_def buildMasterInfo_def Let_def PublicKeySize_def)

text \<open>
  Claim C10. A master with a working key pair gets in: there is a conversation, what the master writes
  being what the orchestrator reads and the other way round, in which the login of the master and
  the handshake of the orchestrator both succeed; the orchestrator then knows the master by the hash
  of its public key and by its configured cluster, \<^verbatim>\<open>default\<close> when none is configured.
\<close>

theorem master_login_succeeds:
  assumes "loadMasterKeys K cfg = Inr (pub, priv)" and "signs C priv pub" and "length pub = PublicKeySize"
    and "sha256 C pub \<noteq> []"
    and "wl = [] \<or> (\<exists>ids. map_of wl (mi_Cluster (buildMasterInfo C K hostname nodeIDs cfg)) = Some ids
                       \<and> b64_encode (sha256 C pub) \<in> set ids)"
  shows "\<exists>up down ah.
    connectLoop_login C K hostname nodeIDs cfg (Some \<lparr>r_buf = down, r_err = e\<rparr>) (Some \<lparr>w_out = [], w_err = None\<rparr>)
      = (None, Some \<lparr>r_buf = [], r_err = e\<rparr>, Some \<lparr>w_out = up, w_err = None\<rparr>)
    \<and> handshake C wl rnd (Some \<lparr>r_buf = up, r_err = e\<rparr>) (Some \<lparr>w_out = [], w_err = None\<rparr>)
      = (Some ah, Some \<lparr>r_buf = [], r_err = e\<rparr>, Some \<lparr>w_out = down, w_err = None\<rparr>)
    \<and> ah_ID ah = b64_encode (sha256 C pub)
    \<and> ah_Cluster ah = mi_Cluster (buildMasterInfo C K hostname nodeIDs cfg)"
proof -
  let ?ah = "login_hello C K hostname nodeIDs cfg pub"
  let ?sig = "b64_encode (ed_sign C priv (str_bytes (GenerateChallenge rnd)))"
  note honest = login_hello_honest [OF assms(1,3), of C hostname nodeIDs]
  have id: "ah_ID ?ah = b64_encode (sha256 C pub)" "ah_Cluster ?ah = mi_Cluster (buildMasterInfo C K hostname nodeIDs cfg)"
    using honest by (simp_all add: honest_hello_def login_hello_def Let_def)
  have wl: "whitelist_check wl ?ah = None" using assms(5) by (simp add: whitelist_check_None id)
  have "handshake C wl rnd (Some \<lparr>r_buf = master_stream ?ah ?sig @ [], r_err = e\<rparr>) (Some \<lparr>w_out = [], w_err = None\<rparr>) =
      (Some ?ah, Some \<lparr>r_buf = [], r_err = e\<rparr>,
       Some (\<lparr>w_out = [], w_err = None\<rparr>\<lparr>w_out := w_out \<lparr>w_out = [], w_err = None\<rparr> @ server_stream rnd\<rparr>))"
    by (rule handshake_complete [OF assms(2,3,4) honest wl]) simp_all
  then have server: "handshake C wl rnd (Some \<lparr>r_buf = master_stream ?ah ?sig, r_err = e\<rparr>) (Some \<lparr>w_out = [], w_err = None\<rparr>) =
      (Some ?ah, Some \<lparr>r_buf = [], r_err = e\<rparr>, Some \<lparr>w_out = server_stream rnd, w_err = None\<rparr>)"
    by simp
  show ?thesis
    by (intro exI [of _ "master_stream ?ah ?sig"] exI [of _ "server_stream rnd"] exI [of _ ?ah] conjI
      server id) (rule login_client [OF assms(1)])
qed

definition demo_config :: Config where
  "demo_config = \<lparr>cf_NodeType = NodeType_Master, cf_Slave = \<lparr>sl_Master = [], sl_PrivKeyPath = ''k'', sl_PubKeyPath = ''p''\<rparr>,
     cf_Master = \<lparr>ma_Orchestrator = ''o:1'', ma_Cluster = [], ma_Name = ''m'', ma_Advertise = [], ma_PrivKeyPath = ''k'',
       ma_PubKeyPath = ''p'', ma_AllowedNodes = []\<rparr>,
     cf_Orchestrator = \<lparr>or_WebListen = [], or_TCPListen = [], or_DBPath = [], or_MasterWhitelist = [], or_StateTTLSeconds = 0\<rparr>\<rparr>"

definition demo_keystore :: keystore where
  "demo_keystore = \<lparr>ks_read = (\<lambda>path. Inr []), ks_pem = Some, ks_pkix = (\<lambda>b. Inr (Ed25519Key (replicate 32 5))),
     ks_pkcs8 = (\<lambda>b. Inr (Ed25519Key (replicate 32 5)))\<rparr>"

lemma demo_keys: "loadMasterKeys demo_keystore demo_config = Inr (replicate 32 5, replicate 32 5)"
proof -
  have "trim_space ''k'' = ''k''" "trim_space ''p'' = ''p''"
    by (rule trim_space_plain; simp add: plain_char_def)+
  then show ?thesis
    by (simp add: loadMasterKeys_def loadEd25519Public_def loadEd25519Private_def demo_keystore_def demo_config_def)
qed

theorem master_login_succeeds_witness:
  "\<exists>up down ah.
    connectLoop_login demo_crypto demo_keystore [] [] demo_config (Some \<lparr>r_buf = down, r_err = []\<rparr>) (Some \<lparr>w_out = [], w_err = None\<rparr>)
      = (None, Some \<lparr>r_buf = [], r_err = []\<rparr>, Some \<lparr>w_out = up, w_err = None\<rparr>)
    \<and> handshake demo_crypto [] [1, 2] (Some \<lparr>r_buf = up, r_err = []\<rparr>) (Some \<lparr>w_out = [], w_err = None\<rparr>)
      = (Some ah, Some \<lparr>r_buf = [], r_err = []\<rparr>, Some \<lparr>w_out = down, w_err = None\<rparr>)
    \<and> ah_ID ah = b64_encode (sha256 demo_crypto (replicate 32 5))
    \<and> ah_Cluster ah = mi_Cluster (buildMasterInfo demo_crypto demo_keystore [] [] demo_config)"
  by (rule master_login_succeeds [OF demo_keys]) (simp_all add: signs_def demo_crypto_def PublicKeySize_def)

section \<open>Reconnecting\<close>

text \<open>
  Claim C40. The delay between attempts to reach the orchestrator doubles from one second and never
  exceeds thirty: before attempt \<open>n + 1\<close> it is the smaller of \<open>2^n\<close> and 30 seconds, so neither the
  doubling nor its nanoseconds in a 64-bit duration can overflow.
\<close>

theorem backoff_bounds: "backoff n = min (2 ^ n) 30 \<and> int (backoff n) * second * 2 < 2 ^ 63"
proof -
  have "backoff n = min (2 ^ n) 30"
    by (induction n) (auto simp: next_backoff_def min_def)
  then have "backoff n \<le> 30" by simp
  then show ?thesis using \<open>backoff n = min (2 ^ n) 30\<close> by (simp add: second_def)
qed

section \<open>Commands through the master\<close>

lemma wf_CommandReply [simp]:
  "wf_json (enc_CommandReply r) \<longleftrightarrow> (case cr_Output r of None \<Rightarrow> True | Some out \<Rightarrow> wf_json out)"
  by (simp add: enc_CommandReply_def split: option.split)

lemma NewReply_plain [simp]:
  "trim_space ty \<noteq> [] \<Longrightarrow> NewReply ty replyTo (Some v) = Inr ((plain_packet ty v)\<lparr>pk_ReplyTo := trim_space replyTo\<rparr>)"
  by (simp add: NewReply_def)

lemma packet_update_fields [simp]:
  "DecodePayload dec (p\<lparr>pk_ReplyTo := r\<rparr>) = DecodePayload dec p" "DecodePayload dec (p\<lparr>pk_ID := r\<rparr>) = DecodePayload dec p"
  "wf_packet (p\<lparr>pk_ReplyTo := r\<rparr>) = wf_packet p" "wf_packet (p\<lparr>pk_ID := r\<rparr>) = wf_packet p"
  "DecodePayload dec (plain_packet ty v) = dec v"
  "wf_packet (plain_packet ty v) \<longleftrightarrow> trim_space ty \<noteq> [] \<and> wf_json v"
  "with_id (plain_packet ty v) newID = (plain_packet ty v)\<lparr>pk_ID := newID\<rparr>"
  by (simp_all add: DecodePayload_def wf_packet_def plain_packet_def with_id_def zero_Packet_def)

definition command_packet :: "string \<Rightarrow> json \<Rightarrow> string \<Rightarrow> Packet" where
  "command_packet nodeID command newID =
     (plain_packet PacketOrchCommand (enc_OrchestratorCommand \<lparr>oc_NodeID = nodeID, oc_Command = Some command\<rparr>))\<lparr>pk_ID := newID\<rparr>"

lemma command_packet_wf [simp]: "wf_packet (command_packet nodeID command newID) \<longleftrightarrow> wf_json command"
  by (simp add: command_packet_def enc_OrchestratorCommand_def)

lemma command_type [simp]:
  "PacketOrchCommand \<noteq> PacketAuthOK" "PacketOrchCommand \<noteq> PacketError"
  by (simp_all add: packet_type_defs)

text \<open>The master's answer to a command, whoever sent it.\<close>

lemma relay_answer:
  "readOrchestratorLoop_packet ask nodeIDs (command_packet nodeID command newID) =
     Answer ((plain_packet PacketOrchCommandReply (enc_CommandReply
       (if nodeID = [] then handleMasterCommand ask nodeIDs command else node_command_reply ask nodeID command)))
       \<lparr>pk_ReplyTo := trim_space newID\<rparr>)"
  by (simp add: readOrchestratorLoop_packet_def command_packet_def)

text \<open>The beginning of a command on a working connection.\<close>

lemma command_begin:
  assumes "os_conns st masterID = Some h" "masterID \<noteq> []" "pc_writer (os_mc st h) = Some w" "w_err w = None"
    and "wf_json command" "newID \<noteq> []"
  shows "sendCommandWait_begin st masterID \<lparr>oc_NodeID = nodeID, oc_Command = Some command\<rparr> newID =
    (Inr \<lparr>wt_conn = h, wt_chan = pc_made (os_mc st h), wt_ident = newID\<rparr>,
     st\<lparr>os_mc := (os_mc st)(h := (enter (os_mc st h) newID)
       \<lparr>pc_writer := Some (w\<lparr>w_out := w_out w @ packet_line (command_packet nodeID command newID)\<rparr>)\<rparr>)\<rparr>)"
proof -
  let ?p = "command_packet nodeID command newID"
  have p: "with_id (plain_packet PacketOrchCommand (enc_OrchestratorCommand \<lparr>oc_NodeID = nodeID, oc_Command = Some command\<rparr>)) newID = ?p"
    "with_id ?p newID = ?p" "pk_ID ?p = newID"
    using assms(6) by (simp_all add: command_packet_def with_id_def)
  show ?thesis
    using assms orch_table.begin_works [OF assms(3,4), of ?p newID]
    by (simp add: sendCommandWait_begin_def p Let_def flip: command_packet_def)
qed

text \<open>A command sent by the orchestrator and the answer it gets, over a working connection.\<close>

lemma command_hop:
  assumes "os_conns st masterID = Some h" "masterID \<noteq> []" "pc_writer (os_mc st h) = Some w" "w_err w = None"
    and "wf_json command" "newID \<noteq> []"
    and "DecodePayload dec_CommandReply R = Inr r" "pk_Type R = PacketOrchCommandReply" "pk_ReplyTo R = newID"
  shows "\<exists>wt st1. sendCommandWait_begin st masterID \<lparr>oc_NodeID = nodeID, oc_Command = Some command\<rparr> newID = (Inr wt, st1)
    \<and> pc_writer (os_mc st1 h) = Some (w\<lparr>w_out := w_out w @ packet_line (command_packet nodeID command newID)\<rparr>)
    \<and> fst (sendCommandWait_receive (serve_packet G now st1 h ah R) wt) = Some (Inr r)"
  using assms(6-9)
  by (simp add: command_begin [OF assms(1-6)] serve_packet_def resolveReply_def enter_def sendCommandWait_receive_def
    sendRequest_receive_def command_reply_def)

text \<open>
  Claim C37. A late answer costs the connection: when the orchestrator has stopped waiting for a command
  and the master's answer to it arrives after all, the orchestrator finds no request for it and
  sends an error packet; the master's reader hands that packet to the announcer, which takes it for
  the answer to its next heartbeat, whatever that contains, and so returns with an error, on which
  the master closes the connection and logs in again.
\<close>

theorem late_reply_drops_connection:
  assumes "os_conns st masterID = Some h" and "masterID \<noteq> []" and "pc_writer (os_mc st h) = Some w" and "w_err w = None"
    and "wf_json command" and "trim_space newID = newID" and "newID \<noteq> []"
    and "readOrchestratorLoop_packet ask nodeIDs (command_packet nodeID command newID) = Answer R"
  shows "\<exists>wt st1 E. sendCommandWait_begin st masterID \<lparr>oc_NodeID = nodeID, oc_Command = Some command\<rparr> newID = (Inr wt, st1)
    \<and> pc_writer (os_mc (serve_packet G now (snd (sendCommandWait_timeout st1 wt)) h ah R) h) =
        Some (w\<lparr>w_out := w_out w @ packet_line (command_packet nodeID command newID) @ packet_line E\<rparr>)
    \<and> readOrchestratorLoop_packet ask' nodeIDs' E = Hand E
    \<and> (\<forall>v mi. fst (sendPacketAndExpectAuthOK v (announcement PacketMasterHeartbeat mi) (Inr E)) \<noteq> None)"
proof -
  have R: "pk_ReplyTo R = newID" "pk_Type R = PacketOrchCommandReply"
    using assms(8) by (auto simp: relay_answer assms(6))
  let ?E = "NewError ''unknown message type''"
  have t: "pk_Type ?E = PacketError" by (simp add: NewError_def zero_Packet_def)
  have types: "PacketOrchCommandReply \<noteq> PacketMasterRegister" "PacketOrchCommandReply \<noteq> PacketMasterHeartbeat" "PacketError \<noteq> PacketAuthOK"
    by (simp_all add: packet_type_defs)
  have "fst (sendPacketAndExpectAuthOK v q (Inr ?E)) \<noteq> None" for v q
    using types(3) t by (auto simp: sendPacketAndExpectAuthOK_def split: prod.split option.split)
  moreover have "readOrchestratorLoop_packet ask' nodeIDs' ?E = Hand ?E"
    using t by (simp add: readOrchestratorLoop_packet_def)
  moreover obtain wt st1 where begin_eq: "sendCommandWait_begin st masterID \<lparr>oc_NodeID = nodeID, oc_Command = Some command\<rparr> newID = (Inr wt, st1)"
    using command_begin [OF assms(1-5,7)] by blast
  moreover have "pc_writer (os_mc (serve_packet G now (snd (sendCommandWait_timeout st1 wt)) h ah R) h) =
      Some (w\<lparr>w_out := w_out w @ packet_line (command_packet nodeID command newID) @ packet_line ?E\<rparr>)"
    using begin_eq [unfolded command_begin [OF assms(1-5,7)]] types(1,2) assms(4,7)
    by (auto simp: sendCommandWait_timeout_def sendRequest_timeout_def serve_packet_def resolveReply_def R enter_def
      respond_def writeLine_packet)
  ultimately show ?thesis by blast
qed

definition demo_orch :: "string list orch" where
  "demo_orch = conn_open (orch_start (NewStore 5 None)) (zero_AuthHello\<lparr>ah_ID := ''m''\<rparr>) (Some \<lparr>w_out = [], w_err = None\<rparr>)"

lemma demo_orch_conn:
  "os_conns demo_orch ''m'' = Some 0" "pc_writer (os_mc demo_orch 0) = Some \<lparr>w_out = [], w_err = None\<rparr>"
  by (simp_all add: demo_orch_def conn_open_def registerMasterConn_def orch_start_def zero_AuthHello_def new_pconn_def)

theorem late_reply_drops_connection_witness:
  "\<exists>R E. readOrchestratorLoop_packet (\<lambda>i p. Inl ''node not connected'') [] (command_packet ''n'' JNull ''x'') = Answer R
    \<and> pc_writer (os_mc (serve_packet demo_gorm 0 (snd (sendCommandWait_timeout
          (snd (sendCommandWait_begin demo_orch ''m'' \<lparr>oc_NodeID = ''n'', oc_Command = Some JNull\<rparr> ''x''))
          (projr (fst (sendCommandWait_begin demo_orch ''m'' \<lparr>oc_NodeID = ''n'', oc_Command = Some JNull\<rparr> ''x''))))) 0 demo_hello R) 0) =
        Some \<lparr>w_out = packet_line (command_packet ''n'' JNull ''x'') @ packet_line E, w_err = None\<rparr>
    \<and> fst (sendPacketAndExpectAuthOK (Some \<lparr>w_out = [], w_err = None\<rparr>) (announcement PacketMasterHeartbeat zero_MasterInfo) (Inr E)) \<noteq> None"
proof -
  have x: "trim_space ''x'' = ''x''" by (rule trim_space_plain) (simp add: plain_char_def)
  obtain R where R: "readOrchestratorLoop_packet (\<lambda>i p. Inl ''node not connected'') [] (command_packet ''n'' JNull ''x'') = Answer R"
    by (simp add: relay_answer)
  from late_reply_drops_connection [OF demo_orch_conn(1) _ demo_orch_conn(2) _ _ x _ R, of demo_gorm 0 demo_hello] R
  show ?thesis by fastforce
qed

section \<open>The list of machines of a cluster\<close>

definition domain_fits :: "VMDomain \<Rightarrow> bool" where
  "domain_fits d \<longleftrightarrow> vd_ID d < 2 ^ 32 \<and> vd_MaxMemMB d < 2 ^ 64 \<and> vd_MemoryMB d < 2 ^ 64 \<and> vd_VCPUs d < 2 ^ 64"

lemma as_uint_fits: "as_uint w j = Some n \<Longrightarrow> n < 2 ^ w"
  by (cases j) (auto split: option.splits if_splits)

lemma dec_field_invariant:
  assumes "dec_field conv d name kvs = Inr x" "P d" "\<And>j y. conv j = Some y \<Longrightarrow> P y"
  shows "P x"
proof -
  have "dec_from conv name acc kvs = Inr x \<Longrightarrow> (\<And>y. acc = Inr y \<Longrightarrow> P y) \<Longrightarrow> P x" for acc
  proof (induction kvs arbitrary: acc)
    case (Cons kv kvs)
    have "P y" if "dec_step conv name acc kv = Inr y" for y
      using that Cons.prems(2) assms(3) by (auto simp: dec_step_def split: sum.splits option.splits if_splits)
    then show ?case using Cons.IH Cons.prems(1) by simp
  qed simp
  from this [of "Inr d"] show ?thesis using assms(1,2) by (simp add: dec_field_def)
qed

lemma dec_field_uint_fits: "dec_field (as_uint w) 0 name kvs = Inr n \<Longrightarrow> n < 2 ^ w"
  by (erule dec_field_invariant) (simp_all add: as_uint_fits)

lemma dec_from_omit_hit:
  "key_matches k name \<Longrightarrow> v \<noteq> JNull \<Longrightarrow> conv v = Some x \<Longrightarrow> (e \<Longrightarrow> x = d) \<Longrightarrow>
   dec_from conv name (Inr d) (omit e k v) = Inr x"
  by simp

lemma dec_from_omit_other: "\<not> key_matches k name \<Longrightarrow> dec_from conv name acc (omit e k v) = acc"
  by simp

lemma dec_VMDomain_fits: "dec_VMDomain j = Inr d \<Longrightarrow> domain_fits d"
  unfolding dec_VMDomain_def bind_result_eq_Inr domain_fits_def
  by (elim exE conjE, (drule dec_field_uint_fits)+) auto

lemma dec_enc_VMDomain [simp]:
  assumes "domain_fits d"
  shows "dec_VMDomain (enc_VMDomain d) = Inr d"
proof -
  have "as_uint 32 (JNum (show_nat (vd_ID d))) = Some (vd_ID d)" "as_uint 64 (JNum (show_nat (vd_MaxMemMB d))) = Some (vd_MaxMemMB d)"
    "as_uint 64 (JNum (show_nat (vd_MemoryMB d))) = Some (vd_MemoryMB d)" "as_uint 64 (JNum (show_nat (vd_VCPUs d))) = Some (vd_VCPUs d)"
    using assms by (simp_all add: domain_fits_def del: as_uint.simps)
  then show ?thesis
    by (simp add: dec_VMDomain_def enc_VMDomain_def json_members_def dec_field_def key_simps
      dec_from_omit_hit dec_from_omit_other del: dec_from_omit as_uint.simps as_uint_show)
qed

lemma domain_list_roundtrip:
  "list_all domain_fits ds \<Longrightarrow> as_list (as_struct dec_VMDomain) zero_VMDomain (JArr (map enc_VMDomain ds)) = Some ds"
  by (rule as_list_map) (auto simp: as_struct_def list_all_iff, simp add: enc_VMDomain_def)

lemma dec_enc_VMListNode [simp]:
  "list_all domain_fits (vl_Domains n) \<Longrightarrow> dec_VMListNode (enc_VMListNode n) = Inr n"
  by (simp add: dec_VMListNode_def enc_VMListNode_def json_members_def dec_field_def key_simps domain_list_roundtrip
    dec_from_omit_hit dec_from_omit_other del: dec_from_omit as_list.simps)

lemma dec_enc_VMListAggregate:
  assumes "list_all (\<lambda>n. list_all domain_fits (vl_Domains n)) ns"
  shows "dec_VMListAggregate (enc_VMListAggregate \<lparr>va_Nodes = ns\<rparr>) = Inr \<lparr>va_Nodes = ns\<rparr>"
proof -
  have "as_list (as_struct dec_VMListNode) zero_VMListNode (JArr (map enc_VMListNode ns)) = Some ns"
    using assms by (intro as_list_map conjI) (auto simp: as_struct_def list_all_iff, simp add: enc_VMListNode_def)
  then show ?thesis
    by (simp add: dec_VMListAggregate_def enc_VMListAggregate_def json_members_def dec_field_def key_simps)
qed

lemma zero_fits [simp]: "domain_fits zero_VMDomain"
  by (simp add: domain_fits_def zero_VMDomain_def)

lemma as_list_fits:
  "as_list (as_struct dec_VMDomain) zero_VMDomain j = Some ds \<Longrightarrow> list_all domain_fits ds"
proof (cases j)
  case (JArr xs)
  assume "as_list (as_struct dec_VMDomain) zero_VMDomain j = Some ds"
  moreover have "domain_fits (the (as_struct dec_VMDomain x))" if "as_struct dec_VMDomain x \<noteq> None" for x
    using that by (auto simp: as_struct_def dest: dec_VMDomain_fits split: sum.splits)
  ultimately show ?thesis by (auto simp: JArr list_all_iff Let_def image_iff split: if_splits) force
qed simp_all

lemma vm_list_node_fits: "list_all domain_fits (vl_Domains (vm_list_node ask command i))"
  by (auto simp: vm_list_node_def Let_def zero_VMListNode_def simp del: as_list.simps
    split: sum.split option.split json.split dest: as_list_fits)

lemma vm_list_node_ID [simp]: "vl_NodeID (vm_list_node ask command i) = i"
  by (simp add: vm_list_node_def Let_def zero_VMListNode_def split: sum.split option.split json.split)

lemma vm_list_node_ok:
  assumes "ask i (plain_packet PacketNodeCommand command) = Inr resp" "pk_Type resp = PacketNodeCommandReply"
    and "DecodePayload dec_CommandReply resp = Inr r" "cr_Status r = ''ok''"
    and "cr_Output r = Some (JArr (map enc_VMDomain ds))" "list_all domain_fits ds"
  shows "vm_list_node ask command i = \<lparr>vl_NodeID = i, vl_Domains = ds, vl_Error = []\<rparr>"
  using assms by (simp add: vm_list_node_def zero_VMListNode_def domain_list_roundtrip del: as_list.simps)

text \<open>
  Claim C18. The list of machines covers every connected node: the master answers the list command with
  status \<^verbatim>\<open>ok\<close>, and whoever decodes the answer finds exactly one line for each connected node, in the
  order they were asked; a node that answered \<^verbatim>\<open>ok\<close> has its own machines there, unchanged, and no
  error, one that could not be asked has no machines and the reason.
\<close>

theorem vm_list_complete:
  assumes "dec_NodeCommand command = Inr cmd" and "nc_Action cmd = ''libvirt.domains.list''"
    and "list_all (\<lambda>i. trim_space i \<noteq> []) nodeIDs"
  shows "\<exists>out ns. handleMasterCommand ask nodeIDs command = zero_CommandReply\<lparr>cr_Status := ''ok'', cr_Output := Some out\<rparr>
    \<and> dec_VMListAggregate out = Inr \<lparr>va_Nodes = ns\<rparr> \<and> map vl_NodeID ns = nodeIDs
    \<and> (\<forall>n \<in> set ns. \<forall>resp r ds.
         ask (vl_NodeID n) (plain_packet PacketNodeCommand command) = Inr resp \<and> pk_Type resp = PacketNodeCommandReply
         \<and> DecodePayload dec_CommandReply resp = Inr r \<and> cr_Status r = ''ok''
         \<and> cr_Output r = Some (JArr (map enc_VMDomain ds)) \<and> list_all domain_fits ds
         \<longrightarrow> vl_Domains n = ds \<and> vl_Error n = [])
    \<and> (\<forall>n \<in> set ns. \<forall>e. ask (vl_NodeID n) (plain_packet PacketNodeCommand command) = Inl e
         \<longrightarrow> vl_Domains n = [] \<and> vl_Error n = e)"
proof -
  have all: "filter (\<lambda>i. trim_space i \<noteq> []) nodeIDs = nodeIDs"
    using assms(3) by (simp add: list_all_iff)
  let ?ns = "map (vm_list_node ask command) nodeIDs"
  have "handleMasterCommand ask nodeIDs command =
      zero_CommandReply\<lparr>cr_Status := ''ok'', cr_Output := Some (enc_VMListAggregate \<lparr>va_Nodes = ?ns\<rparr>)\<rparr>"
    using assms(1,2) by (simp add: handleMasterCommand_def all)
  moreover have "dec_VMListAggregate (enc_VMListAggregate \<lparr>va_Nodes = ?ns\<rparr>) = Inr \<lparr>va_Nodes = ?ns\<rparr>"
    by (rule dec_enc_VMListAggregate) (simp add: list_all_iff vm_list_node_fits [unfolded list_all_iff])
  moreover have "map vl_NodeID ?ns = nodeIDs" by (simp add: o_def)
  moreover have "vm_list_node ask command i = zero_VMListNode\<lparr>vl_NodeID := i, vl_Error := e\<rparr>"
    if "ask i (plain_packet PacketNodeCommand command) = Inl e" for i e
    using that by (simp add: vm_list_node_def)
  ultimately show ?thesis
    by (intro exI [of _ "enc_VMListAggregate \<lparr>va_Nodes = ?ns\<rparr>"] exI [of _ ?ns]) (auto simp: vm_list_node_ok zero_VMListNode_def)
qed

theorem vm_list_complete_witness:
  "\<exists>out ns. handleMasterCommand (\<lambda>i p. Inl ''node not connected'') [''a'', ''b''] (enc_NodeCommand \<lparr>nc_Action = ''libvirt.domains.list'', nc_Params = None\<rparr>)
      = zero_CommandReply\<lparr>cr_Status := ''ok'', cr_Output := Some out\<rparr>
    \<and> dec_VMListAggregate out = Inr \<lparr>va_Nodes = ns\<rparr> \<and> map vl_NodeID ns = [''a'', ''b'']"
proof -
  have "trim_space ''a'' = ''a''" "trim_space ''b'' = ''b''"
    by (rule trim_space_plain; simp add: plain_char_def)+
  then have ids: "list_all (\<lambda>i. trim_space i \<noteq> []) [''a'', ''b'']" by simp
  show ?thesis
    using vm_list_complete [OF dec_enc_NodeCommand _ ids, of "\<lparr>nc_Action = ''libvirt.domains.list'', nc_Params = None\<rparr>"
      "\<lambda>i p. Inl ''node not connected''"] by auto
qed

end
