(* ===== verification/Virt.thy ===== *)
theory Virt
  imports Master
begin

text \<open>
  The slave's libvirt helpers, \<^verbatim>\<open>src/src/slave/libvirt\<close> (\<^verbatim>\<open>main.go\<close>, \<^verbatim>\<open>vm.go\<close>). The libvirt
  bindings are a record \<open>virt\<close> of calls on a world of any type, which every definition takes as an
  argument; pointers to libvirt objects are numbers, \<^verbatim>\<open>nil\<close> is \<open>None\<close>. A call whose error the code
  looks at is a computation \<open>io\<close>; a getter whose error it throws away delivers just the value. The
  constants of the binding are the constructors of \<open>virt_const\<close> and \<open>DomainState\<close>, a set of flags the
  list of its constants. \<^verbatim>\<open>Connect.ListNetworks\<close>, which the slave calls on a pointer that may be
  \<^verbatim>\<open>nil\<close>, may panic: \<open>None\<close>. The decoder behind \<^verbatim>\<open>xml.Unmarshal\<close> is a field of the record; the text that
  \<^verbatim>\<open>xml.EscapeText\<close> writes is modelled, bytes from 0x80 up being parts of well-formed UTF-8.
\<close>

section \<open>Computations with errors\<close>

type_synonym ('w, 'a) io = "'w \<Rightarrow> 'a result \<times> 'w"

definition ret :: "'a \<Rightarrow> ('w, 'a) io" where
  "ret x w = (Inr x, w)"

definition fail :: "goerror \<Rightarrow> ('w, 'a) io" where
  "fail e w = (Inl e, w)"

definition bind_io :: "('w, 'a) io \<Rightarrow> ('a \<Rightarrow> ('w, 'b) io) \<Rightarrow> ('w, 'b) io" where
  "bind_io m f w = (case m w of (Inl e, w') \<Rightarrow> (Inl e, w') | (Inr x, w') \<Rightarrow> f x w')"

text \<open>A getter; below it, a call that is made when the function returns, whatever it returns.\<close>

definition get_io :: "('w \<Rightarrow> 'a \<times> 'w) \<Rightarrow> ('a \<Rightarrow> ('w, 'b) io) \<Rightarrow> ('w, 'b) io" where
  "get_io g f w = (case g w of (x, w') \<Rightarrow> f x w')"

text \<open>The value of a call whose error is thrown away: the bindings return the empty string with an error.\<close>

definition or_empty :: "('w, string) io \<Rightarrow> 'w \<Rightarrow> string \<times> 'w" where
  "or_empty m w = (case m w of (Inl e, w') \<Rightarrow> ([], w') | (Inr s, w') \<Rightarrow> (s, w'))"

definition defer_io :: "('w \<Rightarrow> 'w) \<Rightarrow> ('w, 'a) io \<Rightarrow> ('w, 'a) io" where
  "defer_io cleanup m w = (case m w of (r, w') \<Rightarrow> (r, cleanup w'))"

fun map_io :: "('a \<Rightarrow> ('w, 'b) io) \<Rightarrow> 'a list \<Rightarrow> ('w, 'b list) io" where
  "map_io f [] = ret []"
| "map_io f (x # xs) = bind_io (f x) (\<lambda>y. bind_io (map_io f xs) (\<lambda>ys. ret (y # ys)))"

lemmas io_defs = ret_def fail_def bind_io_def get_io_def defer_io_def or_empty_def

section \<open>The bindings\<close>

datatype virt_const =
    CONNECT_LIST_DOMAINS_ACTIVE | CONNECT_LIST_DOMAINS_INACTIVE
  | CONNECT_LIST_STORAGE_POOLS_ACTIVE | CONNECT_LIST_STORAGE_POOLS_INACTIVE
  | CONNECT_LIST_NETWORKS_ACTIVE | CONNECT_LIST_NETWORKS_INACTIVE
  | DOMAIN_DEVICE_MODIFY_CONFIG | DOMAIN_DEVICE_MODIFY_LIVE
  | DOMAIN_UNDEFINE_MANAGED_SAVE | DOMAIN_UNDEFINE_SNAPSHOTS_METADATA
  | DOMAIN_UNDEFINE_CHECKPOINTS_METADATA | DOMAIN_UNDEFINE_NVRAM
  | STORAGE_VOL_DELETE_NORMAL

datatype DomainState =
    DOMAIN_NOSTATE | DOMAIN_RUNNING | DOMAIN_BLOCKED | DOMAIN_PAUSED | DOMAIN_SHUTDOWN | DOMAIN_SHUTOFF
  | DOMAIN_CRASHED | DOMAIN_PMSUSPENDED

record DomainInfo =
  fo_State :: DomainState
  fo_MaxMem :: "64 word"
  fo_Memory :: "64 word"
  fo_NrVirtCpu :: "64 word"

record PoolInfo =
  po_Capacity :: "64 word"
  po_Allocation :: "64 word"
  po_Available :: "64 word"

record VolInfo =
  vo_Capacity :: "64 word"
  vo_Allocation :: "64 word"

text \<open>The parts of a domain's description that the struct \<^verbatim>\<open>domainXML\<close> names.\<close>

record domainDiskXML =
  dx_Device :: string
  dx_Type :: string
  dx_SourceFile :: string
  dx_TargetDev :: string
  dx_TargetBus :: string

record 'w virt =
  v_NewConnect :: "string \<Rightarrow> ('w, nat) io"
  v_ListAllDomains :: "nat \<Rightarrow> virt_const list \<Rightarrow> ('w, nat list) io"
  v_LookupDomainByName :: "nat \<Rightarrow> string \<Rightarrow> ('w, nat) io"
  v_DomainDefineXML :: "nat \<Rightarrow> string \<Rightarrow> ('w, nat) io"
  v_GetName :: "nat \<Rightarrow> ('w, string) io"
  v_GetUUIDString :: "nat \<Rightarrow> 'w \<Rightarrow> string \<times> 'w"
  v_GetID :: "nat \<Rightarrow> 'w \<Rightarrow> 64 word \<times> 'w"
  v_IsActive :: "nat \<Rightarrow> 'w \<Rightarrow> bool \<times> 'w"
  v_IsPersistent :: "nat \<Rightarrow> 'w \<Rightarrow> bool \<times> 'w"
  v_GetAutostart :: "nat \<Rightarrow> 'w \<Rightarrow> bool \<times> 'w"
  v_GetInfo :: "nat \<Rightarrow> 'w \<Rightarrow> DomainInfo option \<times> 'w"
  v_GetXMLDesc :: "nat \<Rightarrow> 'w \<Rightarrow> string \<times> 'w"
  v_Create :: "nat \<Rightarrow> ('w, unit) io"
  v_Shutdown :: "nat \<Rightarrow> ('w, unit) io"
  v_Reboot :: "nat \<Rightarrow> nat \<Rightarrow> ('w, unit) io"
  v_Destroy :: "nat \<Rightarrow> ('w, unit) io"
  v_SetAutostart :: "nat \<Rightarrow> bool \<Rightarrow> ('w, unit) io"
  v_UpdateDeviceFlags :: "nat \<Rightarrow> string \<Rightarrow> virt_const list \<Rightarrow> ('w, unit) io"
  v_UndefineFlags :: "nat \<Rightarrow> virt_const list \<Rightarrow> ('w, unit) io"
  v_Free :: "nat \<Rightarrow> 'w \<Rightarrow> 'w"
  v_ListAllStoragePools :: "nat \<Rightarrow> virt_const list \<Rightarrow> ('w, nat list) io"
  v_LookupStoragePoolByName :: "nat \<Rightarrow> string \<Rightarrow> ('w, nat) io"
  v_PoolGetName :: "nat \<Rightarrow> ('w, string) io"
  v_PoolGetUUIDString :: "nat \<Rightarrow> 'w \<Rightarrow> string \<times> 'w"
  v_PoolIsActive :: "nat \<Rightarrow> 'w \<Rightarrow> bool \<times> 'w"
  v_PoolIsPersistent :: "nat \<Rightarrow> 'w \<Rightarrow> bool \<times> 'w"
  v_PoolGetAutostart :: "nat \<Rightarrow> 'w \<Rightarrow> bool \<times> 'w"
  v_PoolGetInfo :: "nat \<Rightarrow> 'w \<Rightarrow> PoolInfo option \<times> 'w"
  v_ListAllStorageVolumes :: "nat \<Rightarrow> ('w, nat list) io"
  v_StorageVolCreateXML :: "nat \<Rightarrow> string \<Rightarrow> ('w, nat) io"
  v_PoolFree :: "nat \<Rightarrow> 'w \<Rightarrow> 'w"
  v_LookupStorageVolByPath :: "nat \<Rightarrow> string \<Rightarrow> ('w, nat) io"
  v_VolGetName :: "nat \<Rightarrow> ('w, string) io"
  v_VolGetKey :: "nat \<Rightarrow> 'w \<Rightarrow> string \<times> 'w"
  v_VolGetPath :: "nat \<Rightarrow> ('w, string) io"
  v_VolGetInfo :: "nat \<Rightarrow> 'w \<Rightarrow> VolInfo option \<times> 'w"
  v_VolGetXMLDesc :: "nat \<Rightarrow> 'w \<Rightarrow> string \<times> 'w"
  v_VolDelete :: "nat \<Rightarrow> virt_const list \<Rightarrow> ('w, unit) io"
  v_VolFree :: "nat \<Rightarrow> 'w \<Rightarrow> 'w"
  v_ListAllNetworks :: "nat \<Rightarrow> virt_const list \<Rightarrow> ('w, nat list) io"
  v_NetGetName :: "nat \<Rightarrow> 'w \<Rightarrow> string \<times> 'w"
  v_NetGetUUIDString :: "nat \<Rightarrow> 'w \<Rightarrow> string \<times> 'w"
  v_NetIsActive :: "nat \<Rightarrow> 'w \<Rightarrow> bool \<times> 'w"
  v_NetIsPersistent :: "nat \<Rightarrow> 'w \<Rightarrow> bool \<times> 'w"
  v_NetGetAutostart :: "nat \<Rightarrow> 'w \<Rightarrow> bool \<times> 'w"
  v_NetFree :: "nat \<Rightarrow> 'w \<Rightarrow> 'w"
  v_ListNetworks :: "nat option \<Rightarrow> 'w \<Rightarrow> string list result option \<times> 'w"
  v_xml_disks :: "string \<Rightarrow> domainDiskXML list result"
  v_xml_format :: "string \<Rightarrow> string result"

section \<open>Domains\<close>

text \<open>The slave process: the connections that \<^verbatim>\<open>GetQEMU\<close> and \<^verbatim>\<open>GetClient\<close> keep in package variables, and
  the world. The computations on the world alone are lifted to it.\<close>

record 'w host =
  h_conn :: "nat option"
  h_client :: "nat option"
  h_ext :: 'w

definition lift_io :: "('w, 'a) io \<Rightarrow> ('w host, 'a) io" where
  "lift_io m h = (case m (h_ext h) of (r, w) \<Rightarrow> (r, h\<lparr>h_ext := w\<rparr>))"

definition GetQEMU :: "'w virt \<Rightarrow> ('w host, nat) io" where
  "GetQEMU V h =
     (case h_conn h of
        Some c \<Rightarrow> (Inr c, h)
      | None \<Rightarrow>
          (case v_NewConnect V ''qemu:///system'' (h_ext h) of
             (Inl e, w) \<Rightarrow> (Inl e, h\<lparr>h_ext := w\<rparr>)
           | (Inr c, w) \<Rightarrow> (Inr c, h\<lparr>h_conn := Some c, h_ext := w\<rparr>)))"

definition GetDomains :: "'w virt \<Rightarrow> nat \<Rightarrow> ('w, nat list) io" where
  "GetDomains V conn = v_ListAllDomains V conn [CONNECT_LIST_DOMAINS_ACTIVE, CONNECT_LIST_DOMAINS_INACTIVE]"

definition LookupDomainByName :: "'w virt \<Rightarrow> nat option \<Rightarrow> string \<Rightarrow> ('w, nat) io" where
  "LookupDomainByName V conn name =
     (case conn of
        None \<Rightarrow> fail ''nil libvirt connection''
      | Some c \<Rightarrow>
          let name = trim_space name
          in if name = [] then fail ''domain name is required'' else v_LookupDomainByName V c name)"

definition DomainStateString :: "DomainState \<Rightarrow> string" where
  "DomainStateString s = (case s of
       DOMAIN_RUNNING \<Rightarrow> ''running'' | DOMAIN_BLOCKED \<Rightarrow> ''blocked'' | DOMAIN_PAUSED \<Rightarrow> ''paused''
     | DOMAIN_SHUTDOWN \<Rightarrow> ''shutdown'' | DOMAIN_CRASHED \<Rightarrow> ''crashed'' | DOMAIN_PMSUSPENDED \<Rightarrow> ''suspended''
     | DOMAIN_SHUTOFF \<Rightarrow> ''shutoff'' | _ \<Rightarrow> ''unknown'')"

text \<open>The loop over the disks: the image in the drive, the last one winning, and the disk files.\<close>

definition disk_scan :: "domainDiskXML list \<Rightarrow> string \<times> string list" where
  "disk_scan disks = foldl (\<lambda>(iso, paths) d.
     (if dx_Device d = ''cdrom'' \<and> dx_SourceFile d \<noteq> [] then dx_SourceFile d else iso,
      if dx_Device d = ''disk'' \<and> dx_Type d = ''file'' \<and> dx_SourceFile d \<noteq> [] then paths @ [dx_SourceFile d] else paths))
     ([], []) disks"

definition DescribeDomain :: "'w virt \<Rightarrow> nat option \<Rightarrow> ('w, VMDomain \<times> string list) io" where
  "DescribeDomain V domain =
     (case domain of
        None \<Rightarrow> fail ''nil domain''
      | Some d \<Rightarrow>
          bind_io (v_GetName V d) (\<lambda>name.
          get_io (v_GetUUIDString V d) (\<lambda>uuid.
          get_io (v_GetID V d) (\<lambda>ident.
          get_io (v_IsActive V d) (\<lambda>active.
          get_io (v_IsPersistent V d) (\<lambda>persistent.
          get_io (v_GetAutostart V d) (\<lambda>autostart.
          get_io (v_GetInfo V d) (\<lambda>info.
          get_io (v_GetXMLDesc V d) (\<lambda>xmlDesc.
            let (isoPath, diskPaths) =
                  (if xmlDesc = [] then ([], [])
                   else case v_xml_disks V xmlDesc of Inl e \<Rightarrow> ([], []) | Inr disks \<Rightarrow> disk_scan disks);
                out = zero_VMDomain\<lparr>vd_ID := unat (ucast ident :: 32 word), vd_UUID := uuid, vd_Name := name, vd_Active := active,
                        vd_Persistent := persistent, vd_Autostart := autostart, vd_ISOPath := isoPath\<rparr>
            in ret (case info of
                      None \<Rightarrow> out
                    | Some i \<Rightarrow> out\<lparr>vd_State := DomainStateString (fo_State i), vd_MaxMemMB := unat (fo_MaxMem i div 1024),
                                    vd_MemoryMB := unat (fo_Memory i div 1024), vd_VCPUs := unat (fo_NrVirtCpu i)\<rparr>,
                    diskPaths))))))))))"

section \<open>Storage and networks\<close>

definition describeStorageVolume :: "'w virt \<Rightarrow> nat option \<Rightarrow> ('w, LibvirtStorageVolume) io" where
  "describeStorageVolume V vol =
     (case vol of
        None \<Rightarrow> fail ''nil storage volume''
      | Some v \<Rightarrow>
          bind_io (v_VolGetName V v) (\<lambda>name.
          get_io (v_VolGetKey V v) (\<lambda>key.
          get_io (or_empty (v_VolGetPath V v)) (\<lambda>path.
          get_io (v_VolGetInfo V v) (\<lambda>info.
          get_io (v_VolGetXMLDesc V v) (\<lambda>xmlDesc.
            let format = (if xmlDesc = [] then [] else case v_xml_format V xmlDesc of Inl e \<Rightarrow> [] | Inr f \<Rightarrow> f);
                out = zero_LibvirtStorageVolume\<lparr>sv_Name := name, sv_Key := key, sv_Path := path, sv_Format := format\<rparr>
            in ret (case info of
                      None \<Rightarrow> out
                    | Some i \<Rightarrow> out\<lparr>sv_Capacity := unat (vo_Capacity i), sv_Allocation := unat (vo_Allocation i)\<rparr>)))))))"

definition describeStoragePool :: "'w virt \<Rightarrow> nat option \<Rightarrow> ('w, LibvirtStoragePool) io" where
  "describeStoragePool V pool =
     (case pool of
        None \<Rightarrow> fail ''nil storage pool''
      | Some p \<Rightarrow>
          bind_io (v_PoolGetName V p) (\<lambda>name.
          get_io (v_PoolGetUUIDString V p) (\<lambda>uuid.
          get_io (v_PoolIsActive V p) (\<lambda>active.
          get_io (v_PoolIsPersistent V p) (\<lambda>persistent.
          get_io (v_PoolGetAutostart V p) (\<lambda>autostart.
          get_io (v_PoolGetInfo V p) (\<lambda>info.
          bind_io (v_ListAllStorageVolumes V p) (\<lambda>vols.
          bind_io (map_io (\<lambda>v. defer_io (v_VolFree V v) (describeStorageVolume V (Some v))) vols) (\<lambda>items.
            let out = zero_LibvirtStoragePool\<lparr>sp_Name := name, sp_UUID := uuid, sp_Active := active, sp_Persistent := persistent,
                        sp_Autostart := autostart, sp_Volumes := items\<rparr>
            in ret (case info of
                      None \<Rightarrow> out
                    | Some i \<Rightarrow> out\<lparr>sp_Capacity := unat (po_Capacity i), sp_Allocation := unat (po_Allocation i),
                                    sp_Available := unat (po_Available i)\<rparr>))))))))))"

definition ListStoragePools :: "'w virt \<Rightarrow> nat option \<Rightarrow> ('w, LibvirtStoragePool list) io" where
  "ListStoragePools V conn =
     (case conn of
        None \<Rightarrow> fail ''nil libvirt connection''
      | Some c \<Rightarrow>
          bind_io (v_ListAllStoragePools V c [CONNECT_LIST_STORAGE_POOLS_ACTIVE, CONNECT_LIST_STORAGE_POOLS_INACTIVE])
            (map_io (\<lambda>p. defer_io (v_PoolFree V p) (describeStoragePool V (Some p)))))"

definition describe_network :: "'w virt \<Rightarrow> nat \<Rightarrow> ('w, LibvirtNetwork) io" where
  "describe_network V n =
     get_io (v_NetGetName V n) (\<lambda>name.
     get_io (v_NetGetUUIDString V n) (\<lambda>uuid.
     get_io (v_NetIsActive V n) (\<lambda>active.
     get_io (v_NetIsPersistent V n) (\<lambda>persistent.
     get_io (v_NetGetAutostart V n) (\<lambda>autostart.
       defer_io (v_NetFree V n) (ret \<lparr>ln_Name = name, ln_UUID = uuid, ln_Active = active,
         ln_Persistent = persistent, ln_Autostart = autostart\<rparr>))))))"

definition ListNetworks :: "'w virt \<Rightarrow> nat option \<Rightarrow> ('w, LibvirtNetwork list) io" where
  "ListNetworks V conn =
     (case conn of
        None \<Rightarrow> fail ''nil libvirt connection''
      | Some c \<Rightarrow>
          bind_io (v_ListAllNetworks V c [CONNECT_LIST_NETWORKS_ACTIVE, CONNECT_LIST_NETWORKS_INACTIVE])
            (map_io (describe_network V)))"

section \<open>XML\<close>

definition xml_char :: "char \<Rightarrow> string" where
  "xml_char c =
     (let n = (of_char c :: nat) in
      if n = 0x22 then ''&#34;''
      else if n = 0x27 then ''&#39;''
      else if n = 0x26 then ''&amp;''
      else if n = 0x3C then ''&lt;''
      else if n = 0x3E then ''&gt;''
      else if n = 0x09 then ''&#x9;''
      else if n = 0x0A then ''&#xA;''
      else if n = 0x0D then ''&#xD;''
      else if n < 0x20 then [CHR 0xEF, CHR 0xBF, CHR 0xBD]
      else [c])"

definition xmlEscape :: "string \<Rightarrow> string" where
  "xmlEscape raw = concat (map xml_char raw)"

text \<open>\<^verbatim>\<open>filepath.Ext\<close>: the text from the last dot of the last path element on.\<close>

fun ext_rev :: "string \<Rightarrow> string \<Rightarrow> string" where
  "ext_rev [] acc = []"
| "ext_rev (c # cs) acc = (if c = CHR ''/'' then [] else if c = CHR ''.'' then c # acc else ext_rev cs (c # acc))"

definition filepath_Ext :: "string \<Rightarrow> string" where
  "filepath_Ext path = ext_rev (rev path) []"

text \<open>The name of the new volume and its size, as \<^verbatim>\<open>CreateDiskVolume\<close> completes them.\<close>

definition volume_name :: "string \<Rightarrow> string" where
  "volume_name diskName = (if filepath_Ext diskName = [] then diskName @ ''.qcow2'' else diskName)"

definition volume_xml :: "string \<Rightarrow> nat \<Rightarrow> string" where
  "volume_xml diskName diskSizeGB =
     ''<volume><name>'' @ xmlEscape diskName @ ''</name><capacity unit='' @ [CHR 0x27] @ ''GiB'' @ [CHR 0x27] @ ''>''
     @ show_nat diskSizeGB @ ''</capacity><target><format type='' @ [CHR 0x27] @ ''qcow2'' @ [CHR 0x27] @ ''/></target></volume>''"

definition CreateDiskVolume :: "'w virt \<Rightarrow> nat option \<Rightarrow> string \<Rightarrow> string \<Rightarrow> nat \<Rightarrow> ('w, nat \<times> string) io" where
  "CreateDiskVolume V conn poolName diskName diskSizeGB =
     (case conn of
        None \<Rightarrow> fail ''nil libvirt connection''
      | Some c \<Rightarrow>
          let poolName = (if trim_space poolName = [] then ''default'' else trim_space poolName);
              diskName = trim_space diskName
          in if diskName = [] then fail ''disk name is required''
             else let diskSizeGB = (if diskSizeGB = 0 then 20 else diskSizeGB); diskName = volume_name diskName
                  in bind_io (v_LookupStoragePoolByName V c poolName) (\<lambda>pool.
                     defer_io (v_PoolFree V pool)
                       (bind_io (v_StorageVolCreateXML V pool (volume_xml diskName diskSizeGB)) (\<lambda>vol w.
                         case v_VolGetPath V vol w of
                           (Inl e, w) \<Rightarrow> (Inl e, v_VolFree V vol w)
                         | (Inr path, w) \<Rightarrow> (Inr (vol, path), w)))))"

text \<open>In the templates \<open>q\<close> puts a literal attribute value between single quotes.\<close>

definition q :: "string \<Rightarrow> string" where
  "q s = CHR 0x27 # s @ [CHR 0x27]"

definition BuildDomainXML :: "LibvirtVMCreateParams \<Rightarrow> string \<Rightarrow> string" where
  "BuildDomainXML params diskPath =
     (let network = (if trim_space (vcp_Network params) = [] then ''default'' else trim_space (vcp_Network params));
          memory = (if vcp_MemoryMB params = 0 then 2048 else vcp_MemoryMB params);
          vcpus = (if vcp_VCPUs params = 0 then 2 else vcp_VCPUs params);
          iso = trim_space (vcp_ISOPath params)
      in ''<domain type='' @ q ''kvm'' @ ''>''
       @ ''<name>'' @ xmlEscape (trim_space (vcp_Name params)) @ ''</name>''
       @ ''<memory unit='' @ q ''MiB'' @ ''>'' @ show_nat memory @ ''</memory>''
       @ ''<currentMemory unit='' @ q ''MiB'' @ ''>'' @ show_nat memory @ ''</currentMemory>''
       @ ''<vcpu placement='' @ q ''static'' @ ''>'' @ show_nat vcpus @ ''</vcpu>''
       @ ''<os><type arch='' @ q ''x86_64'' @ '' machine='' @ q ''pc'' @ ''>hvm</type><boot dev='' @ q ''hd'' @ ''/>''
       @ (if iso \<noteq> [] then ''<boot dev='' @ q ''cdrom'' @ ''/>'' else [])
       @ ''</os>''
       @ ''<features><acpi/><apic/><pae/></features>''
       @ ''<clock offset='' @ q ''utc'' @ ''/>''
       @ ''<on_poweroff>destroy</on_poweroff><on_reboot>restart</on_reboot><on_crash>restart</on_crash>''
       @ ''<devices>''
       @ ''<disk type='' @ q ''file'' @ '' device='' @ q ''disk'' @ ''><driver name='' @ q ''qemu'' @ '' type='' @ q ''qcow2''
       @ ''/><source file='' @ q (xmlEscape diskPath) @ ''/><target dev='' @ q ''vda'' @ '' bus='' @ q ''virtio'' @ ''/></disk>''
       @ (if iso \<noteq> [] then
            ''<disk type='' @ q ''file'' @ '' device='' @ q ''cdrom'' @ ''><driver name='' @ q ''qemu'' @ '' type='' @ q ''raw''
            @ ''/><source file='' @ q (xmlEscape iso) @ ''/><target dev='' @ q ''hdc'' @ '' bus='' @ q ''ide'' @ ''/><readonly/></disk>''
          else [])
       @ ''<interface type='' @ q ''network'' @ ''><source network='' @ q (xmlEscape network) @ ''/><model type='' @ q ''virtio'' @ ''/></interface>''
       @ ''<graphics type='' @ q ''vnc'' @ '' autoport='' @ q ''yes'' @ '' listen='' @ q ''0.0.0.0'' @ ''/>''
       @ ''<serial type='' @ q ''pty'' @ ''/><console type='' @ q ''pty'' @ ''/><input type='' @ q ''tablet'' @ '' bus='' @ q ''usb''
       @ ''/><video><model type='' @ q ''virtio'' @ ''/></video>''
       @ ''</devices></domain>'')"

definition BuildCDROMDeviceXML :: "string \<Rightarrow> string" where
  "BuildCDROMDeviceXML isoPath =
     ''<disk type='' @ q ''file'' @ '' device='' @ q ''cdrom'' @ ''><driver name='' @ q ''qemu'' @ '' type='' @ q ''raw'' @ ''/>''
     @ (if trim_space isoPath \<noteq> [] then ''<source file='' @ q (xmlEscape (trim_space isoPath)) @ ''/>'' else [])
     @ ''<target dev='' @ q ''hdc'' @ '' bus='' @ q ''ide'' @ ''/><readonly/></disk>''"

definition DeviceModifyFlags :: "bool \<Rightarrow> virt_const list" where
  "DeviceModifyFlags active =
     (if active then [DOMAIN_DEVICE_MODIFY_CONFIG, DOMAIN_DEVICE_MODIFY_LIVE] else [DOMAIN_DEVICE_MODIFY_CONFIG])"

fun delete_volumes :: "'w virt \<Rightarrow> nat \<Rightarrow> string list \<Rightarrow> ('w, unit) io" where
  "delete_volumes V c [] = ret ()"
| "delete_volumes V c (path # paths) =
     (if trim_space path = [] then delete_volumes V c paths
      else (\<lambda>w. case v_LookupStorageVolByPath V c (trim_space path) w of
                  (Inl e, w) \<Rightarrow> delete_volumes V c paths w
                | (Inr vol, w) \<Rightarrow>
                    bind_io (defer_io (v_VolFree V vol) (v_VolDelete V vol [STORAGE_VOL_DELETE_NORMAL]))
                      (\<lambda>u. delete_volumes V c paths) w))"

definition DeleteDomainVolumes :: "'w virt \<Rightarrow> nat option \<Rightarrow> string list \<Rightarrow> ('w, unit) io" where
  "DeleteDomainVolumes V conn diskPaths =
     (case conn of None \<Rightarrow> fail ''nil libvirt connection'' | Some c \<Rightarrow> delete_volumes V c diskPaths)"

section \<open>Descriptions fit the protocol\<close>

lemma unat_widths: "unat (x :: 64 word) < 2 ^ 64" "unat (y :: 32 word) < 2 ^ 32"
  using unsigned_less [of x] unsigned_less [of y] by simp_all

lemma DescribeDomain_fits: "DescribeDomain V d w = (Inr (out, paths), w') \<Longrightarrow> domain_fits out"
  using unat_widths
  by (auto simp: DescribeDomain_def io_defs domain_fits_def zero_VMDomain_def Let_def
    split: option.splits prod.splits sum.splits if_splits)


definition demo_virt :: "'w virt" where
  "demo_virt = \<lparr>v_NewConnect = (\<lambda>a. ret 1),
     v_ListAllDomains = (\<lambda>a b. ret [1]),
     v_LookupDomainByName = (\<lambda>a b. ret 1),
     v_DomainDefineXML = (\<lambda>a b. ret 1),
     v_GetName = (\<lambda>a. ret ''vm''),
     v_GetUUIDString = (\<lambda>a w. (''x'', w)),
     v_GetID = (\<lambda>a w. (- 1, w)),
     v_IsActive = (\<lambda>a w. (False, w)),
     v_IsPersistent = (\<lambda>a w. (False, w)),
     v_GetAutostart = (\<lambda>a w. (False, w)),
     v_GetInfo = (\<lambda>a w. (Some \<lparr>fo_State = DOMAIN_SHUTOFF, fo_MaxMem = - 1, fo_Memory = 1024, fo_NrVirtCpu = 2\<rparr>, w)),
     v_GetXMLDesc = (\<lambda>a w. (''x'', w)),
     v_Create = (\<lambda>a. ret ()),
     v_Shutdown = (\<lambda>a. ret ()),
     v_Reboot = (\<lambda>a b. ret ()),
     v_Destroy = (\<lambda>a. ret ()),
     v_SetAutostart = (\<lambda>a b. ret ()),
     v_UpdateDeviceFlags = (\<lambda>a b c. ret ()),
     v_UndefineFlags = (\<lambda>a b. ret ()),
     v_Free = (\<lambda>a w. w),
     v_ListAllStoragePools = (\<lambda>a b. ret [1]),
     v_LookupStoragePoolByName = (\<lambda>a b. ret 1),
     v_PoolGetName = (\<lambda>a. ret ''vm''),
     v_PoolGetUUIDString = (\<lambda>a w. (''x'', w)),
     v_PoolIsActive = (\<lambda>a w. (False, w)),
     v_PoolIsPersistent = (\<lambda>a w. (False, w)),
     v_PoolGetAutostart = (\<lambda>a w. (False, w)),
     v_PoolGetInfo = (\<lambda>a w. (None, w)),
     v_ListAllStorageVolumes = (\<lambda>a. ret [1]),
     v_StorageVolCreateXML = (\<lambda>a b. ret 1),
     v_PoolFree = (\<lambda>a w. w),
     v_LookupStorageVolByPath = (\<lambda>a b. ret 1),
     v_VolGetName = (\<lambda>a. ret ''vm''),
     v_VolGetKey = (\<lambda>a w. (''x'', w)),
     v_VolGetPath = (\<lambda>a. ret ''vm''),
     v_VolGetInfo = (\<lambda>a w. (None, w)),
     v_VolGetXMLDesc = (\<lambda>a w. (''x'', w)),
     v_VolDelete = (\<lambda>a b. ret ()),
     v_VolFree = (\<lambda>a w. w),
     v_ListAllNetworks = (\<lambda>a b. ret [1]),
     v_NetGetName = (\<lambda>a w. (''x'', w)),
     v_NetGetUUIDString = (\<lambda>a w. (''x'', w)),
     v_NetIsActive = (\<lambda>a w. (False, w)),
     v_NetIsPersistent = (\<lambda>a w. (False, w)),
     v_NetGetAutostart = (\<lambda>a w. (False, w)),
     v_NetFree = (\<lambda>a w. w),
     v_ListNetworks = (\<lambda>a w. (Some (Inr []), w)),
     v_xml_disks = (\<lambda>x. Inr [\<lparr>dx_Device = ''disk'', dx_Type = ''file'', dx_SourceFile = x, dx_TargetDev = [], dx_TargetBus = []\<rparr>]),
     v_xml_format = (\<lambda>x. Inr [])\<rparr>"


section \<open>The XML that is written\<close>

text \<open>A reader of the entities.\<close>

definition xml_entities :: "(string \<times> char) list" where
  "xml_entities = [(''&#34;'', CHR 0x22), (''&#39;'', CHR 0x27), (''&amp;'', CHR 0x26), (''&lt;'', CHR 0x3C),
     (''&gt;'', CHR 0x3E), (''&#x9;'', CHR 0x09), (''&#xA;'', CHR 0x0A), (''&#xD;'', CHR 0x0D)]"

function xml_unescape :: "string \<Rightarrow> string" where
  "xml_unescape s = (case s of
       [] \<Rightarrow> []
     | c # cs \<Rightarrow> (case find (\<lambda>(e, d). starts_with e s) xml_entities of
                    Some (e, d) \<Rightarrow> d # xml_unescape (drop (length e - 1) cs)
                  | None \<Rightarrow> c # xml_unescape cs))"
  by auto
termination by (relation "measure length") auto

declare xml_unescape.simps [simp del]

definition xml_text :: "char \<Rightarrow> bool" where
  "xml_text c \<longleftrightarrow> 0x20 \<le> (of_char c :: nat) \<or> of_char c \<in> {0x09, 0x0A, 0x0D :: nat}"

definition xml_markup :: "char \<Rightarrow> bool" where
  "xml_markup c \<longleftrightarrow> c = CHR 0x3C \<or> c = CHR 0x3E \<or> c = CHR 0x22 \<or> c = CHR 0x27"

lemma xml_unescape_plain: "c \<noteq> CHR ''&'' \<Longrightarrow> xml_unescape (c # cs) = c # xml_unescape cs"
  by (subst xml_unescape.simps) (simp add: xml_entities_def)

lemma xml_unescape_char:
  assumes "xml_text c"
  shows "xml_unescape (xml_char c @ r) = c # xml_unescape r"
proof (cases "(of_char c :: nat) \<in> {0x22, 0x27, 0x26, 0x3C, 0x3E, 0x09, 0x0A, 0x0D}")
  case True
  then have "(of_char c :: nat) \<in> of_char ` {CHR 0x22, CHR 0x27, CHR 0x26, CHR 0x3C, CHR 0x3E, CHR 0x09, CHR 0x0A, CHR 0x0D}"
    by simp
  then have "c \<in> {CHR 0x22, CHR 0x27, CHR 0x26, CHR 0x3C, CHR 0x3E, CHR 0x09, CHR 0x0A, CHR 0x0D}"
    by (simp only: image_iff of_char_eq_iff) blast
  then show ?thesis
    by (elim insertE emptyE; simp add: xml_char_def; subst xml_unescape.simps; simp add: xml_entities_def)
next
  case False
  then have "xml_char c = [c]" "c \<noteq> CHR ''&''" using assms by (auto simp: xml_char_def xml_text_def)
  then show ?thesis by (simp add: xml_unescape_plain)
qed

lemma xml_unescape_escape: "list_all xml_text s \<Longrightarrow> xml_unescape (xmlEscape s) = s"
  by (induction s) (simp_all add: xmlEscape_def xml_unescape_char, simp add: xml_unescape.simps)

lemma xml_char_markup [simp]: "filter xml_markup (xml_char c) = []"
proof -
  have "\<not> xml_markup c" if "(of_char c :: nat) \<notin> {0x22, 0x27, 0x3C, 0x3E}"
    using that by (auto simp: xml_markup_def)
  then show ?thesis by (simp add: xml_char_def xml_markup_def Let_def)
qed

lemma xmlEscape_markup [simp]: "filter xml_markup (xmlEscape s) = []"
  by (induction s) (simp_all add: xmlEscape_def)

lemma show_nat_markup [simp]: "filter xml_markup (show_nat n) = []"
  using show_nat_digits [of n] by (auto simp: list_all_iff filter_empty_conv is_digit_def xml_markup_def)

lemma q_markup: "filter xml_markup (q s) = CHR 0x27 # filter xml_markup s @ [CHR 0x27]"
  by (simp add: q_def xml_markup_def)

lemmas markup_simps = filter_append q_markup xmlEscape_markup show_nat_markup if_True if_False simp_thms



end
