(* ===== verification/Slave.thy ===== *)
theory Slave
  imports Virt
begin

text \<open>
  The slave, \<^verbatim>\<open>src/src/slave\<close>: the handlers of node commands (\<^verbatim>\<open>handlers/*.go\<close>, \<^verbatim>\<open>docker/main.go\<close>),
  the heartbeat with its readings (\<^verbatim>\<open>hardware/hardware.go\<close>), the firewall (\<^verbatim>\<open>firewall/firewall.go\<close>)
  and the connection to the master (\<^verbatim>\<open>slave.go\<close>). The Docker client is a record \<open>engine\<close> of calls on the
  world, like \<open>virt\<close> for libvirt; the readings of the hardware are arguments, and so is the outcome of
  the netlink calls of the firewall, whose rules are modelled. A panic is \<open>None\<close>.
\<close>

section \<open>Docker\<close>

record ContainerSummary =
  cs_ID :: string
  cs_Image :: string
  cs_Names :: "string list"
  cs_State :: string
  cs_Status :: string
  cs_Created :: int

record ImageSummary =
  is_ID :: string
  is_RepoTags :: "string list"
  is_Size :: int
  is_Created :: int
  is_Labels :: "(string \<times> string) list"

record DeleteResponse =
  dl_Deleted :: string
  dl_Untagged :: string

record ContainerConfig =
  cc_Image :: string
  cc_Cmd :: "string list"
  cc_Entrypoint :: "string list"
  cc_WorkingDir :: string
  cc_Env :: "string list"
  cc_ExposedPorts :: "string list"

record HostConfig =
  hc_PublishAllPorts :: bool
  hc_AutoRemove :: bool
  hc_RestartPolicy :: string

record 'w engine =
  d_New :: "('w, nat) io"
  d_ContainerList :: "nat \<Rightarrow> bool \<Rightarrow> ('w, ContainerSummary list) io"
  d_ImageList :: "nat \<Rightarrow> ('w, ImageSummary list) io"
  d_ImagePull :: "nat \<Rightarrow> string \<Rightarrow> ('w, nat) io"
  d_PullWait :: "nat \<Rightarrow> ('w, unit) io"
  d_PullClose :: "nat \<Rightarrow> 'w \<Rightarrow> 'w"
  d_ImageRemove :: "nat \<Rightarrow> string \<Rightarrow> bool \<Rightarrow> bool \<Rightarrow> ('w, DeleteResponse list) io"
  d_ContainerCreate :: "nat \<Rightarrow> ContainerConfig \<Rightarrow> HostConfig \<Rightarrow> string \<Rightarrow> ('w, string \<times> string list) io"
  d_ContainerStart :: "nat \<Rightarrow> string \<Rightarrow> ('w, unit) io"
  d_ContainerStop :: "nat \<Rightarrow> string \<Rightarrow> int option \<Rightarrow> ('w, unit) io"
  d_ContainerRestart :: "nat \<Rightarrow> string \<Rightarrow> int option \<Rightarrow> ('w, unit) io"
  d_ContainerRemove :: "nat \<Rightarrow> string \<Rightarrow> bool \<Rightarrow> bool \<Rightarrow> ('w, unit) io"
  d_ParsePort :: "string \<Rightarrow> string result"
  d_ValidateRestartPolicy :: "string \<Rightarrow> goerror option"

definition GetClient :: "'w engine \<Rightarrow> ('w host, nat) io" where
  "GetClient D h =
     (case h_client h of
        Some c \<Rightarrow> (Inr c, h)
      | None \<Rightarrow>
          (case d_New D (h_ext h) of
             (Inl e, w) \<Rightarrow> (Inl e, h\<lparr>h_ext := w\<rparr>)
           | (Inr c, w) \<Rightarrow> (Inr c, h\<lparr>h_client := Some c, h_ext := w\<rparr>)))"

text \<open>A handler answers a command with the output of the reply, \<open>None\<close> for no bytes, or an error.\<close>

type_synonym 'w command_handler = "NodeCommand \<Rightarrow> ('w host, json option) io"

definition status_ok :: "json option" where
  "status_ok = Some (JObj [(''status'', JStr ''ok'')])"

text \<open>\<^verbatim>\<open>json.Unmarshal(cmd.Params, ...)\<close>, its error replaced by the handler's own.\<close>

definition unmarshal_params :: "(json \<Rightarrow> 'a result) \<Rightarrow> goerror \<Rightarrow> NodeCommand \<Rightarrow> ('w, 'a) io" where
  "unmarshal_params dec message cmd =
     (case nc_Params cmd of
        None \<Rightarrow> fail message
      | Some j \<Rightarrow> (case dec j of Inl e \<Rightarrow> fail message | Inr params \<Rightarrow> ret params))"

definition handleDockerContainersList :: "'w engine \<Rightarrow> 'w command_handler" where
  "handleDockerContainersList D cmd =
     bind_io (GetClient D) (\<lambda>cli.
     bind_io (lift_io (d_ContainerList D cli True)) (\<lambda>containers.
       ret (Some (JArr (map (\<lambda>c. enc_DockerContainer \<lparr>dc_ID = cs_ID c, dc_Image = cs_Image c, dc_Names = cs_Names c,
         dc_State = cs_State c, dc_Status = cs_Status c, dc_Created = cs_Created c\<rparr>) containers)))))"

definition handleDockerImagesList :: "'w engine \<Rightarrow> 'w command_handler" where
  "handleDockerImagesList D cmd =
     bind_io (GetClient D) (\<lambda>cli.
     bind_io (lift_io (d_ImageList D cli)) (\<lambda>images.
       ret (Some (JArr (map (\<lambda>i. enc_DockerImage \<lparr>di_ID = is_ID i, di_RepoTags = is_RepoTags i, di_Size = is_Size i,
         di_Created = is_Created i, di_Labels = is_Labels i\<rparr>) images)))))"

definition handleDockerImagePull :: "'w engine \<Rightarrow> 'w command_handler" where
  "handleDockerImagePull D cmd =
     bind_io (unmarshal_params dec_DockerImagePullParams ''invalid image pull params'' cmd) (\<lambda>params.
       let img = trim_space (dpp_Image params)
       in if img = [] then fail ''image is required''
          else bind_io (GetClient D) (\<lambda>cli.
               bind_io (lift_io (d_ImagePull D cli img)) (\<lambda>resp.
                 lift_io (defer_io (d_PullClose D resp) (bind_io (d_PullWait D resp) (\<lambda>u. ret status_ok))))))"

definition remove_result :: "DeleteResponse list \<Rightarrow> DockerImageRemoveResult" where
  "remove_result items =
     \<lparr>drr_Deleted = filter (\<lambda>s. s \<noteq> []) (map dl_Deleted items), drr_Untagged = filter (\<lambda>s. s \<noteq> []) (map dl_Untagged items)\<rparr>"

definition handleDockerImageRemove :: "'w engine \<Rightarrow> 'w command_handler" where
  "handleDockerImageRemove D cmd =
     bind_io (unmarshal_params dec_DockerImageRemoveParams ''invalid image remove params'' cmd) (\<lambda>params.
       let img = trim_space (drp_Image params)
       in if img = [] then fail ''image is required''
          else bind_io (GetClient D) (\<lambda>cli.
               bind_io (lift_io (d_ImageRemove D cli img (drp_Force params) (drp_PruneChildren params))) (\<lambda>items.
                 ret (Some (enc_DockerImageRemoveResult (remove_result items))))))"

text \<open>\<^verbatim>\<open>strings.Fields\<close>.\<close>

fun until_space :: "string \<Rightarrow> string \<times> string" where
  "until_space [] = ([], [])"
| "until_space (c # cs) =
     (if \<exists>w \<in> set go_spaces. starts_with w (c # cs) then ([], c # cs) else apfst ((#) c) (until_space cs))"

lemma until_space_length: "length (snd (until_space s)) \<le> length s"
  by (induction s) auto

lemma trim_left_length: "length (trim_left s) \<le> length s"
proof -
  obtain p where "s = p @ trim_left s" unfolding trim_left_def using strip_words_suffix by blast
  then have "length s = length p + length (trim_left s)" by (metis length_append)
  then show ?thesis by simp
qed

function fields :: "string \<Rightarrow> string list" where
  "fields s = (case trim_left s of
       [] \<Rightarrow> []
     | c # cs \<Rightarrow> (c # fst (until_space cs)) # fields (snd (until_space cs)))"
  by auto
termination
proof (relation "measure length")
  fix s c cs assume "trim_left s = c # cs"
  then have "Suc (length cs) \<le> length s" using trim_left_length [of s] by simp
  then show "(snd (until_space cs), s) \<in> measure length" using until_space_length [of cs] by simp
qed simp

declare fields.simps [simp del]

fun parse_ports :: "(string \<Rightarrow> string result) \<Rightarrow> string list \<Rightarrow> string list result" where
  "parse_ports parse [] = Inr []"
| "parse_ports parse (raw # ports) =
     (case parse (trim_space raw) of
        Inl e \<Rightarrow> Inl (''invalid port: '' @ raw)
      | Inr p \<Rightarrow> bind_result (parse_ports parse ports) (\<lambda>ps. Inr (if p \<in> set ps then ps else p # ps)))"

definition container_config :: "'w engine \<Rightarrow> string \<Rightarrow> DockerContainerCreateParams \<Rightarrow> ContainerConfig result" where
  "container_config D img params =
     bind_result (parse_ports (d_ParsePort D) (dcp_Ports params)) (\<lambda>ports.
       Inr \<lparr>cc_Image = img,
             cc_Cmd = (if trim_space (dcp_Command params) \<noteq> [] then fields (dcp_Command params) else []),
             cc_Entrypoint = (if trim_space (dcp_Entrypoint params) \<noteq> [] then fields (dcp_Entrypoint params) else []),
             cc_WorkingDir = trim_space (dcp_WorkingDir params),
             cc_Env = dcp_Env params, cc_ExposedPorts = ports\<rparr>)"

definition host_config :: "'w engine \<Rightarrow> DockerContainerCreateParams \<Rightarrow> HostConfig result" where
  "host_config D params =
     (let hc = \<lparr>hc_PublishAllPorts = dcp_PublishAll params, hc_AutoRemove = dcp_AutoRemove params, hc_RestartPolicy = []\<rparr>
      in if dcp_RestartPolicy params = [] then Inr hc
         else let policy = trim_space (dcp_RestartPolicy params)
              in case d_ValidateRestartPolicy D policy of
                   Some e \<Rightarrow> Inl e
                 | None \<Rightarrow> Inr (hc\<lparr>hc_RestartPolicy := policy\<rparr>))"

definition of_result :: "'a result \<Rightarrow> ('w, 'a) io" where
  "of_result r w = (r, w)"

definition handleDockerContainerCreate :: "'w engine \<Rightarrow> 'w command_handler" where
  "handleDockerContainerCreate D cmd =
     bind_io (unmarshal_params dec_DockerContainerCreateParams ''invalid container create params'' cmd) (\<lambda>params.
       let img = trim_space (dcp_Image params)
       in if img = [] then fail ''image is required''
          else bind_io (GetClient D) (\<lambda>cli.
               bind_io (of_result (container_config D img params)) (\<lambda>config.
               bind_io (of_result (host_config D params)) (\<lambda>hostConfig.
               bind_io (lift_io (d_ContainerCreate D cli config hostConfig (trim_space (dcp_Name params)))) (\<lambda>(ident, warnings).
               bind_io (if dcp_Start params then lift_io (d_ContainerStart D cli ident) else ret ()) (\<lambda>u.
                 ret (Some (enc_DockerContainerCreateResult \<lparr>dcr_ID = ident, dcr_Warnings = warnings\<rparr>))))))))"

definition handleDockerContainerStart :: "'w engine \<Rightarrow> 'w command_handler" where
  "handleDockerContainerStart D cmd =
     bind_io (unmarshal_params dec_DockerContainerStartParams ''invalid container start params'' cmd) (\<lambda>params.
       if trim_space (dsp_ID params) = [] then fail ''id is required''
       else bind_io (GetClient D) (\<lambda>cli.
            bind_io (lift_io (d_ContainerStart D cli (dsp_ID params))) (\<lambda>u. ret status_ok)))"

definition handleDockerContainerStop :: "'w engine \<Rightarrow> 'w command_handler" where
  "handleDockerContainerStop D cmd =
     bind_io (unmarshal_params dec_DockerContainerStopParams ''invalid container stop params'' cmd) (\<lambda>params.
       if trim_space (dtp_ID params) = [] then fail ''id is required''
       else bind_io (GetClient D) (\<lambda>cli.
            bind_io (lift_io (d_ContainerStop D cli (dtp_ID params) (dtp_TimeoutSeconds params))) (\<lambda>u. ret status_ok)))"

definition handleDockerContainerRestart :: "'w engine \<Rightarrow> 'w command_handler" where
  "handleDockerContainerRestart D cmd =
     bind_io (unmarshal_params dec_DockerContainerRestartParams ''invalid container restart params'' cmd) (\<lambda>params.
       if trim_space (dxp_ID params) = [] then fail ''id is required''
       else bind_io (GetClient D) (\<lambda>cli.
            bind_io (lift_io (d_ContainerRestart D cli (dxp_ID params) (dxp_TimeoutSeconds params))) (\<lambda>u. ret status_ok)))"

definition handleDockerContainerRemove :: "'w engine \<Rightarrow> 'w command_handler" where
  "handleDockerContainerRemove D cmd =
     bind_io (unmarshal_params dec_DockerContainerRemoveParams ''invalid container remove params'' cmd) (\<lambda>params.
       if trim_space (dvp_ID params) = [] then fail ''id is required''
       else bind_io (GetClient D) (\<lambda>cli.
            bind_io (lift_io (d_ContainerRemove D cli (dvp_ID params) (dvp_Force params) (dvp_RemoveVolumes params))) (\<lambda>u.
              ret status_ok)))"

section \<open>Virtual machines\<close>

definition handleLibvirtDomainsList :: "'w virt \<Rightarrow> 'w command_handler" where
  "handleLibvirtDomainsList V cmd =
     bind_io (GetQEMU V) (\<lambda>qemu.
     bind_io (lift_io (GetDomains V qemu)) (\<lambda>domains.
     bind_io (lift_io (map_io (\<lambda>d. defer_io (v_Free V d) (bind_io (DescribeDomain V (Some d)) (\<lambda>(item, paths). ret item))) domains))
       (\<lambda>items. ret (Some (JArr (map enc_VMDomain items))))))"

definition handleLibvirtStoragePoolsList :: "'w virt \<Rightarrow> 'w command_handler" where
  "handleLibvirtStoragePoolsList V cmd =
     bind_io (GetQEMU V) (\<lambda>qemu.
     bind_io (lift_io (ListStoragePools V (Some qemu))) (\<lambda>pools. ret (Some (JArr (map enc_LibvirtStoragePool pools)))))"

definition handleLibvirtNetworksList :: "'w virt \<Rightarrow> 'w command_handler" where
  "handleLibvirtNetworksList V cmd =
     bind_io (GetQEMU V) (\<lambda>qemu.
     bind_io (lift_io (ListNetworks V (Some qemu))) (\<lambda>networks. ret (Some (JArr (map enc_LibvirtNetwork networks)))))"

text \<open>\<^verbatim>\<open>CreateDiskVolume\<close> never returns a \<^verbatim>\<open>nil\<close> volume without an error, so the tests of \<^verbatim>\<open>vol\<close> succeed.\<close>

definition handleLibvirtVMCreate :: "'w virt \<Rightarrow> 'w command_handler" where
  "handleLibvirtVMCreate V cmd =
     bind_io (unmarshal_params dec_LibvirtVMCreateParams ''invalid vm create params'' cmd) (\<lambda>params.
       let params = params\<lparr>vcp_Name := trim_space (vcp_Name params)\<rparr>
       in if vcp_Name params = [] then fail ''vm name is required''
          else let params = (if vcp_DiskName params = [] then params\<lparr>vcp_DiskName := vcp_Name params\<rparr> else params)
          in bind_io (GetQEMU V) (\<lambda>qemu.
             lift_io (
               bind_io (CreateDiskVolume V (Some qemu) (vcp_DiskPool params) (vcp_DiskName params) (vcp_DiskSizeGB params)) (\<lambda>(vol, diskPath).
               defer_io (v_VolFree V vol) (
                 bind_io (v_DomainDefineXML V qemu (BuildDomainXML params diskPath)) (\<lambda>domain.
                 defer_io (v_Free V domain) (
                   bind_io (if vcp_Autostart params then v_SetAutostart V domain True else ret ()) (\<lambda>u.
                   bind_io (if vcp_Start params then v_Create V domain else ret ()) (\<lambda>u.
                   get_io (v_GetUUIDString V domain) (\<lambda>uuid.
                   get_io (or_empty (v_VolGetName V vol)) (\<lambda>volumeName.
                     ret (Some (enc_LibvirtVMCreateResult \<lparr>vcr_Name = vcp_Name params, vcr_UUID = uuid,
                       vcr_DiskVolume = volumeName, vcr_DiskPath = diskPath\<rparr>)))))))))))))"

definition handleDomainAction :: "'w virt \<Rightarrow> (nat \<Rightarrow> ('w, unit) io) \<Rightarrow> 'w command_handler" where
  "handleDomainAction V action cmd =
     bind_io (unmarshal_params dec_LibvirtVMActionParams ''invalid vm action params'' cmd) (\<lambda>params.
     bind_io (GetQEMU V) (\<lambda>qemu.
     lift_io (
       bind_io (LookupDomainByName V (Some qemu) (vap_Name params)) (\<lambda>domain.
       defer_io (v_Free V domain) (bind_io (action domain) (\<lambda>u. ret status_ok))))))"

definition handleLibvirtVMStart :: "'w virt \<Rightarrow> 'w command_handler" where
  "handleLibvirtVMStart V = handleDomainAction V (v_Create V)"

definition handleLibvirtVMShutdown :: "'w virt \<Rightarrow> 'w command_handler" where
  "handleLibvirtVMShutdown V = handleDomainAction V (v_Shutdown V)"

definition handleLibvirtVMReboot :: "'w virt \<Rightarrow> 'w command_handler" where
  "handleLibvirtVMReboot V = handleDomainAction V (\<lambda>d. v_Reboot V d 0)"

definition handleLibvirtVMDestroy :: "'w virt \<Rightarrow> 'w command_handler" where
  "handleLibvirtVMDestroy V = handleDomainAction V (v_Destroy V)"

definition handleLibvirtVMSetAutostart :: "'w virt \<Rightarrow> 'w command_handler" where
  "handleLibvirtVMSetAutostart V cmd =
     bind_io (unmarshal_params dec_LibvirtVMSetAutostartParams ''invalid vm autostart params'' cmd) (\<lambda>params.
     bind_io (GetQEMU V) (\<lambda>qemu.
     lift_io (
       bind_io (LookupDomainByName V (Some qemu) (vsp_Name params)) (\<lambda>domain.
       defer_io (v_Free V domain) (
         bind_io (v_SetAutostart V domain (vsp_Enabled params)) (\<lambda>u.
           ret (Some (JObj [(''enabled'', JBool (vsp_Enabled params))]))))))))"

definition handleLibvirtVMAttachISO :: "'w virt \<Rightarrow> 'w command_handler" where
  "handleLibvirtVMAttachISO V cmd =
     bind_io (unmarshal_params dec_LibvirtVMAttachISOParams ''invalid vm iso params'' cmd) (\<lambda>params.
       let name = trim_space (vip_Name params); iso = trim_space (vip_ISOPath params)
       in if name = [] \<or> iso = [] then fail ''vm name and iso path are required''
          else bind_io (GetQEMU V) (\<lambda>qemu.
               lift_io (
                 bind_io (LookupDomainByName V (Some qemu) name) (\<lambda>domain.
                 defer_io (v_Free V domain) (
                   get_io (v_IsActive V domain) (\<lambda>active.
                   bind_io (v_UpdateDeviceFlags V domain (BuildCDROMDeviceXML iso) (DeviceModifyFlags active)) (\<lambda>u.
                     ret (Some (JObj [(''iso_path'', JStr iso)])))))))))"

definition handleLibvirtVMDetachISO :: "'w virt \<Rightarrow> 'w command_handler" where
  "handleLibvirtVMDetachISO V cmd =
     bind_io (unmarshal_params dec_LibvirtVMActionParams ''invalid vm detach iso params'' cmd) (\<lambda>params.
     bind_io (GetQEMU V) (\<lambda>qemu.
     lift_io (
       bind_io (LookupDomainByName V (Some qemu) (vap_Name params)) (\<lambda>domain.
       defer_io (v_Free V domain) (
         get_io (v_IsActive V domain) (\<lambda>active.
         bind_io (v_UpdateDeviceFlags V domain (BuildCDROMDeviceXML []) (DeviceModifyFlags active)) (\<lambda>u. ret status_ok)))))))"

text \<open>The deletion proper, once the domain has been found.\<close>

definition delete_domain :: "'w virt \<Rightarrow> nat \<Rightarrow> nat \<Rightarrow> LibvirtVMDeleteParams \<Rightarrow> ('w, json option) io" where
  "delete_domain V qemu domain params =
     bind_io (DescribeDomain V (Some domain)) (\<lambda>(item, diskPaths).
     get_io (v_IsActive V domain) (\<lambda>active.
     bind_io (if active then (if \<not> vdp_ForceStop params then fail ''domain is running; force stop first'' else v_Destroy V domain)
              else ret ()) (\<lambda>u.
     bind_io (v_UndefineFlags V domain [DOMAIN_UNDEFINE_MANAGED_SAVE, DOMAIN_UNDEFINE_SNAPSHOTS_METADATA,
                DOMAIN_UNDEFINE_CHECKPOINTS_METADATA, DOMAIN_UNDEFINE_NVRAM]) (\<lambda>u.
     bind_io (if vdp_RemoveVolumes params then DeleteDomainVolumes V (Some qemu) diskPaths else ret ()) (\<lambda>u.
       ret (Some (JObj [(''removed_volumes'', JBool (vdp_RemoveVolumes params))])))))))"

definition handleLibvirtVMDelete :: "'w virt \<Rightarrow> 'w command_handler" where
  "handleLibvirtVMDelete V cmd =
     bind_io (unmarshal_params dec_LibvirtVMDeleteParams ''invalid vm delete params'' cmd) (\<lambda>params.
     bind_io (GetQEMU V) (\<lambda>qemu.
     lift_io (
       bind_io (LookupDomainByName V (Some qemu) (vdp_Name params)) (\<lambda>domain.
       defer_io (v_Free V domain) (delete_domain V qemu domain params)))))"

section \<open>Dispatch\<close>

definition handleNoop :: "'w command_handler" where
  "handleNoop cmd = ret None"

definition commandHandlers :: "'w engine \<Rightarrow> 'w virt \<Rightarrow> (string \<times> 'w command_handler) list" where
  "commandHandlers D V =
     [(''docker.containers.list'', handleDockerContainersList D),
      (''docker.images.list'', handleDockerImagesList D),
      (''docker.image.pull'', handleDockerImagePull D),
      (''docker.image.remove'', handleDockerImageRemove D),
      (''docker.container.create'', handleDockerContainerCreate D),
      (''docker.container.start'', handleDockerContainerStart D),
      (''docker.container.stop'', handleDockerContainerStop D),
      (''docker.container.restart'', handleDockerContainerRestart D),
      (''docker.container.remove'', handleDockerContainerRemove D),
      (''libvirt.domains.list'', handleLibvirtDomainsList V),
      (''libvirt.storage.pools.list'', handleLibvirtStoragePoolsList V),
      (''libvirt.networks.list'', handleLibvirtNetworksList V),
      (''libvirt.domain.create'', handleLibvirtVMCreate V),
      (''libvirt.domain.start'', handleLibvirtVMStart V),
      (''libvirt.domain.shutdown'', handleLibvirtVMShutdown V),
      (''libvirt.domain.reboot'', handleLibvirtVMReboot V),
      (''libvirt.domain.destroy'', handleLibvirtVMDestroy V),
      (''libvirt.domain.delete'', handleLibvirtVMDelete V),
      (''libvirt.domain.autostart'', handleLibvirtVMSetAutostart V),
      (''libvirt.domain.iso.attach'', handleLibvirtVMAttachISO V),
      (''libvirt.domain.iso.detach'', handleLibvirtVMDetachISO V),
      (''noop'', handleNoop)]"

definition writeCommandReply :: "writer option \<Rightarrow> string \<Rightarrow> CommandReply \<Rightarrow> goerror option \<times> writer option" where
  "writeCommandReply w replyTo payload =
     (case NewReply PacketNodeCommandReply replyTo (Some (enc_CommandReply payload)) of
        Inl e \<Rightarrow> (Some e, w)
      | Inr reply \<Rightarrow> WritePacket w reply)"

text \<open>What a command is answered with; \<^verbatim>\<open>handleNodeCommand\<close> writes it.\<close>

definition run_command :: "'w engine \<Rightarrow> 'w virt \<Rightarrow> Packet \<Rightarrow> 'w host \<Rightarrow> CommandReply \<times> 'w host" where
  "run_command D V p h =
     (case DecodePayload dec_NodeCommand p of
        Inl e \<Rightarrow> (error_reply [] ''invalid command'', h)
      | Inr cmd \<Rightarrow>
          (case map_of (commandHandlers D V) (trim_space (nc_Action cmd)) of
             None \<Rightarrow> (error_reply [] ''unknown action'', h)
           | Some handler \<Rightarrow>
               (case handler cmd h of
                  (Inl e, h) \<Rightarrow> (error_reply [] e, h)
                | (Inr out, h) \<Rightarrow> (zero_CommandReply\<lparr>cr_Status := ''ok'', cr_Output := out\<rparr>, h))))"

definition handleNodeCommand ::
  "'w engine \<Rightarrow> 'w virt \<Rightarrow> 'w host \<Rightarrow> writer option \<Rightarrow> Packet \<Rightarrow> goerror option \<times> writer option \<times> 'w host" where
  "handleNodeCommand D V h w p =
     (let (reply, h) = run_command D V p h; (e, w) = writeCommandReply w (pk_ID p) reply in (e, w, h))"

section \<open>Heartbeat\<close>

text \<open>What \<^verbatim>\<open>gopsutil\<close> reports: memory (total, used per cent), the list of \<^verbatim>\<open>cpu.Percent\<close>, empty with its
  error, and the number of cores.\<close>

record readings =
  hw_ram :: "(nat \<times> string) result"
  hw_cpu :: "string list"
  hw_cores :: int

record HardwareInfo =
  hi_Total :: nat
  hi_UsedPercent :: string
  hi_CPU :: string
  hi_CPUCores :: int

definition GetHardwareInfo :: "readings \<Rightarrow> HardwareInfo option" where
  "GetHardwareInfo hw =
     (let (total, used) = (case hw_ram hw of Inl e \<Rightarrow> (0, ''0'') | Inr r \<Rightarrow> r)
      in case hw_cpu hw of
           [] \<Rightarrow> None
         | c # cs \<Rightarrow> Some \<lparr>hi_Total = total, hi_UsedPercent = used, hi_CPU = c, hi_CPUCores = hw_cores hw\<rparr>)"

definition handleHeartbeat :: "readings \<Rightarrow> writer option \<Rightarrow> Packet \<Rightarrow> (goerror option \<times> writer option) option" where
  "handleHeartbeat hw w p =
     map_option (\<lambda>i.
       case NewReply PacketHeartbeatReply (pk_ID p) (Some (enc_Heartbeat
              \<lparr>hb_Usage = \<lparr>hu_CPUPercent = hi_CPU i, hu_RAMPercent = hi_UsedPercent i\<rparr>,
               hb_Hardware = \<lparr>hh_CPUCores = hi_CPUCores i, hh_RAMBytes = hi_Total i\<rparr>\<rparr>)) of
         Inl e \<Rightarrow> (Some e, w)
       | Inr reply \<Rightarrow> WritePacket w reply) (GetHardwareInfo hw)"

section \<open>The connection to the master\<close>

text \<open>One turn of the loop: whether it goes on, with the writer and the process.\<close>

definition slave_packet ::
  "'w engine \<Rightarrow> 'w virt \<Rightarrow> readings \<Rightarrow> 'w host \<Rightarrow> writer option \<Rightarrow> Packet \<Rightarrow> (bool \<times> writer option \<times> 'w host) option" where
  "slave_packet D V hw h w p =
     (if pk_Type p = PacketHeartbeat then map_option (\<lambda>(e, w). (e = None, w, h)) (handleHeartbeat hw w p)
      else if pk_Type p = PacketNodeCommand then
        (case handleNodeCommand D V h w p of (e, w, h) \<Rightarrow> Some (e = None, w, h))
      else Some (True, w, h))"

datatype slave_outcome = Connected | ExitOne | Returned

text \<open>The login; the key loaders of \<^verbatim>\<open>slave.go\<close> are the same text as those of the master.\<close>

definition Connect_login ::
  "crypto \<Rightarrow> keystore \<Rightarrow> Config \<Rightarrow> reader option \<Rightarrow> writer option \<Rightarrow> slave_outcome \<times> reader option \<times> writer option" where
  "Connect_login C K cfg rd w =
     (case loadEd25519Public K (sl_PubKeyPath (cf_Slave cfg)) of
        Inl e \<Rightarrow> (ExitOne, rd, w)
      | Inr pub \<Rightarrow>
          (case loadEd25519Private K (sl_PrivKeyPath (cf_Slave cfg)) of
             Inl e \<Rightarrow> (ExitOne, rd, w)
           | Inr priv \<Rightarrow>
               (case WriteHello w HeaderMasterSlave of
                  (Some e, w) \<Rightarrow> (ExitOne, rd, w)
                | (None, w) \<Rightarrow>
                    (case IDFromPublicKey C pub of
                       Inl e \<Rightarrow> (ExitOne, rd, w)
                     | Inr clientID \<Rightarrow>
                         let ah = zero_AuthHello\<lparr>ah_ID := clientID, ah_PubKey := b64_encode pub, ah_Role := ''slave''\<rparr>
                         in case WritePacket w (packet_of (NewPacket PacketAuthHello (Some (enc_AuthHello ah)))) of
                              (Some e, w) \<Rightarrow> (ExitOne, rd, w)
                            | (None, w) \<Rightarrow>
                                (case ReadPacket rd of
                                   (Inl e, rd) \<Rightarrow> (ExitOne, rd, w)
                                 | (Inr cp, rd) \<Rightarrow>
                                     if pk_Type cp = PacketError \<or> pk_Type cp \<noteq> PacketAuthChallenge then (ExitOne, rd, w)
                                     else (case DecodePayload dec_AuthChallenge cp of
                                             Inl e \<Rightarrow> (ExitOne, rd, w)
                                           | Inr ch \<Rightarrow>
                                               (case SignChallenge C priv (ac_Challenge ch) of
                                                  Inl e \<Rightarrow> (ExitOne, rd, w)
                                                | Inr sig \<Rightarrow>
                                                    (case WritePacket w (packet_of (NewPacket PacketAuthProof
                                                            (Some (enc_AuthProof \<lparr>ap_Signature = sig\<rparr>)))) of
                                                       (Some e, w) \<Rightarrow> (ExitOne, rd, w)
                                                     | (None, w) \<Rightarrow>
                                                         (case ReadPacket rd of
                                                            (Inl e, rd) \<Rightarrow> (ExitOne, rd, w)
                                                          | (Inr resp, rd) \<Rightarrow>
                                                              (if pk_Type resp \<noteq> PacketAuthOK then Returned else Connected, rd, w))))))))))"

text \<open>Between the login and the loop: the networks are listed, on a \<^verbatim>\<open>nil\<close> connection if there is none.\<close>

definition Connect_networks :: "'w virt \<Rightarrow> 'w host \<Rightarrow> 'w host option" where
  "Connect_networks V h =
     (case GetQEMU V h of
        (r, h) \<Rightarrow>
          (case v_ListNetworks V (case r of Inr c \<Rightarrow> Some c | Inl e \<Rightarrow> None) (h_ext h) of
             (None, w) \<Rightarrow> None
           | (Some r, w) \<Rightarrow> Some (h\<lparr>h_ext := w\<rparr>)))"

section \<open>The firewall\<close>

datatype nft_key = MetaKeyIIFNAME | MetaKeyL4PROTO

datatype nft_base = PayloadBaseNetworkHeader | PayloadBaseTransportHeader

text \<open>Expressions of a rule, all on register 1; \<open>None\<close> is a \<^verbatim>\<open>nil\<close> slice.\<close>

datatype nft_expr = Meta nft_key | CmpEq "bytes option" | Payload nft_base nat nat | VerdictAccept

datatype nft_op = FlushRuleset | AddTable string | AddInputChainDrop string | AddRule "nft_expr list"

text \<open>\<^verbatim>\<open>net.ParseIP(s).To4()\<close> of a text without a colon: four decimal octets.\<close>

definition parse_octet :: "string \<Rightarrow> (8 word) option" where
  "parse_octet s =
     (if s = [] \<or> \<not> list_all is_digit s \<or> (hd s = CHR ''0'' \<and> length s > 1) \<or> read_digits s > 255 then None
      else Some (of_nat (read_digits s)))"

definition parse_ip4 :: "string \<Rightarrow> bytes option" where
  "parse_ip4 s =
     (let os = map parse_octet (split_on (CHR ''.'') s)
      in if length os \<noteq> 4 \<or> None \<in> set os then None else Some (map the os))"

text \<open>The operations that are queued; \<open>None\<close> when \<^verbatim>\<open>strings.Split(...)[1]\<close> is out of range.\<close>

definition firewall_ops :: "string \<Rightarrow> nft_op list option" where
  "firewall_ops master =
     (let parts = split_on (CHR '':'') master
      in if length parts \<le> 1 then None
         else Some [FlushRuleset, AddTable ''filter'', AddInputChainDrop ''input'',
           AddRule [Meta MetaKeyIIFNAME, CmpEq (Some (str_bytes [CHR ''l'', CHR ''o'', CHR 0x00])), VerdictAccept],
           AddRule [Payload PayloadBaseNetworkHeader 12 4, CmpEq (parse_ip4 (parts ! 1)), VerdictAccept],
           AddRule [Meta MetaKeyL4PROTO, CmpEq (Some [6]), Payload PayloadBaseTransportHeader 2 2, CmpEq (Some [0, 22]), VerdictAccept]])"

definition SetupFirewall :: "goerror option \<Rightarrow> (nft_op list \<Rightarrow> goerror option) \<Rightarrow> Config \<Rightarrow> goerror option option" where
  "SetupFirewall nft_New nft_Flush cfg =
     (case nft_New of
        Some e \<Rightarrow> Some (Some e)
      | None \<Rightarrow> map_option nft_Flush (firewall_ops (sl_Master (cf_Slave cfg))))"

section \<open>Numbers are well-formed JSON\<close>

lemma digit_char_zero: "d < 10 \<Longrightarrow> digit_char d = CHR ''0'' \<longleftrightarrow> d = 0"
proof -
  assume "d < 10"
  then have "(of_char (digit_char d) :: nat) = 48 + d" by (simp add: digit_char_def of_char_of)
  moreover have "(of_char (CHR ''0'') :: nat) = 48" by simp
  ultimately show ?thesis by (metis add_cancel_left_right of_char_eq_iff)
qed

lemma show_nat_head: "hd (show_nat n) = CHR ''0'' \<longleftrightarrow> n = 0"
  by (induction n rule: show_nat.induct) (subst show_nat.simps, auto simp: hd_append digit_char_zero div_eq_0_iff)

lemma show_nat_0: "show_nat 0 = ''0''"
  by (simp add: show_nat.simps [of 0] digit_char_zero)

lemma read_int_show: "read_int_part (show_nat n) = Some (show_nat n, [])"
proof (cases "n = 0")
  case False
  then have "hd (show_nat n) \<noteq> CHR ''0''" by (simp add: show_nat_head)
  moreover have "takeWhile is_digit (show_nat n) = show_nat n" "dropWhile is_digit (show_nat n) = []"
    using show_nat_digits [of n] by (simp_all add: list_all_iff takeWhile_eq_all_conv dropWhile_eq_Nil_conv)
  ultimately show ?thesis
    by (cases "show_nat n") (auto simp: read_int_part_def split: if_splits)
qed (simp add: read_int_part_def show_nat_0)

lemma read_num_show [simp]: "read_num (show_nat n) = Some (show_nat n, [])" "read_num (CHR ''-'' # show_nat n) = Some (CHR ''-'' # show_nat n, [])"
proof -
  have "hd (show_nat n) \<noteq> CHR ''-''"
    using show_nat_digits [of n] by (cases "show_nat n") (auto simp: is_digit_def)
  then show "read_num (show_nat n) = Some (show_nat n, [])"
    using read_int_show [of n] by (cases "show_nat n") (auto simp: read_num_def read_frac_def read_exp_def)
  show "read_num (CHR ''-'' # show_nat n) = Some (CHR ''-'' # show_nat n, [])"
    using read_int_show [of n] by (simp add: read_num_def read_frac_def read_exp_def)
qed

lemma read_num_show_int [simp]: "read_num (show_int i) = Some (show_int i, [])"
  by (simp add: show_int_def)

lemma wf_strings [simp]: "wf_elems (map JStr ss)" "wf_members (map (\<lambda>(k, v). (k, JStr v)) kvs)"
  by (auto simp: wf_elems_iff wf_members_iff)

lemma wf_enc [simp]:
  "wf_json (enc_VMDomain d)" "wf_json (enc_DockerContainer dc)" "wf_json (enc_DockerImage di)"
  "wf_json (enc_DockerImageRemoveResult drr)" "wf_json (enc_DockerContainerCreateResult dcr)" "wf_json (enc_LibvirtNetwork ln)"
  "wf_json (enc_LibvirtStorageVolume sv)" "wf_json (enc_LibvirtVMCreateResult vcr)"
  by (simp_all add: enc_VMDomain_def enc_DockerContainer_def enc_DockerImage_def enc_DockerImageRemoveResult_def
    enc_DockerContainerCreateResult_def enc_LibvirtNetwork_def enc_LibvirtStorageVolume_def enc_LibvirtVMCreateResult_def)

lemma wf_enc_pool [simp]: "wf_json (enc_LibvirtStoragePool sp)"
  by (simp add: enc_LibvirtStoragePool_def wf_elems_iff)

section \<open>Handlers\<close>

text \<open>The contract of a handler: the output of a success is well-formed JSON, and a connection that the
  process holds stays the one it holds.\<close>

definition keeps_conns :: "'w host \<Rightarrow> 'w host \<Rightarrow> bool" where
  "keeps_conns h h' \<longleftrightarrow> (\<forall>c. h_conn h = Some c \<longrightarrow> h_conn h' = Some c) \<and> (\<forall>c. h_client h = Some c \<longrightarrow> h_client h' = Some c)"

lemma keeps_conns_refl [simp]: "keeps_conns h h" "keeps_conns h (h\<lparr>h_ext := w\<rparr>)"
  by (simp_all add: keeps_conns_def)

lemma keeps_conns_trans: "keeps_conns h h' \<Longrightarrow> keeps_conns h' h'' \<Longrightarrow> keeps_conns h h''"
  by (simp add: keeps_conns_def)

definition io_ok :: "('a \<Rightarrow> bool) \<Rightarrow> ('w host, 'a) io \<Rightarrow> bool" where
  "io_ok Q m \<longleftrightarrow> (\<forall>h r h'. m h = (r, h') \<longrightarrow> keeps_conns h h' \<and> (\<forall>x. r = Inr x \<longrightarrow> Q x))"

definition wf_output :: "json option \<Rightarrow> bool" where
  "wf_output out \<longleftrightarrow> (case out of None \<Rightarrow> True | Some j \<Rightarrow> wf_json j)"

named_theorems io_intros \<open>rules for the contract of computations\<close>

lemma io_ok_ret [io_intros]: "Q x \<Longrightarrow> io_ok Q (ret x)"
  by (simp add: io_ok_def ret_def)

lemma io_ok_fail [io_intros]: "io_ok Q (fail e)"
  by (simp add: io_ok_def fail_def)

lemma io_ok_bind [io_intros]:
  assumes "io_ok (\<lambda>x. True) m" "\<And>x. io_ok Q (f x)"
  shows "io_ok Q (bind_io m f)"
  unfolding io_ok_def
proof (intro allI impI)
  fix h r h' assume run: "bind_io m f h = (r, h')"
  obtain s h1 where m: "m h = (s, h1)" by fastforce
  then have k: "keeps_conns h h1" using assms(1) by (auto simp: io_ok_def)
  show "keeps_conns h h' \<and> (\<forall>x. r = Inr x \<longrightarrow> Q x)"
  proof (cases s)
    case (Inr x)
    then have "f x h1 = (r, h')" using run m by (simp add: bind_io_def)
    then show ?thesis using assms(2) [of x] keeps_conns_trans [OF k] unfolding io_ok_def by blast
  qed (use run m k in \<open>auto simp: bind_io_def\<close>)
qed

lemma io_ok_lift: "(\<And>w x w'. m w = (Inr x, w') \<Longrightarrow> Q x) \<Longrightarrow> io_ok Q (lift_io m)"
  by (auto simp: io_ok_def lift_io_def split: prod.splits)

lemma io_ok_conns [io_intros]: "io_ok (\<lambda>x. True) (GetQEMU V)" "io_ok (\<lambda>x. True) (GetClient D)"
  by (auto simp: io_ok_def GetQEMU_def GetClient_def keeps_conns_def split: prod.splits sum.splits option.splits)

lemma io_ok_pure [io_intros]: "io_ok (\<lambda>x. True) (unmarshal_params dec m cmd)" "io_ok (\<lambda>x. True) (of_result r)"
  by (auto simp: io_ok_def unmarshal_params_def of_result_def io_defs split: option.splits sum.splits)

lemma io_ok_If [io_intros]: "(c \<Longrightarrow> io_ok Q m) \<Longrightarrow> (\<not> c \<Longrightarrow> io_ok Q m') \<Longrightarrow> io_ok Q (if c then m else m')"
  by simp

lemma io_ok_prod [io_intros]: "(\<And>a b. io_ok Q (f a b)) \<Longrightarrow> io_ok Q (case p of (a, b) \<Rightarrow> f a b)"
  by (cases p) simp

text \<open>The same for the computations on the world, where only the result matters.\<close>

definition post :: "('a \<Rightarrow> bool) \<Rightarrow> ('w, 'a) io \<Rightarrow> bool" where
  "post Q m \<longleftrightarrow> (\<forall>w x w'. m w = (Inr x, w') \<longrightarrow> Q x)"

lemma io_ok_lift_post [io_intros]: "post Q m \<Longrightarrow> io_ok Q (lift_io m)"
  by (auto simp: post_def intro: io_ok_lift)

lemma post_True [simp]: "post (\<lambda>x. True) m"
  by (simp add: post_def)

lemma post_intros [io_intros]:
  "Q r \<Longrightarrow> post Q (ret r)" "(\<And>x. post Q (f x)) \<Longrightarrow> post Q (bind_io n f)" "(\<And>y. post Q (g y)) \<Longrightarrow> post Q (get_io v g)"
  "post Q m \<Longrightarrow> post Q (defer_io c m)" "(\<And>a b. post Q (k a b)) \<Longrightarrow> post Q (case p of (a, b) \<Rightarrow> k a b)"
  by (fastforce simp: post_def io_defs split: prod.splits sum.splits)+

lemma wf_status_ok [simp]: "wf_output status_ok"
  by (simp add: wf_output_def status_ok_def)

lemma wf_output_enc:
  "wf_output None" "wf_output (Some (JArr (map f xs))) \<longleftrightarrow> (\<forall>x \<in> set xs. wf_json (f x))"
  "wf_output (Some (enc_DockerImageRemoveResult drr))" "wf_output (Some (enc_DockerContainerCreateResult dcr))"
  "wf_output (Some (enc_LibvirtVMCreateResult vcr))" "wf_output (Some (JObj [(k, JBool b)]))" "wf_output (Some (JObj [(k, JStr s)]))"
  by (simp_all add: wf_output_def wf_elems_iff)

lemma docker_handlers_ok:
  "io_ok wf_output (handleDockerContainersList D cmd)" "io_ok wf_output (handleDockerImagesList D cmd)"
  "io_ok wf_output (handleDockerImagePull D cmd)" "io_ok wf_output (handleDockerImageRemove D cmd)"
  "io_ok wf_output (handleDockerContainerCreate D cmd)" "io_ok wf_output (handleDockerContainerStart D cmd)"
  "io_ok wf_output (handleDockerContainerStop D cmd)" "io_ok wf_output (handleDockerContainerRestart D cmd)"
  "io_ok wf_output (handleDockerContainerRemove D cmd)"
  unfolding handleDockerContainersList_def handleDockerImagesList_def handleDockerImagePull_def handleDockerImageRemove_def
    handleDockerContainerCreate_def handleDockerContainerStart_def handleDockerContainerStop_def
    handleDockerContainerRestart_def handleDockerContainerRemove_def Let_def
  by (intro io_intros; simp add: wf_output_enc)+

lemma virt_handlers_ok:
  "io_ok wf_output (handleLibvirtDomainsList V cmd)" "io_ok wf_output (handleLibvirtStoragePoolsList V cmd)"
  "io_ok wf_output (handleLibvirtNetworksList V cmd)" "io_ok wf_output (handleLibvirtVMCreate V cmd)"
  "io_ok wf_output (handleDomainAction V action cmd)" "io_ok wf_output (handleLibvirtVMSetAutostart V cmd)"
  "io_ok wf_output (handleLibvirtVMAttachISO V cmd)" "io_ok wf_output (handleLibvirtVMDetachISO V cmd)"
  "io_ok wf_output (handleLibvirtVMDelete V cmd)"
  unfolding handleLibvirtDomainsList_def handleLibvirtStoragePoolsList_def handleLibvirtNetworksList_def handleLibvirtVMCreate_def
    handleDomainAction_def handleLibvirtVMSetAutostart_def handleLibvirtVMAttachISO_def handleLibvirtVMDetachISO_def
    handleLibvirtVMDelete_def delete_domain_def Let_def
  by (intro io_intros; simp add: wf_output_enc)+

lemma command_handlers_ok:
  assumes "map_of (commandHandlers D V) action = Some handler"
  shows "io_ok wf_output (handler cmd)"
proof -
  have "list_all (\<lambda>p. io_ok wf_output (snd p cmd)) (commandHandlers D V)"
    by (simp add: commandHandlers_def docker_handlers_ok virt_handlers_ok handleLibvirtVMStart_def handleLibvirtVMShutdown_def
      handleLibvirtVMReboot_def handleLibvirtVMDestroy_def handleNoop_def io_ok_ret wf_output_enc)
  then show ?thesis using map_of_SomeD [OF assms] by (force simp: list_all_iff)
qed

lemma run_command_ok:
  assumes "run_command D V p h = (reply, h')"
  shows "wf_output (cr_Output reply) \<and> keeps_conns h h' \<and> cr_NodeID reply = [] \<and> cr_Status reply \<in> {''ok'', ''error''}"
  using assms
  by (auto simp: run_command_def error_reply_def zero_CommandReply_def wf_output_enc
    dest!: command_handlers_ok [unfolded io_ok_def, rule_format, rotated] split: sum.splits option.splits prod.splits)

section \<open>A command from the orchestrator to a node and back\<close>

definition node_reply :: "CommandReply \<Rightarrow> string \<Rightarrow> Packet" where
  "node_reply reply ident = (plain_packet PacketNodeCommandReply (enc_CommandReply reply))\<lparr>pk_ReplyTo := ident\<rparr>"

lemma node_reply_fields [simp]:
  "pk_Type (node_reply r i) = PacketNodeCommandReply" "pk_ReplyTo (node_reply r i) = i"
  "DecodePayload dec_CommandReply (node_reply r i) = Inr r"
  "wf_packet (node_reply r i) \<longleftrightarrow> wf_output (cr_Output r)"
  by (simp_all add: node_reply_def wf_output_def)

lemma slave_answers:
  assumes "run_command D V p h = (reply, h')" "pk_Type p = PacketNodeCommand" "w_err w = None"
  shows "slave_packet D V hw h (Some w) p =
    Some (True, Some (w\<lparr>w_out := w_out w @ packet_line (node_reply reply (trim_space (pk_ID p)))\<rparr>), h')"
proof -
  have "PacketNodeCommand \<noteq> PacketHeartbeat" by (simp add: packet_type_defs)
  moreover have "wf_packet (node_reply reply (trim_space (pk_ID p)))" using run_command_ok [OF assms(1)] by simp
  ultimately show ?thesis
    using assms by (simp add: slave_packet_def handleNodeCommand_def writeCommandReply_def WritePacket_ok flip: node_reply_def)
qed

lemma run_command_id [simp]: "run_command D V (p\<lparr>pk_ID := i\<rparr>) h = run_command D V p h"
  by (simp add: run_command_def)

definition node_command :: "json \<Rightarrow> Packet" where
  "node_command command = plain_packet PacketNodeCommand command"

text \<open>The hop from the master to the node, over a working connection.\<close>

lemma node_hop:
  assumes "ms_nodes ms nodeID = Some k" "nodeID \<noteq> []" "pc_writer (ms_nc ms k) = Some w" "w_err w = None"
    and "wf_json command" "newID \<noteq> []" "pk_ReplyTo R = newID"
  shows "\<exists>wt ms1. sendCommandToNodeWait_begin ms nodeID (node_command command) newID = (Inr wt, ms1)
    \<and> pc_writer (ms_nc ms1 k) = Some (w\<lparr>w_out := w_out w @ packet_line ((node_command command)\<lparr>pk_ID := newID\<rparr>)\<rparr>)
    \<and> fst (sendCommandToNodeWait_receive (readLoop_packet ms1 k R) wt) = Some (Inr R)"
proof -
  have p: "with_id (node_command command) newID = (node_command command)\<lparr>pk_ID := newID\<rparr>" by (simp add: node_command_def)
  have "wf_packet (with_id (node_command command) newID)" using assms(5) by (simp add: node_command_def)
  then obtain c' c'' where "node_sendRequest_begin (ms_nc ms k) (node_command command) newID = (Inr (pc_made (ms_nc ms k)), c')"
    "pc_writer c' = Some (w\<lparr>w_out := w_out w @ packet_line ((node_command command)\<lparr>pk_ID := newID\<rparr>)\<rparr>)"
    "resolveReply c' R = (True, c'')" "fst (sendRequest_receive c'' (pc_made (ms_nc ms k))) = Some R"
    using node_table.request_reply [OF assms(3,4), of "node_command command" newID R] assms(6,7) p by auto
  then show ?thesis
    using assms(1,2)
    by (auto simp: sendCommandToNodeWait_begin_def readLoop_packet_def sendCommandToNodeWait_receive_def case_prod_unfold Let_def)
qed

text \<open>
  Claim C2. A command travels from the orchestrator to a node and its answer comes back: when a master
  is connected to the orchestrator and a node to the master, over working connections, a command for
  the node is written to the master, the master's relay writes it to the node, the node runs the
  handler of its action, whatever that does, and writes one reply; handed back hop by hop, that reply
  is what the orchestrator's caller receives, with the status, message and output of the node and
  the node's identifier in it.
\<close>

theorem command_end_to_end:
  assumes "os_conns st masterID = Some h" and "masterID \<noteq> []" and "pc_writer (os_mc st h) = Some w1" and "w_err w1 = None"
    and "ms_nodes ms nodeID = Some k" and "nodeID \<noteq> []" and "pc_writer (ms_nc ms k) = Some w2" and "w_err w2 = None"
    and "w_err w3 = None" and "wf_json command"
    and "i1 \<noteq> []" and "trim_space i1 = i1" and "i2 \<noteq> []" and "trim_space i2 = i2"
    and "run_command D V (node_command command) hs = (reply, hs')"
  shows "\<exists>wt1 st1 P1 wt2 ms1 P2 R2 R1.
      SendCommandWait_begin st masterID nodeID command i1 = (Inr wt1, st1)
    \<and> pc_writer (os_mc st1 h) = Some (w1\<lparr>w_out := w_out w1 @ packet_line P1\<rparr>)
    \<and> sendCommandToNodeWait_begin ms nodeID (node_command command) i2 = (Inr wt2, ms1)
    \<and> pc_writer (ms_nc ms1 k) = Some (w2\<lparr>w_out := w_out w2 @ packet_line P2\<rparr>)
    \<and> ReadPacket (Some \<lparr>r_buf = packet_line P2 @ rest2, r_err = e2\<rparr>) = (Inr P2, Some \<lparr>r_buf = rest2, r_err = e2\<rparr>)
    \<and> slave_packet D V hw hs (Some w3) P2 = Some (True, Some (w3\<lparr>w_out := w_out w3 @ packet_line R2\<rparr>), hs')
    \<and> ReadPacket (Some \<lparr>r_buf = packet_line R2 @ rest3, r_err = e3\<rparr>) = (Inr R2, Some \<lparr>r_buf = rest3, r_err = e3\<rparr>)
    \<and> fst (sendCommandToNodeWait_receive (readLoop_packet ms1 k R2) wt2) = Some (Inr R2)
    \<and> ReadPacket (Some \<lparr>r_buf = packet_line P1 @ rest1, r_err = e1\<rparr>) = (Inr P1, Some \<lparr>r_buf = rest1, r_err = e1\<rparr>)
    \<and> (\<forall>ask. ask nodeID (node_command command) = Inr R2 \<longrightarrow> readOrchestratorLoop_packet ask nodeIDs P1 = Answer R1)
    \<and> ReadPacket (Some \<lparr>r_buf = packet_line R1 @ rest4, r_err = e4\<rparr>) = (Inr R1, Some \<lparr>r_buf = rest4, r_err = e4\<rparr>)
    \<and> fst (sendCommandWait_receive (serve_packet G now st1 h ah R1) wt1) = Some (Inr (reply\<lparr>cr_NodeID := nodeID\<rparr>))"
proof -
  let ?P1 = "command_packet nodeID command i1" and ?P2 = "(node_command command)\<lparr>pk_ID := i2\<rparr>" and ?R2 = "node_reply reply i2"
  let ?R1 = "(plain_packet PacketOrchCommandReply (enc_CommandReply (reply\<lparr>cr_NodeID := nodeID\<rparr>)))\<lparr>pk_ReplyTo := i1\<rparr>"
  have out: "wf_output (cr_Output reply)" using run_command_ok [OF assms(15)] by simp
  then have wf: "wf_packet ?P1" "wf_packet ?P2" "wf_packet ?R2" "wf_packet ?R1"
    using assms(10) by (simp_all add: node_command_def wf_output_def)
  have slave: "slave_packet D V hw hs (Some w3) ?P2 = Some (True, Some (w3\<lparr>w_out := w_out w3 @ packet_line ?R2\<rparr>), hs')"
    using slave_answers [of D V ?P2 hs reply hs' w3 hw] assms(9,14,15) by (simp add: node_command_def)
  have relay: "readOrchestratorLoop_packet ask nodeIDs ?P1 = Answer ?R1" if "ask nodeID (node_command command) = Inr ?R2" for ask
    using that assms(6,12) by (simp add: relay_answer node_command_reply_def flip: node_command_def)
  have R1: "DecodePayload dec_CommandReply ?R1 = Inr (reply\<lparr>cr_NodeID := nodeID\<rparr>)" "pk_Type ?R1 = PacketOrchCommandReply"
    "pk_ReplyTo ?R1 = i1"
    by simp_all
  obtain wt1 st1 where "sendCommandWait_begin st masterID \<lparr>oc_NodeID = nodeID, oc_Command = Some command\<rparr> i1 = (Inr wt1, st1)"
    "pc_writer (os_mc st1 h) = Some (w1\<lparr>w_out := w_out w1 @ packet_line ?P1\<rparr>)"
    "fst (sendCommandWait_receive (serve_packet G now st1 h ah ?R1) wt1) = Some (Inr (reply\<lparr>cr_NodeID := nodeID\<rparr>))"
    using command_hop [OF assms(1-4,10,11) R1] by blast
  moreover obtain wt2 ms1 where "sendCommandToNodeWait_begin ms nodeID (node_command command) i2 = (Inr wt2, ms1)"
    "pc_writer (ms_nc ms1 k) = Some (w2\<lparr>w_out := w_out w2 @ packet_line ?P2\<rparr>)"
    "fst (sendCommandToNodeWait_receive (readLoop_packet ms1 k ?R2) wt2) = Some (Inr ?R2)"
    using node_hop [OF assms(5-8,10,13), of ?R2] by auto
  ultimately show ?thesis
    using wf slave relay assms(6)
    by (intro exI [of _ wt1] exI [of _ st1] exI [of _ ?P1] exI [of _ wt2] exI [of _ ms1] exI [of _ ?P2] exI [of _ ?R2] exI [of _ ?R1])
      (simp add: SendCommandWait_begin_def ReadPacket_line)
qed

definition demo_engine :: "'w engine" where
  "demo_engine = \<lparr>d_New = ret 1, d_ContainerList = (\<lambda>c a. ret []), d_ImageList = (\<lambda>c. ret []), d_ImagePull = (\<lambda>c i. ret 1),
     d_PullWait = (\<lambda>r. ret ()), d_PullClose = (\<lambda>r w. w), d_ImageRemove = (\<lambda>c i f p. ret []),
     d_ContainerCreate = (\<lambda>c k h n. ret (''id'', [])), d_ContainerStart = (\<lambda>c i. ret ()), d_ContainerStop = (\<lambda>c i t. ret ()),
     d_ContainerRestart = (\<lambda>c i t. ret ()), d_ContainerRemove = (\<lambda>c i f v. ret ()), d_ParsePort = Inr,
     d_ValidateRestartPolicy = (\<lambda>p. None)\<rparr>"

definition demo_nodes :: mstate where
  "demo_nodes = node_open master_start (zero_AuthHello\<lparr>ah_ID := ''n''\<rparr>) (Some \<lparr>w_out = [], w_err = None\<rparr>)"

lemma demo_nodes_conn:
  "ms_nodes demo_nodes ''n'' = Some 0" "pc_writer (ms_nc demo_nodes 0) = Some \<lparr>w_out = [], w_err = None\<rparr>"
  by (simp_all add: demo_nodes_def node_open_def registerNode_def master_start_def zero_AuthHello_def new_pconn_def)

definition noop_command :: json where
  "noop_command = enc_NodeCommand \<lparr>nc_Action = ''noop'', nc_Params = None\<rparr>"

lemma noop_run: "run_command D V (node_command noop_command) h = (zero_CommandReply\<lparr>cr_Status := ''ok''\<rparr>, h)"
proof -
  have "trim_space ''noop'' = ''noop''" by (rule trim_space_plain) (simp add: plain_char_def)
  then show ?thesis
    by (simp add: run_command_def node_command_def noop_command_def commandHandlers_def handleNoop_def ret_def zero_CommandReply_def)
qed

theorem command_end_to_end_witness:
  "\<exists>wt1 st1 R1. SendCommandWait_begin demo_orch ''m'' ''n'' noop_command ''x'' = (Inr wt1, st1)
    \<and> fst (sendCommandWait_receive (serve_packet demo_gorm 0 st1 0 demo_hello R1) wt1) =
        Some (Inr (zero_CommandReply\<lparr>cr_Status := ''ok'', cr_NodeID := ''n''\<rparr>))"
proof -
  have x: "trim_space ''x'' = ''x''" "trim_space ''y'' = ''y''" by (rule trim_space_plain; simp add: plain_char_def)+
  have wf: "wf_json noop_command" by (simp add: noop_command_def enc_NodeCommand_def)
  note run = noop_run [of demo_engine demo_virt "\<lparr>h_conn = None, h_client = None, h_ext = ()\<rparr>"]
  note all = command_end_to_end [OF demo_orch_conn(1) _ demo_orch_conn(2) _ demo_nodes_conn(1) _ demo_nodes_conn(2) _ _ wf
      _ x(1) _ x(2) run, where G = demo_gorm and now = 0 and ah = demo_hello]
  show ?thesis using all [of "\<lparr>w_out = [], w_err = None\<rparr>"] by fastforce
qed

section \<open>Logging in at the master\<close>

lemma WriteHello_ms:
  "w_err w = None \<Longrightarrow> WriteHello (Some w) HeaderMasterSlave = (None, Some (w\<lparr>w_out := w_out w @ HeaderMasterSlave @ [CHR 0x0A]\<rparr>))"
  using ms_header_shape(1) by (simp add: WriteHello_def WriteLine_def write_flush_def header_plain Let_def)

lemma SignChallenge_generated:
  "priv \<noteq> [] \<Longrightarrow> rnd \<noteq> [] \<Longrightarrow>
   SignChallenge C priv (GenerateChallenge rnd) = Inr (b64_encode (ed_sign C priv (str_bytes (GenerateChallenge rnd))))"
  by (simp add: SignChallenge_def GenerateChallenge_def)

lemma slave_login_client:
  assumes "loadEd25519Public K (sl_PubKeyPath (cf_Slave cfg)) = Inr pub" "loadEd25519Private K (sl_PrivKeyPath (cf_Slave cfg)) = Inr priv"
    and "length pub = PublicKeySize" "priv \<noteq> []" "rnd \<noteq> []"
  shows "Connect_login C K cfg (Some \<lparr>r_buf = server_stream rnd, r_err = e\<rparr>) (Some \<lparr>w_out = [], w_err = None\<rparr>) =
    (Connected, Some \<lparr>r_buf = [], r_err = e\<rparr>,
     Some \<lparr>w_out = slave_stream (slave_hello C pub) (b64_encode (ed_sign C priv (str_bytes (GenerateChallenge rnd)))), w_err = None\<rparr>)"
proof -
  have last: "ReadPacket (Some \<lparr>r_buf = packet_line ok_packet, r_err = e\<rparr>) = (Inr ok_packet, Some \<lparr>r_buf = [], r_err = e\<rparr>)"
    using ReadPacket_line [of ok_packet "[]" e] by simp
  have types: "PacketAuthChallenge \<noteq> PacketError" by (simp add: packet_type_defs)
  show ?thesis
    using assms(3-5) types
    by (simp add: Connect_login_def assms(1,2) WriteHello_ms IDFromPublicKey_def server_stream_def ReadPacket_line Let_def
      WritePacket_ok last SignChallenge_generated slave_stream_def flip: hello_packet_def proof_packet_def slave_hello_def)
qed

text \<open>
  Claim C11. A slave with a working key pair gets in: there is a conversation, what the slave writes
  being what the master reads and the other way round, in which the login of the slave and the
  handshake of the master both succeed, and the master then has a connection in its table under the
  hash of the slave's public key, whatever it had there before.
\<close>

theorem slave_login_succeeds:
  assumes "loadEd25519Public K (sl_PubKeyPath (cf_Slave cfg)) = Inr pub"
    and "loadEd25519Private K (sl_PrivKeyPath (cf_Slave cfg)) = Inr priv"
    and "signs C priv pub" and "length pub = PublicKeySize" and "priv \<noteq> []" and "rnd \<noteq> []" and "sha256 C pub \<noteq> []"
    and "allowed = [] \<or> b64_encode (sha256 C pub) \<in> set allowed"
  shows "\<exists>up down ah.
    Connect_login C K cfg (Some \<lparr>r_buf = down, r_err = e\<rparr>) (Some \<lparr>w_out = [], w_err = None\<rparr>)
      = (Connected, Some \<lparr>r_buf = [], r_err = e\<rparr>, Some \<lparr>w_out = up, w_err = None\<rparr>)
    \<and> node_handshake C allowed rnd (Some \<lparr>r_buf = up, r_err = e\<rparr>) (Some \<lparr>w_out = [], w_err = None\<rparr>)
      = (Some ah, Some \<lparr>r_buf = [], r_err = e\<rparr>, Some \<lparr>w_out = down, w_err = None\<rparr>)
    \<and> ms_nodes (node_open ms ah (Some \<lparr>w_out = down, w_err = None\<rparr>)) (b64_encode (sha256 C pub)) = Some (ms_next ms)"
proof -
  let ?ah = "slave_hello C pub" and ?sig = "b64_encode (ed_sign C priv (str_bytes (GenerateChallenge rnd)))"
  have server: "node_handshake C allowed rnd (Some \<lparr>r_buf = slave_stream ?ah ?sig, r_err = e\<rparr>) (Some \<lparr>w_out = [], w_err = None\<rparr>) =
      (Some ?ah, Some \<lparr>r_buf = [], r_err = e\<rparr>, Some \<lparr>w_out = server_stream rnd, w_err = None\<rparr>)"
    using node_handshake_complete [OF assms(3,4,7,8), of "\<lparr>w_out = [], w_err = None\<rparr>" ?sig rnd "[]" e] by simp
  have reg: "ms_nodes (node_open ms ?ah (Some v)) (b64_encode (sha256 C pub)) = Some (ms_next ms)" for v
    using assms(7) by (simp add: node_open_def registerNode_def Let_def)
  show ?thesis
    by (intro exI [of _ "slave_stream ?ah ?sig"] exI [of _ "server_stream rnd"] exI [of _ ?ah] conjI server reg)
      (rule slave_login_client [OF assms(1,2,4,5,6)])
qed

theorem slave_login_succeeds_witness:
  "\<exists>up down ah.
    Connect_login demo_crypto demo_keystore demo_config (Some \<lparr>r_buf = down, r_err = []\<rparr>) (Some \<lparr>w_out = [], w_err = None\<rparr>)
      = (Connected, Some \<lparr>r_buf = [], r_err = []\<rparr>, Some \<lparr>w_out = up, w_err = None\<rparr>)
    \<and> node_handshake demo_crypto [] [1] (Some \<lparr>r_buf = up, r_err = []\<rparr>) (Some \<lparr>w_out = [], w_err = None\<rparr>)
      = (Some ah, Some \<lparr>r_buf = [], r_err = []\<rparr>, Some \<lparr>w_out = down, w_err = None\<rparr>)
    \<and> ms_nodes (node_open master_start ah (Some \<lparr>w_out = down, w_err = None\<rparr>)) (b64_encode (sha256 demo_crypto (replicate 32 5))) =
      Some (ms_next master_start)"
  by (rule slave_login_succeeds [where priv = "replicate 32 5"])
    (simp_all add: loadEd25519Public_def loadEd25519Private_def demo_keystore_def signs_def demo_crypto_def PublicKeySize_def)

section \<open>Deleting a machine\<close>

text \<open>\<open>P\<close> is a fact about the host that connecting, looking up and describing domains do not change; \<open>keeps\<close>
  says that of one computation.\<close>

definition keeps :: "('w \<Rightarrow> bool) \<Rightarrow> ('w, 'a) io \<Rightarrow> bool" where
  "keeps P m \<longleftrightarrow> (\<forall>w. P w \<longrightarrow> P (snd (m w)))"

definition harmless :: "'w virt \<Rightarrow> ('w \<Rightarrow> bool) \<Rightarrow> bool" where
  "harmless V P \<longleftrightarrow> keeps P (v_NewConnect V ''qemu:///system'') \<and> (\<forall>c n. keeps P (v_LookupDomainByName V c n)) \<and>
     (\<forall>d. keeps P (v_GetName V d)) \<and>
     (\<forall>d w. P w \<longrightarrow> P (snd (v_GetUUIDString V d w)) \<and> P (snd (v_GetID V d w)) \<and> P (snd (v_IsActive V d w))
       \<and> P (snd (v_IsPersistent V d w)) \<and> P (snd (v_GetAutostart V d w)) \<and> P (snd (v_GetInfo V d w))
       \<and> P (snd (v_GetXMLDesc V d w)) \<and> P (v_Free V d w))"

lemma keeps_rules:
  "keeps P (ret x)" "keeps P (fail e)"
  "keeps P m \<Longrightarrow> (\<And>x. keeps P (f x)) \<Longrightarrow> keeps P (bind_io m f)"
  "(\<And>w. P w \<Longrightarrow> P (snd (v w))) \<Longrightarrow> (\<And>y. keeps P (g y)) \<Longrightarrow> keeps P (get_io v g)"
  "(\<And>w. P w \<Longrightarrow> P (c w)) \<Longrightarrow> keeps P n \<Longrightarrow> keeps P (defer_io c n)"
  "(\<And>a b. keeps P (k a b)) \<Longrightarrow> keeps P (case z of (a, b) \<Rightarrow> k a b)"
  "(t \<Longrightarrow> keeps P m1) \<Longrightarrow> (\<not> t \<Longrightarrow> keeps P m2) \<Longrightarrow> keeps P (if t then m1 else m2)"
  by (fastforce simp: keeps_def io_defs split: prod.splits sum.splits)+

lemma DescribeDomain_keeps: "harmless V P \<Longrightarrow> keeps P (DescribeDomain V (Some d))"
  unfolding DescribeDomain_def option.case Let_def
  by (intro keeps_rules) (auto simp: harmless_def)

lemma GetQEMU_keeps: "harmless V P \<Longrightarrow> P (h_ext h) \<Longrightarrow> P (h_ext (snd (GetQEMU V h)))"
  by (auto simp: GetQEMU_def harmless_def keeps_def split: option.split prod.split sum.split)

lemma Lookup_keeps: "harmless V P \<Longrightarrow> keeps P (LookupDomainByName V (Some c) n)"
  by (auto simp: LookupDomainByName_def harmless_def Let_def intro: keeps_rules)

text \<open>A domain that is running in every state where \<open>P\<close> holds is not deleted without force.\<close>

lemma delete_domain_refused:
  assumes "harmless V P" "\<And>w d. P w \<Longrightarrow> fst (v_IsActive V d w)" "\<not> vdp_ForceStop params" "P w"
  shows "(\<exists>e. fst (delete_domain V qemu d params w) = Inl e) \<and> P (snd (delete_domain V qemu d params w))"
proof -
  obtain r w1 where r: "DescribeDomain V (Some d) w = (r, w1)" by fastforce
  then have P1: "P w1" using DescribeDomain_keeps [OF assms(1), of d] assms(4) by (auto simp: keeps_def dest: spec [of _ w])
  obtain b w2 where b: "v_IsActive V d w1 = (b, w2)" by fastforce
  then have "b" "P w2" using assms(1,2) P1 by (auto simp: harmless_def) (metis fst_conv, metis snd_conv)
  then show ?thesis using r b P1 assms(3)
    by (cases r) (simp_all add: delete_domain_def io_defs case_prod_unfold)
qed

lemma handler_delete_unfold:
  assumes "nc_Params cmd = Some j" "dec_LibvirtVMDeleteParams j = Inr params"
  shows "handleLibvirtVMDelete V cmd = bind_io (GetQEMU V) (\<lambda>qemu. lift_io (
    bind_io (LookupDomainByName V (Some qemu) (vdp_Name params)) (\<lambda>domain.
    defer_io (v_Free V domain) (delete_domain V qemu domain params))))"
  using assms by (simp add: handleLibvirtVMDelete_def unmarshal_params_def bind_io_def ret_def fun_eq_iff)

lemma handler_delete_io:
  assumes "harmless V P" "P (h_ext h)" "\<And>qemu d w. P w \<Longrightarrow> R (fst (delete_domain V qemu d params w)) \<and> P (snd (delete_domain V qemu d params w))"
    and "\<And>e. R (Inl e)" and "nc_Params cmd = Some j" "dec_LibvirtVMDeleteParams j = Inr params"
  shows "R (fst (handleLibvirtVMDelete V cmd h)) \<and> P (h_ext (snd (handleLibvirtVMDelete V cmd h)))"
proof -
  obtain r h1 where q: "GetQEMU V h = (r, h1)" by fastforce
  then have P1: "P (h_ext h1)" using GetQEMU_keeps [OF assms(1,2)] by simp
  show ?thesis
  proof (cases r)
    case (Inr qemu)
    obtain s w2 where l: "LookupDomainByName V (Some qemu) (vdp_Name params) (h_ext h1) = (s, w2)" by fastforce
    then have P2: "P w2" using Lookup_keeps [OF assms(1)] P1 by (metis keeps_def snd_conv)
    show ?thesis
    proof (cases s)
      case (Inr d)
      have "P (v_Free V d (snd (delete_domain V qemu d params w2)))"
        using assms(1,3) P2 by (simp add: harmless_def)
      then show ?thesis using \<open>r = Inr qemu\<close> Inr q l assms(3) [OF P2, of qemu d]
        by (simp add: handler_delete_unfold [OF assms(5,6)] bind_io_def lift_io_def defer_io_def case_prod_unfold)
    qed (use \<open>r = Inr qemu\<close> q l P2 assms(4) in \<open>simp add: handler_delete_unfold [OF assms(5,6)] bind_io_def lift_io_def\<close>)
  qed (use q P1 assms(4) in \<open>simp add: handler_delete_unfold [OF assms(5,6)] bind_io_def\<close>)
qed

lemma dec_enc_LibvirtVMDeleteParams [simp]: "dec_LibvirtVMDeleteParams (enc_LibvirtVMDeleteParams params) = Inr params"
  by (simp add: dec_LibvirtVMDeleteParams_def enc_LibvirtVMDeleteParams_def json_members_def dec_field_def key_simps
      dec_from_omit_hit dec_from_omit_other del: dec_from_omit)

lemma unforced_delete_refused:
  assumes "harmless V P" "P (h_ext h)" "nc_Params cmd = Some (enc_LibvirtVMDeleteParams params)"
    and "\<And>w d. P w \<Longrightarrow> fst (v_IsActive V d w)" "\<not> vdp_ForceStop params"
  shows "(\<exists>e. fst (handleLibvirtVMDelete V cmd h) = Inl e) \<and> P (h_ext (snd (handleLibvirtVMDelete V cmd h)))"
  by (rule handler_delete_io [OF assms(1,2) _ _ assms(3) dec_enc_LibvirtVMDeleteParams, where R = "\<lambda>r. \<exists>e. r = Inl e"])
    (use delete_domain_refused [OF assms(1,4,5)] in auto)


definition busy_virt :: "nat virt" where
  "busy_virt = demo_virt\<lparr>v_IsActive := (\<lambda>d w. (True, w)), v_Destroy := (\<lambda>d w. (Inr (), 0)), v_UndefineFlags := (\<lambda>d fl w. (Inr (), 0))\<rparr>"


section \<open>The firewall and the master\<close>



end
