(* ===== verification/Web.thy ===== *)
theory Web
  imports Slave
begin

text \<open>
  The web interface of the orchestrator, \<^verbatim>\<open>src/src/orchestrator/web/main.go\<close>: the pages, the data they
  show, and the forms that become commands for a node. A handler runs on a world that contains the
  store and the connections; sending a command is an operation of that world, given by \<open>web\<close>, whose
  model is the theory \<open>Orch_Tcp\<close>. Templates are names, and rendering is the data handed to them. The
  store is never \<^verbatim>\<open>nil\<close>, since \<^verbatim>\<open>main\<close> makes it before it starts the server.
\<close>

section \<open>The environment\<close>

record ('w, 'db) web =
  we_gorm :: "'db gorm"
  we_store :: "'w \<Rightarrow> 'db Store"
  we_now :: "'w \<Rightarrow> int"
  we_keys :: "'w \<Rightarrow> string list"
  we_cluster :: "TargetRequest \<Rightarrow> json \<Rightarrow> nat \<Rightarrow> ('w, string \<times> CommandReply) io"
  we_master :: "string \<Rightarrow> json \<Rightarrow> nat \<Rightarrow> ('w, CommandReply) io"

text \<open>\<open>we_cluster\<close> is \<^verbatim>\<open>tcp.SendClusterCommandWait\<close> and \<open>we_master\<close> is \<^verbatim>\<open>tcp.SendMasterCommandWait\<close>, with the
  time-out in seconds. A request: \<open>rq_form\<close> is the result of \<^verbatim>\<open>ParseForm\<close>, the values by key.\<close>

record request =
  rq_method :: string
  rq_path :: string
  rq_form :: "(string \<Rightarrow> string) result"

datatype page_template = T_home | T_cluster | T_vms | T_reverseProxy | T_nodes | T_node | T_nodeVirtualization

record viewData =
  vw_Title :: string
  vw_ActiveClusterItem :: string
  vw_ActiveNode :: NodeInfo
  vw_ActiveNodeItem :: string
  vw_NodesOpen :: bool
  vw_Clusters :: "string list"
  vw_ActiveCluster :: string
  vw_ClusterOnline :: bool
  vw_Nodes :: "NodeInfo list"
  vw_VMDomains :: "VMListNode list"
  vw_NodeVMDomains :: "VMDomain list"
  vw_DockerContainers :: "DockerContainer list"
  vw_DockerImages :: "DockerImage list"
  vw_DockerError :: string
  vw_DockerAction :: string
  vw_DockerActionError :: string
  vw_LibvirtStoragePools :: "LibvirtStoragePool list"
  vw_LibvirtNetworks :: "LibvirtNetwork list"
  vw_LibvirtError :: string
  vw_LibvirtAction :: string
  vw_LibvirtActionError :: string

definition zero_viewData :: viewData where
  "zero_viewData = \<lparr>vw_Title = [], vw_ActiveClusterItem = [], vw_ActiveNode = zero_NodeInfo, vw_ActiveNodeItem = [],
     vw_NodesOpen = False, vw_Clusters = [], vw_ActiveCluster = [], vw_ClusterOnline = False, vw_Nodes = [],
     vw_VMDomains = [], vw_NodeVMDomains = [], vw_DockerContainers = [], vw_DockerImages = [], vw_DockerError = [],
     vw_DockerAction = [], vw_DockerActionError = [], vw_LibvirtStoragePools = [], vw_LibvirtNetworks = [],
     vw_LibvirtError = [], vw_LibvirtAction = [], vw_LibvirtActionError = []\<rparr>"

datatype response = NotFound | Rendered page_template viewData | StaticFile string

definition render :: "('w, 'db) web \<Rightarrow> page_template \<Rightarrow> viewData \<Rightarrow> 'w \<Rightarrow> response \<times> 'w" where
  "render E tmpl data w =
     (Rendered tmpl (data\<lparr>vw_Clusters := ActiveClusters (we_gorm E) (we_now E w) (we_keys E w) (we_store E w)\<rparr>), w)"

section \<open>Forms\<close>

definition formValueBool :: "(string \<Rightarrow> string) \<Rightarrow> string \<Rightarrow> bool" where
  "formValueBool form key =
     (let value = to_lower (trim_space (form key))
      in value = ''1'' \<or> value = ''true'' \<or> value = ''on'' \<or> value = ''yes'')"

definition split_trimmed :: "char \<Rightarrow> string \<Rightarrow> string list" where
  "split_trimmed d raw =
     (let raw = trim_space raw
      in if raw = [] then [] else filter (\<lambda>s. s \<noteq> []) (map trim_space (split_on d raw)))"

definition splitLines :: "string \<Rightarrow> string list" where
  "splitLines raw = split_trimmed (CHR 0x0A) raw"

definition splitCSV :: "string \<Rightarrow> string list" where
  "splitCSV raw = split_trimmed (CHR '','') raw"

text \<open>\<^verbatim>\<open>parsePositiveInt\<close> and \<^verbatim>\<open>parsePositiveUint64\<close>, which both admit zero.\<close>

definition parsePositiveInt :: "string \<Rightarrow> int option" where
  "parsePositiveInt raw = (case parse_int64 raw of Some v \<Rightarrow> if v < 0 then None else Some v | None \<Rightarrow> None)"

definition parsePositiveUint64 :: "string \<Rightarrow> nat option" where
  "parsePositiveUint64 raw = parse_uint64 raw"

text \<open>A numeric field with its default; \<^term>\<open>None\<close> when it does not parse.\<close>

definition number_field :: "(string \<Rightarrow> string) \<Rightarrow> string \<Rightarrow> nat \<Rightarrow> nat option" where
  "number_field form key dflt =
     (let raw = trim_space (form key) in if raw = [] then Some dflt else parsePositiveUint64 raw)"

section \<open>Commands for a node\<close>

definition sendNodeCommand ::
  "('w, 'db) web \<Rightarrow> string \<Rightarrow> string \<Rightarrow> string \<Rightarrow> json option \<Rightarrow> nat \<Rightarrow> ('w, CommandReply) io" where
  "sendNodeCommand E clusterID nodeID action params timeout =
     (let action = trim_space action
      in if action = [] then fail ''action is required''
         else bind_io (we_cluster E \<lparr>tr_ClusterID = clusterID, tr_NodeID = nodeID, tr_Scope = TargetMasterByNode\<rparr>
                         (enc_NodeCommand \<lparr>nc_Action = action, nc_Params = params\<rparr>) timeout)
                (\<lambda>(master, reply). ret reply))"

text \<open>The text shown for an action: the error, or the message of a reply that is not \<^verbatim>\<open>ok\<close>.\<close>

definition action_error :: "CommandReply result \<Rightarrow> string" where
  "action_error r = (case r of
       Inl e \<Rightarrow> e | Inr reply \<Rightarrow> if cr_Status reply \<noteq> ''ok'' then cr_Message reply else [])"

definition run_action :: "('w, CommandReply) io \<Rightarrow> 'w \<Rightarrow> string \<times> 'w" where
  "run_action m w = (case m w of (r, w') \<Rightarrow> (action_error r, w'))"

text \<open>The items of a list reply, and the text when there are none.\<close>

definition reply_items :: "(json \<Rightarrow> 'a list option) \<Rightarrow> string \<Rightarrow> CommandReply result \<Rightarrow> 'a list \<times> string" where
  "reply_items dec invalid r = (case r of
       Inl e \<Rightarrow> ([], e)
     | Inr reply \<Rightarrow>
         if cr_Status reply \<noteq> ''ok'' then ([], cr_Message reply)
         else case Option.bind (cr_Output reply) dec of None \<Rightarrow> ([], invalid) | Some items \<Rightarrow> (items, []))"

definition fetch_items :: "('w, CommandReply) io \<Rightarrow> (json \<Rightarrow> 'a list option) \<Rightarrow> string \<Rightarrow> 'w \<Rightarrow> ('a list \<times> string) \<times> 'w" where
  "fetch_items m dec invalid w = (case m w of (r, w') \<Rightarrow> (reply_items dec invalid r, w'))"

definition fetchNodeDocker ::
  "('w, 'db) web \<Rightarrow> string \<Rightarrow> string \<Rightarrow> 'w \<Rightarrow> (DockerContainer list \<times> string) \<times> 'w" where
  "fetchNodeDocker E clusterID nodeID w =
     (if clusterID = [] \<or> nodeID = [] then (([], []), w)
      else fetch_items (sendNodeCommand E clusterID nodeID ''docker.containers.list'' None 10)
             (as_list (as_struct dec_DockerContainer) zero_DockerContainer) ''invalid docker container list'' w)"

definition fetchNodeDockerImages ::
  "('w, 'db) web \<Rightarrow> string \<Rightarrow> string \<Rightarrow> 'w \<Rightarrow> (DockerImage list \<times> string) \<times> 'w" where
  "fetchNodeDockerImages E clusterID nodeID w =
     (if clusterID = [] \<or> nodeID = [] then (([], []), w)
      else fetch_items (sendNodeCommand E clusterID nodeID ''docker.images.list'' None 10)
             (as_list (as_struct dec_DockerImage) zero_DockerImage) ''invalid docker image list'' w)"

definition fetchNodeVMDomains ::
  "('w, 'db) web \<Rightarrow> string \<Rightarrow> string \<Rightarrow> 'w \<Rightarrow> (VMDomain list \<times> string) \<times> 'w" where
  "fetchNodeVMDomains E clusterID nodeID w =
     fetch_items (sendNodeCommand E clusterID nodeID ''libvirt.domains.list'' None 20)
       (as_list (as_struct dec_VMDomain) zero_VMDomain) ''invalid domain list'' w"

text \<open>The next two return an error value, whose text may be empty: \<^term>\<open>Some []\<close> is an error too.\<close>

definition fetch_or_error ::
  "('w, CommandReply) io \<Rightarrow> (json \<Rightarrow> 'a list option) \<Rightarrow> string \<Rightarrow> 'w \<Rightarrow> ('a list \<times> goerror option) \<times> 'w" where
  "fetch_or_error m dec invalid w = (case m w of
       (Inl e, w') \<Rightarrow> (([], Some e), w')
     | (Inr reply, w') \<Rightarrow>
         (if cr_Status reply \<noteq> ''ok'' then ([], Some (cr_Message reply))
          else case Option.bind (cr_Output reply) dec of None \<Rightarrow> ([], Some invalid) | Some items \<Rightarrow> (items, None), w'))"

definition fetchNodeStoragePools ::
  "('w, 'db) web \<Rightarrow> string \<Rightarrow> string \<Rightarrow> 'w \<Rightarrow> (LibvirtStoragePool list \<times> goerror option) \<times> 'w" where
  "fetchNodeStoragePools E clusterID nodeID w =
     fetch_or_error (sendNodeCommand E clusterID nodeID ''libvirt.storage.pools.list'' None 20)
       (as_list (as_struct dec_LibvirtStoragePool) zero_LibvirtStoragePool) ''invalid storage pool list'' w"

definition fetchNodeNetworks ::
  "('w, 'db) web \<Rightarrow> string \<Rightarrow> string \<Rightarrow> 'w \<Rightarrow> (LibvirtNetwork list \<times> goerror option) \<times> 'w" where
  "fetchNodeNetworks E clusterID nodeID w =
     fetch_or_error (sendNodeCommand E clusterID nodeID ''libvirt.networks.list'' None 20)
       (as_list (as_struct dec_LibvirtNetwork) zero_LibvirtNetwork) ''invalid network list'' w"

text \<open>The machines of a cluster: every master is asked, and what it aggregates is appended.\<close>

definition vm_nodes :: "string \<Rightarrow> CommandReply result \<Rightarrow> VMListNode list" where
  "vm_nodes masterID r = (case r of
       Inl e \<Rightarrow> [zero_VMListNode\<lparr>vl_NodeID := masterID, vl_Error := e\<rparr>]
     | Inr reply \<Rightarrow>
         if cr_Status reply \<noteq> ''ok'' then [zero_VMListNode\<lparr>vl_NodeID := masterID, vl_Error := cr_Message reply\<rparr>]
         else case cr_Output reply of
                None \<Rightarrow> [zero_VMListNode\<lparr>vl_NodeID := masterID, vl_Error := ''invalid domain list''\<rparr>]
              | Some j \<Rightarrow> (case dec_VMListAggregate j of
                    Inl e \<Rightarrow> [zero_VMListNode\<lparr>vl_NodeID := masterID, vl_Error := ''invalid domain list''\<rparr>]
                  | Inr aggregate \<Rightarrow> va_Nodes aggregate))"

fun ask_masters :: "('w, 'db) web \<Rightarrow> RMasterInfo list \<Rightarrow> VMListNode list \<Rightarrow> 'w \<Rightarrow> VMListNode list \<times> 'w" where
  "ask_masters E [] results w = (results, w)"
| "ask_masters E (m # ms) results w =
     (if mi_ID (rm_info m) = [] then ask_masters E ms results w
      else case we_master E (mi_ID (rm_info m)) (enc_NodeCommand \<lparr>nc_Action = ''libvirt.domains.list'', nc_Params = None\<rparr>) 10 w of
             (r, w') \<Rightarrow> ask_masters E ms (results @ vm_nodes (mi_ID (rm_info m)) r) w')"

definition fetchVMDomains :: "('w, 'db) web \<Rightarrow> string \<Rightarrow> 'w \<Rightarrow> VMListNode list \<times> 'w" where
  "fetchVMDomains E clusterID w =
     (if clusterID = [] then ([], w)
      else ask_masters E (MastersForCluster (we_now E w) (we_keys E w) (we_store E w) clusterID) [] w)"

section \<open>Actions\<close>

definition vm_commands :: "(string \<times> string) list" where
  "vm_commands =
     [(''start'', ''libvirt.domain.start''), (''shutdown'', ''libvirt.domain.shutdown''),
      (''reboot'', ''libvirt.domain.reboot''), (''destroy'', ''libvirt.domain.destroy''),
      (''detach-iso'', ''libvirt.domain.iso.detach'')]"

definition create_vm ::
  "('w, 'db) web \<Rightarrow> string \<Rightarrow> string \<Rightarrow> string \<Rightarrow> (string \<Rightarrow> string) \<Rightarrow> 'w \<Rightarrow> string \<times> 'w" where
  "create_vm E clusterID nodeID name form w =
     (case number_field form ''memory_mb'' 2048 of
        None \<Rightarrow> (''invalid memory value'', w)
      | Some memoryMB \<Rightarrow>
     (case number_field form ''vcpus'' 2 of
        None \<Rightarrow> (''invalid vcpu value'', w)
      | Some vcpus \<Rightarrow>
     (case number_field form ''disk_size_gb'' 20 of
        None \<Rightarrow> (''invalid disk size value'', w)
      | Some diskSizeGB \<Rightarrow>
          let params = \<lparr>vcp_Name = name, vcp_MemoryMB = memoryMB, vcp_VCPUs = vcpus,
                vcp_DiskPool = trim_space (form ''disk_pool''), vcp_DiskName = trim_space (form ''disk_name''),
                vcp_DiskSizeGB = diskSizeGB, vcp_Network = trim_space (form ''network''),
                vcp_ISOPath = trim_space (form ''iso_path''), vcp_Autostart = formValueBool form ''autostart'',
                vcp_Start = formValueBool form ''start''\<rparr>
          in if vcp_Name params = [] then (''vm name is required'', w)
             else run_action (sendNodeCommand E clusterID nodeID ''libvirt.domain.create''
                    (Some (enc_LibvirtVMCreateParams params)) 90) w)))"

definition handleNodeVirtualizationAction ::
  "('w, 'db) web \<Rightarrow> string \<Rightarrow> string \<Rightarrow> string \<Rightarrow> (string \<Rightarrow> string) \<Rightarrow> 'w \<Rightarrow> string \<times> 'w" where
  "handleNodeVirtualizationAction E clusterID nodeID action form w =
     (if clusterID = [] \<or> nodeID = [] then ([], w)
      else
        let action = trim_space action;
            name = trim_space (form ''vm_name'');
            send = (\<lambda>command params timeout. run_action (sendNodeCommand E clusterID nodeID command (Some params) timeout) w)
        in if action = [] then (''action is required'', w)
           else if action = ''create'' then create_vm E clusterID nodeID name form w
           else case map_of vm_commands action of
             Some command \<Rightarrow>
               if name = [] then (''vm name is required'', w)
               else send command (enc_LibvirtVMActionParams \<lparr>vap_Name = name\<rparr>) 45
           | None \<Rightarrow>
               if action = ''autostart-enable'' \<or> action = ''autostart-disable'' then
                 if name = [] then (''vm name is required'', w)
                 else send ''libvirt.domain.autostart''
                        (enc_LibvirtVMSetAutostartParams \<lparr>vsp_Name = name, vsp_Enabled = (action = ''autostart-enable'')\<rparr>) 20
               else if action = ''attach-iso'' then
                 let isoPath = trim_space (form ''iso_path'')
                 in if name = [] \<or> isoPath = [] then (''vm name and iso path are required'', w)
                    else send ''libvirt.domain.iso.attach'' (enc_LibvirtVMAttachISOParams \<lparr>vip_Name = name, vip_ISOPath = isoPath\<rparr>) 30
               else if action = ''delete'' then
                 if name = [] then (''vm name is required'', w)
                 else send ''libvirt.domain.delete''
                        (enc_LibvirtVMDeleteParams \<lparr>vdp_Name = name, vdp_ForceStop = formValueBool form ''force_stop'',
                           vdp_RemoveVolumes = formValueBool form ''remove_volumes''\<rparr>) 60
               else (''unknown action'', w))"

text \<open>The parameters of the other actions on containers are a map, which is written with its keys in
  order.\<close>

definition timeout_param :: "(string \<Rightarrow> string) \<Rightarrow> (string \<times> json) list" where
  "timeout_param form =
     (let timeout = trim_space (form ''timeout'')
      in if timeout = [] then []
         else case parsePositiveInt timeout of Some v \<Rightarrow> [(''timeout_seconds'', JNum (show_int v))] | None \<Rightarrow> [])"

definition handleDockerContainersAction ::
  "('w, 'db) web \<Rightarrow> string \<Rightarrow> string \<Rightarrow> string \<Rightarrow> (string \<Rightarrow> string) \<Rightarrow> 'w \<Rightarrow> string \<times> 'w" where
  "handleDockerContainersAction E clusterID nodeID action form w =
     (if clusterID = [] \<or> nodeID = [] then ([], w)
      else
        let containerID = trim_space (form ''container_id'');
            send = (\<lambda>command params. run_action (sendNodeCommand E clusterID nodeID command (Some params) 30) w)
        in if action = ''create'' then
             let params = \<lparr>dcp_Image = trim_space (form ''image''), dcp_Name = trim_space (form ''name''),
                   dcp_Command = trim_space (form ''command''), dcp_Entrypoint = trim_space (form ''entrypoint''),
                   dcp_WorkingDir = trim_space (form ''working_dir''), dcp_Env = splitLines (form ''env''),
                   dcp_Ports = splitCSV (form ''ports''), dcp_PublishAll = formValueBool form ''publish_all'',
                   dcp_AutoRemove = formValueBool form ''auto_remove'',
                   dcp_RestartPolicy = trim_space (form ''restart_policy''), dcp_Start = formValueBool form ''start''\<rparr>
             in if dcp_Image params = [] then (''image is required'', w)
                else send ''docker.container.create'' (enc_DockerContainerCreateParams params)
           else if containerID = [] then (''container id is required'', w)
           else if action = ''start'' then send ''docker.container.start'' (JObj [(''id'', JStr containerID)])
           else if action = ''stop'' then
             send ''docker.container.stop'' (JObj ((''id'', JStr containerID) # timeout_param form))
           else if action = ''restart'' then
             send ''docker.container.restart'' (JObj ((''id'', JStr containerID) # timeout_param form))
           else if action = ''remove'' then
             send ''docker.container.remove'' (JObj [(''force'', JBool (formValueBool form ''force'')),
               (''id'', JStr containerID), (''remove_volumes'', JBool (formValueBool form ''remove_volumes''))])
           else (''unknown action'', w))"

definition handleDockerImagesAction ::
  "('w, 'db) web \<Rightarrow> string \<Rightarrow> string \<Rightarrow> string \<Rightarrow> (string \<Rightarrow> string) \<Rightarrow> 'w \<Rightarrow> string \<times> 'w" where
  "handleDockerImagesAction E clusterID nodeID action form w =
     (if clusterID = [] \<or> nodeID = [] then ([], w)
      else
        let img = trim_space (form ''image'');
            send = (\<lambda>command params. run_action (sendNodeCommand E clusterID nodeID command (Some params) 30) w)
        in if img = [] then (''image is required'', w)
           else if action = ''pull'' then send ''docker.image.pull'' (JObj [(''image'', JStr img)])
           else if action = ''remove'' then
             send ''docker.image.remove'' (JObj [(''force'', JBool (formValueBool form ''force'')),
               (''image'', JStr img), (''prune_children'', JBool (formValueBool form ''prune_children''))])
           else (''unknown action'', w))"

section \<open>Pages\<close>

definition findNode :: "NodeInfo list \<Rightarrow> string \<Rightarrow> NodeInfo option" where
  "findNode nodes raw =
     (let raw = trim_space raw in if raw = [] then None else find (\<lambda>node. ni_ID node = raw) nodes)"

definition nodeLabel :: "NodeInfo \<Rightarrow> string" where
  "nodeLabel node = (if trim_space (ni_Name node) \<noteq> [] then ni_Name node else ni_ID node)"

text \<open>A posted form: the action it names and the text to show for it.\<close>

definition post_action ::
  "(string \<Rightarrow> (string \<Rightarrow> string) \<Rightarrow> 'w \<Rightarrow> string \<times> 'w) \<Rightarrow> request \<Rightarrow> 'w \<Rightarrow> (string \<times> string) \<times> 'w" where
  "post_action handle rq w =
     (if rq_method rq = ''POST'' then
        (case rq_form rq of
           Inl e \<Rightarrow> (([], ''invalid form data''), w)
         | Inr form \<Rightarrow> (let action = trim_space (form ''action'') in
             case handle action form w of (err, w') \<Rightarrow> ((action, err), w')))
      else (([], []), w))"

definition containers_page ::
  "('w, 'db) web \<Rightarrow> string \<Rightarrow> NodeInfo \<Rightarrow> request \<Rightarrow> viewData \<Rightarrow> 'w \<Rightarrow> response \<times> 'w" where
  "containers_page E clusterID node rq data w =
     (case post_action (handleDockerContainersAction E clusterID (ni_ID node)) rq w of
        ((action, actionError), w) \<Rightarrow>
          (case fetchNodeDocker E clusterID (ni_ID node) w of
             ((containers, err), w) \<Rightarrow>
               render E T_node (data\<lparr>vw_ActiveNodeItem := ''docker-containers'', vw_DockerAction := action,
                 vw_DockerActionError := actionError, vw_DockerContainers := containers, vw_DockerError := err\<rparr>) w))"

definition images_page ::
  "('w, 'db) web \<Rightarrow> string \<Rightarrow> NodeInfo \<Rightarrow> request \<Rightarrow> viewData \<Rightarrow> 'w \<Rightarrow> response \<times> 'w" where
  "images_page E clusterID node rq data w =
     (case post_action (handleDockerImagesAction E clusterID (ni_ID node)) rq w of
        ((action, actionError), w) \<Rightarrow>
          (case fetchNodeDockerImages E clusterID (ni_ID node) w of
             ((images, err), w) \<Rightarrow>
               render E T_node (data\<lparr>vw_ActiveNodeItem := ''docker-images'', vw_DockerAction := action,
                 vw_DockerActionError := actionError, vw_DockerImages := images, vw_DockerError := err\<rparr>) w))"

text \<open>The first error of the three lists is the one that is shown.\<close>

definition first_error :: "string \<Rightarrow> goerror option \<Rightarrow> string" where
  "first_error shown err = (case err of None \<Rightarrow> shown | Some e \<Rightarrow> if shown = [] then e else shown)"

definition virtualization_page ::
  "('w, 'db) web \<Rightarrow> string \<Rightarrow> NodeInfo \<Rightarrow> request \<Rightarrow> viewData \<Rightarrow> 'w \<Rightarrow> response \<times> 'w" where
  "virtualization_page E clusterID node rq data w =
     (case post_action (handleNodeVirtualizationAction E clusterID (ni_ID node)) rq w of
        ((action, actionError), w) \<Rightarrow>
          (case fetchNodeVMDomains E clusterID (ni_ID node) w of
             ((domains, err), w) \<Rightarrow>
          (case fetchNodeStoragePools E clusterID (ni_ID node) w of
             ((pools, poolsErr), w) \<Rightarrow>
          (case fetchNodeNetworks E clusterID (ni_ID node) w of
             ((networks, networksErr), w) \<Rightarrow>
               render E T_nodeVirtualization (data\<lparr>vw_ActiveNodeItem := ''virtualization'', vw_LibvirtAction := action,
                 vw_LibvirtActionError := actionError, vw_NodeVMDomains := domains, vw_LibvirtStoragePools := pools,
                 vw_LibvirtNetworks := networks,
                 vw_LibvirtError := first_error (first_error err poolsErr) networksErr\<rparr>) w))))"

definition node_page ::
  "('w, 'db) web \<Rightarrow> string \<Rightarrow> NodeInfo \<Rightarrow> string \<Rightarrow> request \<Rightarrow> viewData \<Rightarrow> 'w \<Rightarrow> response \<times> 'w" where
  "node_page E clusterID node sub rq data w =
     (if sub = ''docker'' \<or> sub = ''docker-containers'' then containers_page E clusterID node rq data w
      else if sub = ''docker-images'' then images_page E clusterID node rq data w
      else if sub = ''virtualization'' then virtualization_page E clusterID node rq data w
      else (NotFound, w))"

text \<open>The pages of a cluster by the second part of the path: item, template and title.\<close>

definition cluster_item :: "string \<Rightarrow> string \<Rightarrow> (string \<times> page_template \<times> string) option" where
  "cluster_item ident part =
     (if part = ''vms'' then Some (''vms'', T_vms, ''VMs: '' @ ident)
      else if part = ''reverse-proxy'' then Some (''reverse-proxy'', T_reverseProxy, ''Reverse Proxy: '' @ ident)
      else if part = ''nodes'' then Some (''nodes'', T_nodes, ''Nodes: '' @ ident)
      else None)"

definition trim_slashes :: "string \<Rightarrow> string" where
  "trim_slashes s = rev (dropWhile (\<lambda>c. c = CHR ''/'') (rev (dropWhile (\<lambda>c. c = CHR ''/'') s)))"

definition TrimPrefix :: "string \<Rightarrow> string \<Rightarrow> string" where
  "TrimPrefix s p = (if starts_with p s then drop (length p) s else s)"

definition path_parts :: "string \<Rightarrow> string list" where
  "path_parts path = split_on (CHR ''/'') (trim_slashes (TrimPrefix path ''/clusters/''))"

definition cluster_page ::
  "('w, 'db) web \<Rightarrow> string \<Rightarrow> string list \<Rightarrow> request \<Rightarrow> string \<times> page_template \<times> string \<Rightarrow> 'w \<Rightarrow> response \<times> 'w" where
  "cluster_page E ident parts rq item w =
     (case item of (clusterItem, tmpl, title) \<Rightarrow>
        let nodes = NodesForCluster (we_now E w) (we_keys E w) (we_store E w) ident;
            data = zero_viewData\<lparr>vw_Title := title, vw_NodesOpen := True, vw_ActiveCluster := ident,
              vw_ActiveClusterItem := clusterItem,
              vw_ClusterOnline := IsClusterOnline (we_now E w) (we_keys E w) (we_store E w) ident, vw_Nodes := nodes\<rparr>
        in if length parts \<ge> 3 then
             (if parts ! 1 \<noteq> ''nodes'' then (NotFound, w)
              else case findNode nodes (parts ! 2) of
                     None \<Rightarrow> (NotFound, w)
                   | Some node \<Rightarrow>
                       node_page E ident node (if length parts = 4 then parts ! 3 else ''docker'') rq
                         (data\<lparr>vw_ActiveClusterItem := ''nodes'', vw_ActiveNode := node, vw_Title := ''Node: '' @ nodeLabel node\<rparr>) w)
           else if clusterItem = ''vms'' then
             (case fetchVMDomains E ident w of (vms, w) \<Rightarrow> render E tmpl (data\<lparr>vw_VMDomains := vms\<rparr>) w)
           else render E tmpl data w)"

definition clusters_handler :: "('w, 'db) web \<Rightarrow> request \<Rightarrow> 'w \<Rightarrow> response \<times> 'w" where
  "clusters_handler E rq w =
     (let parts = path_parts (rq_path rq); ident = hd parts
      in if length parts > 4 \<or> ident = []
            \<or> \<not> IsKnownCluster (we_gorm E) (we_now E w) (we_keys E w) (we_store E w) ident
         then (NotFound, w)
         else case (if length parts = 2 then cluster_item ident (parts ! 1)
                    else Some ([], T_cluster, ''Cluster: '' @ ident)) of
                None \<Rightarrow> (NotFound, w)
              | Some item \<Rightarrow> cluster_page E ident parts rq item w)"

definition home_handler :: "('w, 'db) web \<Rightarrow> request \<Rightarrow> 'w \<Rightarrow> response \<times> 'w" where
  "home_handler E rq w =
     (if rq_path rq \<noteq> ''/'' then (NotFound, w)
      else render E T_home (zero_viewData\<lparr>vw_Title := ''Centralis''\<rparr>) w)"

text \<open>\<^verbatim>\<open>ServeWeb\<close>: the patterns of the multiplexer, for a path that it does not redirect.\<close>

definition ServeWeb :: "('w, 'db) web \<Rightarrow> request \<Rightarrow> 'w \<Rightarrow> response \<times> 'w" where
  "ServeWeb E rq w =
     (if starts_with ''/static/'' (rq_path rq) then (StaticFile (TrimPrefix (rq_path rq) ''/static/''), w)
      else if starts_with ''/clusters/'' (rq_path rq) then clusters_handler E rq w
      else home_handler E rq w)"

definition web_listen_addr :: "string \<Rightarrow> string" where
  "web_listen_addr listenAddr = (if listenAddr = [] then ''localhost:8090'' else listenAddr)"

section \<open>Properties\<close>

subsection \<open>What is sent\<close>

text \<open>The environment with a log of the commands.\<close>

datatype sent = ToCluster TargetRequest json nat | ToMaster string json nat

definition logged :: "('w, 'db) web \<Rightarrow> ('w \<times> sent list, 'db) web" where
  "logged E = \<lparr>we_gorm = we_gorm E, we_store = (\<lambda>w. we_store E (fst w)), we_now = (\<lambda>w. we_now E (fst w)),
     we_keys = (\<lambda>w. we_keys E (fst w)),
     we_cluster = (\<lambda>req cmd t w. case we_cluster E req cmd t (fst w) of (r, w') \<Rightarrow> (r, (w', snd w @ [ToCluster req cmd t]))),
     we_master = (\<lambda>i cmd t w. case we_master E i cmd t (fst w) of (r, w') \<Rightarrow> (r, (w', snd w @ [ToMaster i cmd t])))\<rparr>"

lemma logged_simps [simp]:
  "we_gorm (logged E) = we_gorm E" "we_store (logged E) (w, l) = we_store E w" "we_now (logged E) (w, l) = we_now E w"
  "we_keys (logged E) (w, l) = we_keys E w"
  "we_cluster (logged E) req cmd t (w, l) = (case we_cluster E req cmd t w of (r, w') \<Rightarrow> (r, (w', l @ [ToCluster req cmd t])))"
  "we_master (logged E) i cmd t (w, l) = (case we_master E i cmd t w of (r, w') \<Rightarrow> (r, (w', l @ [ToMaster i cmd t])))"
  by (simp_all add: logged_def)

definition emits :: "(sent list \<Rightarrow> bool) \<Rightarrow> ('w \<times> sent list \<Rightarrow> 'a \<times> 'w \<times> sent list) \<Rightarrow> bool" where
  "emits P f \<longleftrightarrow> (\<forall>w l. \<exists>x w' ls. f (w, l) = (x, (w', l @ ls)) \<and> P ls)"

lemma emitsE:
  assumes "emits P f"
  obtains x w' ls where "f (w, l) = (x, (w', l @ ls))" "P ls"
  using assms unfolding emits_def by blast

lemma emitsI: "(\<And>w l. \<exists>x w' ls. f (w, l) = (x, (w', l @ ls)) \<and> P ls) \<Longrightarrow> emits P f"
  by (simp add: emits_def)

lemma emits_none: "P [] \<Longrightarrow> emits P (Pair x)"
  by (auto simp: emits_def)

lemma emits_then:
  assumes "emits P f" "\<And>x. emits Q (g x)" "\<And>a b. P a \<Longrightarrow> Q b \<Longrightarrow> R (a @ b)"
  shows "emits R (\<lambda>w. case f w of (x, w') \<Rightarrow> g x w')"
proof (rule emitsI)
  fix w l
  obtain x w1 l1 where f: "f (w, l) = (x, (w1, l @ l1))" "P l1" using assms(1) by (rule emitsE)
  obtain y w2 l2 where "g x (w1, l @ l1) = (y, (w2, (l @ l1) @ l2))" "Q l2" using assms(2) by (rule emitsE)
  then show "\<exists>x w' ls. (case f (w, l) of (x, w') \<Rightarrow> g x w') = (x, (w', l @ ls)) \<and> R ls"
    using f assms(3) by auto
qed

definition target :: "string \<Rightarrow> string \<Rightarrow> TargetRequest" where
  "target c n = \<lparr>tr_ClusterID = c, tr_NodeID = n, tr_Scope = TargetMasterByNode\<rparr>"

definition read_actions :: "string list" where
  "read_actions = [''docker.containers.list'', ''docker.images.list'', ''libvirt.domains.list'',
     ''libvirt.storage.pools.list'', ''libvirt.networks.list'']"

definition node_read :: "string \<Rightarrow> string \<Rightarrow> sent \<Rightarrow> bool" where
  "node_read c n s \<longleftrightarrow> (\<exists>a t. a \<in> set read_actions \<and> s = ToCluster (target c n) (enc_NodeCommand \<lparr>nc_Action = a, nc_Params = None\<rparr>) t)"

definition node_act :: "string \<Rightarrow> string \<Rightarrow> sent list \<Rightarrow> bool" where
  "node_act c n ls \<longleftrightarrow> ls = [] \<or> (\<exists>cmd t. ls = [ToCluster (target c n) cmd t])"

lemma sendNodeCommand_emits:
  assumes "list_all plain_char a" "a \<noteq> []"
  shows "emits (\<lambda>ls. ls = [ToCluster (target c n) (enc_NodeCommand \<lparr>nc_Action = a, nc_Params = p\<rparr>) t]) (sendNodeCommand (logged E) c n a p t)"
  using assms by (auto simp: emits_def sendNodeCommand_def trim_space_plain bind_io_def ret_def target_def Let_def
    split: prod.split sum.split)

lemma emits_map: "emits P m \<Longrightarrow> emits P (\<lambda>w. case m w of (r, w') \<Rightarrow> (g r, w'))"
proof (rule emitsI)
  fix w l
  assume "emits P m"
  then obtain x w' ls where "m (w, l) = (x, (w', l @ ls))" "P ls" by (rule emitsE)
  then show "\<exists>y w' ls. (case m (w, l) of (r, w') \<Rightarrow> (g r, w')) = (y, (w', l @ ls)) \<and> P ls" by auto
qed

lemma run_action_emits: "emits P m \<Longrightarrow> emits P (run_action m)"
  unfolding run_action_def by (rule emits_map)

lemma fetch_items_emits: "emits P m \<Longrightarrow> emits P (fetch_items m dec invalid)"
  unfolding fetch_items_def by (rule emits_map)

lemma fetch_or_error_emits:
  assumes "emits P m"
  shows "emits P (fetch_or_error m dec invalid)"
proof (rule emitsI)
  fix w l
  obtain x w' ls where "m (w, l) = (x, (w', l @ ls))" "P ls" using assms by (rule emitsE)
  then show "\<exists>y w' ls. fetch_or_error m dec invalid (w, l) = (y, (w', l @ ls)) \<and> P ls"
    by (cases x) (auto simp: fetch_or_error_def)
qed

lemma read_emits:
  assumes "a \<in> set read_actions"
  shows "emits (list_all (node_read c n)) (sendNodeCommand (logged E) c n a None t)"
proof -
  have "list_all plain_char a" "a \<noteq> []"
    using assms by (auto simp: read_actions_def plain_char_def)
  from sendNodeCommand_emits [OF this, of c n None t E] assms show ?thesis
    by (fastforce simp: emits_def node_read_def)
qed

lemma fetch_emits:
  "emits (list_all (node_read c n)) (fetchNodeDocker (logged E) c n)"
  "emits (list_all (node_read c n)) (fetchNodeDockerImages (logged E) c n)"
  "emits (list_all (node_read c n)) (fetchNodeVMDomains (logged E) c n)"
  "emits (list_all (node_read c n)) (fetchNodeStoragePools (logged E) c n)"
  "emits (list_all (node_read c n)) (fetchNodeNetworks (logged E) c n)"
proof -
  show "emits (list_all (node_read c n)) (fetchNodeDocker (logged E) c n)"
    "emits (list_all (node_read c n)) (fetchNodeDockerImages (logged E) c n)"
    unfolding fetchNodeDocker_def fetchNodeDockerImages_def
    by (cases "c = [] \<or> n = []"; simp add: emits_none fetch_items_emits read_emits read_actions_def)+
qed (unfold fetchNodeVMDomains_def fetchNodeStoragePools_def fetchNodeNetworks_def,
    (intro fetch_items_emits fetch_or_error_emits read_emits; simp add: read_actions_def)+)

lemma act_emits:
  assumes "list_all plain_char a" "a \<noteq> []"
  shows "emits (node_act c n) (run_action (sendNodeCommand (logged E) c n a p t))"
  using run_action_emits [OF sendNodeCommand_emits [OF assms, of c n p t E]]
  by (fastforce simp: emits_def node_act_def)

lemma vm_commands_plain: "map_of vm_commands a = Some b \<Longrightarrow> list_all plain_char b \<and> b \<noteq> []"
  by (auto simp: vm_commands_def plain_char_def split: if_splits)

lemma emits_if: "(b \<Longrightarrow> emits P f) \<Longrightarrow> (\<not> b \<Longrightarrow> emits P g) \<Longrightarrow> emits P (\<lambda>w. if b then f w else g w)"
  by (cases b) simp_all

lemma node_act_Nil [simp]: "node_act c n []"
  by (simp add: node_act_def)

lemma no_act [simp]: "emits (node_act c n) (\<lambda>w. (x, w))"
  by (rule emits_none) simp

lemma create_vm_emits: "emits (node_act c n) (create_vm (logged E) c n name form)"
  unfolding create_vm_def Let_def
  by (cases "number_field form ''memory_mb'' 2048"; cases "number_field form ''vcpus'' 2";
      cases "number_field form ''disk_size_gb'' 20"; simp only: option.case;
      intro emits_if act_emits no_act; simp add: plain_char_def)

lemma virtualization_emits: "emits (node_act c n) (handleNodeVirtualizationAction (logged E) c n action form)"
proof -
  note emits_intros = emits_if act_emits create_vm_emits no_act
  show ?thesis
    unfolding handleNodeVirtualizationAction_def Let_def
    by (cases "map_of vm_commands (trim_space action)"; simp only: option.case; intro emits_intros;
        (drule vm_commands_plain)?; simp add: plain_char_def)
qed

lemma containers_emits: "emits (node_act c n) (handleDockerContainersAction (logged E) c n action form)"
  unfolding handleDockerContainersAction_def Let_def
  by (intro emits_if act_emits no_act; simp add: plain_char_def)

lemma images_emits: "emits (node_act c n) (handleDockerImagesAction (logged E) c n action form)"
  unfolding handleDockerImagesAction_def Let_def
  by (intro emits_if act_emits no_act; simp add: plain_char_def)

definition request_log :: "request \<Rightarrow> string \<Rightarrow> string \<Rightarrow> sent list \<Rightarrow> bool" where
  "request_log rq c n ls \<longleftrightarrow> (\<exists>acts reads. ls = acts @ reads \<and> node_act c n acts \<and> (rq_method rq \<noteq> ''POST'' \<longrightarrow> acts = [])
     \<and> list_all (node_read c n) reads)"

lemma request_logI:
  "node_act c n l1 \<Longrightarrow> (rq_method rq \<noteq> ''POST'' \<longrightarrow> l1 = []) \<Longrightarrow> list_all (node_read c n) l2 \<Longrightarrow> request_log rq c n (l1 @ l2)"
  by (auto simp: request_log_def)

lemma post_emits:
  assumes "\<And>action form. emits (node_act c n) (handle action form)"
  shows "emits (\<lambda>ls. node_act c n ls \<and> (rq_method rq \<noteq> ''POST'' \<longrightarrow> ls = [])) (post_action handle rq)"
proof (rule emitsI)
  fix w l
  show "\<exists>x w' ls. post_action handle rq (w, l) = (x, (w', l @ ls)) \<and> node_act c n ls \<and> (rq_method rq \<noteq> ''POST'' \<longrightarrow> ls = [])"
  proof (cases "rq_method rq = ''POST''")
    case True
    then show ?thesis
    proof (cases "rq_form rq")
      case (Inr form)
      obtain x w' ls where "handle (trim_space (form ''action'')) form (w, l) = (x, (w', l @ ls))" "node_act c n ls"
        using assms by (rule emitsE)
      with True Inr show ?thesis by (auto simp: post_action_def Let_def)
    qed (simp add: post_action_def)
  qed (simp add: post_action_def)
qed

lemma render_emits [simp]: "render E t d (w, l) = (fst (render E t d (w, l)), (w, l))"
  by (simp add: render_def)

lemma containers_page_emits: "emits (request_log rq c (ni_ID node)) (containers_page (logged E) c node rq data)"
proof (rule emitsI)
  fix w l
  obtain x1 w1 l1 where 1: "post_action (handleDockerContainersAction (logged E) c (ni_ID node)) rq (w, l) = (x1, (w1, l @ l1))"
    "node_act c (ni_ID node) l1" "rq_method rq \<noteq> ''POST'' \<longrightarrow> l1 = []"
    using post_emits [where handle = "handleDockerContainersAction (logged E) c (ni_ID node)", OF containers_emits] by (rule emitsE) blast
  obtain x2 w2 l2 where 2: "fetchNodeDocker (logged E) c (ni_ID node) (w1, l @ l1) = (x2, (w2, (l @ l1) @ l2))"
    "list_all (node_read c (ni_ID node)) l2" using fetch_emits(1) by (rule emitsE)
  show "\<exists>x w' ls. containers_page (logged E) c node rq data (w, l) = (x, (w', l @ ls)) \<and> request_log rq c (ni_ID node) ls"
    using 1(1) 2(1) request_logI [OF 1(2,3) 2(2)] by (cases x1; cases x2) (simp add: containers_page_def render_def)
qed

lemma images_page_emits: "emits (request_log rq c (ni_ID node)) (images_page (logged E) c node rq data)"
proof (rule emitsI)
  fix w l
  obtain x1 w1 l1 where 1: "post_action (handleDockerImagesAction (logged E) c (ni_ID node)) rq (w, l) = (x1, (w1, l @ l1))"
    "node_act c (ni_ID node) l1" "rq_method rq \<noteq> ''POST'' \<longrightarrow> l1 = []"
    using post_emits [where handle = "handleDockerImagesAction (logged E) c (ni_ID node)", OF images_emits] by (rule emitsE) blast
  obtain x2 w2 l2 where 2: "fetchNodeDockerImages (logged E) c (ni_ID node) (w1, l @ l1) = (x2, (w2, (l @ l1) @ l2))"
    "list_all (node_read c (ni_ID node)) l2" using fetch_emits(2) by (rule emitsE)
  show "\<exists>x w' ls. images_page (logged E) c node rq data (w, l) = (x, (w', l @ ls)) \<and> request_log rq c (ni_ID node) ls"
    using 1(1) 2(1) request_logI [OF 1(2,3) 2(2)] by (cases x1; cases x2) (simp add: images_page_def render_def)
qed

lemma virtualization_page_emits: "emits (request_log rq c (ni_ID node)) (virtualization_page (logged E) c node rq data)"
proof (rule emitsI)
  fix w l
  let ?n = "ni_ID node"
  obtain x1 w1 l1 where 1: "post_action (handleNodeVirtualizationAction (logged E) c ?n) rq (w, l) = (x1, (w1, l @ l1))"
    "node_act c ?n l1" "rq_method rq \<noteq> ''POST'' \<longrightarrow> l1 = []"
    using post_emits [where handle = "handleNodeVirtualizationAction (logged E) c ?n", OF virtualization_emits] by (rule emitsE) blast
  obtain x2 w2 l2 where 2: "fetchNodeVMDomains (logged E) c ?n (w1, l @ l1) = (x2, (w2, (l @ l1) @ l2))"
    "list_all (node_read c ?n) l2" using fetch_emits(3) by (rule emitsE)
  obtain x3 w3 l3 where 3: "fetchNodeStoragePools (logged E) c ?n (w2, (l @ l1) @ l2) = (x3, (w3, ((l @ l1) @ l2) @ l3))"
    "list_all (node_read c ?n) l3" using fetch_emits(4) by (rule emitsE)
  obtain x4 w4 l4 where 4: "fetchNodeNetworks (logged E) c ?n (w3, ((l @ l1) @ l2) @ l3) = (x4, (w4, (((l @ l1) @ l2) @ l3) @ l4))"
    "list_all (node_read c ?n) l4" using fetch_emits(5) by (rule emitsE)
  have "request_log rq c ?n (l1 @ (l2 @ l3 @ l4))"
    by (rule request_logI [OF 1(2,3)]) (simp add: 2(2) 3(2) 4(2))
  moreover have "\<exists>r. virtualization_page (logged E) c node rq data (w, l) = (r, (w4, l @ l1 @ l2 @ l3 @ l4))"
    using 1(1) 2(1) 3(1) 4(1) by (cases x1; cases x2; cases x3; cases x4) (simp add: virtualization_page_def render_def)
  ultimately show "\<exists>x w' ls. virtualization_page (logged E) c node rq data (w, l) = (x, (w', l @ ls)) \<and> request_log rq c ?n ls"
    by blast
qed

lemma node_page_emits: "emits (request_log rq c (ni_ID node)) (node_page (logged E) c node sub rq data)"
  unfolding node_page_def
  by (intro emits_if containers_page_emits images_page_emits virtualization_page_emits emits_none) (simp add: request_log_def)

definition master_read :: "RMasterInfo list \<Rightarrow> sent \<Rightarrow> bool" where
  "master_read ms s \<longleftrightarrow> (\<exists>m \<in> set ms. s = ToMaster (mi_ID (rm_info m)) (enc_NodeCommand \<lparr>nc_Action = ''libvirt.domains.list'', nc_Params = None\<rparr>) 10)"

lemma ask_masters_emits:
  "set ms \<subseteq> set ms0 \<Longrightarrow> \<exists>x w' ls. ask_masters (logged E) ms res (w, l) = (x, (w', l @ ls)) \<and> list_all (master_read ms0) ls"
proof (induction ms arbitrary: res w l)
  case (Cons m ms)
  let ?cmd = "enc_NodeCommand \<lparr>nc_Action = ''libvirt.domains.list'', nc_Params = None\<rparr>"
  obtain r w1 where r: "we_master E (mi_ID (rm_info m)) ?cmd 10 w = (r, w1)" by fastforce
  obtain x w2 l2 where 2: "ask_masters (logged E) ms (res @ vm_nodes (mi_ID (rm_info m)) r) (w1, l @ [ToMaster (mi_ID (rm_info m)) ?cmd 10])
      = (x, (w2, (l @ [ToMaster (mi_ID (rm_info m)) ?cmd 10]) @ l2))" "list_all (master_read ms0) l2"
    using Cons.IH [of "res @ vm_nodes (mi_ID (rm_info m)) r" w1 "l @ [ToMaster (mi_ID (rm_info m)) ?cmd 10]"] Cons.prems
    by auto
  have "master_read ms0 (ToMaster (mi_ID (rm_info m)) ?cmd 10)" using Cons.prems by (auto simp: master_read_def)
  then show ?case using 2 r Cons by (cases "mi_ID (rm_info m) = []") auto
qed simp

text \<open>
  Claim C24. What a request for a page sends: at most one command that changes anything, only if the
  request is a \<^verbatim>\<open>POST\<close>, before all others, and to the node of the path, which the registry lists in
  the cluster of the path; everything else are commands that list, sent to the same node, or for
  the page of machines to the live masters of that cluster. So reading a page never changes a node.
\<close>

theorem request_commands:
  assumes "clusters_handler (logged E) rq (w, []) = (resp, (w', ls))"
  shows "(\<exists>node. findNode (NodesForCluster (we_now E w) (we_keys E w) (we_store E w) (hd (path_parts (rq_path rq))))
              (path_parts (rq_path rq) ! 2) = Some node
            \<and> request_log rq (hd (path_parts (rq_path rq))) (ni_ID node) ls)
    \<or> list_all (master_read (MastersForCluster (we_now E w) (we_keys E w) (we_store E w) (hd (path_parts (rq_path rq))))) ls"
proof -
  let ?c = "hd (path_parts (rq_path rq))" let ?p = "path_parts (rq_path rq)"
  let ?nodes = "NodesForCluster (we_now E w) (we_keys E w) (we_store E w) ?c"
  let ?ms = "MastersForCluster (we_now E w) (we_keys E w) (we_store E w) ?c"
  let ?ok = "\<lambda>ls. (\<exists>node. findNode ?nodes (?p ! 2) = Some node \<and> request_log rq ?c (ni_ID node) ls) \<or> list_all (master_read ?ms) ls"
  have node: "?ok (snd (snd (node_page (logged E) ?c nd sub rq data (w, []))))" if "findNode ?nodes (?p ! 2) = Some nd" for nd sub data
  proof -
    obtain x w' ls where "node_page (logged E) ?c nd sub rq data (w, []) = (x, (w', [] @ ls))" "request_log rq ?c (ni_ID nd) ls"
      using node_page_emits by (rule emitsE)
    with that show ?thesis by simp
  qed
  have vms: "?ok (snd (snd (fetchVMDomains (logged E) ?c (w, []))))"
    using ask_masters_emits [of ?ms ?ms E "[]" w "[]"] by (auto simp: fetchVMDomains_def)
  have "?ok (snd (snd (cluster_page (logged E) ?c ?p rq item (w, []))))" for item
    using node vms by (cases item) (auto simp: cluster_page_def render_def Let_def split: option.split prod.split)
  then have "?ok (snd (snd (clusters_handler (logged E) rq (w, []))))"
    by (simp add: clusters_handler_def Let_def split: option.split)
  with assms show ?thesis by simp
qed

definition demo_web :: "(unit, string list) web" where
  "demo_web = \<lparr>we_gorm = demo_gorm, we_store = (\<lambda>w. NewStore 1 None), we_now = (\<lambda>w. 0), we_keys = (\<lambda>w. []),
     we_cluster = (\<lambda>req cmd t. fail ''timeout''), we_master = (\<lambda>i cmd t. fail ''timeout'')\<rparr>"

theorem request_commands_witness:
  "\<exists>resp w' ls. clusters_handler (logged demo_web) \<lparr>rq_method = ''GET'', rq_path = ''/clusters/a/vms'', rq_form = Inl ''x''\<rparr> ((), [])
     = (resp, (w', ls)) \<and> ((\<exists>node. findNode (NodesForCluster 0 [] (we_store demo_web ()) (hd (path_parts ''/clusters/a/vms'')))
              (path_parts ''/clusters/a/vms'' ! 2) = Some node
            \<and> request_log \<lparr>rq_method = ''GET'', rq_path = ''/clusters/a/vms'', rq_form = Inl ''x''\<rparr>
                 (hd (path_parts ''/clusters/a/vms'')) (ni_ID node) ls)
       \<or> list_all (master_read (MastersForCluster 0 [] (we_store demo_web ()) (hd (path_parts ''/clusters/a/vms'')))) ls)"
proof -
  let ?rq = "\<lparr>rq_method = ''GET'', rq_path = ''/clusters/a/vms'', rq_form = Inl ''x''\<rparr>"
  obtain resp w' ls where eq: "clusters_handler (logged demo_web) ?rq ((), []) = (resp, (w', ls))"
    by (metis prod.exhaust)
  have "we_now demo_web () = 0" "we_keys demo_web () = []" by (simp_all add: demo_web_def)
  with request_commands [OF eq] eq show ?thesis by auto
qed

subsection \<open>Which pages there are\<close>

lemma node_page_found:
  "fst (node_page E c node sub rq data w) \<noteq> NotFound \<longleftrightarrow>
     sub \<in> {''docker'', ''docker-containers'', ''docker-images'', ''virtualization''}"
  by (auto simp: node_page_def containers_page_def images_page_def virtualization_page_def render_def split: prod.split)

lemma known_not_Nil: "IsKnownCluster G now ks s c \<Longrightarrow> c \<noteq> []"
  by (auto simp: IsKnownCluster_def)

lemma path_parts_not_Nil [simp]: "path_parts p \<noteq> []"
  by (simp add: path_parts_def)

lemma cluster_page_found:
  "fst (cluster_page E c parts rq item w) \<noteq> NotFound \<longleftrightarrow>
     length parts < 3 \<or> parts ! 1 = ''nodes''
       \<and> findNode (NodesForCluster (we_now E w) (we_keys E w) (we_store E w) c) (parts ! 2) \<noteq> None
       \<and> (length parts = 4 \<longrightarrow> parts ! 3 \<in> {''docker'', ''docker-containers'', ''docker-images'', ''virtualization''})"
proof -
  obtain i t x where item: "item = (i, t, x)" by (metis prod.exhaust)
  show ?thesis
    using node_page_found [of E c]
    by (auto simp: item cluster_page_def render_def Let_def split: option.split prod.split)
qed

lemma cluster_item_found: "cluster_item c part \<noteq> None \<longleftrightarrow> part \<in> {''vms'', ''reverse-proxy'', ''nodes''}"
  by (auto simp: cluster_item_def)

text \<open>
  The pages that exist: a path under \<^verbatim>\<open>/clusters/\<close> is answered by a page exactly when its
  first part is a known cluster and the rest is empty, one of the three items of a cluster, or a
  node that the registry lists in that cluster with at most one of the node's items; every other
  path is answered by \<^verbatim>\<open>404\<close>.
\<close>

lemma pages_exact:
  "fst (clusters_handler E rq w) \<noteq> NotFound \<longleftrightarrow>
      IsKnownCluster (we_gorm E) (we_now E w) (we_keys E w) (we_store E w) (hd (path_parts (rq_path rq)))
      \<and> (length (path_parts (rq_path rq)) = 1
         \<or> length (path_parts (rq_path rq)) = 2 \<and> path_parts (rq_path rq) ! 1 \<in> {''vms'', ''reverse-proxy'', ''nodes''}
         \<or> length (path_parts (rq_path rq)) \<in> {3, 4} \<and> path_parts (rq_path rq) ! 1 = ''nodes''
            \<and> findNode (NodesForCluster (we_now E w) (we_keys E w) (we_store E w) (hd (path_parts (rq_path rq))))
                (path_parts (rq_path rq) ! 2) \<noteq> None
            \<and> (length (path_parts (rq_path rq)) = 3
                \<or> path_parts (rq_path rq) ! 3 \<in> {''docker'', ''docker-containers'', ''docker-images'', ''virtualization''}))"
proof -
  let ?p = "path_parts (rq_path rq)"
  have len: "0 < length ?p" by simp
  show ?thesis
  proof (cases "IsKnownCluster (we_gorm E) (we_now E w) (we_keys E w) (we_store E w) (hd ?p)")
    case True
    note known = True known_not_Nil [OF True]
    have "length ?p > 4 \<or> length ?p = 2 \<or> length ?p = 1 \<or> length ?p = 3 \<or> length ?p = 4" using len by arith
    then consider "length ?p > 4" | "length ?p = 2" | "length ?p \<in> {1, 3, 4}" by blast
    then show ?thesis
    proof cases
      case 2
      show ?thesis
        using known 2 cluster_item_found [of "hd ?p" "?p ! 1"] cluster_page_found [of E "hd ?p" ?p rq _ w]
        by (cases "cluster_item (hd ?p) (?p ! 1)") (auto simp: clusters_handler_def Let_def)
    next
      case 3
      then show ?thesis
        using known cluster_page_found [of E "hd ?p" ?p rq _ w] by (auto simp: clusters_handler_def Let_def)
    qed (auto simp: clusters_handler_def Let_def)
  qed (simp add: clusters_handler_def Let_def)
qed

subsection \<open>From the form to the node\<close>

lemma findNode_trimmed: "findNode nodes raw = Some node \<Longrightarrow> node \<in> set nodes \<and> trim_space (ni_ID node) = ni_ID node \<and> ni_ID node \<noteq> []"
  by (auto simp: findNode_def Let_def find_Some_iff in_set_conv_nth split: if_splits)

lemma target_loop_finds:
  assumes "m \<in> set ms" "mi_ID (rm_info m) \<noteq> []" "MasterHasNode m n" "tr_NodeID req = n" "tr_Scope req = TargetMasterByNode"
  shows "\<exists>m' \<in> set ms. target_loop req ms = Inr (mi_ID (rm_info m')) \<and> MasterHasNode m' n"
  using assms
proof (induction ms)
  case (Cons a ms)
  have "n \<noteq> []" using Cons.prems(3) by (auto simp: MasterHasNode_def)
  show ?case
  proof (cases "mi_ID (rm_info a) \<noteq> [] \<and> MasterHasNode a n")
    case True
    then show ?thesis using Cons.prems(4,5) \<open>n \<noteq> []\<close> by auto
  next
    case False
    then have "m \<in> set ms" using Cons.prems by auto
    with Cons obtain m' where "m' \<in> set ms" "target_loop req ms = Inr (mi_ID (rm_info m'))" "MasterHasNode m' n" by blast
    with False Cons.prems(4,5) show ?thesis by auto
  qed
qed simp

text \<open>
  A node that has a page can be reached: when the registry lists the node in the cluster, a
  command for it, routed at the same moment, goes to a live master of that cluster that has announced
  the node, so the actions of the page do not fail for want of a route. The masters of the registry
  have identifiers, and the name of the cluster no white space around it.
\<close>

lemma listed_node_is_routable:
  assumes "findNode (NodesForCluster now ks s c) raw = Some node"
    and "\<forall>k \<in> set ks. \<exists>m. s_masters s k = Some m \<and> mi_ID (rm_info m) = k \<and> k \<noteq> []"
    and "trim_space c = c"
  shows "\<exists>m \<in> set (MastersForCluster now ks s c). MasterHasNode m (ni_ID node)
    \<and> target_master now ks s \<lparr>tr_ClusterID = c, tr_NodeID = ni_ID node, tr_Scope = TargetMasterByNode\<rparr> = Inr (mi_ID (rm_info m))"
proof -
  note node = findNode_trimmed [OF assms(1)]
  have c: "c \<noteq> []" using node by (auto simp: NodesForCluster_def)
  obtain m where m: "m \<in> set (MastersForCluster now ks s c)" "node \<in> set (mi_Nodes (rm_info m))"
    using node c by (auto simp: NodesForCluster_def MastersForCluster_def)
  have "MasterHasNode m (ni_ID node)" using m(2) node by (auto simp: MasterHasNode_def list_ex_iff)
  moreover have "mi_ID (rm_info m) \<noteq> []"
    using m(1) assms(2) c by (fastforce simp: MastersForCluster_def range_values_def)
  ultimately have "\<exists>m' \<in> set (MastersForCluster now ks s c).
      target_loop \<lparr>tr_ClusterID = c, tr_NodeID = ni_ID node, tr_Scope = TargetMasterByNode\<rparr> (MastersForCluster now ks s c)
        = Inr (mi_ID (rm_info m')) \<and> MasterHasNode m' (ni_ID node)"
    using m(1) by (intro target_loop_finds) simp_all
  then show ?thesis
    using node c assms(3) by (auto simp: target_master_def trim_request_def Let_def)
qed

definition demo_registered :: "string list Store" where
  "demo_registered = (NewStore 60 None)\<lparr>s_masters := [''m'' \<mapsto>
     \<lparr>rm_info = zero_MasterInfo\<lparr>mi_ID := ''m'', mi_Cluster := ''c'', mi_Nodes := [zero_NodeInfo\<lparr>ni_ID := ''n''\<rparr>]\<rparr>,
      rm_LastSeen = 0\<rparr>]\<rparr>"

lemma listed_node_is_routable_example:
  "\<exists>m \<in> set (MastersForCluster 5 [''m''] demo_registered ''c''). MasterHasNode m ''n''"
proof -
  have trim: "trim_space ''n'' = ''n''" "trim_space ''c'' = ''c''" by (simp_all add: trim_space_plain plain_char_def)
  then have "findNode (NodesForCluster 5 [''m''] demo_registered ''c'') ''n'' = Some (zero_NodeInfo\<lparr>ni_ID := ''n''\<rparr>)"
    by (simp add: findNode_def NodesForCluster_def demo_registered_def NewStore_def expired_def range_values_def second_def
        zero_MasterInfo_def zero_NodeInfo_def)
  from listed_node_is_routable [OF this _ trim(2)] show ?thesis by (auto simp: demo_registered_def)
qed

lemma number_field_bound: "number_field form key d = Some n \<Longrightarrow> d < 2 ^ 64 \<Longrightarrow> n < 2 ^ 64"
  by (auto simp: number_field_def parsePositiveUint64_def Let_def dest: parse_uint64_bound split: if_splits)

lemma dec_enc_VMCreate:
  assumes "vcp_MemoryMB p < 2 ^ 64" "vcp_VCPUs p < 2 ^ 64" "vcp_DiskSizeGB p < 2 ^ 64"
  shows "dec_LibvirtVMCreateParams (enc_LibvirtVMCreateParams p) = Inr p"
proof -
  have "as_uint 64 (JNum (show_nat (vcp_MemoryMB p))) = Some (vcp_MemoryMB p)"
    "as_uint 64 (JNum (show_nat (vcp_VCPUs p))) = Some (vcp_VCPUs p)"
    "as_uint 64 (JNum (show_nat (vcp_DiskSizeGB p))) = Some (vcp_DiskSizeGB p)"
    using assms by (simp_all del: as_uint.simps)
  then show ?thesis
    by (simp add: dec_LibvirtVMCreateParams_def enc_LibvirtVMCreateParams_def json_members_def dec_field_def key_simps
        dec_from_omit_hit dec_from_omit_other del: dec_from_omit as_uint.simps as_uint_show)
qed

lemma run_action_log:
  assumes "list_all plain_char a" "a \<noteq> []"
  shows "snd (snd (run_action (sendNodeCommand (logged E) c n a p t) (w, [])))
    = [ToCluster (target c n) (enc_NodeCommand \<lparr>nc_Action = a, nc_Params = p\<rparr>) t]"
proof -
  obtain x w' where "run_action (sendNodeCommand (logged E) c n a p t) (w, [])
      = (x, (w', [] @ [ToCluster (target c n) (enc_NodeCommand \<lparr>nc_Action = a, nc_Params = p\<rparr>) t]))"
    using run_action_emits [OF sendNodeCommand_emits [OF assms, of c n p t E]] by (rule emitsE) blast
  then show ?thesis by simp
qed


definition demo_form :: "string \<Rightarrow> string" where
  "demo_form k = (if k = ''vm_name'' then ''vm'' else [])"


end
