(* ===== verification/Link.thy ===== *)
theory Link
  imports Slave
begin

text \<open>
  A connection with both of its ends: one side sends requests through its table of \<open>Pending\<close>, any
  number of callers at a time; the other reads them, answers, and its answers are read back. Each side
  reads the bytes that the other has written so far, and nothing is assumed about who runs when. The
  histories of a peer, which no process sees, are what the invariant speaks about: which packet was
  sent for which channel, which packets were read, and what was answered to them. Shown within the
  contract \<open>request_table\<close> of the two variants of the table: whatever a channel holds is the answer to
  the packet that was sent for this very channel, and no packet is read twice.
\<close>

section \<open>Reading what the other side has written\<close>

text \<open>The next packet after the first \<open>k\<close> bytes of a writer's output, with the number of bytes read then;
  \<^term>\<open>None\<close> while there is no complete line.\<close>

definition read_next :: "writer option \<Rightarrow> nat \<Rightarrow> (Packet \<times> nat) option" where
  "read_next w k = (case w of
       None \<Rightarrow> None
     | Some v \<Rightarrow> (case ReadPacket (Some \<lparr>r_buf = drop k (w_out v), r_err = ''EOF''\<rparr>) of
           (Inr p, Some rd) \<Rightarrow> Some (p, length (w_out v) - length (r_buf rd))
         | _ \<Rightarrow> None))"

text \<open>What a writer holds after its first \<open>k\<close> bytes is a sequence of packets with a property.\<close>

definition stream :: "(Packet list \<Rightarrow> bool) \<Rightarrow> writer option \<Rightarrow> nat \<Rightarrow> bool" where
  "stream Q w k \<longleftrightarrow> (\<forall>v. w = Some v \<longrightarrow> (\<exists>old new. w_out v = old @ concat (map packet_line new) \<and> length old = k
     \<and> list_all wf_packet new \<and> Q new))"

lemma stream_start: "Q [] \<Longrightarrow> stream Q w (case w of Some v \<Rightarrow> length (w_out v) | None \<Rightarrow> 0)"
  by (auto simp: stream_def intro!: exI [of _ "[] :: Packet list"])

lemma stream_mono: "stream Q w k \<Longrightarrow> (\<And>new. Q new \<Longrightarrow> Q' new) \<Longrightarrow> stream Q' w k"
  unfolding stream_def by blast

lemma stream_read:
  assumes "stream Q w k" "read_next w k = Some (p, k')"
  shows "wf_packet p \<and> stream (\<lambda>new. Q (p # new)) w k' \<and> (\<exists>new. Q (p # new))"
proof -
  obtain v where v: "w = Some v" using assms(2) by (auto simp: read_next_def split: option.splits)
  obtain old new where new: "w_out v = old @ concat (map packet_line new)" "length old = k" "list_all wf_packet new" "Q new"
    using assms(1) v by (auto simp: stream_def)
  then have rest: "drop k (w_out v) = concat (map packet_line new)" by auto
  show ?thesis
  proof (cases new)
    case Nil
    then show ?thesis using assms(2) v rest by (simp add: read_next_def ReadPacket_def read_string_def)
  next
    case (Cons q qs)
    have "ReadPacket (Some \<lparr>r_buf = drop k (w_out v), r_err = ''EOF''\<rparr>) = (Inr q, Some \<lparr>r_buf = concat (map packet_line qs), r_err = ''EOF''\<rparr>)"
      unfolding rest using ReadPacket_line [of q "concat (map packet_line qs)"] Cons new(3) by simp
    then have p: "p = q" "k' = length (old @ packet_line q)" using assms(2) v new(1) Cons by (auto simp: read_next_def)
    moreover have "w_out v = (old @ packet_line q) @ concat (map packet_line qs)" using new(1) Cons by simp
    ultimately have "stream (\<lambda>new. Q (p # new)) w k'" unfolding stream_def v using new(3,4) Cons
      by (intro allI impI exI [of _ "old @ packet_line q"] exI [of _ qs]) simp
    then show ?thesis using new(3,4) Cons p(1) by auto
  qed
qed

text \<open>A packet is written, or, when the connection does not work, nothing.\<close>

definition wrote :: "Packet \<Rightarrow> writer option \<Rightarrow> writer option \<Rightarrow> bool" where
  "wrote p w w' \<longleftrightarrow> w' = w \<or> (\<exists>v. w = Some v \<and> w' = Some (v\<lparr>w_out := w_out v @ packet_line p\<rparr>))"

lemma stream_write:
  assumes "stream Q w k" "wf_packet p" "wrote p w w'" "\<And>new. Q new \<Longrightarrow> Q' new \<and> Q' (new @ [p])"
  shows "stream Q' w' k"
  unfolding stream_def
proof (intro allI impI)
  fix v' assume v': "w' = Some v'"
  from assms(3) consider "w = Some v'" | v where "w = Some v" "v' = v\<lparr>w_out := w_out v @ packet_line p\<rparr>"
    using v' by (auto simp: wrote_def)
  then show "\<exists>old new. w_out v' = old @ concat (map packet_line new) \<and> length old = k \<and> list_all wf_packet new \<and> Q' new"
  proof cases
    case 1
    then show ?thesis using assms(1,4) unfolding stream_def by blast
  next
    case 2
    then obtain old new where "w_out v = old @ concat (map packet_line new)" "length old = k" "list_all wf_packet new" "Q new"
      using assms(1) unfolding stream_def by blast
    then show ?thesis using assms(2,4) 2(2) by (intro exI [of _ old] exI [of _ "new @ [p]"]) auto
  qed
qed

lemma wrote_same [simp]: "wrote p w w"
  by (simp add: wrote_def)

lemma WritePacket_wrote: "WritePacket w p = (e, w') \<Longrightarrow> wrote p w w'"
  by (cases w) (auto simp: wrote_def WritePacket_def write_flush_def packet_line_def split: option.splits if_splits)

lemma WritePacket_wrote' [intro]: "wrote p w (snd (WritePacket w p))"
  by (metis WritePacket_wrote prod.collapse)

lemma writePacket_wrote: "writePacket w p = (e, w') \<Longrightarrow> wrote p w w'"
  by (cases w) (auto simp: writePacket_def intro: WritePacket_wrote)

section \<open>The two ends\<close>

text \<open>The answering end with its state and its writer, how far each side has read, and the histories:
  requests with their channels, requests read, and answers with the request and the state it found.\<close>

record ('h, 'x) peer =
  pr_host :: 'h
  pr_back :: "writer option"
  pr_got :: nat
  pr_seen :: nat
  pr_made :: "(nat \<times> Packet) list"
  pr_taken :: "Packet list"
  pr_done :: "(Packet \<times> 'x \<times> Packet) list"

definition new_peer :: "'h \<Rightarrow> writer option \<Rightarrow> writer option \<Rightarrow> ('h, 'x) peer" where
  "new_peer host w bw = \<lparr>pr_host = host, pr_back = bw, pr_got = (case w of Some v \<Rightarrow> length (w_out v) | None \<Rightarrow> 0),
     pr_seen = (case bw of Some v \<Rightarrow> length (w_out v) | None \<Rightarrow> 0), pr_made = [], pr_taken = [], pr_done = []\<rparr>"

abbreviation named :: "Packet \<Rightarrow> bool" where
  "named p \<equiv> pk_ID p \<noteq> []"

definition unread :: "('h, 'x) peer \<Rightarrow> Packet list \<Rightarrow> bool" where
  "unread pr new \<longleftrightarrow> (\<forall>p \<in> set new. named p \<longrightarrow> p \<in> snd ` set (pr_made pr) - set (pr_taken pr)) \<and> distinct (filter named new)"

definition unseen :: "('h, 'x) peer \<Rightarrow> Packet list \<Rightarrow> bool" where
  "unseen pr new \<longleftrightarrow> (\<forall>r \<in> set new. pk_ReplyTo r \<noteq> [] \<longrightarrow> (\<exists>p x. (p, x, r) \<in> set (pr_done pr)))"

definition link_inv :: "pconn \<Rightarrow> ('h, 'x) peer \<Rightarrow> bool" where
  "link_inv c pr \<longleftrightarrow> pconn_inv c
     \<and> stream (unread pr) (pc_writer c) (pr_got pr) \<and> stream (unseen pr) (pr_back pr) (pr_seen pr)
     \<and> (\<forall>p x r. (p, x, r) \<in> set (pr_done pr) \<longrightarrow> pk_ReplyTo r = pk_ID p \<and> p \<in> set (pr_taken pr))
     \<and> set (pr_taken pr) \<subseteq> snd ` set (pr_made pr) \<and> distinct (pr_taken pr)
     \<and> (\<forall>ch r. pc_chan c ch = Some r \<longrightarrow> (\<exists>p x. (p, x, r) \<in> set (pr_done pr)))
     \<and> (\<forall>ch i. pc_owner c ch = Some i \<longrightarrow> (\<exists>p. (ch, p) \<in> set (pr_made pr) \<and> pk_ID p = i))
     \<and> (\<forall>ch p. (ch, p) \<in> set (pr_made pr) \<longrightarrow> ch < pc_made c \<and> named p)
     \<and> distinct (map fst (pr_made pr)) \<and> distinct (map (pk_ID \<circ> snd) (pr_made pr))"

lemma link_invD:
  assumes "link_inv c pr"
  shows "pconn_inv c" "stream (unread pr) (pc_writer c) (pr_got pr)" "stream (unseen pr) (pr_back pr) (pr_seen pr)"
    "(p, x, r) \<in> set (pr_done pr) \<Longrightarrow> pk_ReplyTo r = pk_ID p" "(p, x, r) \<in> set (pr_done pr) \<Longrightarrow> p \<in> set (pr_taken pr)"
    "p \<in> set (pr_taken pr) \<Longrightarrow> p \<in> snd ` set (pr_made pr)" "distinct (pr_taken pr)"
    "pc_chan c ch = Some r \<Longrightarrow> \<exists>p x. (p, x, r) \<in> set (pr_done pr)"
    "pc_owner c ch = Some i \<Longrightarrow> \<exists>p. (ch, p) \<in> set (pr_made pr) \<and> pk_ID p = i"
    "(ch, p) \<in> set (pr_made pr) \<Longrightarrow> ch < pc_made c" "(ch, p) \<in> set (pr_made pr) \<Longrightarrow> named p"
    "distinct (map fst (pr_made pr))" "distinct (map (pk_ID \<circ> snd) (pr_made pr))"
  using assms unfolding link_inv_def by blast+

lemma new_peer_inv: "link_inv (new_pconn w) (new_peer host w bw)"
  unfolding link_inv_def new_peer_def using new_pconn_inv [of w]
  by (auto simp: new_pconn_def unread_def unseen_def intro!: stream_start)

text \<open>Requests are told apart by their channels and by their identifiers.\<close>

lemma made_unique:
  assumes "link_inv c pr" "(ch, p) \<in> set (pr_made pr)" "(ch', p') \<in> set (pr_made pr)" "ch = ch' \<or> pk_ID p = pk_ID p'"
  shows "p = p'"
proof -
  have "inj_on fst (set (pr_made pr))" "inj_on (pk_ID \<circ> snd) (set (pr_made pr))"
    using link_invD(12,13) [OF assms(1)] by (simp_all add: distinct_map)
  then have "(ch, p) = (ch', p')" using assms(2-4) inj_onD by (metis comp_apply fst_conv snd_conv)
  then show ?thesis by simp
qed

text \<open>What a channel holds is the answer to the packet that was sent for it.\<close>

lemma channel_answer:
  assumes "link_inv c pr" "pc_chan c ch = Some r"
  shows "\<exists>p x. (ch, p) \<in> set (pr_made pr) \<and> (p, x, r) \<in> set (pr_done pr)"
proof -
  obtain p' x where ans: "(p', x, r) \<in> set (pr_done pr)" using link_invD(8) [OF assms] by blast
  have "pc_owner c ch = Some (pk_ReplyTo r)" using pconn_invD(3) [OF link_invD(1) [OF assms(1)] assms(2)] .
  then obtain p where p: "(ch, p) \<in> set (pr_made pr)" "pk_ID p = pk_ReplyTo r" using link_invD(9) [OF assms(1)] by blast
  obtain ch' where "(ch', p') \<in> set (pr_made pr)" using link_invD(5,6) [OF assms(1)] ans by force
  then have "p = p'" using made_unique [OF assms(1) p(1)] p(2) link_invD(4) [OF assms(1) ans] by simp
  then show ?thesis using p(1) ans by blast
qed

lemma node_begin:
  assumes "ms_nodes ms n = Some k" "n \<noteq> []" "pc_writer (ms_nc ms k) = Some w" "w_err w = None" "wf_json command"
  shows "sendCommandToNodeWait_begin ms n (node_command command) newID =
    (Inr \<lparr>wt_conn = k, wt_chan = pc_made (ms_nc ms k), wt_ident = newID\<rparr>,
     ms\<lparr>ms_nc := (ms_nc ms)(k := (enter (ms_nc ms k) newID)
       \<lparr>pc_writer := Some (w\<lparr>w_out := w_out w @ packet_line ((node_command command)\<lparr>pk_ID := newID\<rparr>)\<rparr>)\<rparr>)\<rparr>)"
proof -
  have p: "with_id (node_command command) newID = (node_command command)\<lparr>pk_ID := newID\<rparr>" by (simp add: node_command_def)
  moreover have "wf_packet ((node_command command)\<lparr>pk_ID := newID\<rparr>)" using assms(5) by (simp add: node_command_def)
  ultimately show ?thesis
    using assms node_table.begin_works [OF assms(3,4), of "node_command command" newID]
    by (simp add: sendCommandToNodeWait_begin_def Let_def)
qed

section \<open>What can happen\<close>

definition note_request :: "pconn \<Rightarrow> Packet \<Rightarrow> ('h, 'x) peer \<Rightarrow> ('h, 'x) peer" where
  "note_request c p pr = pr\<lparr>pr_made := pr_made pr @ [(pc_made c, p)]\<rparr>"

definition note_read :: "Packet \<Rightarrow> nat \<Rightarrow> ('h, 'x) peer \<Rightarrow> ('h, 'x) peer" where
  "note_read p k pr = pr\<lparr>pr_got := k, pr_taken := (if named p then pr_taken pr @ [p] else pr_taken pr)\<rparr>"

definition note_answer :: "Packet \<Rightarrow> 'x \<Rightarrow> Packet \<Rightarrow> writer option \<Rightarrow> ('h, 'x) peer \<Rightarrow> ('h, 'x) peer" where
  "note_answer p x r w pr = pr\<lparr>pr_back := w, pr_done := pr_done pr @ [(p, x, r)]\<rparr>"

text \<open>A new identifier.\<close>

definition fresh_id :: "('h, 'x) peer \<Rightarrow> string \<Rightarrow> bool" where
  "fresh_id pr i \<longleftrightarrow> i \<noteq> [] \<and> trim_space i = i \<and> i \<notin> (pk_ID \<circ> snd) ` set (pr_made pr)"

lemma note_frame [simp]:
  "pr_done (note_request c p pr) = pr_done pr" "pr_done (note_read p k pr) = pr_done pr"
  "pr_host (note_request c p pr) = pr_host pr" "pr_host (note_read p k pr) = pr_host pr" "pr_host (note_answer p x r w pr) = pr_host pr"
  "pr_made (note_read p k pr) = pr_made pr" "pr_made (note_answer p x r w pr) = pr_made pr"
  "pr_taken (note_answer p x r w pr) = pr_taken pr" "pr_taken (note_request c p pr) = pr_taken pr"
  by (simp_all add: note_request_def note_read_def note_answer_def)

lemma read_inv:
  assumes "link_inv c pr" "read_next (pc_writer c) (pr_got pr) = Some (p, k)"
  shows "link_inv c (note_read p k pr)" "named p \<Longrightarrow> \<exists>ch. (ch, p) \<in> set (pr_made pr)" "wf_packet p"
proof -
  have s: "wf_packet p" "stream (\<lambda>new. unread pr (p # new)) (pc_writer c) k" "\<exists>new. unread pr (p # new)"
    using stream_read [OF link_invD(2) [OF assms(1)] assms(2)] by blast+
  then have p: "named p \<Longrightarrow> p \<in> snd ` set (pr_made pr) \<and> p \<notin> set (pr_taken pr)" by (auto simp: unread_def)
  then show "named p \<Longrightarrow> \<exists>ch. (ch, p) \<in> set (pr_made pr)" by force
  show "wf_packet p" by (rule s(1))
  have "stream (unread (note_read p k pr)) (pc_writer c) k"
    by (rule stream_mono [OF s(2)]) (auto simp: unread_def note_read_def split: if_splits)
  then show "link_inv c (note_read p k pr)"
    using assms(1) p unfolding link_inv_def note_read_def by (auto simp: unseen_def [abs_def] split: if_splits)
qed

lemma answer_inv:
  assumes "link_inv c pr" "p \<in> set (pr_taken pr)" "pk_ReplyTo r = pk_ID p" "wf_packet r" "wrote r (pr_back pr) w"
  shows "link_inv c (note_answer p x r w pr)"
proof -
  have "stream (unseen (note_answer p x r w pr)) w (pr_seen pr)"
    by (rule stream_write [OF link_invD(3) [OF assms(1)] assms(4,5)]) (fastforce simp: unseen_def note_answer_def)
  moreover have "unread (note_answer p x r w pr) = unread pr" by (simp add: unread_def [abs_def])
  moreover have "pr_done (note_answer p x r w pr) = pr_done pr @ [(p, x, r)]" by (simp add: note_answer_def)
  moreover have "pr_back (note_answer p x r w pr) = w" "pr_got (note_answer p x r w pr) = pr_got pr" "pr_seen (note_answer p x r w pr) = pr_seen pr"
    by (simp_all add: note_answer_def)
  ultimately show ?thesis
    using assms(1-3) unfolding link_inv_def by (simp only: note_frame set_append) fastforce
qed

lemma post_back_inv:
  assumes "link_inv c pr" "pk_ReplyTo r = []" "wf_packet r" "wrote r (pr_back pr) w"
  shows "link_inv c (pr\<lparr>pr_back := w\<rparr>)"
proof -
  have "stream (unseen (pr\<lparr>pr_back := w\<rparr>)) w (pr_seen pr)"
    by (rule stream_write [OF link_invD(3) [OF assms(1)] assms(3,4)]) (use assms(2) in \<open>auto simp: unseen_def\<close>)
  then show ?thesis using assms(1) unfolding link_inv_def by (auto simp: unread_def [abs_def])
qed

lemma host_inv: "link_inv c pr \<Longrightarrow> link_inv c (pr\<lparr>pr_host := h\<rparr>)"
  unfolding link_inv_def by (simp add: unread_def [abs_def] unseen_def [abs_def])

lemma post_inv:
  assumes "link_inv c pr" "\<not> named p" "wf_packet p" "wrote p (pc_writer c) w"
  shows "link_inv (c\<lparr>pc_writer := w\<rparr>) pr"
proof -
  have "stream (unread pr) w (pr_got pr)"
    by (rule stream_write [OF link_invD(2) [OF assms(1)] assms(3,4)]) (use assms(2) in \<open>auto simp: unread_def\<close>)
  then show ?thesis using assms(1) unfolding link_inv_def pconn_inv_def by simp
qed

lemma resolve_link_inv:
  assumes "link_inv c pr" "read_next (pr_back pr) (pr_seen pr) = Some (r, k)"
  shows "link_inv (snd (resolveReply c r)) (pr\<lparr>pr_seen := k\<rparr>)" "link_inv c (pr\<lparr>pr_seen := k\<rparr>)"
proof -
  have s: "stream (\<lambda>new. unseen pr (r # new)) (pr_back pr) k" "\<exists>new. unseen pr (r # new)"
    using stream_read [OF link_invD(3) [OF assms(1)] assms(2)] by blast+
  then have r: "pk_ReplyTo r \<noteq> [] \<Longrightarrow> \<exists>p x. (p, x, r) \<in> set (pr_done pr)" by (auto simp: unseen_def)
  have "stream (unseen (pr\<lparr>pr_seen := k\<rparr>)) (pr_back pr) k" by (rule stream_mono [OF s(1)]) (auto simp: unseen_def)
  then show seen: "link_inv c (pr\<lparr>pr_seen := k\<rparr>)" using assms(1) unfolding link_inv_def by (auto simp: unread_def [abs_def])
  have p: "pconn_inv (snd (resolveReply c r))" by (rule orch_table.resolve_inv [OF link_invD(1) [OF assms(1)]])
  show "link_inv (snd (resolveReply c r)) (pr\<lparr>pr_seen := k\<rparr>)"
    using seen p r unfolding link_inv_def by (auto simp: resolveReply_def split: option.splits if_splits)
qed

lemma receive_link_inv: "link_inv c pr \<Longrightarrow> link_inv (snd (sendRequest_receive c ch)) pr"
  using orch_table.receive_inv [of c ch] unfolding link_inv_def
  by (auto simp: sendRequest_receive_def split: if_splits)

lemma timeout_link_inv: "link_inv c pr \<Longrightarrow> link_inv (snd (sendRequest_timeout c i)) pr"
  using orch_table.timeout_inv [of c i] unfolding link_inv_def by (auto simp: sendRequest_timeout_def)

text \<open>A request: its packet is all that is written.\<close>

locale wire_table = request_table +
  assumes begin_wrote: "wrote (with_id p newID) (pc_writer c) (pc_writer (snd (begin_request c p newID)))"
begin

lemma begin_table:
  "pc_chan (snd (begin_request c p newID)) = pc_chan c"
  "pc_owner (snd (begin_request c p newID)) = (pc_owner c)(pc_made c \<mapsto> pk_ID (with_id p newID))"
  "pc_made (snd (begin_request c p newID)) = Suc (pc_made c)"
  using begin_enters [of c p newID] by (auto simp: enter_def)

lemma request_link_inv:
  assumes "link_inv c pr" "fresh_id pr (pk_ID (with_id p newID))" "wf_packet (with_id p newID)"
  shows "link_inv (snd (begin_request c p newID)) (note_request c (with_id p newID) pr)"
proof -
  let ?p = "with_id p newID" and ?c = "snd (begin_request c p newID)"
  have new: "?p \<notin> snd ` set (pr_made pr)" "pc_made c \<notin> fst ` set (pr_made pr)"
    using assms(2) link_invD(10) [OF assms(1)] by (force simp: fresh_id_def)+
  have "?p \<notin> set (pr_taken pr)" using new(1) link_invD(6) [OF assms(1)] by blast
  then have "stream (unread (note_request c ?p pr)) (pc_writer ?c) (pr_got pr)"
    using new(1) by (intro stream_write [OF link_invD(2) [OF assms(1)] assms(3) begin_wrote]) (auto simp: unread_def note_request_def)
  moreover have "named ?p" "pk_ID ?p \<notin> (pk_ID \<circ> snd) ` set (pr_made pr)" using assms(2) by (auto simp: fresh_id_def)
  ultimately show ?thesis
    using assms(1) new(2) begin_inv [of c p newID] unfolding link_inv_def note_request_def
    by (auto simp: begin_table unseen_def [abs_def] less_Suc_eq dest!: bspec)
qed

end

lemma begin_eq:
  "wrote (with_id p newID) (pc_writer c) (pc_writer (snd (orch_sendRequest_begin c p newID)))"
  "wrote (with_id p newID) (pc_writer c) (pc_writer (snd (node_sendRequest_begin c p newID)))"
  by (auto simp: orch_sendRequest_begin_def node_sendRequest_begin_def enter_def Let_def
      split: prod.split option.split dest: WritePacket_wrote)

interpretation orch_wire: wire_table orch_sendRequest_begin
  by unfold_locales (rule begin_eq)

interpretation node_wire: wire_table node_sendRequest_begin
  by unfold_locales (rule begin_eq)

end
