(* ===== verification/System.thy ===== *)
theory System
  imports Web Link
begin

text \<open>
  The processes together. A command that a page sends goes through the orchestrator's request table
  and its connection to a master, through the master's relay and its request table to the node, and
  the reply takes the same way back; \<open>cluster_command\<close> runs the functions of the other theories in this
  order, each reading the bytes that the one before it has written, with nothing else happening in
  between. What a page needs of this service is the locale \<open>node_service\<close>; it is interpreted on the
  composition, and so the pages are related to what the handlers do on the node.
\<close>

section \<open>The composition\<close>

record ('w, 'db) deployment =
  se_engine :: "'w engine"
  se_virt :: "'w virt"
  se_hw :: readings
  se_gorm :: "'db gorm"
  se_now :: int
  se_keys :: "string list"
  se_newID :: "nat \<Rightarrow> string"

text \<open>The state: the orchestrator, the masters and the hosts of the nodes by identifier, and the number
  of identifiers drawn.\<close>

record ('w, 'db) system =
  sy_orch :: "'db orch"
  sy_master :: "string \<Rightarrow> mstate"
  sy_host :: "string \<Rightarrow> 'w host"
  sy_drawn :: nat

text \<open>What the peer reads after a write.\<close>

definition wire :: "writer option \<Rightarrow> writer option \<Rightarrow> reader option" where
  "wire w w' = (case (w, w') of
       (Some a, Some b) \<Rightarrow> Some \<lparr>r_buf = drop (length (w_out a)) (w_out b), r_err = ''EOF''\<rparr>
     | _ \<Rightarrow> None)"

definition new_writer :: "writer option" where
  "new_writer = Some \<lparr>w_out = [], w_err = None\<rparr>"

text \<open>From the master to the node and back; without a usable answer the wait ends by the time-out.\<close>

definition ask_node ::
  "('w, 'db) deployment \<Rightarrow> string \<Rightarrow> string \<Rightarrow> Packet \<Rightarrow> mstate \<Rightarrow> 'w host \<Rightarrow> Packet result \<times> mstate \<times> 'w host" where
  "ask_node S newID nodeID p ms host =
     (case sendCommandToNodeWait_begin ms nodeID p newID of
        (Inl e, ms1) \<Rightarrow> (Inl e, ms1, host)
      | (Inr wt, ms1) \<Rightarrow>
          let k = wt_conn wt;
              give_up = (\<lambda>host. case sendCommandToNodeWait_timeout ms1 wt of (r, ms2) \<Rightarrow> (r, ms2, host))
          in case ReadPacket (wire (pc_writer (ms_nc ms k)) (pc_writer (ms_nc ms1 k))) of
               (Inl e, rd) \<Rightarrow> give_up host
             | (Inr pkt, rd) \<Rightarrow>
                 (case slave_packet (se_engine S) (se_virt S) (se_hw S) host new_writer pkt of
                    None \<Rightarrow> give_up host
                  | Some (on, w, host1) \<Rightarrow>
                      (case ReadPacket (wire new_writer w) of
                         (Inl e, rd) \<Rightarrow> give_up host1
                       | (Inr r, rd) \<Rightarrow>
                           (case sendCommandToNodeWait_receive (readLoop_packet ms1 k r) wt of
                              (None, ms2) \<Rightarrow> give_up host1
                            | (Some res, ms2) \<Rightarrow> (res, ms2, host1)))))"

text \<open>From the page to the node and back, \<^verbatim>\<open>SendClusterCommandWait\<close>.\<close>

definition cluster_command ::
  "('w, 'db) deployment \<Rightarrow> TargetRequest \<Rightarrow> json \<Rightarrow> nat \<Rightarrow> (('w, 'db) system, string \<times> CommandReply) io" where
  "cluster_command S req command timeout y =
     (case SendClusterCommandWait_begin (se_now S) (se_keys S) (sy_orch y) req command (se_newID S (sy_drawn y)) of
        (Inl e, st) \<Rightarrow> (Inl e, y\<lparr>sy_orch := st, sy_drawn := Suc (sy_drawn y)\<rparr>)
      | (Inr (m, wt), st) \<Rightarrow>
          let h = wt_conn wt; n = tr_NodeID (trim_request req); newID = se_newID S (Suc (sy_drawn y));
              ask = (\<lambda>n pkt. ask_node S newID n pkt (sy_master y m) (sy_host y n));
              asked = snd (ask n (node_command command));
              y1 = y\<lparr>sy_orch := st, sy_drawn := Suc (Suc (sy_drawn y))\<rparr>;
              y2 = y1\<lparr>sy_master := (sy_master y)(m := fst asked), sy_host := (sy_host y)(n := snd asked)\<rparr>;
              give_up = (\<lambda>y. case sendCommandWait_timeout (sy_orch y) wt of
                (Inl e, st) \<Rightarrow> (Inl e, y\<lparr>sy_orch := st\<rparr>) | (Inr r, st) \<Rightarrow> (Inr (m, r), y\<lparr>sy_orch := st\<rparr>))
          in case ReadPacket (wire (pc_writer (os_mc (sy_orch y) h)) (pc_writer (os_mc st h))) of
               (Inl e, rd) \<Rightarrow> give_up y1
             | (Inr p, rd) \<Rightarrow>
                 (case readOrchestratorLoop_packet (\<lambda>n pkt. fst (ask n pkt)) [] p of
                    Answer r \<Rightarrow>
                      (case ReadPacket (wire new_writer (snd (writePacket new_writer r))) of
                         (Inl e, rd) \<Rightarrow> give_up y2
                       | (Inr r, rd) \<Rightarrow>
                           (case sendCommandWait_receive
                                   (serve_packet (se_gorm S) (se_now S) st h (case os_auth st h of Some ah \<Rightarrow> ah | None \<Rightarrow> zero_AuthHello) r)
                                   wt of
                              (None, st2) \<Rightarrow> give_up y2
                            | (Some (Inl e), st2) \<Rightarrow> (Inl e, y2\<lparr>sy_orch := st2\<rparr>)
                            | (Some (Inr reply), st2) \<Rightarrow> (Inr (m, reply), y2\<lparr>sy_orch := st2\<rparr>)))
                  | _ \<Rightarrow> give_up y1))"

text \<open>The environment of the web server; what is sent to a master itself is an argument.\<close>

definition system_web ::
  "('w, 'db) deployment \<Rightarrow> (string \<Rightarrow> json \<Rightarrow> nat \<Rightarrow> (('w, 'db) system, CommandReply) io) \<Rightarrow> (('w, 'db) system, 'db) web" where
  "system_web S M = \<lparr>we_gorm = se_gorm S, we_store = (\<lambda>y. os_store (sy_orch y)), we_now = (\<lambda>y. se_now S),
     we_keys = (\<lambda>y. se_keys S), we_cluster = cluster_command S, we_master = M\<rparr>"

section \<open>One round trip\<close>

lemma wire_line [simp]:
  "wire (Some w) (Some (w\<lparr>w_out := w_out w @ bs\<rparr>)) = Some \<lparr>r_buf = bs, r_err = ''EOF''\<rparr>"
  "wire new_writer (Some (\<lparr>w_out = bs, w_err = e\<rparr>)) = Some \<lparr>r_buf = bs, r_err = ''EOF''\<rparr>"
  by (simp_all add: wire_def new_writer_def)

lemma ReadPacket_alone: "wf_packet p \<Longrightarrow> ReadPacket (Some \<lparr>r_buf = packet_line p, r_err = e\<rparr>) = (Inr p, Some \<lparr>r_buf = [], r_err = e\<rparr>)"
  using ReadPacket_line [of p "[]" e] by simp

definition working :: "writer option \<Rightarrow> bool" where
  "working w \<longleftrightarrow> (\<exists>v. w = Some v \<and> w_err v = None)"

lemma ask_node_works:
  assumes "ms_nodes ms n = Some k" "n \<noteq> []" "working (pc_writer (ms_nc ms k))" "wf_json command"
    and "newID \<noteq> []" "trim_space newID = newID"
    and "run_command (se_engine S) (se_virt S) (node_command command) host = (reply, host')"
  shows "\<exists>ms'. ask_node S newID n (node_command command) ms host = (Inr (node_reply reply newID), ms', host')
    \<and> ms_nodes ms' = ms_nodes ms \<and> working (pc_writer (ms_nc ms' k)) \<and> (\<forall>k'. k' \<noteq> k \<longrightarrow> ms_nc ms' k' = ms_nc ms k')"
proof -
  obtain w where w: "pc_writer (ms_nc ms k) = Some w" "w_err w = None" using assms(3) by (auto simp: working_def)
  let ?P = "(node_command command)\<lparr>pk_ID := newID\<rparr>" and ?R = "node_reply reply newID"
  have wf: "wf_packet ?P" "wf_packet ?R"
    using assms(4) run_command_ok [OF assms(7)] by (simp_all add: node_command_def)
  have "slave_packet (se_engine S) (se_virt S) (se_hw S) host new_writer ?P =
      Some (True, Some \<lparr>w_out = packet_line ?R, w_err = None\<rparr>, host')"
    using slave_answers [of "se_engine S" "se_virt S" ?P host reply host' "\<lparr>w_out = [], w_err = None\<rparr>" "se_hw S"] assms(6,7)
    by (simp add: node_command_def new_writer_def)
  then show ?thesis
    using w wf assms(5)
    by (auto simp: ask_node_def node_begin [OF assms(1,2) w assms(4)] ReadPacket_alone Let_def readLoop_packet_def resolveReply_def
      enter_def sendCommandToNodeWait_receive_def sendRequest_receive_def working_def)
qed

text \<open>A node that the registry routes to over connections that work, and identifiers as \<^verbatim>\<open>NewID\<close> draws
  them: hexadecimal texts, so neither empty nor with white space around them.\<close>

definition connected :: "('w, 'db) deployment \<Rightarrow> ('w, 'db) system \<Rightarrow> string \<Rightarrow> string \<Rightarrow> bool" where
  "connected S y c n \<longleftrightarrow> n \<noteq> [] \<and> trim_space n = n
     \<and> (\<exists>m h k. target_master (se_now S) (se_keys S) (os_store (sy_orch y)) (target c n) = Inr m \<and> m \<noteq> []
          \<and> os_conns (sy_orch y) m = Some h \<and> working (pc_writer (os_mc (sy_orch y) h))
          \<and> ms_nodes (sy_master y m) n = Some k \<and> working (pc_writer (ms_nc (sy_master y m) k)))"

definition good_ids :: "('w, 'db) deployment \<Rightarrow> bool" where
  "good_ids S \<longleftrightarrow> (\<forall>i. se_newID S i \<noteq> [] \<and> trim_space (se_newID S i) = se_newID S i)"

lemma cluster_command_works:
  assumes "connected S y c n" "good_ids S" "wf_json command"
    and "run_command (se_engine S) (se_virt S) (node_command command) (sy_host y n) = (reply, host')"
  shows "\<exists>m y'. cluster_command S (target c n) command t y = (Inr (m, reply\<lparr>cr_NodeID := n\<rparr>), y')
    \<and> connected S y' c n \<and> sy_host y' = (sy_host y)(n := host')"
proof -
  obtain m h k where n: "n \<noteq> []" "trim_space n = n" and route: "target_master (se_now S) (se_keys S) (os_store (sy_orch y)) (target c n) = Inr m" "m \<noteq> []"
    and mc: "os_conns (sy_orch y) m = Some h" "working (pc_writer (os_mc (sy_orch y) h))"
    and nc: "ms_nodes (sy_master y m) n = Some k" "working (pc_writer (ms_nc (sy_master y m) k))"
    using assms(1) by (auto simp: connected_def)
  obtain w where w: "pc_writer (os_mc (sy_orch y) h) = Some w" "w_err w = None" using mc(2) by (auto simp: working_def)
  let ?i = "se_newID S (sy_drawn y)" and ?j = "se_newID S (Suc (sy_drawn y))"
  have ids: "?i \<noteq> []" "trim_space ?i = ?i" "?j \<noteq> []" "trim_space ?j = ?j" using assms(2) by (auto simp: good_ids_def)
  obtain ms' where ask: "ask_node S ?j n (node_command command) (sy_master y m) (sy_host y n) = (Inr (node_reply reply ?j), ms', host')"
    and ms': "ms_nodes ms' = ms_nodes (sy_master y m)" "working (pc_writer (ms_nc ms' k))"
    using ask_node_works [OF nc(1) n(1) nc(2) assms(3) ids(3,4) assms(4)] by blast
  have tr: "tr_NodeID (trim_request (target c n)) = n" by (simp add: trim_request_def target_def n)
  let ?R = "(plain_packet PacketOrchCommandReply (enc_CommandReply (reply\<lparr>cr_NodeID := n\<rparr>)))\<lparr>pk_ReplyTo := ?i\<rparr>"
  have relay: "readOrchestratorLoop_packet (\<lambda>n pkt. fst (ask_node S ?j n pkt (sy_master y m) (sy_host y n))) [] (command_packet n command ?i) = Answer ?R"
    using n ids(2) ask by (simp add: relay_answer node_command_reply_def flip: node_command_def)
  have wf: "wf_packet (command_packet n command ?i)" "wf_packet ?R"
    using assms(3) run_command_ok [OF assms(4)] by (simp_all add: wf_output_def)
  show ?thesis
    using w wf ids(1) route mc nc n ms'
    by (auto simp: cluster_command_def SendClusterCommandWait_begin_def tr command_begin [OF mc(1) route(2) w assms(3) ids(1)]
      ReadPacket_alone Let_def relay writePacket_def new_writer_def WritePacket_ok wire_def ask serve_packet_def resolveReply_def enter_def
      sendCommandWait_receive_def sendRequest_receive_def command_reply_def connected_def working_def)
qed

section \<open>What a page relies on\<close>

locale node_service =
  fixes E :: "('w, 'db) web"
    and run :: "json \<Rightarrow> 'h \<Rightarrow> CommandReply \<times> 'h"
    and host :: "'w \<Rightarrow> string \<Rightarrow> 'h"
    and up :: "'w \<Rightarrow> string \<Rightarrow> string \<Rightarrow> bool"
  assumes serves: "up w c n \<Longrightarrow> wf_json command \<Longrightarrow> run command (host w n) = (reply, h') \<Longrightarrow>
      \<exists>m w'. we_cluster E (target c n) command t w = (Inr (m, reply\<lparr>cr_NodeID := n\<rparr>), w')
        \<and> up w' c n \<and> host w' = (host w)(n := h')"
begin

lemma sends:
  assumes "up w c n" "list_all plain_char a" "a \<noteq> []" "wf_output p"
    and "run (enc_NodeCommand \<lparr>nc_Action = a, nc_Params = p\<rparr>) (host w n) = (reply, h')"
  shows "\<exists>w'. sendNodeCommand E c n a p t w = (Inr (reply\<lparr>cr_NodeID := n\<rparr>), w') \<and> up w' c n \<and> host w' = (host w)(n := h')"
proof -
  have "wf_json (enc_NodeCommand \<lparr>nc_Action = a, nc_Params = p\<rparr>)"
    using assms(4) by (auto simp: enc_NodeCommand_def wf_output_def split: option.splits)
  from serves [OF assms(1) this assms(5), of t] assms(2,3) show ?thesis
    by (auto simp: sendNodeCommand_def trim_space_plain bind_io_def ret_def Let_def simp flip: target_def)
qed

end

interpretation sys: node_service "system_web S M" "\<lambda>command. run_command (se_engine S) (se_virt S) (node_command command)" sy_host
    "\<lambda>y c n. connected S y c n \<and> good_ids S" for S M
  by unfold_locales (use cluster_command_works in \<open>fastforce simp: system_web_def\<close>)

definition list_domains :: json where
  "list_domains = enc_NodeCommand \<lparr>nc_Action = ''libvirt.domains.list'', nc_Params = None\<rparr>"

definition list_pools :: json where
  "list_pools = enc_NodeCommand \<lparr>nc_Action = ''libvirt.storage.pools.list'', nc_Params = None\<rparr>"

definition list_networks :: json where
  "list_networks = enc_NodeCommand \<lparr>nc_Action = ''libvirt.networks.list'', nc_Params = None\<rparr>"

definition shown_domains :: "CommandReply \<Rightarrow> VMDomain list" where
  "shown_domains reply = fst (reply_items (as_list (as_struct dec_VMDomain) zero_VMDomain) [] (Inr reply))"

lemma action_error_node [simp]: "action_error (Inr (r\<lparr>cr_NodeID := n\<rparr>)) = action_error (Inr r)"
  by (simp add: action_error_def)

context node_service
begin

lemma acts:
  assumes "up w c n" "list_all plain_char a" "a \<noteq> []" "wf_output p"
    and "run (enc_NodeCommand \<lparr>nc_Action = a, nc_Params = p\<rparr>) (host w n) = (reply, h')"
  shows "\<exists>w'. run_action (sendNodeCommand E c n a p t) w = (action_error (Inr reply), w') \<and> up w' c n \<and> host w' = (host w)(n := h')"
  using sends [OF assms, of t] by (auto simp: run_action_def)

lemma lists_domains:
  assumes "up w c n"
  shows "\<exists>e w'. fetchNodeVMDomains E c n w = ((shown_domains (fst (run list_domains (host w n))), e), w')
    \<and> up w' c n \<and> host w' = (host w)(n := snd (run list_domains (host w n)))"
proof -
  obtain r h where "run list_domains (host w n) = (r, h)" by fastforce
  moreover from this obtain w' where "sendNodeCommand E c n ''libvirt.domains.list'' None 20 w = (Inr (r\<lparr>cr_NodeID := n\<rparr>), w')"
    "up w' c n" "host w' = (host w)(n := h)"
    using sends [OF assms, of "''libvirt.domains.list''" None r h 20] by (auto simp: list_domains_def wf_output_enc plain_char_def)
  ultimately show ?thesis
    by (auto simp: fetchNodeVMDomains_def fetch_items_def shown_domains_def reply_items_def split: option.splits)
qed

lemma lists_rest:
  assumes "up w c n"
  shows "\<exists>x w'. fetchNodeStoragePools E c n w = (x, w') \<and> up w' c n \<and> host w' = (host w)(n := snd (run list_pools (host w n)))"
    and "\<exists>x w'. fetchNodeNetworks E c n w = (x, w') \<and> up w' c n \<and> host w' = (host w)(n := snd (run list_networks (host w n)))"
proof -
  have fetch: "\<exists>x w'. fetch_or_error (sendNodeCommand E c n a None 20) dec msg w = (x, w') \<and> up w' c n
      \<and> host w' = (host w)(n := snd (run (enc_NodeCommand \<lparr>nc_Action = a, nc_Params = None\<rparr>) (host w n)))"
    if a: "list_all plain_char a" "a \<noteq> []" for a and dec :: "json \<Rightarrow> 'x list option" and msg
  proof -
    obtain r h where run: "run (enc_NodeCommand \<lparr>nc_Action = a, nc_Params = None\<rparr>) (host w n) = (r, h)" by fastforce
    from sends [OF assms a _ run, of 20] show ?thesis by (auto simp: fetch_or_error_def run wf_output_enc)
  qed
  show "\<exists>x w'. fetchNodeStoragePools E c n w = (x, w') \<and> up w' c n \<and> host w' = (host w)(n := snd (run list_pools (host w n)))"
    unfolding fetchNodeStoragePools_def list_pools_def by (rule fetch) (simp_all add: plain_char_def)
  show "\<exists>x w'. fetchNodeNetworks E c n w = (x, w') \<and> up w' c n \<and> host w' = (host w)(n := snd (run list_networks (host w n)))"
    unfolding fetchNodeNetworks_def list_networks_def by (rule fetch) (simp_all add: plain_char_def)
qed

text \<open>The page of the machines of a node after a form was posted whose handler sends one command.\<close>

lemma page_shows:
  assumes "up w c (ni_ID node)" "rq_method rq = ''POST''" "rq_form rq = Inr form"
    and "handleNodeVirtualizationAction E c (ni_ID node) (trim_space (form ''action'')) form w
      = run_action (sendNodeCommand E c (ni_ID node) a p t) w"
    and "list_all plain_char a" "a \<noteq> []" "wf_output p"
    and "run (enc_NodeCommand \<lparr>nc_Action = a, nc_Params = p\<rparr>) (host w (ni_ID node)) = (reply, h1)"
  shows "\<exists>d w'. virtualization_page E c node rq data w = (Rendered T_nodeVirtualization d, w')
    \<and> vw_LibvirtAction d = trim_space (form ''action'') \<and> vw_LibvirtActionError d = action_error (Inr reply)
    \<and> vw_NodeVMDomains d = shown_domains (fst (run list_domains h1))
    \<and> host w' = (host w)(ni_ID node := snd (run list_networks (snd (run list_pools (snd (run list_domains h1))))))"
proof -
  let ?n = "ni_ID node"
  obtain w1 where 1: "run_action (sendNodeCommand E c ?n a p t) w = (action_error (Inr reply), w1)" "up w1 c ?n"
    "host w1 = (host w)(?n := h1)"
    using acts [OF assms(1,5-8)] by blast
  obtain e w2 where 2: "fetchNodeVMDomains E c ?n w1 = ((shown_domains (fst (run list_domains h1)), e), w2)" "up w2 c ?n"
    "host w2 = (host w)(?n := snd (run list_domains h1))"
    using lists_domains [OF 1(2)] 1(3) by auto
  obtain x w3 where 3: "fetchNodeStoragePools E c ?n w2 = (x, w3)" "up w3 c ?n"
    "host w3 = (host w)(?n := snd (run list_pools (snd (run list_domains h1))))"
    using lists_rest(1) [OF 2(2)] 2(3) by auto
  obtain z w4 where 4: "fetchNodeNetworks E c ?n w3 = (z, w4)"
    "host w4 = (host w)(?n := snd (run list_networks (snd (run list_pools (snd (run list_domains h1))))))"
    using lists_rest(2) [OF 3(2)] 3(3) by auto
  show ?thesis
    using 1(1) 2(1) 3(1) 4 assms(2-4) by (cases x; cases z) (auto simp: virtualization_page_def post_action_def render_def)
qed

end

section \<open>From a form to the node and back to the page\<close>

definition node_run :: "('w, 'db) deployment \<Rightarrow> json \<Rightarrow> 'w host \<Rightarrow> CommandReply \<times> 'w host" where
  "node_run S command = run_command (se_engine S) (se_virt S) (node_command command)"

text \<open>The state of a node after the three lists of its page have been read.\<close>

definition after_lists :: "('w, 'db) deployment \<Rightarrow> 'w host \<Rightarrow> 'w host" where
  "after_lists S h = snd (node_run S list_networks (snd (node_run S list_pools (snd (node_run S list_domains h)))))"

lemma virtualization_request:
  assumes "path_parts (rq_path rq) = [c, ''nodes'', n, ''virtualization'']"
    and "IsKnownCluster (we_gorm E) (we_now E y) (we_keys E y) (we_store E y) c"
    and "findNode (NodesForCluster (we_now E y) (we_keys E y) (we_store E y) c) n = Some node"
  shows "\<exists>data. clusters_handler E rq y = virtualization_page E c node rq data y"
  using assms(2,3) known_not_Nil [OF assms(2)]
  by (auto simp: clusters_handler_def assms(1) cluster_page_def node_page_def Let_def)

lemma findNode_ID: "findNode nodes raw = Some node \<Longrightarrow> ni_ID node = trim_space raw"
  by (auto simp: findNode_def Let_def find_Some_iff split: if_splits)

lemma posted_page:
  assumes "connected S y c n" "good_ids S"
    and "path_parts (rq_path rq) = [c, ''nodes'', n, ''virtualization'']"
    and "IsKnownCluster (se_gorm S) (se_now S) (se_keys S) (os_store (sy_orch y)) c"
    and "findNode (NodesForCluster (se_now S) (se_keys S) (os_store (sy_orch y)) c) n = Some node"
    and "rq_method rq = ''POST''" "rq_form rq = Inr form"
    and "handleNodeVirtualizationAction (system_web S M) c n (trim_space (form ''action'')) form y
      = run_action (sendNodeCommand (system_web S M) c n a p t) y"
    and "list_all plain_char a" "a \<noteq> []" "wf_output p"
    and "node_run S (enc_NodeCommand \<lparr>nc_Action = a, nc_Params = p\<rparr>) (sy_host y n) = (reply, h1)"
  shows "\<exists>d y'. clusters_handler (system_web S M) rq y = (Rendered T_nodeVirtualization d, y')
    \<and> vw_LibvirtAction d = trim_space (form ''action'') \<and> vw_LibvirtActionError d = action_error (Inr reply)
    \<and> vw_NodeVMDomains d = shown_domains (fst (node_run S list_domains h1))
    \<and> sy_host y' = (sy_host y)(n := after_lists S h1)"
proof -
  have n: "ni_ID node = n" using findNode_ID [OF assms(5)] assms(1) by (simp add: connected_def)
  obtain data where "clusters_handler (system_web S M) rq y = virtualization_page (system_web S M) c node rq data y"
    using virtualization_request [OF assms(3), of "system_web S M" y node] assms(4,5) by (auto simp: system_web_def)
  then show ?thesis
    using sys.page_shows [of S y c node rq form M a p t reply h1 data] assms(1,2,6-12)
    by (simp add: n node_run_def after_lists_def)
qed



section \<open>A concrete deployment\<close>

definition bare_virt :: "nat virt" where
  "bare_virt = busy_virt\<lparr>v_ListAllDomains := (\<lambda>c fl. ret []), v_ListAllStoragePools := (\<lambda>c fl. ret []), v_ListAllNetworks := (\<lambda>c fl. ret [])\<rparr>"

definition demo_deployment :: "(nat, string list) deployment" where
  "demo_deployment = \<lparr>se_engine = demo_engine, se_virt = bare_virt, se_hw = \<lparr>hw_ram = Inl [], hw_cpu = [], hw_cores = 1\<rparr>,
     se_gorm = demo_gorm, se_now = 5, se_keys = [''m''], se_newID = (\<lambda>i. ''x'')\<rparr>"

definition demo_system :: "(nat, string list) system" where
  "demo_system = \<lparr>sy_orch = demo_orch\<lparr>os_store := demo_registered\<rparr>, sy_master = (\<lambda>m. demo_nodes),
     sy_host = (\<lambda>n. \<lparr>h_conn = None, h_client = None, h_ext = 3\<rparr>), sy_drawn = 0\<rparr>"

definition demo_fields :: "string \<Rightarrow> string \<Rightarrow> string" where
  "demo_fields action k = (if k = ''action'' then action else if k = ''vm_name'' then ''vm'' else [])"

definition demo_post :: "string \<Rightarrow> request" where
  "demo_post action = \<lparr>rq_method = ''POST'', rq_path = ''/clusters/c/nodes/n/virtualization'', rq_form = Inr (demo_fields action)\<rparr>"

lemma demo_trims: "trim_space ''n'' = ''n''" "trim_space ''c'' = ''c''" "trim_space ''x'' = ''x''" "trim_space ''vm'' = ''vm''"
    "trim_space ''start'' = ''start''" "trim_space ''delete'' = ''delete''"
  by (simp_all add: trim_space_plain plain_char_def)

lemmas demo_unfolds = demo_registered_def NewStore_def expired_def range_values_def second_def zero_MasterInfo_def zero_NodeInfo_def

lemma demo_known: "IsKnownCluster (se_gorm demo_deployment) (se_now demo_deployment) (se_keys demo_deployment) (os_store (sy_orch demo_system)) ''c''"
  by (simp add: demo_deployment_def demo_system_def IsKnownCluster_def demo_unfolds)

lemma demo_node_found:
  "findNode (NodesForCluster (se_now demo_deployment) (se_keys demo_deployment) (os_store (sy_orch demo_system)) ''c'') ''n''
    = Some (zero_NodeInfo\<lparr>ni_ID := ''n''\<rparr>)"
  by (simp add: demo_deployment_def demo_system_def findNode_def NodesForCluster_def demo_trims demo_unfolds)

lemma demo_connected: "connected demo_deployment demo_system ''c'' ''n''" "good_ids demo_deployment"
proof -
  have "target_master 5 [''m''] demo_registered (target ''c'' ''n'') = Inr ''m''"
    by (simp add: target_master_def trim_request_def target_def demo_trims MastersForCluster_def MasterHasNode_def TargetMasterByNode_def
      demo_unfolds)
  then show "connected demo_deployment demo_system ''c'' ''n''"
    by (auto simp: connected_def demo_deployment_def demo_system_def demo_trims demo_orch_conn demo_nodes_conn working_def)
  show "good_ids demo_deployment" by (simp add: good_ids_def demo_deployment_def demo_trims)
qed

lemma demo_parts: "path_parts (rq_path (demo_post a)) = [''c'', ''nodes'', ''n'', ''virtualization'']"
  by (simp add: demo_post_def path_parts_def TrimPrefix_def trim_slashes_def)

lemma demo_post_fields: "rq_method (demo_post a) = ''POST''" "rq_form (demo_post a) = Inr (demo_fields a)"
  by (simp_all add: demo_post_def)

lemmas demo_request = demo_connected demo_parts demo_known demo_node_found demo_post_fields

lemma bare_lists:
  "h_ext (snd (handleLibvirtDomainsList bare_virt cmd h)) = h_ext h"
  "h_ext (snd (handleLibvirtStoragePoolsList bare_virt cmd h)) = h_ext h"
  "h_ext (snd (handleLibvirtNetworksList bare_virt cmd h)) = h_ext h"
  by (cases "h_conn h"; simp add: handleLibvirtDomainsList_def handleLibvirtStoragePoolsList_def handleLibvirtNetworksList_def io_defs
      GetQEMU_def GetDomains_def ListStoragePools_def ListNetworks_def bare_virt_def busy_virt_def demo_virt_def lift_io_def)+

lemma demo_lists: "h_ext (after_lists demo_deployment h) = h_ext h"
proof -
  have run: "h_ext (snd (node_run demo_deployment (enc_NodeCommand \<lparr>nc_Action = a, nc_Params = None\<rparr>) h)) = h_ext h"
    if "map_of (commandHandlers demo_engine bare_virt) a = Some f" "list_all plain_char a" "\<And>cmd h. h_ext (snd (f cmd h)) = h_ext h" for a f h
    using that by (auto simp: node_run_def run_command_def node_command_def demo_deployment_def trim_space_plain case_prod_unfold
      split: sum.split)
  show ?thesis
    unfolding after_lists_def list_domains_def list_pools_def list_networks_def
    by (simp add: run [where f = "handleLibvirtDomainsList bare_virt"] run [where f = "handleLibvirtStoragePoolsList bare_virt"]
      run [where f = "handleLibvirtNetworksList bare_virt"] bare_lists commandHandlers_def plain_char_def)
qed



end
