(* ===== verification/Concurrent.thy ===== *)
theory Concurrent
  imports Link
begin

text \<open>
  Many commands at once. The orchestrator, a master on one of its connections, and the nodes of that
  master run side by side: callers send commands, receive replies or give up at any time, the master
  relays one command after the other, announces itself and sends heartbeats, the nodes work off what
  they read, and connections of nodes come and go. A step of \<open>world_step\<close> is one call of the functions
  of \<open>Orch_Tcp\<close>, \<open>Master\<close> and \<open>Slave\<close> up to where it blocks, on the bytes that the other side has written;
  identifiers are new when they are drawn. Commands to the master itself are left out.
\<close>

section \<open>The processes\<close>

text \<open>The relay of the master is idle or waits for a node: the packet it has read, the node and the
  command in it, and what it waits for.\<close>

record ('w, 'db) world =
  wd_orch :: "'db orch"
  wd_master :: mstate
  wd_up :: "(unit, unit) peer"
  wd_node :: "nat \<Rightarrow> ('w host, 'w host) peer"
  wd_relay :: "(Packet \<times> string \<times> json \<times> waiting) option"

definition heartbeat_reply :: "HardwareInfo \<Rightarrow> string \<Rightarrow> Packet" where
  "heartbeat_reply i ident = (plain_packet PacketHeartbeatReply (enc_Heartbeat
     \<lparr>hb_Usage = \<lparr>hu_CPUPercent = hi_CPU i, hu_RAMPercent = hi_UsedPercent i\<rparr>,
      hb_Hardware = \<lparr>hh_CPUCores = hi_CPUCores i, hh_RAMBytes = hi_Total i\<rparr>\<rparr>))\<lparr>pk_ReplyTo := ident\<rparr>"

text \<open>What a node answers to a packet in a state of its host, and how the history of its connection goes on.\<close>

definition node_answer :: "'w engine \<Rightarrow> 'w virt \<Rightarrow> readings \<Rightarrow> Packet \<Rightarrow> 'w host \<Rightarrow> Packet option" where
  "node_answer D V hw p host =
     (if pk_Type p = PacketHeartbeat then map_option (\<lambda>i. heartbeat_reply i (trim_space (pk_ID p))) (GetHardwareInfo hw)
      else if pk_Type p = PacketNodeCommand then Some (node_reply (fst (run_command D V p host)) (trim_space (pk_ID p)))
      else None)"

definition note_served :: "Packet option \<Rightarrow> Packet \<Rightarrow> nat \<Rightarrow> writer option \<Rightarrow> 'w host \<Rightarrow> ('w host, 'w host) peer \<Rightarrow> ('w host, 'w host) peer" where
  "note_served ans p g w host' pr =
     (let pr' = note_read p g pr
      in (case ans of
            Some r \<Rightarrow> if named p then note_answer p (pr_host pr) r w pr' else pr'\<lparr>pr_back := w\<rparr>
          | None \<Rightarrow> pr'\<lparr>pr_back := w\<rparr>)\<lparr>pr_host := host'\<rparr>)"

definition heartbeat_packet :: "string \<Rightarrow> Packet" where
  "heartbeat_packet j = with_id (packet_of (NewPacket PacketHeartbeat None)) j"

text \<open>The request that the relay enters in the table of a node, if the node has a connection.\<close>

definition note_relayed :: "mstate \<Rightarrow> string \<Rightarrow> json \<Rightarrow> string \<Rightarrow> (nat \<Rightarrow> ('w host, 'w host) peer) \<Rightarrow> nat \<Rightarrow> ('w host, 'w host) peer" where
  "note_relayed ms n c j peers = (case ms_nodes ms n of
       None \<Rightarrow> peers
     | Some k \<Rightarrow> peers(k := note_request (ms_nc ms k) ((node_command c)\<lparr>pk_ID := j\<rparr>) (peers k)))"

section \<open>Steps\<close>

text \<open>\<open>h\<close> is the connection of the master and \<open>who k\<close> the node whose connection gets number \<open>k\<close>.\<close>

inductive world_step ::
  "'w engine \<Rightarrow> 'w virt \<Rightarrow> readings \<Rightarrow> 'db gorm \<Rightarrow> nat \<Rightarrow> (nat \<Rightarrow> string) \<Rightarrow> ('w, 'db) world \<Rightarrow> ('w, 'db) world \<Rightarrow> bool"
  for D V hw G h who where
  caller_sends: "\<lbrakk>os_conns (wd_orch y) m = Some h; m \<noteq> []; n \<noteq> []; wf_json command; fresh_id (wd_up y) i;
      SendCommandWait_begin (wd_orch y) m n command i = (res, st)\<rbrakk> \<Longrightarrow>
    world_step D V hw G h who y
      (y\<lparr>wd_orch := st, wd_up := note_request (os_mc (wd_orch y) h) (command_packet n command i) (wd_up y)\<rparr>)"
| caller_receives: "world_step D V hw G h who y (y\<lparr>wd_orch := snd (sendCommandWait_receive (wd_orch y) wt)\<rparr>)"
| caller_gives_up: "world_step D V hw G h who y (y\<lparr>wd_orch := snd (sendCommandWait_timeout (wd_orch y) wt)\<rparr>)"
| orch_reads: "read_next (pr_back (wd_up y)) (pr_seen (wd_up y)) = Some (p, k) \<Longrightarrow>
    world_step D V hw G h who y
      (y\<lparr>wd_orch := serve_packet G now (wd_orch y) h ah p, wd_up := (wd_up y)\<lparr>pr_seen := k\<rparr>\<rparr>)"
| orch_elsewhere: "os_mc st h = os_mc (wd_orch y) h \<Longrightarrow> world_step D V hw G h who y (y\<lparr>wd_orch := st\<rparr>)"
| master_announces: "\<lbrakk>trim_space ty \<noteq> []; writePacket (pr_back (wd_up y)) (announcement ty mi) = (e, w)\<rbrakk> \<Longrightarrow>
    world_step D V hw G h who y (y\<lparr>wd_up := (wd_up y)\<lparr>pr_back := w\<rparr>\<rparr>)"
| relay_skips: "\<lbrakk>read_next (pc_writer (os_mc (wd_orch y) h)) (pr_got (wd_up y)) = Some (p, k); wd_relay y = None;
      \<And>ask r. readOrchestratorLoop_packet ask [] p \<noteq> Answer r\<rbrakk> \<Longrightarrow>
    world_step D V hw G h who y (y\<lparr>wd_up := note_read p k (wd_up y)\<rparr>)"
| relay_begins: "\<lbrakk>read_next (pc_writer (os_mc (wd_orch y) h)) (pr_got (wd_up y)) = Some (p, g); wd_relay y = None;
      p = command_packet n c i; i \<noteq> [];
      sendCommandToNodeWait_begin (wd_master y) n (node_command c) j = (Inr wt, ms); fresh_id (wd_node y (wt_conn wt)) j\<rbrakk> \<Longrightarrow>
    world_step D V hw G h who y
      (y\<lparr>wd_up := note_read p g (wd_up y), wd_master := ms, wd_node := note_relayed (wd_master y) n c j (wd_node y),
         wd_relay := Some (p, n, c, wt)\<rparr>)"
| relay_fails: "\<lbrakk>read_next (pc_writer (os_mc (wd_orch y) h)) (pr_got (wd_up y)) = Some (p, g); wd_relay y = None;
      p = command_packet n c i; i \<noteq> [];
      sendCommandToNodeWait_begin (wd_master y) n (node_command c) j = (Inl e, ms); \<And>k. fresh_id (wd_node y k) j;
      readOrchestratorLoop_packet (\<lambda>n q. Inl e) [] p = Answer r; writePacket (pr_back (wd_up y)) r = (e', w)\<rbrakk> \<Longrightarrow>
    world_step D V hw G h who y
      (y\<lparr>wd_master := ms, wd_node := note_relayed (wd_master y) n c j (wd_node y),
         wd_up := note_answer p () r w (note_read p g (wd_up y))\<rparr>)"
| relay_ends: "\<lbrakk>wd_relay y = Some (p, n, c, wt);
      sendCommandToNodeWait_receive (wd_master y) wt = (Some res, ms) \<or> sendCommandToNodeWait_timeout (wd_master y) wt = (res, ms);
      readOrchestratorLoop_packet (\<lambda>n q. res) [] p = Answer r; writePacket (pr_back (wd_up y)) r = (e, w)\<rbrakk> \<Longrightarrow>
    world_step D V hw G h who y
      (y\<lparr>wd_up := note_answer p () r w (wd_up y), wd_master := ms, wd_relay := None\<rparr>)"
| node_serves: "\<lbrakk>read_next (pc_writer (ms_nc (wd_master y) k)) (pr_got (wd_node y k)) = Some (p, g);
      slave_packet D V hw (pr_host (wd_node y k)) (pr_back (wd_node y k)) p = Some (on, w, host')\<rbrakk> \<Longrightarrow>
    world_step D V hw G h who y
      (y\<lparr>wd_node := (wd_node y)(k := note_served (node_answer D V hw p (pr_host (wd_node y k))) p g w host' (wd_node y k))\<rparr>)"
| master_reads: "read_next (pr_back (wd_node y k)) (pr_seen (wd_node y k)) = Some (r, s) \<Longrightarrow>
    world_step D V hw G h who y
      (y\<lparr>wd_master := readLoop_packet (wd_master y) k r, wd_node := (wd_node y)(k := (wd_node y k)\<lparr>pr_seen := s\<rparr>)\<rparr>)"
| master_beats: "\<lbrakk>ms_auth (wd_master y) k = Some n; k < ms_next (wd_master y); fresh_id (wd_node y k) j;
      heartbeat_begin (wd_master y) k j = (res, ms)\<rbrakk> \<Longrightarrow>
    world_step D V hw G h who y
      (y\<lparr>wd_master := ms, wd_node := (wd_node y)(k := note_request (ms_nc (wd_master y) k) (heartbeat_packet j) (wd_node y k))\<rparr>)"
| master_receives: "world_step D V hw G h who y (y\<lparr>wd_master := snd (sendCommandToNodeWait_receive (wd_master y) wt)\<rparr>)"
| master_gives_up: "world_step D V hw G h who y (y\<lparr>wd_master := snd (sendCommandToNodeWait_timeout (wd_master y) wt)\<rparr>)"
| node_joins: "\<lbrakk>who (ms_next (wd_master y)) = ah_ID ah; ah_ID ah \<noteq> []\<rbrakk> \<Longrightarrow>
    world_step D V hw G h who y
      (y\<lparr>wd_master := node_open (wd_master y) ah (Some v),
         wd_node := (wd_node y)(ms_next (wd_master y) := new_peer host (Some v) bw)\<rparr>)"
| node_leaves: "world_step D V hw G h who y (y\<lparr>wd_master := node_close (wd_master y) k n\<rparr>)"

text \<open>The start: a master that has just logged in, without nodes.\<close>

definition world_start :: "nat \<Rightarrow> ('w, 'db) world \<Rightarrow> bool" where
  "world_start h y \<longleftrightarrow> (\<exists>v bw. os_mc (wd_orch y) h = new_pconn (Some v) \<and> wd_up y = new_peer () (Some v) bw)
     \<and> wd_master y = master_start \<and> (\<forall>k. \<exists>host. wd_node y k = new_peer host None None) \<and> wd_relay y = None"

section \<open>The invariant\<close>

text \<open>What the relay may answer to a command: an error of its own, or what the handler made of the command on the
  node it is for.\<close>

definition relayed :: "'w engine \<Rightarrow> 'w virt \<Rightarrow> (nat \<Rightarrow> string) \<Rightarrow> ('w, 'db) world \<Rightarrow> string \<Rightarrow> json \<Rightarrow> CommandReply \<Rightarrow> bool" where
  "relayed D V who y n c reply \<longleftrightarrow> (\<exists>e. reply = error_reply n e)
     \<or> (\<exists>k j host r. who k = n \<and> ((node_command c)\<lparr>pk_ID := j\<rparr>, host, r) \<in> set (pr_done (wd_node y k))
          \<and> reply = (fst (run_command D V (node_command c) host))\<lparr>cr_NodeID := n\<rparr>)"

definition answer_ok :: "'w engine \<Rightarrow> 'w virt \<Rightarrow> (nat \<Rightarrow> string) \<Rightarrow> ('w, 'db) world \<Rightarrow> Packet \<Rightarrow> Packet \<Rightarrow> bool" where
  "answer_ok D V who y p r \<longleftrightarrow> (\<exists>n c i reply. p = command_packet n c i \<and> relayed D V who y n c reply
     \<and> r = (plain_packet PacketOrchCommandReply (enc_CommandReply reply))\<lparr>pk_ReplyTo := i\<rparr>)"

definition is_command :: "Packet \<Rightarrow> bool" where
  "is_command p \<longleftrightarrow> (\<exists>n c i. p = command_packet n c i \<and> trim_space i = i \<and> n \<noteq> [] \<and> wf_json c)"

definition master_part :: "(nat \<Rightarrow> string) \<Rightarrow> mstate \<Rightarrow> (nat \<Rightarrow> ('w host, 'w host) peer) \<Rightarrow> bool" where
  "master_part who ms peers \<longleftrightarrow> (\<forall>k. link_inv (ms_nc ms k) (peers k))
     \<and> (\<forall>n k. ms_nodes ms n = Some k \<longrightarrow> who k = n \<and> k < ms_next ms)
     \<and> (\<forall>k p ch. (ch, p) \<in> set (pr_made (peers k)) \<longrightarrow> trim_space (pk_ID p) = pk_ID p \<and> k < ms_next ms)"

definition world_inv :: "'w engine \<Rightarrow> 'w virt \<Rightarrow> readings \<Rightarrow> nat \<Rightarrow> (nat \<Rightarrow> string) \<Rightarrow> ('w, 'db) world \<Rightarrow> bool" where
  "world_inv D V hw h who y \<longleftrightarrow>
     link_inv (os_mc (wd_orch y) h) (wd_up y)
     \<and> (\<forall>ch p. (ch, p) \<in> set (pr_made (wd_up y)) \<longrightarrow> is_command p)
     \<and> (\<forall>p x r. (p, x, r) \<in> set (pr_done (wd_up y)) \<longrightarrow> answer_ok D V who y p r)
     \<and> master_part who (wd_master y) (wd_node y)
     \<and> (\<forall>k p host r. (p, host, r) \<in> set (pr_done (wd_node y k)) \<longrightarrow> node_answer D V hw p host = Some r)
     \<and> (\<forall>p n c wt. wd_relay y = Some (p, n, c, wt) \<longrightarrow> p \<in> set (pr_taken (wd_up y)) \<and> (\<exists>i. p = command_packet n c i)
          \<and> who (wt_conn wt) = n
          \<and> (wt_chan wt, (node_command c)\<lparr>pk_ID := wt_ident wt\<rparr>) \<in> set (pr_made (wd_node y (wt_conn wt))))"


lemma world_invD:
  assumes "world_inv D V hw h who y"
  shows "link_inv (os_mc (wd_orch y) h) (wd_up y)" "(ch, p) \<in> set (pr_made (wd_up y)) \<Longrightarrow> is_command p"
    "(p, x, r) \<in> set (pr_done (wd_up y)) \<Longrightarrow> answer_ok D V who y p r" "master_part who (wd_master y) (wd_node y)"
    "(p, host, r') \<in> set (pr_done (wd_node y k)) \<Longrightarrow> node_answer D V hw p host = Some r'"
    "wd_relay y = Some (p, n, c, wt) \<Longrightarrow> p \<in> set (pr_taken (wd_up y)) \<and> (\<exists>i. p = command_packet n c i) \<and> who (wt_conn wt) = n
      \<and> (wt_chan wt, (node_command c)\<lparr>pk_ID := wt_ident wt\<rparr>) \<in> set (pr_made (wd_node y (wt_conn wt)))"
  using assms unfolding world_inv_def by blast+

text \<open>Answers stay correct as the nodes go on.\<close>

lemma answer_ok_mono:
  assumes "answer_ok D V who y p r" "\<And>k. set (pr_done (wd_node y k)) \<subseteq> set (pr_done (wd_node y' k))"
  shows "answer_ok D V who y' p r"
proof -
  have "relayed D V who y' n c reply" if "relayed D V who y n c reply" for n c reply
    using that assms(2) unfolding relayed_def by blast
  then show ?thesis using assms(1) unfolding answer_ok_def by blast
qed

lemma world_inv_up:
  assumes "world_inv D V hw h who y" "link_inv (os_mc (wd_orch y') h) (wd_up y')"
    and "wd_master y' = wd_master y" "wd_node y' = wd_node y" "wd_relay y' = wd_relay y"
    and "set (pr_made (wd_up y')) \<subseteq> set (pr_made (wd_up y)) \<union> {(ch, p) |ch p. is_command p}" "pr_done (wd_up y') = pr_done (wd_up y)"
    and "set (pr_taken (wd_up y)) \<subseteq> set (pr_taken (wd_up y'))"
  shows "world_inv D V hw h who y'"
proof -
  have "answer_ok D V who y' p r" if "(p, x, r) \<in> set (pr_done (wd_up y'))" for p x r
    using answer_ok_mono [OF world_invD(3) [OF assms(1), of p x r], of y'] that assms(4,7) by simp
  then show ?thesis
    using assms world_invD [OF assms(1)] unfolding world_inv_def by (auto 0 3)
qed

lemma world_inv_nodes:
  assumes "world_inv D V hw h who y" "master_part who (wd_master y') (wd_node y')"
    and "wd_orch y' = wd_orch y" "wd_up y' = wd_up y" "wd_relay y' = wd_relay y"
    and "\<And>k. set (pr_made (wd_node y k)) \<subseteq> set (pr_made (wd_node y' k))" "\<And>k. set (pr_done (wd_node y k)) \<subseteq> set (pr_done (wd_node y' k))"
    and "\<And>k p host r. (p, host, r) \<in> set (pr_done (wd_node y' k)) \<Longrightarrow> node_answer D V hw p host = Some r"
  shows "world_inv D V hw h who y'"
proof -
  have "answer_ok D V who y' p r" if "(p, x, r) \<in> set (pr_done (wd_up y'))" for p x r
    using answer_ok_mono [OF world_invD(3) [OF assms(1)] assms(7)] that assms(4) by auto
  then show ?thesis
    using assms(2-6,8) world_invD [OF assms(1)] unfolding world_inv_def by (simp, blast)
qed

lemma world_start_inv: "world_start h y \<Longrightarrow> world_inv D V hw h who y"
proof -
  assume s: "world_start h y"
  then have "link_inv (os_mc (wd_orch y) h) (wd_up y)" by (auto simp: world_start_def new_peer_inv)
  moreover have "link_inv (ms_nc (wd_master y) k) (wd_node y k)" for k
  proof -
    obtain host where "wd_node y k = new_peer host None None" using s by (auto simp: world_start_def)
    then show ?thesis using s new_peer_inv by (simp add: world_start_def master_start_def)
  qed
  moreover have "pr_done (wd_node y k) = []" "pr_made (wd_node y k) = []" for k
  proof -
    obtain host where "wd_node y k = new_peer host None None" using s by (auto simp: world_start_def)
    then show "pr_done (wd_node y k) = []" "pr_made (wd_node y k) = []" by (simp_all add: new_peer_def)
  qed
  moreover have "pr_made (wd_up y) = []" "pr_done (wd_up y) = []" "wd_relay y = None" "ms_nodes (wd_master y) = Map.empty"
    using s by (auto simp: world_start_def new_peer_def master_start_def)
  ultimately show ?thesis unfolding world_inv_def master_part_def by simp
qed

section \<open>What the functions do to a connection\<close>

lemma with_id_named [simp]: "named p \<Longrightarrow> with_id p j = p"
  by (simp add: with_id_def)

lemma command_packet_fields [simp]: "pk_ID (command_packet n c i) = i" "pk_ID ((node_command c)\<lparr>pk_ID := i\<rparr>) = i"
  by (simp_all add: command_packet_def)

lemma command_packet_inj [simp]: "command_packet n c i = command_packet n' c' i' \<longleftrightarrow> n = n' \<and> c = c' \<and> i = i'"
proof
  assume eq: "command_packet n c i = command_packet n' c' i'"
  have "DecodePayload dec_OrchestratorCommand (command_packet n c i) = Inr \<lparr>oc_NodeID = n, oc_Command = Some c\<rparr>" for n c i
    by (simp add: command_packet_def)
  from this [of n c i] this [of n' c' i'] show "n = n' \<and> c = c' \<and> i = i'"
    unfolding eq using arg_cong [OF eq, of pk_ID] by simp
qed simp

lemma caller_begins:
  assumes "os_conns st m = Some h" "m \<noteq> []" "n \<noteq> []" "i \<noteq> []" "SendCommandWait_begin st m n c i = (res, st')"
  shows "os_mc st' h = snd (orch_sendRequest_begin (os_mc st h) (command_packet n c i) i)"
proof -
  have "with_id (plain_packet PacketOrchCommand (enc_OrchestratorCommand \<lparr>oc_NodeID = n, oc_Command = Some c\<rparr>)) i = command_packet n c i"
    using assms(4) by (simp add: command_packet_def)
  then show ?thesis
    using assms by (auto simp: SendCommandWait_begin_def sendCommandWait_begin_def Let_def split: prod.splits sum.splits)
qed

lemma serve_packet_effect:
  "os_mc (serve_packet G now st h ah p) h = snd (resolveReply (os_mc st h) p)
   \<or> (\<exists>q w. \<not> named q \<and> wf_packet q \<and> wrote q (pc_writer (os_mc st h)) w \<and> os_mc (serve_packet G now st h ah p) h = (os_mc st h)\<lparr>pc_writer := w\<rparr>)"
proof -
  let ?c = "os_mc st h"
  have respond: "\<exists>w. wrote q (pc_writer ?c) w \<and> os_mc (respond st' h q) h = ?c\<lparr>pc_writer := w\<rparr>" if "os_mc st' h = ?c" for st' :: "'a orch" and q
  proof (cases "pc_writer ?c")
    case None
    then show ?thesis using that by (intro exI [of _ None]) (simp add: respond_def writeLine_def WriteLine_def)
  next
    case (Some v)
    show ?thesis
    proof (cases "w_err v")
      case None
      with Some that show ?thesis by (auto simp: respond_def writeLine_packet wrote_def)
    next
      case (Some e)
      with \<open>pc_writer ?c = Some v\<close> that show ?thesis
        by (intro exI [of _ "Some v"]) (simp add: respond_def writeLine_def WriteLine_def write_flush_def Let_def)
    qed
  qed
  have err: "\<not> named (NewError m)" "wf_packet (NewError m)" "\<not> named ok_packet" "wf_packet ok_packet" for m
    by (simp_all add: NewError_def zero_Packet_def wf_packet_def ok_packet_def)
  show ?thesis
  proof (cases "fst (resolveReply ?c p)")
    case True
    then show ?thesis by (simp add: serve_packet_def case_prod_unfold Let_def)
  next
    case False
    define answered :: "'a orch \<Rightarrow> bool" where "answered x \<longleftrightarrow> (\<exists>st' q. os_mc st' h = ?c \<and> (q = ok_packet \<or> (\<exists>m. q = NewError m)) \<and> x = respond st' h q)" for x
    have "answered (respond st h (NewError m))" for m by (auto simp: answered_def)
    moreover have "answered (respond (st\<lparr>os_store := store\<rparr>) h ok_packet)" for store
      unfolding answered_def by (intro exI [of _ "st\<lparr>os_store := store\<rparr>"] exI [of _ ok_packet]) simp
    ultimately have "answered (serve_packet G now st h ah p)"
      using False unfolding serve_packet_def case_prod_unfold Let_def by (auto simp: packet_of_def split: sum.split)
    then show ?thesis unfolding answered_def using respond err by metis
  qed
qed


lemma node_begins:
  assumes "sendCommandToNodeWait_begin ms n p j = (res, ms')" "n \<noteq> []"
  shows "(ms_nodes ms n = None \<and> ms' = ms \<and> (\<forall>wt. res \<noteq> Inr wt))
    \<or> (\<exists>k. ms_nodes ms n = Some k \<and> ms' = ms\<lparr>ms_nc := (ms_nc ms)(k := snd (node_sendRequest_begin (ms_nc ms k) p j))\<rparr>
        \<and> (\<forall>wt. res = Inr wt \<longrightarrow> wt = \<lparr>wt_conn = k, wt_chan = pc_made (ms_nc ms k), wt_ident = pk_ID (with_id p j)\<rparr>))"
  using assms node_table.begin_channel
  by (auto simp: sendCommandToNodeWait_begin_def Let_def split: option.splits prod.splits sum.splits) (metis fst_conv)+

lemma beat_begins:
  assumes "heartbeat_begin ms k j = (res, ms')"
  shows "ms' = ms\<lparr>ms_nc := (ms_nc ms)(k := snd (node_sendRequest_begin (ms_nc ms k) (heartbeat_packet j) j))\<rparr>"
proof -
  have "with_id (with_id p j) j = with_id p j" for p by (simp add: with_id_def)
  then have "node_sendRequest_begin c (with_id p j) j = node_sendRequest_begin c p j" for c p
    by (simp add: node_sendRequest_begin_def)
  then show ?thesis using assms by (auto simp: heartbeat_begin_def heartbeat_packet_def Let_def split: prod.splits sum.splits)
qed

lemma slave_writes:
  assumes "slave_packet D V hw host w p = Some (on, w', host')"
  shows "case node_answer D V hw p host of Some r \<Rightarrow> wrote r w w' \<and> pk_ReplyTo r = trim_space (pk_ID p) | None \<Rightarrow> w' = w"
  using assms
  by (auto simp: slave_packet_def node_answer_def handleHeartbeat_def handleNodeCommand_def writeCommandReply_def heartbeat_reply_def
      case_prod_unfold Let_def simp flip: node_reply_def dest: WritePacket_wrote split: if_splits)

text \<open>The answer of the relay to a command.\<close>

lemma relay_replies:
  assumes "readOrchestratorLoop_packet (\<lambda>n q. res) [] (command_packet n c i) = Answer r" "n \<noteq> []" "trim_space i = i"
  shows "r = (plain_packet PacketOrchCommandReply (enc_CommandReply (node_command_reply (\<lambda>n q. res) n c)))\<lparr>pk_ReplyTo := i\<rparr>"
  using assms by (simp add: relay_answer)

lemma relay_reply_of:
  "node_command_reply (\<lambda>n q. Inl e) n c = error_reply n e"
  "node_command_reply (\<lambda>n q. Inr (node_reply reply j)) n c = reply\<lparr>cr_NodeID := n\<rparr>"
  by (simp_all add: node_command_reply_def)


section \<open>Every step keeps the invariant\<close>

lemma world_inv_relay:
  assumes "world_inv D V hw h who y"
    and "\<And>p n c wt. x = Some (p, n, c, wt) \<Longrightarrow> p \<in> set (pr_taken (wd_up y)) \<and> (\<exists>i. p = command_packet n c i) \<and> who (wt_conn wt) = n
      \<and> (wt_chan wt, (node_command c)\<lparr>pk_ID := wt_ident wt\<rparr>) \<in> set (pr_made (wd_node y (wt_conn wt)))"
  shows "world_inv D V hw h who (y\<lparr>wd_relay := x\<rparr>)"
proof -
  have "answer_ok D V who (y\<lparr>wd_relay := x\<rparr>) p r" if "(p, z, r) \<in> set (pr_done (wd_up y))" for p z r
    by (rule answer_ok_mono [OF world_invD(3) [OF assms(1) that]]) simp
  then show ?thesis using assms world_invD [OF assms(1)] unfolding world_inv_def by simp
qed

lemma relayed_wf:
  assumes "relayed D V who y n c reply"
  shows "wf_packet ((plain_packet PacketOrchCommandReply (enc_CommandReply reply))\<lparr>pk_ReplyTo := i\<rparr>)"
proof -
  have "wf_output (cr_Output (fst (run_command D V p host)))" for p host
    using run_command_ok [of D V p host] by (metis prod.collapse)
  then show ?thesis using assms by (auto simp: relayed_def error_reply_def zero_CommandReply_def wf_output_def)
qed

lemma world_inv_answer:
  assumes "world_inv D V hw h who y" "command_packet n c i \<in> set (pr_taken (wd_up y))" "relayed D V who y n c reply"
    and "r = (plain_packet PacketOrchCommandReply (enc_CommandReply reply))\<lparr>pk_ReplyTo := i\<rparr>" "wrote r (pr_back (wd_up y)) w"
  shows "world_inv D V hw h who (y\<lparr>wd_up := note_answer (command_packet n c i) () r w (wd_up y)\<rparr>)"
proof -
  let ?y = "y\<lparr>wd_up := note_answer (command_packet n c i) () r w (wd_up y)\<rparr>"
  have link: "link_inv (os_mc (wd_orch y) h) (wd_up ?y)"
    using answer_inv [OF world_invD(1) [OF assms(1)] assms(2)] relayed_wf [OF assms(3)] assms(4,5) by simp
  have "answer_ok D V who ?y p q" if "(p, z, q) \<in> set (pr_done (wd_up ?y))" for p z q
  proof -
    have "answer_ok D V who y p q"
      using that world_invD(3) [OF assms(1)] assms(3,4) by (auto simp: note_answer_def answer_ok_def)
    then show ?thesis by (rule answer_ok_mono) simp
  qed
  with link show ?thesis using world_invD [OF assms(1)] unfolding world_inv_def by simp
qed

text \<open>Steps on one connection of a node.\<close>

lemma master_partD:
  assumes "master_part who ms peers"
  shows "link_inv (ms_nc ms k) (peers k)" "ms_nodes ms n = Some k \<Longrightarrow> who k = n" "ms_nodes ms n = Some k \<Longrightarrow> k < ms_next ms"
    "(ch, p) \<in> set (pr_made (peers k)) \<Longrightarrow> trim_space (pk_ID p) = pk_ID p" "(ch, p) \<in> set (pr_made (peers k)) \<Longrightarrow> k < ms_next ms"
  using assms unfolding master_part_def by blast+

lemma master_part_table:
  assumes "master_part who ms peers" "link_inv c pr"
    and "\<And>ch p. (ch, p) \<in> set (pr_made pr) \<Longrightarrow> (ch, p) \<in> set (pr_made (peers k)) \<or> trim_space (pk_ID p) = pk_ID p \<and> k < ms_next ms"
  shows "master_part who (ms\<lparr>ms_nc := (ms_nc ms)(k := c)\<rparr>) (peers(k := pr))"
  using assms unfolding master_part_def by (simp, blast)

lemma world_inv_node:
  assumes "world_inv D V hw h who y" "link_inv c pr"
    and "\<And>ch p. (ch, p) \<in> set (pr_made pr) \<Longrightarrow> (ch, p) \<in> set (pr_made (wd_node y k)) \<or> trim_space (pk_ID p) = pk_ID p \<and> k < ms_next (wd_master y)"
    and "set (pr_made (wd_node y k)) \<subseteq> set (pr_made pr)" "set (pr_done (wd_node y k)) \<subseteq> set (pr_done pr)"
    and "\<And>p host r. (p, host, r) \<in> set (pr_done pr) \<Longrightarrow> (p, host, r) \<in> set (pr_done (wd_node y k)) \<or> node_answer D V hw p host = Some r"
  shows "world_inv D V hw h who (y\<lparr>wd_master := (wd_master y)\<lparr>ms_nc := (ms_nc (wd_master y))(k := c)\<rparr>, wd_node := (wd_node y)(k := pr)\<rparr>)"
proof (rule world_inv_nodes [OF assms(1)])
  show "master_part who (wd_master (y\<lparr>wd_master := (wd_master y)\<lparr>ms_nc := (ms_nc (wd_master y))(k := c)\<rparr>, wd_node := (wd_node y)(k := pr)\<rparr>))
      (wd_node (y\<lparr>wd_master := (wd_master y)\<lparr>ms_nc := (ms_nc (wd_master y))(k := c)\<rparr>, wd_node := (wd_node y)(k := pr)\<rparr>))"
    using master_part_table [OF world_invD(4) [OF assms(1)] assms(2,3)] by simp
qed (use assms(4,5) world_invD(5) [OF assms(1)] in \<open>auto split: if_splits dest!: assms(6)\<close>)

text \<open>A request to a node.\<close>

lemma world_inv_request:
  assumes "world_inv D V hw h who y" "fresh_id (wd_node y k) (pk_ID (with_id p j))" "wf_packet (with_id p j)" "k < ms_next (wd_master y)"
  shows "world_inv D V hw h who (y\<lparr>wd_master := (wd_master y)\<lparr>ms_nc := (ms_nc (wd_master y))(k := snd (node_sendRequest_begin (ms_nc (wd_master y) k) p j))\<rparr>,
      wd_node := (wd_node y)(k := note_request (ms_nc (wd_master y) k) (with_id p j) (wd_node y k))\<rparr>)"
proof -
  have "trim_space (pk_ID (with_id p j)) = pk_ID (with_id p j)" using assms(2) by (simp add: fresh_id_def)
  then show ?thesis
    using assms(4)
    by (intro world_inv_node [OF assms(1) node_wire.request_link_inv [OF master_partD(1) [OF world_invD(4) [OF assms(1)]] assms(2,3)]])
      (auto simp: note_request_def)
qed

lemma world_inv_served:
  assumes "world_inv D V hw h who y" "\<And>i. GetHardwareInfo hw = Some i \<Longrightarrow> wf_packet (heartbeat_reply i [])"
    and "read_next (pc_writer (ms_nc (wd_master y) k)) (pr_got (wd_node y k)) = Some (p, g)"
    and "slave_packet D V hw (pr_host (wd_node y k)) (pr_back (wd_node y k)) p = Some (on, w, host')"
  shows "world_inv D V hw h who (y\<lparr>wd_node := (wd_node y)(k := note_served (node_answer D V hw p (pr_host (wd_node y k))) p g w host' (wd_node y k))\<rparr>)"
proof -
  let ?pr = "wd_node y k" let ?ans = "node_answer D V hw p (pr_host ?pr)" let ?ms = "wd_master y"
  let ?pr' = "note_served ?ans p g w host' ?pr"
  note part = world_invD(4) [OF assms(1)]
  note r = read_inv [OF master_partD(1) [OF part] assms(3)]
  have "wf_packet r" if "?ans = Some r" for r
  proof -
    have "wf_output (cr_Output (fst (run_command D V p host)))" for host
      using run_command_ok [of D V p host] by (metis prod.collapse)
    then show ?thesis using that assms(2) by (auto simp: node_answer_def heartbeat_reply_def split: if_splits)
  qed
  moreover have "trim_space (pk_ID p) = pk_ID p" using r(2) master_partD(4) [OF part] by (cases "named p") auto
  ultimately have "link_inv (ms_nc ?ms k) ?pr'"
    using r(1) slave_writes [OF assms(4)]
    by (auto simp: note_served_def Let_def note_read_def intro!: host_inv answer_inv post_back_inv split: option.splits)
  moreover have "pr_made ?pr' = pr_made ?pr" "set (pr_done ?pr) \<subseteq> set (pr_done ?pr')"
    "\<And>q x r. (q, x, r) \<in> set (pr_done ?pr') \<Longrightarrow> (q, x, r) \<in> set (pr_done ?pr) \<or> node_answer D V hw q x = Some r"
    by (auto simp: note_served_def Let_def note_answer_def split: option.splits if_splits)
  ultimately show ?thesis using world_inv_node [OF assms(1), of "ms_nc ?ms k" ?pr' k] by simp
qed


text \<open>The relay: a command goes to the node, and its answer back.\<close>

lemma relay_sends:
  assumes "world_inv D V hw h who y" "sendCommandToNodeWait_begin (wd_master y) n (node_command c) j = (res, ms)" "n \<noteq> []" "wf_json c"
    and "\<And>k. ms_nodes (wd_master y) n = Some k \<Longrightarrow> fresh_id (wd_node y k) j"
  shows "world_inv D V hw h who (y\<lparr>wd_master := ms, wd_node := note_relayed (wd_master y) n c j (wd_node y)\<rparr>)"
proof -
  note part = world_invD(4) [OF assms(1)]
  from node_begins [OF assms(2,3)] consider "ms_nodes (wd_master y) n = None" "ms = wd_master y"
    | k where "ms_nodes (wd_master y) n = Some k"
      "ms = (wd_master y)\<lparr>ms_nc := (ms_nc (wd_master y))(k := snd (node_sendRequest_begin (ms_nc (wd_master y) k) (node_command c) j))\<rparr>"
    by metis
  then show ?thesis
  proof cases
    case 1
    then show ?thesis using assms(1) by (simp add: note_relayed_def)
  next
    case 2
    have p: "with_id (node_command c) j = (node_command c)\<lparr>pk_ID := j\<rparr>" by (simp add: node_command_def)
    moreover have "wf_packet ((node_command c)\<lparr>pk_ID := j\<rparr>)" using assms(4) by (simp add: node_command_def)
    ultimately show ?thesis
      using world_inv_request [OF assms(1), of k "node_command c" j] assms(5) [OF 2(1)] master_partD(3) [OF part 2(1)] 2
      by (simp add: note_relayed_def)
  qed
qed

lemma relay_reads:
  assumes "world_inv D V hw h who y" "read_next (pc_writer (os_mc (wd_orch y) h)) (pr_got (wd_up y)) = Some (p, k)"
  shows "world_inv D V hw h who (y\<lparr>wd_up := note_read p k (wd_up y)\<rparr>)"
    "p = command_packet n c i \<Longrightarrow> i \<noteq> [] \<Longrightarrow> n \<noteq> [] \<and> wf_json c \<and> trim_space i = i"
proof -
  note read = read_inv [OF world_invD(1) [OF assms(1)] assms(2)]
  show "world_inv D V hw h who (y\<lparr>wd_up := note_read p k (wd_up y)\<rparr>)"
    using read(1) by (intro world_inv_up [OF assms(1)]) (auto simp: note_read_def)
  show "n \<noteq> [] \<and> wf_json c \<and> trim_space i = i" if "p = command_packet n c i" "i \<noteq> []"
  proof -
    have "\<exists>ch. (ch, p) \<in> set (pr_made (wd_up y))" by (rule read(2)) (simp add: that)
    then have "is_command p" using world_invD(2) [OF assms(1)] by blast
    then show ?thesis using that(1) by (auto simp: is_command_def)
  qed
qed

lemma received_reply:
  assumes "world_inv D V hw h who y" "wd_relay y = Some (p, n, c, wt)"
    and "sendCommandToNodeWait_receive (wd_master y) wt = (Some res, ms) \<or> sendCommandToNodeWait_timeout (wd_master y) wt = (res, ms)"
  shows "relayed D V who y n c (node_command_reply (\<lambda>n q. res) n c)"
proof (cases res)
  case (Inl e)
  then show ?thesis by (auto simp: relay_reply_of relayed_def)
next
  case (Inr R)
  let ?k = "wt_conn wt" and ?P = "(node_command c)\<lparr>pk_ID := wt_ident wt\<rparr>"
  note relay = world_invD(6) [OF assms(1,2)] and link = master_partD(1) [OF world_invD(4) [OF assms(1)], of ?k]
  have "pc_chan (ms_nc (wd_master y) ?k) (wt_chan wt) = Some R"
    using assms(3) Inr by (auto simp: sendCommandToNodeWait_receive_def sendCommandToNodeWait_timeout_def sendRequest_receive_def Let_def split: prod.splits)
  from channel_answer [OF link this] obtain q host where q: "(wt_chan wt, q) \<in> set (pr_made (wd_node y ?k))" "(q, host, R) \<in> set (pr_done (wd_node y ?k))"
    by blast
  then have "q = ?P" using made_unique [OF link q(1)] relay by blast
  moreover have "node_answer D V hw q host = Some R" by (rule world_invD(5) [OF assms(1) q(2)])
  moreover have "PacketNodeCommand \<noteq> PacketHeartbeat" by (simp add: packet_type_defs)
  ultimately have "R = node_reply (fst (run_command D V (node_command c) host)) (trim_space (wt_ident wt))"
    by (auto simp: node_answer_def node_command_def plain_packet_def)
  moreover have "who ?k = n" using relay by simp
  ultimately show ?thesis using q(2) \<open>q = ?P\<close> unfolding relayed_def Inr by (simp only: relay_reply_of) blast
qed

text \<open>A caller at the master receives its reply or gives up.\<close>

lemma received_inv:
  assumes "world_inv D V hw h who y"
  shows "world_inv D V hw h who (y\<lparr>wd_master := snd (sendCommandToNodeWait_receive (wd_master y) wt)\<rparr>)"
    "world_inv D V hw h who (y\<lparr>wd_master := snd (sendCommandToNodeWait_timeout (wd_master y) wt)\<rparr>)"
proof -
  let ?k = "wt_conn wt"
  note link = master_partD(1) [OF world_invD(4) [OF assms], of ?k]
  show "world_inv D V hw h who (y\<lparr>wd_master := snd (sendCommandToNodeWait_receive (wd_master y) wt)\<rparr>)"
    using world_inv_node [OF assms receive_link_inv [OF link, of "wt_chan wt"], of ?k]
    by (simp add: sendCommandToNodeWait_receive_def case_prod_unfold Let_def)
  show "world_inv D V hw h who (y\<lparr>wd_master := snd (sendCommandToNodeWait_timeout (wd_master y) wt)\<rparr>)"
    using world_inv_node [OF assms timeout_link_inv [OF link, of "wt_ident wt"], of ?k]
    by (simp add: sendCommandToNodeWait_timeout_def case_prod_unfold Let_def)
qed

text \<open>The steps of the relay, and a new connection.\<close>

lemma relay_begins_inv:
  assumes "world_inv D V hw h who y"
    and "read_next (pc_writer (os_mc (wd_orch y) h)) (pr_got (wd_up y)) = Some (p, g)"
    and "wd_relay y = None"
    and "p = command_packet n c i"
    and "i \<noteq> []"
    and "sendCommandToNodeWait_begin (wd_master y) n (node_command c) j = (Inr wt, ms)"
    and "fresh_id (wd_node y (wt_conn wt)) j"
  shows "world_inv D V hw h who (y\<lparr>wd_up := note_read p g (wd_up y), wd_master := ms, wd_node := note_relayed (wd_master y) n c j (wd_node y),
      wd_relay := Some (p, n, c, wt)\<rparr>)"
proof -
  have p: "p = command_packet n c i" "named p" using assms(4,5) by simp_all
  have n: "n \<noteq> []" "wf_json c" using relay_reads(2) [OF assms(1) assms(2) p(1)] assms(5) by simp_all
  let ?y1 = "y\<lparr>wd_up := note_read p g (wd_up y)\<rparr>"
  let ?y2 = "?y1\<lparr>wd_master := ms, wd_node := note_relayed (wd_master y) n c j (wd_node y)\<rparr>"
  obtain k where k: "ms_nodes (wd_master y) n = Some k"
    "wt = \<lparr>wt_conn = k, wt_chan = pc_made (ms_nc (wd_master y) k), wt_ident = pk_ID (with_id (node_command c) j)\<rparr>"
    using node_begins [OF assms(6) n(1)] by auto
  have "world_inv D V hw h who ?y1" by (rule relay_reads(1) [OF assms(1) assms(2)])
  then have "world_inv D V hw h who ?y2"
    using relay_sends [of D V hw h who ?y1 n c j "Inr wt" ms] assms(6,7) n k by simp
  then have "world_inv D V hw h who (?y2\<lparr>wd_relay := Some (p, n, c, wt)\<rparr>)"
    by (rule world_inv_relay) (use p k master_partD(2) [OF world_invD(4) [OF assms(1)] k(1)] in
      \<open>auto simp: note_read_def note_relayed_def note_request_def node_command_def\<close>)
  then show ?thesis .
qed

lemma relay_fails_inv:
  assumes "world_inv D V hw h who y"
    and "read_next (pc_writer (os_mc (wd_orch y) h)) (pr_got (wd_up y)) = Some (p, g)"
    and "wd_relay y = None"
    and "p = command_packet n c i"
    and "i \<noteq> []"
    and "sendCommandToNodeWait_begin (wd_master y) n (node_command c) j = (Inl e, ms)"
    and "\<And>k. fresh_id (wd_node y k) j"
    and "readOrchestratorLoop_packet (\<lambda>n q. Inl e) [] p = Answer r"
    and "writePacket (pr_back (wd_up y)) r = (e', w)"
  shows "world_inv D V hw h who (y\<lparr>wd_master := ms, wd_node := note_relayed (wd_master y) n c j (wd_node y),
      wd_up := note_answer p () r w (note_read p g (wd_up y))\<rparr>)"
proof -
  have p: "p = command_packet n c i" "named p" using assms(4,5) by simp_all
  have n: "n \<noteq> []" "wf_json c" "trim_space i = i" using relay_reads(2) [OF assms(1) assms(2) p(1)] assms(5) by simp_all
  let ?y1 = "y\<lparr>wd_up := note_read p g (wd_up y)\<rparr>"
  let ?y2 = "?y1\<lparr>wd_master := ms, wd_node := note_relayed (wd_master y) n c j (wd_node y)\<rparr>"
  have "world_inv D V hw h who ?y1" by (rule relay_reads(1) [OF assms(1) assms(2)])
  then have inv: "world_inv D V hw h who ?y2"
    using relay_sends [of D V hw h who ?y1 n c j "Inl e" ms] assms(6,7) n by simp
  have "r = (plain_packet PacketOrchCommandReply (enc_CommandReply (error_reply n e)))\<lparr>pk_ReplyTo := i\<rparr>"
    using relay_replies [of "Inl e" n c i r] assms(8) n p(1) by (simp add: relay_reply_of)
  moreover have "wrote r (pr_back (wd_up ?y2)) w" using writePacket_wrote [OF assms(9)] by (simp add: note_read_def)
  moreover have "command_packet n c i \<in> set (pr_taken (wd_up ?y2))" using p by (simp add: note_read_def)
  ultimately have "world_inv D V hw h who (?y2\<lparr>wd_up := note_answer (command_packet n c i) () r w (wd_up ?y2)\<rparr>)"
    by (intro world_inv_answer [OF inv]) (auto simp: relayed_def)
  then show ?thesis using p(1) by simp
qed

lemma relay_ends_inv:
  assumes "world_inv D V hw h who y"
    and "wd_relay y = Some (p, n, c, wt)"
    and "sendCommandToNodeWait_receive (wd_master y) wt = (Some res, ms) \<or> sendCommandToNodeWait_timeout (wd_master y) wt = (res, ms)"
    and "readOrchestratorLoop_packet (\<lambda>n q. res) [] p = Answer r"
    and "writePacket (pr_back (wd_up y)) r = (e, w)"
  shows "world_inv D V hw h who (y\<lparr>wd_up := note_answer p () r w (wd_up y), wd_master := ms, wd_relay := None\<rparr>)"
proof -
  note relay = world_invD(6) [OF assms(1) assms(2)] and part = world_invD(4) [OF assms(1)]
  obtain i where p: "p = command_packet n c i" "p \<in> set (pr_taken (wd_up y))" using relay by blast
  have "is_command p" using world_invD(1,2) [OF assms(1)] link_invD(6) p(2) by fastforce
  then have n: "n \<noteq> []" "trim_space i = i" using p(1) by (auto simp: is_command_def)
  have reply: "relayed D V who y n c (node_command_reply (\<lambda>n q. res) n c)"
    by (rule received_reply [OF assms(1) assms(2,3)])
  have r: "r = (plain_packet PacketOrchCommandReply (enc_CommandReply (node_command_reply (\<lambda>n q. res) n c)))\<lparr>pk_ReplyTo := i\<rparr>"
    using relay_replies [of res n c i r] assms(4) n p(1) by simp
  let ?y1 = "y\<lparr>wd_up := note_answer p () r w (wd_up y)\<rparr>"
  have y1: "world_inv D V hw h who ?y1"
    using world_inv_answer [OF assms(1) _ reply r writePacket_wrote [OF assms(5)]] p by simp
  have "ms = snd (sendCommandToNodeWait_receive (wd_master y) wt) \<or> ms = snd (sendCommandToNodeWait_timeout (wd_master y) wt)"
    using assms(3) by (metis snd_conv)
  then have "world_inv D V hw h who (?y1\<lparr>wd_master := ms\<rparr>)" using received_inv [OF y1, of wt] by auto
  then have "world_inv D V hw h who (?y1\<lparr>wd_master := ms, wd_relay := None\<rparr>)" by (rule world_inv_relay) simp
  then show ?thesis by simp
qed

lemma node_joins_inv:
  fixes y :: "('w, 'db) world"
  assumes "world_inv D V hw h who y"
    and "who (ms_next (wd_master y)) = ah_ID ah"
    and "ah_ID ah \<noteq> []"
  shows "world_inv D V hw h who (y\<lparr>wd_master := node_open (wd_master y) ah (Some v),
      wd_node := (wd_node y)(ms_next (wd_master y) := new_peer host (Some v) bw)\<rparr>)"
proof -
  let ?k = "ms_next (wd_master y)" let ?ms = "node_open (wd_master y) ah (Some v)"
  note part = world_invD(4) [OF assms(1)]
  have old: "pr_made (wd_node y ?k) = []"
    using master_partD(5) [OF part, where k = ?k] by (cases "pr_made (wd_node y ?k)") fastforce+
  then have "pr_done (wd_node y ?k) = []"
    using link_invD(5,6) [OF master_partD(1) [OF part, of ?k]] by (cases "pr_done (wd_node y ?k)") fastforce+
  moreover have "master_part who ?ms ((wd_node y)(?k := new_peer host (Some v) bw))"
    using part assms(2,3) new_peer_inv [of "Some v" host bw]
    by (auto simp: master_part_def node_open_def registerNode_def new_peer_def less_Suc_eq)
  ultimately show ?thesis
    using old by (intro world_inv_nodes [OF assms(1)]) (auto simp: new_peer_def split: if_splits intro: world_invD(5) [OF assms(1)])
qed

text \<open>The numbers in the readings of the hardware are written as numbers.\<close>

definition readings_ok :: "readings \<Rightarrow> bool" where
  "readings_ok hw \<longleftrightarrow> (\<forall>i. GetHardwareInfo hw = Some i \<longrightarrow> wf_packet (heartbeat_reply i []))"

lemma world_step_inv:
  assumes "readings_ok hw"
  shows "world_step D V hw G h who y y' \<Longrightarrow> world_inv D V hw h who y \<Longrightarrow> world_inv D V hw h who y'"
proof (induction rule: world_step.induct)
  case (caller_sends y m n command i res st)
  let ?p = "command_packet n command i"
  have i: "i \<noteq> []" "trim_space i = i" using caller_sends(5) by (simp_all add: fresh_id_def)
  have "link_inv (os_mc st h) (note_request (os_mc (wd_orch y) h) ?p (wd_up y))"
    using orch_wire.request_link_inv [OF world_invD(1) [OF caller_sends.prems], of ?p i] caller_sends(4,5) i
    by (simp add: caller_begins [OF caller_sends(1-3) i(1) caller_sends(6)])
  then show ?case
    using caller_sends(3,4) i(2) by (intro world_inv_up [OF caller_sends.prems]) (auto simp: note_request_def is_command_def)
next
  case (caller_receives y wt)
  then show ?case
    by (intro world_inv_up [OF caller_receives])
      (auto simp: sendCommandWait_receive_def case_prod_unfold Let_def intro: receive_link_inv world_invD(1))
next
  case (caller_gives_up y wt)
  then show ?case
    by (intro world_inv_up [OF caller_gives_up])
      (auto simp: sendCommandWait_timeout_def case_prod_unfold Let_def intro: timeout_link_inv world_invD(1))
next
  case (orch_reads y p k now ah)
  let ?up = "(wd_up y)\<lparr>pr_seen := k\<rparr>"
  note res = resolve_link_inv [OF world_invD(1) [OF orch_reads.prems] orch_reads(1)]
  have "link_inv (os_mc (serve_packet G now (wd_orch y) h ah p) h) ?up"
    using serve_packet_effect [of G now "wd_orch y" h ah p] res post_inv [OF res(2)] by metis
  then show ?case by (intro world_inv_up [OF orch_reads.prems]) simp_all
next
  case (orch_elsewhere st y)
  then show ?case by (intro world_inv_up [OF orch_elsewhere(2)]) (auto intro: world_invD(1))
next
  case (master_announces ty y mi e w)
  have "pk_ReplyTo (announcement ty mi) = []" "wf_packet (announcement ty mi)"
    using master_announces(1) by (simp_all add: announcement_def packet_of_def plain_packet_def zero_Packet_def wf_packet_def enc_MasterInfo_def enc_NodeInfo_def wf_elems_iff)
  then have "link_inv (os_mc (wd_orch y) h) ((wd_up y)\<lparr>pr_back := w\<rparr>)"
    by (rule post_back_inv [OF world_invD(1) [OF master_announces.prems] _ _ writePacket_wrote [OF master_announces(2)]])
  then show ?case by (intro world_inv_up [OF master_announces.prems]) simp_all
next
  case (relay_skips y p k)
  then show ?case using relay_reads(1) by blast
next
  case (relay_begins y p g n c i j wt ms)
  show ?case by (rule relay_begins_inv [OF relay_begins.prems relay_begins.hyps])
next
  case (relay_fails y p g n c i j e ms r e' w)
  show ?case by (rule relay_fails_inv [OF relay_fails.prems relay_fails.hyps])
next
  case (relay_ends y p n c wt res ms r e w)
  show ?case by (rule relay_ends_inv [OF relay_ends.prems relay_ends.hyps])
next
  case (node_serves y k p g on w host')
  then show ?case using assms by (intro world_inv_served) (auto simp: readings_ok_def)
next
  case (master_reads y k r s)
  then show ?case
    using world_inv_node [OF master_reads.prems resolve_link_inv(1) [OF master_partD(1) [OF world_invD(4) [OF master_reads.prems]] master_reads(1)], of k]
    by (simp add: readLoop_packet_def)
next
  case (master_beats y k n j res ms)
  have p: "with_id (heartbeat_packet j) j = heartbeat_packet j" "pk_ID (heartbeat_packet j) = j" "wf_packet (heartbeat_packet j)"
    by (simp_all add: heartbeat_packet_def with_id_def NewPacket_def packet_of_def zero_Packet_def wf_packet_def)
  then show ?case
    using world_inv_request [OF master_beats.prems, of k "heartbeat_packet j" j] master_beats(2,3) beat_begins [OF master_beats(4)] by simp
next
  case (master_receives y wt)
  then show ?case by (rule received_inv)
next
  case (master_gives_up y wt)
  then show ?case by (rule received_inv)
next
  case (node_joins y ah host v bw)
  show ?case by (rule node_joins_inv [OF node_joins.prems node_joins.hyps])
next
  case (node_leaves y k n)
  have "master_part who (node_close (wd_master y) k n) (wd_node y)"
    using world_invD(4) [OF node_leaves] by (auto simp: master_part_def node_close_def unregisterNode_def) blast+
  then show ?case by (intro world_inv_nodes [OF node_leaves]) (auto intro: world_invD(5) [OF node_leaves])
qed


interpretation run: step_system "\<lambda>y. readings_ok hw \<and> world_start h y" "world_step D V hw G h who"
    "\<lambda>y. readings_ok hw \<and> world_inv D V hw h who y" for D V hw G h who
  by unfold_locales (auto intro: world_start_inv world_step_inv)

section \<open>Replies under every interleaving\<close>

text \<open>
  Claim C3. Replies are not mixed up, whatever runs at the same time: in every state that the
  orchestrator, a master and its nodes can reach by any interleaving of callers that send, receive or
  give up, relaying, heartbeats, announcements, late replies, and nodes that work, join and leave,
  what a caller that sent a command for a node can receive is a reply packet, and the reply in it is
  either an error of the relay for that node or what the handler of that very command returned on a
  connection of that node; and no node reads a request twice.
\<close>

theorem concurrent_replies_correct:
  assumes "readings_ok hw" and "world_start h y0" and "(world_step D V hw G h who)\<^sup>*\<^sup>* y0 y"
    and "(ch, command_packet n c i) \<in> set (pr_made (wd_up y))"
    and "fst (sendCommandWait_receive (wd_orch y) \<lparr>wt_conn = h, wt_chan = ch, wt_ident = i\<rparr>) = Some res"
  shows "(\<exists>reply. res = Inr reply \<and> ((\<exists>e. reply = error_reply n e)
      \<or> (\<exists>k j host r. who k = n \<and> ((node_command c)\<lparr>pk_ID := j\<rparr>, host, r) \<in> set (pr_done (wd_node y k))
          \<and> reply = (fst (run_command D V (node_command c) host))\<lparr>cr_NodeID := n\<rparr>)))
    \<and> (\<forall>k. distinct (pr_taken (wd_node y k)))"
proof -
  have inv: "world_inv D V hw h who y" using run.reachable [OF assms(3)] assms(1,2) by blast
  note link = world_invD(1) [OF inv]
  obtain R where R: "pc_chan (os_mc (wd_orch y) h) ch = Some R" "res = command_reply i R"
    using assms(5) by (auto simp: sendCommandWait_receive_def sendRequest_receive_def)
  obtain p x where p: "(ch, p) \<in> set (pr_made (wd_up y))" "(p, x, R) \<in> set (pr_done (wd_up y))"
    using channel_answer [OF link R(1)] by blast
  have "p = command_packet n c i" using made_unique [OF link p(1) assms(4)] by blast
  then obtain reply where reply: "relayed D V who y n c reply"
    "R = (plain_packet PacketOrchCommandReply (enc_CommandReply reply))\<lparr>pk_ReplyTo := i\<rparr>"
    using world_invD(3) [OF inv p(2)] by (auto simp: answer_ok_def)
  have "res = Inr reply" using R(2) reply(2) by (simp add: command_reply_def)
  moreover have "distinct (pr_taken (wd_node y k))" for k by (rule link_invD(7) [OF master_partD(1) [OF world_invD(4) [OF inv]]])
  ultimately show ?thesis using reply(1) unfolding relayed_def by blast
qed


section \<open>A run\<close>

lemma read_next_one: "wf_packet p \<Longrightarrow> read_next (Some \<lparr>w_out = packet_line p, w_err = e\<rparr>) 0 = Some (p, length (packet_line p))"
  using ReadPacket_line [of p "[]"] by (simp add: read_next_def)

definition idle_writer :: writer where
  "idle_writer = \<lparr>w_out = [], w_err = None\<rparr>"

definition idle_host :: "unit host" where
  "idle_host = \<lparr>h_conn = None, h_client = None, h_ext = ()\<rparr>"

definition no_readings :: readings where
  "no_readings = \<lparr>hw_ram = Inl [], hw_cpu = [], hw_cores = 0\<rparr>"

definition demo_world :: "(unit, string list) world" where
  "demo_world = \<lparr>wd_orch = demo_orch, wd_master = master_start, wd_up = new_peer () (Some idle_writer) (Some idle_writer),
     wd_node = (\<lambda>k. new_peer idle_host None None), wd_relay = None\<rparr>"

abbreviation demo_step :: "(unit, string list) world \<Rightarrow> (unit, string list) world \<Rightarrow> bool" where
  "demo_step \<equiv> world_step demo_engine demo_virt no_readings demo_gorm 0 (\<lambda>k. ''n'')"

definition demo_ask :: Packet where
  "demo_ask = command_packet ''n'' noop_command ''x''"

definition demo_job :: Packet where
  "demo_job = (node_command noop_command)\<lparr>pk_ID := ''y''\<rparr>"

definition demo_wait :: waiting where
  "demo_wait = \<lparr>wt_conn = 0, wt_chan = 0, wt_ident = ''y''\<rparr>"

definition asked_table :: "string \<Rightarrow> Packet \<Rightarrow> pconn" where
  "asked_table i p = (enter (new_pconn (Some idle_writer)) i)\<lparr>pc_writer := Some \<lparr>w_out = packet_line p, w_err = None\<rparr>\<rparr>"

lemma demo_world_start: "world_start 0 demo_world" "readings_ok no_readings"
  by (auto simp: world_start_def demo_world_def demo_orch_def conn_open_def registerMasterConn_def orch_start_def zero_AuthHello_def
      idle_writer_def readings_ok_def GetHardwareInfo_def no_readings_def)

lemma demo_ids: "trim_space ''x'' = ''x''" "trim_space ''y'' = ''y''"
  by (rule trim_space_plain; simp add: plain_char_def)+

lemma demo_wf: "wf_json noop_command" "wf_packet demo_ask" "wf_packet demo_job"
  by (simp_all add: demo_ask_def demo_job_def node_command_def noop_command_def enc_NodeCommand_def)

text \<open>The command on its way to the node.\<close>

lemma demo_down:
  "\<exists>y. demo_step\<^sup>*\<^sup>* demo_world y \<and> wd_orch y = demo_orch\<lparr>os_mc := (os_mc demo_orch)(0 := asked_table ''x'' demo_ask)\<rparr>
    \<and> pr_back (wd_up y) = Some idle_writer \<and> pr_seen (wd_up y) = 0 \<and> (0, demo_ask) \<in> set (pr_made (wd_up y))
    \<and> ms_nc (wd_master y) 0 = asked_table ''y'' demo_job \<and> wd_relay y = Some (demo_ask, ''n'', noop_command, demo_wait)
    \<and> pr_got (wd_node y 0) = 0 \<and> pr_host (wd_node y 0) = idle_host \<and> pr_back (wd_node y 0) = Some idle_writer \<and> pr_seen (wd_node y 0) = 0"
proof -
  have orch: "os_mc demo_orch 0 = new_pconn (Some idle_writer)" "os_conns demo_orch ''m'' = Some 0"
    by (simp_all add: demo_orch_def conn_open_def registerMasterConn_def orch_start_def zero_AuthHello_def idle_writer_def)
  have nodes: "ms_nc demo_nodes 0 = new_pconn (Some idle_writer)" "ms_nodes demo_nodes ''n'' = Some 0"
    by (simp_all add: demo_nodes_def node_open_def registerNode_def master_start_def zero_AuthHello_def idle_writer_def)
  define y1 where "y1 = demo_world\<lparr>wd_master := demo_nodes, wd_node := (wd_node demo_world)(0 := new_peer idle_host (Some idle_writer) (Some idle_writer))\<rparr>"
  define y2 where "y2 = y1\<lparr>wd_orch := demo_orch\<lparr>os_mc := (os_mc demo_orch)(0 := asked_table ''x'' demo_ask)\<rparr>,
      wd_up := note_request (os_mc demo_orch 0) demo_ask (wd_up y1)\<rparr>"
  define y3 where "y3 = y2\<lparr>wd_up := note_read demo_ask (length (packet_line demo_ask)) (wd_up y2),
      wd_master := demo_nodes\<lparr>ms_nc := (ms_nc demo_nodes)(0 := asked_table ''y'' demo_job)\<rparr>,
      wd_node := note_relayed (wd_master y2) ''n'' noop_command ''y'' (wd_node y2), wd_relay := Some (demo_ask, ''n'', noop_command, demo_wait)\<rparr>"
  have r1: "demo_step demo_world y1"
    using world_step.node_joins [where who = "\<lambda>k. ''n''" and y = demo_world and ah = "zero_AuthHello\<lparr>ah_ID := ''n''\<rparr>" and v = idle_writer]
    by (simp add: y1_def demo_nodes_def demo_world_def idle_writer_def master_start_def)
  have s1: "wd_orch y1 = demo_orch" "wd_up y1 = new_peer () (Some idle_writer) (Some idle_writer)" "wd_relay y1 = None" "wd_master y1 = demo_nodes"
    "wd_node y1 0 = new_peer idle_host (Some idle_writer) (Some idle_writer)"
    by (simp_all add: y1_def demo_world_def)
  have "SendCommandWait_begin demo_orch ''m'' ''n'' noop_command ''x'' =
      (Inr \<lparr>wt_conn = 0, wt_chan = 0, wt_ident = ''x''\<rparr>, demo_orch\<lparr>os_mc := (os_mc demo_orch)(0 := asked_table ''x'' demo_ask)\<rparr>)"
    using command_begin [OF orch(2), of idle_writer noop_command "''x''" "''n''"] orch(1) demo_wf(1)
    by (simp add: SendCommandWait_begin_def asked_table_def demo_ask_def idle_writer_def new_pconn_def)
  then have r2: "demo_step y1 y2"
    using world_step.caller_sends [where y = y1 and m = "''m''" and h = 0 and n = "''n''" and command = noop_command and i = "''x''"] orch(2) demo_wf(1) demo_ids
    by (simp add: y2_def s1 fresh_id_def new_peer_def demo_ask_def)
  have s2: "os_mc (wd_orch y2) 0 = asked_table ''x'' demo_ask" "pr_got (wd_up y2) = 0" "wd_relay y2 = None" "wd_master y2 = demo_nodes"
    "wd_node y2 0 = wd_node y1 0" "pc_writer (asked_table i p) = Some \<lparr>w_out = packet_line p, w_err = None\<rparr>" for i p
    by (simp_all add: y2_def s1 note_request_def new_peer_def idle_writer_def asked_table_def)
  have node: "sendCommandToNodeWait_begin (wd_master y2) ''n'' (node_command noop_command) ''y'' =
      (Inr demo_wait, demo_nodes\<lparr>ms_nc := (ms_nc demo_nodes)(0 := asked_table ''y'' demo_job)\<rparr>)"
    using node_begin [OF nodes(2), of idle_writer noop_command "''y''"] nodes(1) demo_wf(1)
    by (simp add: s2(4) asked_table_def demo_job_def demo_wait_def idle_writer_def new_pconn_def)
  have r3: "demo_step y2 y3"
    unfolding y3_def
    by (rule world_step.relay_begins [OF _ s2(3) demo_ask_def _ node])
      (use read_next_one [OF demo_wf(2)] s1 s2 demo_ids in \<open>simp_all add: demo_wait_def fresh_id_def new_peer_def\<close>)
  have "demo_step\<^sup>*\<^sup>* demo_world y3" using r1 r2 r3 by (meson converse_rtranclp_into_rtranclp rtranclp.rtrancl_refl)
  then show ?thesis
    by (intro exI [of _ y3])
      (simp add: y3_def s2(4) y2_def s1 note_relayed_def nodes note_request_def note_read_def new_peer_def idle_writer_def orch new_pconn_def)
qed

text \<open>The reply on its way back.\<close>

lemma demo_run:
  "\<exists>y. demo_step\<^sup>*\<^sup>* demo_world y \<and> (0, demo_ask) \<in> set (pr_made (wd_up y))
    \<and> fst (sendCommandWait_receive (wd_orch y) \<lparr>wt_conn = 0, wt_chan = 0, wt_ident = ''x''\<rparr>)
        = Some (Inr (zero_CommandReply\<lparr>cr_Status := ''ok'', cr_NodeID := ''n''\<rparr>))"
proof -
  obtain y where y: "demo_step\<^sup>*\<^sup>* demo_world y" "wd_orch y = demo_orch\<lparr>os_mc := (os_mc demo_orch)(0 := asked_table ''x'' demo_ask)\<rparr>"
    "pr_back (wd_up y) = Some idle_writer" "pr_seen (wd_up y) = 0" "(0, demo_ask) \<in> set (pr_made (wd_up y))"
    "ms_nc (wd_master y) 0 = asked_table ''y'' demo_job" "wd_relay y = Some (demo_ask, ''n'', noop_command, demo_wait)"
    "pr_got (wd_node y 0) = 0" "pr_host (wd_node y 0) = idle_host" "pr_back (wd_node y 0) = Some idle_writer" "pr_seen (wd_node y 0) = 0"
    using demo_down by blast
  let ?reply = "zero_CommandReply\<lparr>cr_Status := ''ok''\<rparr>" let ?R2 = "node_reply ?reply ''y''"
  let ?R1 = "(plain_packet PacketOrchCommandReply (enc_CommandReply (?reply\<lparr>cr_NodeID := ''n''\<rparr>)))\<lparr>pk_ReplyTo := ''x''\<rparr>"
  have wf: "wf_packet ?R2" "wf_packet ?R1" by (simp_all add: wf_output_def zero_CommandReply_def)
  define y4 where "y4 = y\<lparr>wd_node := (wd_node y)(0 := note_served (Some ?R2) demo_job (length (packet_line demo_job))
      (Some \<lparr>w_out = packet_line ?R2, w_err = None\<rparr>) idle_host (wd_node y 0))\<rparr>"
  define y5 where "y5 = y4\<lparr>wd_master := readLoop_packet (wd_master y4) 0 ?R2, wd_node := (wd_node y4)(0 := (wd_node y4 0)\<lparr>pr_seen := length (packet_line ?R2)\<rparr>)\<rparr>"
  define y6 where "y6 = y5\<lparr>wd_up := note_answer demo_ask () ?R1 (Some \<lparr>w_out = packet_line ?R1, w_err = None\<rparr>) (wd_up y5),
      wd_master := snd (sendCommandToNodeWait_receive (wd_master y5) demo_wait), wd_relay := None\<rparr>"
  define y7 where "y7 = y6\<lparr>wd_orch := serve_packet demo_gorm 0 (wd_orch y6) 0 demo_hello ?R1, wd_up := (wd_up y6)\<lparr>pr_seen := length (packet_line ?R1)\<rparr>\<rparr>"
  have run: "run_command demo_engine demo_virt demo_job idle_host = (?reply, idle_host)" "pk_Type demo_job = PacketNodeCommand" "pk_ID demo_job = ''y''"
    using noop_run by (simp_all add: demo_job_def node_command_def plain_packet_def)
  have "node_answer demo_engine demo_virt no_readings demo_job idle_host = Some ?R2"
    using run demo_ids by (simp add: node_answer_def packet_type_defs(6,8))
  moreover have "slave_packet demo_engine demo_virt no_readings idle_host (Some idle_writer) demo_job = Some (True, Some \<lparr>w_out = packet_line ?R2, w_err = None\<rparr>, idle_host)"
    using slave_answers [OF run(1,2), of idle_writer] run(3) demo_ids by (simp add: idle_writer_def)
  ultimately have r4: "demo_step y y4"
    using world_step.node_serves [where y = y and k = 0 and p = demo_job and D = demo_engine and V = demo_virt and hw = no_readings and g = "length (packet_line demo_job)"]
      read_next_one [OF demo_wf(3)] y(6,8-10) by (fastforce simp: y4_def asked_table_def)
  have s4: "pr_back (wd_node y4 0) = Some \<lparr>w_out = packet_line ?R2, w_err = None\<rparr>" "pr_seen (wd_node y4 0) = 0"
    by (simp_all add: y4_def note_served_def Let_def note_answer_def note_read_def y)
  have r5: "demo_step y4 y5"
    using world_step.master_reads [where y = y4 and k = 0] read_next_one [OF wf(1)] s4 by (simp add: y5_def)
  have s5: "wd_relay y5 = Some (demo_ask, ''n'', noop_command, demo_wait)" "wd_up y5 = wd_up y" "wd_orch y5 = wd_orch y"
    "sendCommandToNodeWait_receive (wd_master y5) demo_wait = (Some (Inr ?R2), snd (sendCommandToNodeWait_receive (wd_master y5) demo_wait))"
    by (simp_all add: y5_def y4_def y readLoop_packet_def sendCommandToNodeWait_receive_def sendRequest_receive_def resolveReply_def asked_table_def
        enter_def demo_wait_def new_pconn_def)
  have "readOrchestratorLoop_packet (\<lambda>n q. Inr ?R2) [] demo_ask = Answer ?R1" using demo_ids by (simp add: demo_ask_def relay_answer relay_reply_of)
  moreover have "writePacket (pr_back (wd_up y5)) ?R1 = (None, Some \<lparr>w_out = packet_line ?R1, w_err = None\<rparr>)"
    using wf(2) by (simp add: s5(2) y(3) writePacket_def WritePacket_ok idle_writer_def)
  ultimately have r6: "demo_step y5 y6" unfolding y6_def by (rule world_step.relay_ends [OF s5(1) disjI1 [OF s5(4)]])
  have s6: "pr_back (wd_up y6) = Some \<lparr>w_out = packet_line ?R1, w_err = None\<rparr>" "pr_seen (wd_up y6) = 0" "wd_orch y6 = wd_orch y"
    by (simp_all add: y6_def note_answer_def s5(2,3) y(3,4))
  have r7: "demo_step y6 y7"
    using world_step.orch_reads [where y = y6 and p = ?R1] read_next_one [OF wf(2)] s6 by (simp add: y7_def)
  have "demo_step\<^sup>*\<^sup>* y y7" using r4 r5 r6 r7 by (meson converse_rtranclp_into_rtranclp rtranclp.rtrancl_refl)
  moreover have "(0, demo_ask) \<in> set (pr_made (wd_up y7))" using y(5) by (simp add: y7_def y6_def s5(2))
  moreover have "fst (sendCommandWait_receive (wd_orch y7) \<lparr>wt_conn = 0, wt_chan = 0, wt_ident = ''x''\<rparr>) = Some (Inr (?reply\<lparr>cr_NodeID := ''n''\<rparr>))"
    by (simp add: y7_def s6 y serve_packet_def resolveReply_def asked_table_def enter_def new_pconn_def sendCommandWait_receive_def sendRequest_receive_def
        command_reply_def)
  ultimately show ?thesis using y(1) by (intro exI [of _ y7]) auto
qed

theorem concurrent_replies_correct_witness:
  "\<exists>(y :: (unit, string list) world) reply. fst (sendCommandWait_receive (wd_orch y) \<lparr>wt_conn = 0, wt_chan = 0, wt_ident = ''x''\<rparr>) = Some (Inr reply)
    \<and> ((\<exists>e. reply = error_reply ''n'' e)
      \<or> (\<exists>k j host r. ((node_command noop_command)\<lparr>pk_ID := j\<rparr>, host, r) \<in> set (pr_done (wd_node y k))
          \<and> reply = (fst (run_command demo_engine demo_virt (node_command noop_command) host))\<lparr>cr_NodeID := ''n''\<rparr>))"
proof -
  obtain y where y: "demo_step\<^sup>*\<^sup>* demo_world y" "(0, command_packet ''n'' noop_command ''x'') \<in> set (pr_made (wd_up y))"
    "fst (sendCommandWait_receive (wd_orch y) \<lparr>wt_conn = 0, wt_chan = 0, wt_ident = ''x''\<rparr>)
      = Some (Inr (zero_CommandReply\<lparr>cr_Status := ''ok'', cr_NodeID := ''n''\<rparr>))"
    using demo_run unfolding demo_ask_def by blast
  from concurrent_replies_correct [OF demo_world_start(2,1) y] y(3) show ?thesis by (intro exI [of _ y]) auto
qed

end
