(* ===== verification/Timing.thy ===== *)
theory Timing
  imports Slave
begin

text \<open>
  Time on the connection between a master and a node. The master sends a heartbeat, waits up to five
  seconds for its reply, sleeps for ten and begins again; when a reply does not come in time it
  closes the connection (\<^verbatim>\<open>src/src/master/server.go\<close>, lines 103--113). The node works through its packets
  one by one (\<^verbatim>\<open>src/src/slave/slave.go\<close>, lines 177--195), and answers a heartbeat only after it has
  sampled the load of the processor (\<^verbatim>\<open>src/src/slave/hardware/hardware.go\<close>, line 28); so a heartbeat waits
  for the commands before it. Times are nanoseconds; the network takes none. How long the handler
  of a packet takes is an argument.
\<close>

section \<open>The two loops\<close>

definition heartbeat_timeout :: int where
  "heartbeat_timeout = 5 * second"

definition heartbeat_pause :: int where
  "heartbeat_pause = 10 * second"

definition cpu_sample :: int where
  "cpu_sample = 3 * second"

text \<open>The packet loop of the node: when a packet that arrives at \<open>a\<close> and takes \<open>d\<close> is done, if the loop is
  free from \<open>free\<close> on; and for a sequence of packets, in the order of their arrival.\<close>

definition job_end :: "int \<Rightarrow> int \<times> int \<Rightarrow> int" where
  "job_end free job = max free (fst job) + snd job"

definition serve_queue :: "int \<Rightarrow> (int \<times> int) list \<Rightarrow> int" where
  "serve_queue free jobs = foldl job_end free jobs"

text \<open>The heartbeat loop of the master, for a number of turns: the heartbeat of this turn is sent at \<open>h\<close>, and
  \<open>hb\<close> is what its handler takes. The result is the time at which the connection is given up, if it is.\<close>

fun heartbeat_loop :: "nat \<Rightarrow> int \<Rightarrow> int \<Rightarrow> int \<Rightarrow> (int \<times> int) list \<Rightarrow> int option" where
  "heartbeat_loop 0 hb h free cmds = None"
| "heartbeat_loop (Suc n) hb h free cmds =
     (let earlier = takeWhile (\<lambda>c. fst c \<le> h) cmds;
          answered = job_end (serve_queue free earlier) (h, hb)
      in if h + heartbeat_timeout < answered then Some (h + heartbeat_timeout)
         else heartbeat_loop n hb (answered + heartbeat_pause) answered (dropWhile (\<lambda>c. fst c \<le> h) cmds))"

section \<open>Commands with pauses in between\<close>

text \<open>Each command leaves room for the next heartbeat, and the next one comes after it is done.\<close>

fun spaced :: "int \<Rightarrow> (int \<times> int) list \<Rightarrow> bool" where
  "spaced hb [] = True"
| "spaced hb [c] = (0 \<le> snd c \<and> snd c + hb \<le> heartbeat_timeout)"
| "spaced hb (c # c' # cs) = (0 \<le> snd c \<and> snd c + hb \<le> heartbeat_timeout
     \<and> fst c + snd c + heartbeat_timeout \<le> fst c' \<and> spaced hb (c' # cs))"

lemma spaced_tl: "spaced hb (c # cs) \<Longrightarrow> spaced hb cs"
  by (cases cs) auto

lemma spaced_dropWhile: "spaced hb cs \<Longrightarrow> spaced hb (dropWhile P cs)"
  by (induction cs) (auto dest: spaced_tl)

lemma serve_spaced:
  assumes "spaced hb cs" "free \<le> h" "list_all (\<lambda>c. fst c \<le> h) cs" "0 \<le> hb" "hb \<le> heartbeat_timeout"
    and "cs = [] \<or> free \<le> fst (hd cs) + heartbeat_timeout"
  shows "serve_queue free cs + hb \<le> h + heartbeat_timeout"
  using assms
proof (induction cs arbitrary: free)
  case (Cons c cs)
  show ?case
  proof (cases cs)
    case Nil
    then show ?thesis using Cons.prems by (auto simp: serve_queue_def job_end_def)
  next
    case (Cons c' cs')
    let ?f = "job_end free c"
    have t: "0 \<le> heartbeat_timeout" by (simp add: heartbeat_timeout_def second_def)
    have "?f \<le> fst c'" using Cons.prems(1,6) Cons t by (auto simp: job_end_def max_def)
    moreover have "fst c' \<le> h" using Cons.prems(3) Cons by simp
    moreover note t
    ultimately have "serve_queue ?f cs + hb \<le> h + heartbeat_timeout"
      using Cons.IH [of ?f] Cons.prems Cons spaced_tl by auto
    then show ?thesis by (simp add: serve_queue_def)
  qed
qed (simp add: serve_queue_def)

lemma heartbeat_loop_spaced:
  assumes "0 \<le> hb" "hb \<le> heartbeat_timeout" "spaced hb cmds" "free \<le> h" "cmds = [] \<or> free \<le> fst (hd cmds) + heartbeat_timeout"
  shows "heartbeat_loop n hb h free cmds = None"
  using assms(3-5)
proof (induction n arbitrary: h free cmds)
  case (Suc n)
  let ?earlier = "takeWhile (\<lambda>c. fst c \<le> h) cmds" and ?later = "dropWhile (\<lambda>c. fst c \<le> h) cmds"
  let ?answered = "job_end (serve_queue free ?earlier) (h, hb)"
  have pos: "0 \<le> heartbeat_timeout" "0 \<le> heartbeat_pause" by (simp_all add: heartbeat_timeout_def heartbeat_pause_def second_def)
  have "spaced hb ?earlier" using Suc.prems(1) by (induction cmds rule: spaced.induct) (auto split: if_splits)
  moreover have "list_all (\<lambda>c. fst c \<le> h) ?earlier" by (auto simp: list_all_iff dest: set_takeWhileD)
  moreover have "?earlier = [] \<or> free \<le> fst (hd ?earlier) + heartbeat_timeout" using Suc.prems(3) by (cases cmds) auto
  ultimately have "serve_queue free ?earlier + hb \<le> h + heartbeat_timeout"
    using serve_spaced [OF _ Suc.prems(2) _ assms(1,2)] by blast
  then have ans: "?answered \<le> h + heartbeat_timeout" using assms(2) by (auto simp: job_end_def max_def)
  have "?later = [] \<or> h < fst (hd ?later)" by (metis hd_dropWhile linorder_not_le)
  then have "heartbeat_loop n hb (?answered + heartbeat_pause) ?answered ?later = None"
    using Suc.IH [OF spaced_dropWhile [OF Suc.prems(1)], of ?answered "?answered + heartbeat_pause"] ans pos by auto
  then show ?case using ans by (simp add: Let_def)
qed simp



section \<open>Commands that take long\<close>

lemma serve_queue_mono:
  assumes "\<forall>c \<in> set cs. 0 \<le> snd c"
  shows "free \<le> serve_queue free cs"
  using assms
proof (induction cs arbitrary: free)
  case (Cons c cs)
  have "free \<le> job_end free c" using Cons.prems by (auto simp: job_end_def max_def)
  also have "\<dots> \<le> serve_queue (job_end free c) cs" using Cons by simp
  finally show ?case by (simp add: serve_queue_def)
qed (simp add: serve_queue_def)

lemma blocked_heartbeat:
  assumes "a \<le> h" "h + heartbeat_timeout < a + d + hb" "\<forall>c \<in> set cmds. 0 \<le> snd c"
  shows "heartbeat_loop (Suc n) hb h free ((a, d) # cmds) = Some (h + heartbeat_timeout)"
proof -
  let ?rest = "takeWhile (\<lambda>c. fst c \<le> h) cmds"
  have "a + d \<le> job_end free (a, d)" by (simp add: job_end_def)
  also have "\<dots> \<le> serve_queue (job_end free (a, d)) ?rest"
    using assms(3) by (intro serve_queue_mono) (auto dest: set_takeWhileD)
  also have "\<dots> = serve_queue free ((a, d) # ?rest)" by (simp add: serve_queue_def)
  finally have "h + heartbeat_timeout < job_end (serve_queue free ((a, d) # ?rest)) (h, hb)"
    using assms(2) by (simp add: job_end_def)
  then show ?thesis using assms(1) by (simp add: Let_def)
qed

lemma long_command_blocks:
  assumes "0 \<le> hb" "hb \<le> heartbeat_timeout" "heartbeat_pause + heartbeat_timeout \<le> d" "\<forall>c \<in> set cmds. 0 \<le> snd c"
    and "free \<le> h" "h < a + hb + heartbeat_pause"
  shows "\<exists>n t. heartbeat_loop n hb h free ((a, d) # cmds) = Some t \<and> t \<le> a + hb + heartbeat_pause + heartbeat_timeout"
  using assms(5,6)
proof (induction "nat (a - h)" arbitrary: h free rule: less_induct)
  case less
  show ?case
  proof (cases "a \<le> h")
    case True
    with blocked_heartbeat [of a h d hb cmds 0 free] assms(3,4) less.prems(2) show ?thesis
      by (intro exI [of _ "Suc 0"] exI [of _ "h + heartbeat_timeout"]) simp
  next
    case False
    let ?h = "h + hb + heartbeat_pause"
    have p: "0 < heartbeat_pause" by (simp add: heartbeat_pause_def second_def)
    then have "nat (a - ?h) < nat (a - h)" using False assms(1) by simp
    from less.hyps [OF this, of "h + hb"] obtain n t where
      "heartbeat_loop n hb ?h (h + hb) ((a, d) # cmds) = Some t" "t \<le> a + hb + heartbeat_pause + heartbeat_timeout"
      using False p by auto
    then show ?thesis
      using False less.prems(1) assms(2)
      by (intro exI [of _ "Suc n"] exI [of _ t]) (simp add: serve_queue_def job_end_def max_def)
  qed
qed

text \<open>
  Claim C20. A command that takes fifteen seconds or more costs the node its connection, at whatever
  moment it arrives at an idle node and whatever is sent after it: the next heartbeat waits behind the
  command until the master gives up and closes the connection, after which commands for the node
  fail, although the node is working on its command as it was told to.
\<close>

theorem long_command_loses_node:
  assumes "0 \<le> hb" and "hb \<le> heartbeat_timeout" and "15 * second \<le> d" and "h \<le> a" and "\<forall>c \<in> set cmds. 0 \<le> snd c"
    and "nodeID \<noteq> []"
  shows "(\<exists>n t. heartbeat_loop n hb h h ((a, d) # cmds) = Some t \<and> t \<le> a + hb + 15 * second)
    \<and> fst (sendCommandToNodeWait_begin (node_close ms k nodeID) nodeID p newID) = Inl ''node not connected''"
proof
  have s: "heartbeat_pause + heartbeat_timeout = 15 * second" "0 < heartbeat_pause"
    by (simp_all add: heartbeat_pause_def heartbeat_timeout_def second_def)
  then show "\<exists>n t. heartbeat_loop n hb h h ((a, d) # cmds) = Some t \<and> t \<le> a + hb + 15 * second"
    using long_command_blocks [OF assms(1,2) _ assms(5), of d h h a] assms(1,3,4) by (simp add: add.assoc)
  show "fst (sendCommandToNodeWait_begin (node_close ms k nodeID) nodeID p newID) = Inl ''node not connected''"
    using assms(6) by (simp add: sendCommandToNodeWait_begin_def node_close_def unregisterNode_def)
qed

theorem long_command_loses_node_witness:
  "\<exists>n t. heartbeat_loop n cpu_sample 0 0 [(7 * second, 90 * second)] = Some t \<and> t \<le> 7 * second + cpu_sample + 15 * second"
  using long_command_loses_node [of cpu_sample "90 * second" 0 "7 * second" "[]" "''n''"]
  by (simp add: cpu_sample_def heartbeat_timeout_def second_def)

section \<open>Announcements and the time to live\<close>

text \<open>A master announces itself when it has logged in, at time 0, and then at every tick; what the
  store has received up to a time, and whether it lists the master then.\<close>

definition announce_period :: int where
  "announce_period = 10 * second"

definition announcements :: "nat \<Rightarrow> RMasterInfo \<Rightarrow> (int \<times> RMasterInfo) list" where
  "announcements n mi = map (\<lambda>k. (int k * announce_period, mi)) [0..<n]"

definition received :: "int \<Rightarrow> (int \<times> RMasterInfo) list \<Rightarrow> (int \<times> RMasterInfo) list" where
  "received now us = takeWhile (\<lambda>u. fst u \<le> now) us"

definition listed :: "'db gorm \<Rightarrow> 'db allowed option \<Rightarrow> int \<Rightarrow> nat \<Rightarrow> RMasterInfo \<Rightarrow> int \<Rightarrow> bool" where
  "listed G a ttlSeconds n mi now \<longleftrightarrow>
     list_ex (\<lambda>m. mi_ID (rm_info m) = mi_ID (rm_info mi))
       (MastersForCluster now [mi_ID (rm_info mi)]
         (upserts G (NewStore (ttlSeconds * second) a) (received now (announcements n mi))) (cluster_of mi))"

lemma announce_period_pos: "0 < announce_period"
  by (simp add: announce_period_def second_def)

lemma received_announcements:
  assumes "int k * announce_period \<le> now" "now < int (Suc k) * announce_period" "k < n"
  shows "received now (announcements n mi) = announcements k mi @ [(int k * announce_period, mi)]"
proof -
  have split: "[0..<n] = [0..<Suc k] @ [Suc k..<n]" using assms(3) upt_add_eq_append [of 0 "Suc k" "n - Suc k"] by simp
  have early: "int j * announce_period \<le> now" if "j \<le> k" for j
    using that assms(1) announce_period_pos by (meson mult_right_mono of_nat_mono order.trans less_imp_le)
  have "takeWhile (\<lambda>u. fst u \<le> now) (map (\<lambda>k. (int k * announce_period, mi)) [Suc k..<n]) = []"
    using assms(2) by (cases "Suc k < n") (simp_all add: upt_conv_Cons)
  then show ?thesis
    unfolding received_def announcements_def split map_append
    by (subst takeWhile_append2) (auto simp: early)
qed

lemma listed_at:
  assumes "acceptable G a mi" "cluster_of mi \<noteq> []" "0 < ttlSeconds"
    and "int k * announce_period \<le> now" "now < int (Suc k) * announce_period" "k < n"
  shows "listed G a ttlSeconds n mi now \<longleftrightarrow> now - int k * announce_period \<le> ttlSeconds * second"
proof -
  let ?us = "announcements k mi @ [(int k * announce_period, mi)]" let ?s = "upserts G (NewStore (ttlSeconds * second) a) ?us"
  have "s_masters ?s (mi_ID (rm_info mi)) = Some (mi\<lparr>rm_LastSeen := int k * announce_period\<rparr>)"
    unfolding upserts_latest latest_snoc using assms(1) by simp
  moreover have "s_ttl ?s = ttlSeconds * second" using assms(3) by (simp only: upserts_frame) (simp add: NewStore_def second_def)
  ultimately show ?thesis
    using assms(2) by (simp add: listed_def received_announcements [OF assms(4-6)] MastersForCluster_def range_values_def expired_def)
qed



end
