(* ===== verification/Addresses.thy ===== *)
theory Addresses
  imports Slave
begin

text \<open>
  The addresses of the local interfaces, \<^verbatim>\<open>getLocalIPs\<close> and \<^verbatim>\<open>addrToIP\<close> of
  \<^verbatim>\<open>src/src/master/orchestrator_client.go\<close> (lines 439--493). The interfaces that the operating system
  reports are an argument, each with the result of its \<^verbatim>\<open>Addrs\<close>. Shown: exactly the IPv4 addresses of
  the interfaces that are up and no loopback are listed, in a notation from which they can be read back.
\<close>

unbundle bit_operations_syntax

section \<open>Addresses\<close>

text \<open>The implementations of \<^verbatim>\<open>net.Addr\<close>, with \<^term>\<open>None\<close> for a \<^verbatim>\<open>nil\<close> address; another one by how it is printed.\<close>

datatype net_addr = IPNet "bytes option" | IPAddr "bytes option" | OtherAddr string

record net_iface =
  if_Flags :: "64 word"
  if_Addrs :: "goerror + net_addr list"

definition FlagUp :: "64 word" where
  "FlagUp = 1"

definition FlagLoopback :: "64 word" where
  "FlagLoopback = 4"

text \<open>\<^verbatim>\<open>net.IP.To4\<close>: four bytes as they are, or the end of a mapped address; and the dotted notation.\<close>

definition To4 :: "bytes \<Rightarrow> bytes option" where
  "To4 ip = (if length ip = 4 then Some ip
             else if length ip = 16 \<and> take 12 ip = replicate 10 0 @ [0xff, 0xff] then Some (drop 12 ip) else None)"

definition ip4_string :: "bytes \<Rightarrow> string" where
  "ip4_string ip = join_with ''.'' (map (\<lambda>b. show_nat (unat b)) ip)"

definition ip4_of :: "bytes option \<Rightarrow> string" where
  "ip4_of ip = (case ip of None \<Rightarrow> [] | Some ip \<Rightarrow> (case To4 ip of None \<Rightarrow> [] | Some ip4 \<Rightarrow> ip4_string ip4))"

definition addrToIP :: "net_addr \<Rightarrow> string" where
  "addrToIP a = (case a of IPNet ip \<Rightarrow> ip4_of ip | IPAddr ip \<Rightarrow> ip4_of ip | OtherAddr s \<Rightarrow> s)"

fun addr_loop :: "net_addr list \<Rightarrow> string list" where
  "addr_loop [] = []"
| "addr_loop (a # as) = (if addrToIP a = [] then addr_loop as else addrToIP a # addr_loop as)"

fun iface_loop :: "net_iface list \<Rightarrow> string list" where
  "iface_loop [] = []"
| "iface_loop (i # is) =
     (if if_Flags i AND FlagUp = 0 then iface_loop is
      else if if_Flags i AND FlagLoopback \<noteq> 0 then iface_loop is
      else case if_Addrs i of Inl e \<Rightarrow> iface_loop is | Inr as \<Rightarrow> addr_loop as @ iface_loop is)"

definition getLocalIPs :: "goerror + net_iface list \<Rightarrow> string list" where
  "getLocalIPs ifaces = (case ifaces of Inl e \<Rightarrow> [] | Inr is \<Rightarrow> iface_loop is)"

section \<open>Reading them back\<close>

lemma addr_loop_set: "set (addr_loop as) = addrToIP ` set as - {[]}"
  by (induction as) auto

lemma iface_loop_set: "set (iface_loop is) =
    (\<Union>i \<in> {i \<in> set is. bit (if_Flags i) 0 \<and> \<not> bit (if_Flags i) 2}. case if_Addrs i of Inl e \<Rightarrow> {} | Inr as \<Rightarrow> addrToIP ` set as - {[]})"
proof (induction "is")
  case (Cons i "is")
  have "if_Flags i AND FlagUp = 0 \<longleftrightarrow> \<not> bit (if_Flags i) 0"
    by (auto simp: FlagUp_def and_one_eq bit_0 odd_iff_mod_2_eq_one split: if_splits)
  moreover have "if_Flags i AND FlagLoopback = 0 \<longleftrightarrow> \<not> bit (if_Flags i) 2"
    using and_exp_eq_0_iff_not_bit [of "if_Flags i" 2] by (simp add: FlagLoopback_def)
  ultimately show ?case using Cons by (auto simp: addr_loop_set split: sum.splits)
qed simp

lemma show_nat_zero_head: "hd (show_nat n) = CHR ''0'' \<Longrightarrow> length (show_nat n) = 1"
proof (induction n rule: show_nat.induct)
  case (1 n)
  show ?case
  proof (cases "n < 10")
    case True
    then show ?thesis by (subst show_nat.simps) simp
  next
    case False
    have s: "show_nat n = show_nat (n div 10) @ [digit_char (n mod 10)]" using False by (subst show_nat.simps) simp
    then have "hd (show_nat (n div 10)) = CHR ''0''" using 1(2) by simp
    then have "length (show_nat (n div 10)) = 1" using 1(1) False by blast
    then have "show_nat (n div 10) = [CHR ''0'']" using \<open>hd (show_nat (n div 10)) = CHR ''0''\<close> by (cases "show_nat (n div 10)") auto
    then have "n div 10 = 0" using read_show_nat [of "n div 10"] by (simp add: read_digits_def digit_value_def)
    then show ?thesis using False by simp
  qed
qed

lemma parse_octet_show: "parse_octet (show_nat (unat (b :: 8 word))) = Some b"
proof -
  have "(unsigned b :: nat) < 2 ^ LENGTH(8)" by (rule unsigned_less)
  then have "unat b \<le> 255" by simp
  then show ?thesis using show_nat_zero_head [of "unat b"] by (auto simp: parse_octet_def show_nat_digits)
qed

lemma show_nat_no_dot: "CHR ''.'' \<notin> set (show_nat n)"
  using show_nat_digits [of n] by (auto simp: list_all_iff is_digit_def)

lemma split_ip4: "ip \<noteq> [] \<Longrightarrow> split_on (CHR ''.'') (ip4_string ip) = map (\<lambda>b. show_nat (unat b)) ip"
proof (induction ip rule: induct_list012)
  case (3 b c ip)
  then show ?case by (simp add: ip4_string_def split_on_append show_nat_no_dot)
qed (simp_all add: ip4_string_def split_on_single show_nat_no_dot)

lemma parse_ip4_string: "length ip = 4 \<Longrightarrow> parse_ip4 (ip4_string ip) = Some ip"
  by (subst parse_ip4_def, subst split_ip4) (auto simp: parse_octet_show o_def Let_def)

lemma To4_length: "To4 ip = Some ip4 \<Longrightarrow> length ip4 = 4"
  by (auto simp: To4_def split: if_splits)

lemma ip4_string_not_Nil: "length ip = 4 \<Longrightarrow> ip4_string ip \<noteq> []"
  using parse_ip4_string [of ip] by (auto simp: parse_ip4_def parse_octet_def)

text \<open>The address of a known kind of \<^verbatim>\<open>net.Addr\<close>.\<close>

fun ip_of :: "net_addr \<Rightarrow> bytes option" where
  "ip_of (IPNet ip) = ip"
| "ip_of (IPAddr ip) = ip"
| "ip_of (OtherAddr s) = None"

definition known_addr :: "net_addr \<Rightarrow> bool" where
  "known_addr a \<longleftrightarrow> (\<forall>s. a \<noteq> OtherAddr s)"

lemma addrToIP_known:
  assumes "known_addr a"
  shows "addrToIP a \<noteq> [] \<longleftrightarrow> (\<exists>ip ip4. ip_of a = Some ip \<and> To4 ip = Some ip4)"
    and "ip_of a = Some ip \<Longrightarrow> To4 ip = Some ip4 \<Longrightarrow> addrToIP a = ip4_string ip4"
  using assms ip4_string_not_Nil To4_length
  by (cases a; fastforce simp: addrToIP_def ip4_of_def known_addr_def split: option.splits)+

text \<open>
  The list of local addresses is exact: read as IPv4 addresses, its texts are exactly the IPv4 addresses, mapped ones
  included, of the interfaces that are up, are no loopback and could be asked for their addresses; no
  address is lost or changed by printing it.
\<close>

lemma local_ips_exact:
  assumes "\<forall>i \<in> set is. \<forall>as. if_Addrs i = Inr as \<longrightarrow> (\<forall>a \<in> set as. known_addr a)"
  shows "Some ip4 \<in> parse_ip4 ` set (getLocalIPs (Inr is)) \<longleftrightarrow>
    (\<exists>i as a ip. i \<in> set is \<and> bit (if_Flags i) 0 \<and> \<not> bit (if_Flags i) 2 \<and> if_Addrs i = Inr as \<and> a \<in> set as
       \<and> ip_of a = Some ip \<and> To4 ip = Some ip4)"
    (is "?L \<longleftrightarrow> ?R")
proof
  assume ?L
  then obtain i as a where i: "i \<in> set is" "bit (if_Flags i) 0" "\<not> bit (if_Flags i) 2" "if_Addrs i = Inr as" "a \<in> set as"
    and a: "addrToIP a \<noteq> []" "parse_ip4 (addrToIP a) = Some ip4"
    by (auto simp: getLocalIPs_def iface_loop_set split: sum.splits)
  have k: "known_addr a" using assms i by blast
  obtain ip ip' where "ip_of a = Some ip" "To4 ip = Some ip'" using addrToIP_known(1) [OF k] a(1) by blast
  moreover from this have "ip' = ip4" using addrToIP_known(2) [OF k] a(2) parse_ip4_string To4_length by fastforce
  ultimately show ?R using i by blast
next
  assume ?R
  then obtain i as a ip where i: "i \<in> set is" "bit (if_Flags i) 0" "\<not> bit (if_Flags i) 2" "if_Addrs i = Inr as" "a \<in> set as"
    and a: "ip_of a = Some ip" "To4 ip = Some ip4" by blast
  have k: "known_addr a" using assms i by blast
  have "addrToIP a \<in> set (getLocalIPs (Inr is))"
    using i addrToIP_known(1) [OF k] a by (auto simp: getLocalIPs_def iface_loop_set intro!: bexI [of _ i])
  moreover have "parse_ip4 (addrToIP a) = Some ip4"
    using addrToIP_known(2) [OF k a] parse_ip4_string To4_length [OF a(2)] by simp
  ultimately show ?L by force
qed

end
