(* ===== verification/Js_Base.thy ===== *)
theory Js_Base
  imports Encoding "HOL-Library.List_Lexorder" "HOL-Library.Char_ord"
begin

text \<open>
  The part of JavaScript that the bundled Font Awesome scripts
  (\<^verbatim>\<open>src/static/fa6/js\<close>) use. An object is the list of its own properties in creation order;
  a read also sees the members of \<^verbatim>\<open>Object.prototype\<close>, an assignment replaces the property in
  place or appends it, and \<^verbatim>\<open>Object.keys\<close> lists canonical array indices first, in ascending order.
  The Babel helpers of the bundles (object spread, spread of arrays, property definition) are the
  operations on these lists. Strings are \<^typ>\<open>string\<close>, one \<^typ>\<open>char\<close> per UTF-16 code unit, so
  code units above 255 are outside the model except where a definition takes a list of code units.
  The property name \<^verbatim>\<open>__proto__\<close>, whose assignment is a setter call, is never assigned.
\<close>

named_theorems js_simps \<open>evaluation of the small JavaScript helpers\<close>

section \<open>Objects\<close>

type_synonym 'a obj = "(string \<times> 'a) list"

datatype 'a propval = Own 'a | Inherited string | Absent

definition object_prototype :: "string list" where
  "object_prototype =
    [''constructor'', ''__defineGetter__'', ''__defineSetter__'', ''hasOwnProperty'',
     ''__lookupGetter__'', ''__lookupSetter__'', ''isPrototypeOf'', ''propertyIsEnumerable'',
     ''toString'', ''valueOf'', ''__proto__'', ''toLocaleString'']"

definition get_prop :: "'a obj \<Rightarrow> string \<Rightarrow> 'a propval" where
  "get_prop ob k = (case map_of ob k of
       Some v \<Rightarrow> Own v
     | None \<Rightarrow> if k \<in> set object_prototype then Inherited k else Absent)"

text \<open>The \<^verbatim>\<open>in\<close> operator.\<close>

definition js_in :: "string \<Rightarrow> 'a obj \<Rightarrow> bool" where
  "js_in k ob \<longleftrightarrow> get_prop ob k \<noteq> Absent"

fun obj_set :: "'a obj \<Rightarrow> string \<Rightarrow> 'a \<Rightarrow> 'a obj" where
  "obj_set [] k v = [(k, v)]"
| "obj_set ((j, w) # ob) k v = (if j = k then (k, v) # ob else (j, w) # obj_set ob k v)"

definition obj_delete :: "'a obj \<Rightarrow> string \<Rightarrow> 'a obj" where
  "obj_delete ob k = filter (\<lambda>(j, w). j \<noteq> k) ob"

text \<open>Canonical array indices: decimal numerals without leading zeros, below \<open>2 ^ 32 - 1\<close>.\<close>

definition is_index :: "string \<Rightarrow> bool" where
  "is_index k \<longleftrightarrow> k \<noteq> [] \<and> list_all is_digit k \<and> (hd k \<noteq> CHR ''0'' \<or> k = ''0'')
     \<and> read_digits k < 2 ^ 32 - 1"

definition obj_keys :: "'a obj \<Rightarrow> string list" where
  "obj_keys ob =
     (let ks = map fst ob in
      map show_nat (sort (map read_digits (filter is_index ks))) @ filter (\<lambda>k. \<not> is_index k) ks)"

text \<open>\<^verbatim>\<open>_objectSpread2(a, b)\<close>: copies the own properties of \<open>b\<close> into \<open>a\<close>, in key order.\<close>

definition spread :: "'a obj \<Rightarrow> 'a obj \<Rightarrow> 'a obj" where
  "spread a b = fold (\<lambda>k ob. case map_of b k of Some v \<Rightarrow> obj_set ob k v | None \<Rightarrow> ob) (obj_keys b) a"

text \<open>\<^verbatim>\<open>fastReduceObject\<close>; every call in the bundle passes an initial value.\<close>

definition js_reduce :: "('b obj) \<Rightarrow> ('a \<Rightarrow> 'b \<Rightarrow> string \<Rightarrow> 'a) \<Rightarrow> 'a \<Rightarrow> 'a" where
  "js_reduce subject fn initial =
     fold (\<lambda>k acc. case map_of subject k of Some v \<Rightarrow> fn acc v k | None \<Rightarrow> acc) (obj_keys subject) initial"

subsection \<open>Laws\<close>

lemma map_of_obj_set [simp]: "map_of (obj_set ob k v) = (map_of ob)(k \<mapsto> v)"
  by (induction ob k v rule: obj_set.induct) auto

lemma fst_obj_set: "fst ` set (obj_set ob k v) = insert k (fst ` set ob)"
  by (induction ob k v rule: obj_set.induct) auto

lemma map_fst_obj_set:
  "map fst (obj_set ob k v) = (if k \<in> fst ` set ob then map fst ob else map fst ob @ [k])"
  by (induction ob k v rule: obj_set.induct) auto

lemma distinct_obj_set: "distinct (map fst ob) \<Longrightarrow> distinct (map fst (obj_set ob k v))"
  by (simp add: map_fst_obj_set)

lemma map_of_obj_delete [simp]: "map_of (obj_delete ob k) = (map_of ob)(k := None)"
  by (induction ob) (auto simp: obj_delete_def fun_eq_iff)

lemma get_prop_obj_set [simp]: "get_prop (obj_set ob k v) j = (if j = k then Own v else get_prop ob j)"
  by (simp add: get_prop_def)

lemma get_prop_Nil [simp]: "get_prop [] k = (if k \<in> set object_prototype then Inherited k else Absent)"
  by (simp add: get_prop_def)

lemma show_read_digits: "is_index k \<Longrightarrow> show_nat (read_digits k) = k"
proof -
  have "show_nat (read_digits (c # cs)) = c # cs"
    if "list_all is_digit (c # cs)" "c \<noteq> CHR ''0'' \<or> cs = []" for c cs
    using that
  proof (induction cs rule: rev_induct)
    case Nil
    then show ?case
      by (subst show_nat.simps) (auto simp: read_digits_def is_digit_def digit_char_def digit_value_def)
  next
    case (snoc d cs)
    have pos: "0 < read_digits (c # cs)"
    proof (rule ccontr)
      assume "\<not> 0 < read_digits (c # cs)"
      then have "show_nat 0 = c # cs" using snoc by auto
      then show False using snoc by (subst (asm) show_nat.simps) (auto simp: digit_char_def char_of_def bit_0)
    qed
    have d: "digit_value d < 10" "digit_char (digit_value d) = d"
      using snoc.prems by (auto simp: is_digit_def digit_char_def digit_value_def)
    have "read_digits (c # cs @ [d]) = 10 * read_digits (c # cs) + digit_value d"
      by (simp add: read_digits_def)
    with pos d snoc show ?case by (subst show_nat.simps) auto
  qed
  then show "is_index k \<Longrightarrow> ?thesis" by (cases k) (auto simp: is_index_def)
qed

lemma set_obj_keys: "set (obj_keys ob) = fst ` set ob"
proof -
  have "show_nat ` read_digits ` {k \<in> fst ` set ob. is_index k} = {k \<in> fst ` set ob. is_index k}"
    by (force simp: show_read_digits image_iff)
  then show ?thesis by (auto simp: obj_keys_def Let_def)
qed

lemma fold_set_map_of:
  "map_of (fold (\<lambda>k ob. case map_of b k of Some v \<Rightarrow> obj_set ob k v | None \<Rightarrow> ob) ks a) j =
     (if j \<in> set ks \<and> j \<in> dom (map_of b) then map_of b j else map_of a j)"
  by (induction ks arbitrary: a) (auto split: option.splits)

text \<open>A spread is the override of maps.\<close>

lemma map_of_spread [simp]: "map_of (spread a b) = map_of a ++ map_of b"
proof
  fix j
  have "(j \<in> fst ` set b) = (j \<in> dom (map_of b))" by (simp add: dom_map_of_conv_image_fst)
  then show "map_of (spread a b) j = (map_of a ++ map_of b) j"
    by (auto simp: spread_def fold_set_map_of set_obj_keys map_add_def split: option.splits)
qed

section \<open>Primitive values\<close>

text \<open>\<open>Builtin n\<close> is the member \<open>n\<close> of \<^verbatim>\<open>Object.prototype\<close>, an object and so truthy.\<close>

datatype jsv = Undefined | Null | JStr string | JBool bool | JNum int | Builtin string

fun truthy :: "jsv \<Rightarrow> bool" where
  "truthy Undefined = False"
| "truthy Null = False"
| "truthy (JStr s) = (s \<noteq> [])"
| "truthy (JBool b) = b"
| "truthy (JNum n) = (n \<noteq> 0)"
| "truthy (Builtin n) = True"

text \<open>The operator \<^verbatim>\<open>||\<close>.\<close>

definition js_or :: "jsv \<Rightarrow> jsv \<Rightarrow> jsv" where
  "js_or a b = (if truthy a then a else b)"

text \<open>Conversion to a string, in concatenation and as a property name.\<close>

fun to_str :: "jsv \<Rightarrow> string" where
  "to_str Undefined = ''undefined''"
| "to_str Null = ''null''"
| "to_str (JStr s) = s"
| "to_str (JBool b) = (if b then ''true'' else ''false'')"
| "to_str (JNum n) = show_int n"
| "to_str (Builtin n) =
     (if n = ''__proto__'' then ''[object Object]''
      else if n = ''constructor'' then ''function Object() { [native code] }''
      else ''function '' @ n @ ''() { [native code] }'')"

definition of_prop :: "('a \<Rightarrow> jsv) \<Rightarrow> 'a propval \<Rightarrow> jsv" where
  "of_prop f p = (case p of Own v \<Rightarrow> f v | Inherited n \<Rightarrow> Builtin n | Absent \<Rightarrow> Undefined)"

definition get_str :: "string obj \<Rightarrow> jsv \<Rightarrow> jsv" where
  "get_str ob k = of_prop JStr (get_prop ob (to_str k))"

definition get_jsv :: "jsv obj \<Rightarrow> string \<Rightarrow> jsv" where
  "get_jsv ob k = of_prop (\<lambda>v. v) (get_prop ob k)"

lemma js_or_simps [simp, js_simps]:
  "js_or Undefined b = b" "js_or Null b = b" "js_or (Builtin n) b = Builtin n"
  "js_or (JStr s) b = (if s = [] then b else JStr s)"
  by (simp_all add: js_or_def)

section \<open>Strings\<close>

definition js_space :: "char \<Rightarrow> bool" where
  "js_space c \<longleftrightarrow> c \<in> {CHR 0x09, CHR 0x0A, CHR 0x0B, CHR 0x0C, CHR 0x0D, CHR 0x20, CHR 0xA0}"

definition js_trim :: "string \<Rightarrow> string" where
  "js_trim s = rev (dropWhile js_space (rev (dropWhile js_space s)))"

definition js_lower_char :: "char \<Rightarrow> char" where
  "js_lower_char c =
     (let n = (of_char c :: nat) in
      if 65 \<le> n \<and> n \<le> 90 \<or> 192 \<le> n \<and> n \<le> 222 \<and> n \<noteq> 215 then char_of (n + 32) else c)"

definition toLowerCase :: "string \<Rightarrow> string" where
  "toLowerCase s = map js_lower_char s"

fun is_infix :: "string \<Rightarrow> string \<Rightarrow> bool" where
  "is_infix p [] = (p = [])"
| "is_infix p (c # cs) = (starts_with p (c # cs) \<or> is_infix p cs)"

text \<open>\<^verbatim>\<open>s.replace(p, r)\<close> with a string pattern replaces the first occurrence; with the global
  pattern that matches the non-empty literal \<open>p\<close> it replaces every one, from the left.\<close>

fun replace_first :: "string \<Rightarrow> string \<Rightarrow> string \<Rightarrow> string" where
  "replace_first p r [] = (if p = [] then r else [])"
| "replace_first p r (c # cs) =
     (if starts_with p (c # cs) then r @ drop (length p) (c # cs) else c # replace_first p r cs)"

function replace_all :: "string \<Rightarrow> string \<Rightarrow> string \<Rightarrow> string" where
  "replace_all p r s =
     (if s = [] then []
      else if p \<noteq> [] \<and> starts_with p s then r @ replace_all p r (drop (length p) s)
      else hd s # replace_all p r (tl s))"
  by pat_completeness auto
termination by (relation "measure (\<lambda>(p, r, s). length s)") auto

declare replace_all.simps [simp del]

fun hex_nat :: "nat \<Rightarrow> string" where
  "hex_nat n = (if n < 16 then [''0123456789abcdef'' ! n]
                else hex_nat (n div 16) @ [''0123456789abcdef'' ! (n mod 16)])"

declare hex_nat.simps [simp del]

text \<open>\<^verbatim>\<open>arr.sort().filter((v, i, a) => a.indexOf(v) === i)\<close>, with the code-unit order.\<close>

definition sortedUniqueValues :: "string list \<Rightarrow> string list" where
  "sortedUniqueValues arr = (let s = sort arr in
     map fst (filter (\<lambda>(v, i). find (\<lambda>j. s ! j = v) [0..<length s] = Some i) (zip s [0..<length s])))"

section \<open>The environment\<close>

text \<open>What a script sees of the global objects: \<^verbatim>\<open>window\<close> with its document and user agent, and of
  \<^verbatim>\<open>document\<close> the members it asks for. An object that is not there has no member.\<close>

record environment =
  en_window_document :: bool
  en_userAgent :: "string option"
  en_documentElement :: bool
  en_head :: bool
  en_addEventListener :: bool
  en_createElement :: bool

definition IS_BROWSER :: "environment \<Rightarrow> bool" where
  "IS_BROWSER en = en_window_document en"

definition IS_DOM :: "environment \<Rightarrow> bool" where
  "IS_DOM en \<longleftrightarrow> en_documentElement en \<and> en_head en \<and> en_addEventListener en \<and> en_createElement en"

definition IS_IE :: "environment \<Rightarrow> bool" where
  "IS_IE en \<longleftrightarrow> (let userAgent = (case en_userAgent en of Some s \<Rightarrow> s | None \<Rightarrow> [])
     in is_infix ''MSIE'' userAgent \<or> is_infix ''Trident/'' userAgent)"

end
