(* ===== verification/Fa_Tables.thy ===== *)
theory Fa_Tables
  imports Js_Base
begin

text \<open>
  The constant tables of \<^verbatim>\<open>src/static/fa6/js/fontawesome.js\<close> (lines 275--1149): which style class
  belongs to which family and style, the short and long prefixes of every style, the font weights,
  the names reserved for modifiers, and the family proxies built from them. A table keeps the
  source's name with the prefix \<open>fa_\<close>.
\<close>

section \<open>Tables of the icon families\<close>

definition fa_Q :: "string obj obj" where
  "fa_Q =
    [(''classic'', [(''fa'', ''solid''), (''fas'', ''solid''), (''fa-solid'', ''solid''), (''far'', ''regular''), (''fa-regular'', ''regular''), (''fal'', ''light''), (''fa-light'', ''light''), (''fat'', ''thin''), (''fa-thin'', ''thin''), (''fab'', ''brands''), (''fa-brands'', ''brands'')]),
     (''duotone'', [(''fa'', ''solid''), (''fad'', ''solid''), (''fa-solid'', ''solid''), (''fa-duotone'', ''solid''), (''fadr'', ''regular''), (''fa-regular'', ''regular''), (''fadl'', ''light''), (''fa-light'', ''light''), (''fadt'', ''thin''), (''fa-thin'', ''thin'')]),
     (''sharp'', [(''fa'', ''solid''), (''fass'', ''solid''), (''fa-solid'', ''solid''), (''fasr'', ''regular''), (''fa-regular'', ''regular''), (''fasl'', ''light''), (''fa-light'', ''light''), (''fast'', ''thin''), (''fa-thin'', ''thin'')]),
     (''sharp-duotone'', [(''fa'', ''solid''), (''fasds'', ''solid''), (''fa-solid'', ''solid''), (''fasdr'', ''regular''), (''fa-regular'', ''regular''), (''fasdl'', ''light''), (''fa-light'', ''light''), (''fasdt'', ''thin''), (''fa-thin'', ''thin'')]),
     (''slab'', [(''fa-regular'', ''regular''), (''faslr'', ''regular'')]),
     (''slab-press'', [(''fa-regular'', ''regular''), (''faslpr'', ''regular'')]),
     (''thumbprint'', [(''fa-light'', ''light''), (''fatl'', ''light'')]),
     (''whiteboard'', [(''fa-semibold'', ''semibold''), (''fawsb'', ''semibold'')]),
     (''notdog'', [(''fa-solid'', ''solid''), (''fans'', ''solid'')]),
     (''notdog-duo'', [(''fa-solid'', ''solid''), (''fands'', ''solid'')]),
     (''etch'', [(''fa-solid'', ''solid''), (''faes'', ''solid'')]),
     (''graphite'', [(''fa-thin'', ''thin''), (''fagt'', ''thin'')]),
     (''jelly'', [(''fa-regular'', ''regular''), (''fajr'', ''regular'')]),
     (''jelly-fill'', [(''fa-regular'', ''regular''), (''fajfr'', ''regular'')]),
     (''jelly-duo'', [(''fa-regular'', ''regular''), (''fajdr'', ''regular'')]),
     (''chisel'', [(''fa-regular'', ''regular''), (''facr'', ''regular'')]),
     (''utility'', [(''fa-semibold'', ''semibold''), (''fausb'', ''semibold'')]),
     (''utility-duo'', [(''fa-semibold'', ''semibold''), (''faudsb'', ''semibold'')]),
     (''utility-fill'', [(''fa-semibold'', ''semibold''), (''faufsb'', ''semibold'')])]"

definition fa_X :: "string obj" where
  "fa_X = [(''GROUP'', ''duotone-group''), (''SWAP_OPACITY'', ''swap-opacity''), (''PRIMARY'', ''primary''), (''SECONDARY'', ''secondary'')]"

definition fa_Z :: "string list" where
  "fa_Z =
    [''fa-classic'', ''fa-duotone'', ''fa-sharp'', ''fa-sharp-duotone'', ''fa-thumbprint'',
     ''fa-whiteboard'', ''fa-notdog'', ''fa-notdog-duo'', ''fa-chisel'', ''fa-etch'',
     ''fa-graphite'', ''fa-jelly'', ''fa-jelly-fill'', ''fa-jelly-duo'', ''fa-slab'',
     ''fa-slab-press'', ''fa-utility'', ''fa-utility-duo'', ''fa-utility-fill'']"

definition fa_i :: string where
  "fa_i = ''classic''"

definition fa_t :: string where
  "fa_t = ''duotone''"

text \<open>The constants \<^verbatim>\<open>i, t, d, ...\<close> are the family identifiers, written out.\<close>

definition fa_dt :: "string list" where
  "fa_dt =
    [''classic'', ''duotone'', ''sharp'', ''sharp-duotone'', ''chisel'', ''etch'', ''graphite'',
     ''jelly'', ''jelly-duo'', ''jelly-fill'', ''notdog'', ''notdog-duo'', ''slab'',
     ''slab-press'', ''thumbprint'', ''utility'', ''utility-duo'', ''utility-fill'',
     ''whiteboard'']"

definition fa_ht :: "string obj" where
  "fa_ht = fold (\<lambda>(k, v) ob. obj_set ob k v)
    [(''classic'', ''Classic''), (''duotone'', ''Duotone''), (''sharp'', ''Sharp''),
     (''sharp-duotone'', ''Sharp Duotone''), (''chisel'', ''Chisel''), (''etch'', ''Etch''),
     (''graphite'', ''Graphite''), (''jelly'', ''Jelly''), (''jelly-duo'', ''Jelly Duo''),
     (''jelly-fill'', ''Jelly Fill''), (''notdog'', ''Notdog''),
     (''notdog-duo'', ''Notdog Duo''), (''slab'', ''Slab''), (''slab-press'', ''Slab Press''),
     (''thumbprint'', ''Thumbprint''), (''utility'', ''Utility''),
     (''utility-duo'', ''Utility Duo''), (''utility-fill'', ''Utility Fill''),
     (''whiteboard'', ''Whiteboard'')] []"

definition fa_yt :: "string obj obj" where
  "fa_yt =
    [(''classic'', [(''900'', ''fas''), (''400'', ''far''), (''normal'', ''far''), (''300'', ''fal''), (''100'', ''fat'')]),
     (''duotone'', [(''900'', ''fad''), (''400'', ''fadr''), (''300'', ''fadl''), (''100'', ''fadt'')]),
     (''sharp'', [(''900'', ''fass''), (''400'', ''fasr''), (''300'', ''fasl''), (''100'', ''fast'')]),
     (''sharp-duotone'', [(''900'', ''fasds''), (''400'', ''fasdr''), (''300'', ''fasdl''), (''100'', ''fasdt'')]),
     (''slab'', [(''400'', ''faslr'')]),
     (''slab-press'', [(''400'', ''faslpr'')]),
     (''whiteboard'', [(''600'', ''fawsb'')]),
     (''thumbprint'', [(''300'', ''fatl'')]),
     (''notdog'', [(''900'', ''fans'')]),
     (''notdog-duo'', [(''900'', ''fands'')]),
     (''etch'', [(''900'', ''faes'')]),
     (''graphite'', [(''100'', ''fagt'')]),
     (''chisel'', [(''400'', ''facr'')]),
     (''jelly'', [(''400'', ''fajr'')]),
     (''jelly-fill'', [(''400'', ''fajfr'')]),
     (''jelly-duo'', [(''400'', ''fajdr'')]),
     (''utility'', [(''600'', ''fausb'')]),
     (''utility-duo'', [(''600'', ''faudsb'')]),
     (''utility-fill'', [(''600'', ''faufsb'')])]"

definition fa_Kt :: "string obj obj" where
  "fa_Kt =
    [(''Font Awesome 7 Free'', [(''900'', ''fas''), (''400'', ''far'')]),
     (''Font Awesome 7 Pro'', [(''900'', ''fas''), (''400'', ''far''), (''normal'', ''far''), (''300'', ''fal''), (''100'', ''fat'')]),
     (''Font Awesome 7 Brands'', [(''400'', ''fab''), (''normal'', ''fab'')]),
     (''Font Awesome 7 Duotone'', [(''900'', ''fad''), (''400'', ''fadr''), (''normal'', ''fadr''), (''300'', ''fadl''), (''100'', ''fadt'')]),
     (''Font Awesome 7 Sharp'', [(''900'', ''fass''), (''400'', ''fasr''), (''normal'', ''fasr''), (''300'', ''fasl''), (''100'', ''fast'')]),
     (''Font Awesome 7 Sharp Duotone'', [(''900'', ''fasds''), (''400'', ''fasdr''), (''normal'', ''fasdr''), (''300'', ''fasdl''), (''100'', ''fasdt'')]),
     (''Font Awesome 7 Jelly'', [(''400'', ''fajr''), (''normal'', ''fajr'')]),
     (''Font Awesome 7 Jelly Fill'', [(''400'', ''fajfr''), (''normal'', ''fajfr'')]),
     (''Font Awesome 7 Jelly Duo'', [(''400'', ''fajdr''), (''normal'', ''fajdr'')]),
     (''Font Awesome 7 Slab'', [(''400'', ''faslr''), (''normal'', ''faslr'')]),
     (''Font Awesome 7 Slab Press'', [(''400'', ''faslpr''), (''normal'', ''faslpr'')]),
     (''Font Awesome 7 Thumbprint'', [(''300'', ''fatl''), (''normal'', ''fatl'')]),
     (''Font Awesome 7 Notdog'', [(''900'', ''fans''), (''normal'', ''fans'')]),
     (''Font Awesome 7 Notdog Duo'', [(''900'', ''fands''), (''normal'', ''fands'')]),
     (''Font Awesome 7 Etch'', [(''900'', ''faes''), (''normal'', ''faes'')]),
     (''Font Awesome 7 Graphite'', [(''100'', ''fagt''), (''normal'', ''fagt'')]),
     (''Font Awesome 7 Chisel'', [(''400'', ''facr''), (''normal'', ''facr'')]),
     (''Font Awesome 7 Whiteboard'', [(''600'', ''fawsb''), (''normal'', ''fawsb'')]),
     (''Font Awesome 7 Utility'', [(''600'', ''fausb''), (''normal'', ''fausb'')]),
     (''Font Awesome 7 Utility Duo'', [(''600'', ''faudsb''), (''normal'', ''faudsb'')]),
     (''Font Awesome 7 Utility Fill'', [(''600'', ''faufsb''), (''normal'', ''faufsb'')])]"

record family_info =
  defaultShortPrefixId :: string
  defaultStyleId :: string
  styleIds :: "string list"
  futureStyleIds :: "string list"
  defaultFontWeight :: nat

definition fa_Et :: "(string \<times> family_info) list" where
  "fa_Et =
    [(''classic'', \<lparr>defaultShortPrefixId = ''fas'', defaultStyleId = ''solid'', styleIds = [''solid'', ''regular'', ''light'', ''thin'', ''brands''], futureStyleIds = [],
       defaultFontWeight = 900\<rparr>),
     (''duotone'', \<lparr>defaultShortPrefixId = ''fad'', defaultStyleId = ''solid'', styleIds = [''solid'', ''regular'', ''light'', ''thin''], futureStyleIds = [],
       defaultFontWeight = 900\<rparr>),
     (''sharp'', \<lparr>defaultShortPrefixId = ''fass'', defaultStyleId = ''solid'', styleIds = [''solid'', ''regular'', ''light'', ''thin''], futureStyleIds = [],
       defaultFontWeight = 900\<rparr>),
     (''sharp-duotone'', \<lparr>defaultShortPrefixId = ''fasds'', defaultStyleId = ''solid'', styleIds = [''solid'', ''regular'', ''light'', ''thin''], futureStyleIds = [],
       defaultFontWeight = 900\<rparr>),
     (''chisel'', \<lparr>defaultShortPrefixId = ''facr'', defaultStyleId = ''regular'', styleIds = [''regular''], futureStyleIds = [],
       defaultFontWeight = 400\<rparr>),
     (''etch'', \<lparr>defaultShortPrefixId = ''faes'', defaultStyleId = ''solid'', styleIds = [''solid''], futureStyleIds = [],
       defaultFontWeight = 900\<rparr>),
     (''graphite'', \<lparr>defaultShortPrefixId = ''fagt'', defaultStyleId = ''thin'', styleIds = [''thin''], futureStyleIds = [],
       defaultFontWeight = 100\<rparr>),
     (''jelly'', \<lparr>defaultShortPrefixId = ''fajr'', defaultStyleId = ''regular'', styleIds = [''regular''], futureStyleIds = [],
       defaultFontWeight = 400\<rparr>),
     (''jelly-duo'', \<lparr>defaultShortPrefixId = ''fajdr'', defaultStyleId = ''regular'', styleIds = [''regular''], futureStyleIds = [],
       defaultFontWeight = 400\<rparr>),
     (''jelly-fill'', \<lparr>defaultShortPrefixId = ''fajfr'', defaultStyleId = ''regular'', styleIds = [''regular''], futureStyleIds = [],
       defaultFontWeight = 400\<rparr>),
     (''notdog'', \<lparr>defaultShortPrefixId = ''fans'', defaultStyleId = ''solid'', styleIds = [''solid''], futureStyleIds = [],
       defaultFontWeight = 900\<rparr>),
     (''notdog-duo'', \<lparr>defaultShortPrefixId = ''fands'', defaultStyleId = ''solid'', styleIds = [''solid''], futureStyleIds = [],
       defaultFontWeight = 900\<rparr>),
     (''slab'', \<lparr>defaultShortPrefixId = ''faslr'', defaultStyleId = ''regular'', styleIds = [''regular''], futureStyleIds = [],
       defaultFontWeight = 400\<rparr>),
     (''slab-press'', \<lparr>defaultShortPrefixId = ''faslpr'', defaultStyleId = ''regular'', styleIds = [''regular''], futureStyleIds = [],
       defaultFontWeight = 400\<rparr>),
     (''thumbprint'', \<lparr>defaultShortPrefixId = ''fatl'', defaultStyleId = ''light'', styleIds = [''light''], futureStyleIds = [],
       defaultFontWeight = 300\<rparr>),
     (''utility'', \<lparr>defaultShortPrefixId = ''fausb'', defaultStyleId = ''semibold'', styleIds = [''semibold''], futureStyleIds = [],
       defaultFontWeight = 600\<rparr>),
     (''utility-duo'', \<lparr>defaultShortPrefixId = ''faudsb'', defaultStyleId = ''semibold'', styleIds = [''semibold''], futureStyleIds = [],
       defaultFontWeight = 600\<rparr>),
     (''utility-fill'', \<lparr>defaultShortPrefixId = ''faufsb'', defaultStyleId = ''semibold'', styleIds = [''semibold''], futureStyleIds = [],
       defaultFontWeight = 600\<rparr>),
     (''whiteboard'', \<lparr>defaultShortPrefixId = ''fawsb'', defaultStyleId = ''semibold'', styleIds = [''semibold''], futureStyleIds = [],
       defaultFontWeight = 600\<rparr>)]"

definition fa_Mt :: "string obj obj" where
  "fa_Mt =
    [(''chisel'', [(''regular'', ''facr'')]),
     (''classic'', [(''brands'', ''fab''), (''light'', ''fal''), (''regular'', ''far''), (''solid'', ''fas''), (''thin'', ''fat'')]),
     (''duotone'', [(''light'', ''fadl''), (''regular'', ''fadr''), (''solid'', ''fad''), (''thin'', ''fadt'')]),
     (''etch'', [(''solid'', ''faes'')]),
     (''graphite'', [(''thin'', ''fagt'')]),
     (''jelly'', [(''regular'', ''fajr'')]),
     (''jelly-duo'', [(''regular'', ''fajdr'')]),
     (''jelly-fill'', [(''regular'', ''fajfr'')]),
     (''notdog'', [(''solid'', ''fans'')]),
     (''notdog-duo'', [(''solid'', ''fands'')]),
     (''sharp'', [(''light'', ''fasl''), (''regular'', ''fasr''), (''solid'', ''fass''), (''thin'', ''fast'')]),
     (''sharp-duotone'', [(''light'', ''fasdl''), (''regular'', ''fasdr''), (''solid'', ''fasds''), (''thin'', ''fasdt'')]),
     (''slab'', [(''regular'', ''faslr'')]),
     (''slab-press'', [(''regular'', ''faslpr'')]),
     (''thumbprint'', [(''light'', ''fatl'')]),
     (''utility'', [(''semibold'', ''fausb'')]),
     (''utility-duo'', [(''semibold'', ''faudsb'')]),
     (''utility-fill'', [(''semibold'', ''faufsb'')]),
     (''whiteboard'', [(''semibold'', ''fawsb'')])]"

definition fa_Ht :: "string list" where
  "fa_Ht =
    [''fak'', ''fa-kit'', ''fakd'', ''fa-kit-duotone'']"

definition fa_Qt :: "string obj obj" where
  "fa_Qt =
    [(''kit'', [(''fak'', ''kit''), (''fa-kit'', ''kit'')]),
     (''kit-duotone'', [(''fakd'', ''kit-duotone''), (''fa-kit-duotone'', ''kit-duotone'')])]"

definition fa_Xt :: "string list" where
  "fa_Xt =
    [''kit'']"

definition fa_ll :: "string obj" where
  "fa_ll = obj_set (obj_set [] ''kit'' ''Kit'') ''kit-duotone'' ''Kit Duotone''"

definition fa_sl :: "string obj obj" where
  "fa_sl =
    [(''kit'', [(''fa-kit'', ''fak'')]),
     (''kit-duotone'', [(''fa-kit-duotone'', ''fakd'')])]"

definition fa_hl :: "string obj obj" where
  "fa_hl =
    [(''Font Awesome Kit'', [(''400'', ''fak''), (''normal'', ''fak'')]),
     (''Font Awesome Kit Duotone'', [(''400'', ''fakd''), (''normal'', ''fakd'')])]"

definition fa_nl :: "string obj obj" where
  "fa_nl =
    [(''kit'', [(''fak'', ''fa-kit'')]),
     (''kit-duotone'', [(''fakd'', ''fa-kit-duotone'')])]"

definition fa_ml :: "string obj obj" where
  "fa_ml =
    [(''kit'', [(''kit'', ''fak'')]),
     (''kit-duotone'', [(''kit-duotone'', ''fakd'')])]"

text \<open>The tables of the second icon package, whose names carry the suffix \<^verbatim>\<open>$1\<close>.\<close>

definition fa_t1 :: "string obj" where
  "fa_t1 = [(''GROUP'', ''duotone-group''), (''SWAP_OPACITY'', ''swap-opacity''), (''PRIMARY'', ''primary''), (''SECONDARY'', ''secondary'')]"

definition fa_f1 :: "string list" where
  "fa_f1 =
    [''fa-classic'', ''fa-duotone'', ''fa-sharp'', ''fa-sharp-duotone'', ''fa-thumbprint'',
     ''fa-whiteboard'', ''fa-notdog'', ''fa-notdog-duo'', ''fa-chisel'', ''fa-etch'',
     ''fa-graphite'', ''fa-jelly'', ''fa-jelly-fill'', ''fa-jelly-duo'', ''fa-slab'',
     ''fa-slab-press'', ''fa-utility'', ''fa-utility-duo'', ''fa-utility-fill'']"

definition fa_wt1 :: "string obj" where
  "fa_wt1 = fold (\<lambda>(k, v) ob. obj_set ob k v)
    [(''classic'', ''Classic''), (''duotone'', ''Duotone''), (''sharp'', ''Sharp''),
     (''sharp-duotone'', ''Sharp Duotone''), (''chisel'', ''Chisel''), (''etch'', ''Etch''),
     (''graphite'', ''Graphite''), (''jelly'', ''Jelly''), (''jelly-duo'', ''Jelly Duo''),
     (''jelly-fill'', ''Jelly Fill''), (''notdog'', ''Notdog''),
     (''notdog-duo'', ''Notdog Duo''), (''slab'', ''Slab''), (''slab-press'', ''Slab Press''),
     (''thumbprint'', ''Thumbprint''), (''utility'', ''Utility''),
     (''utility-duo'', ''Utility Duo''), (''utility-fill'', ''Utility Fill''),
     (''whiteboard'', ''Whiteboard'')] []"

definition fa_dl1 :: "string obj" where
  "fa_dl1 = obj_set (obj_set [] ''kit'' ''Kit'') ''kit-duotone'' ''Kit Duotone''"

definition fa_Hl :: "string obj obj" where
  "fa_Hl =
    [(''classic'', [(''fa-brands'', ''fab''), (''fa-duotone'', ''fad''), (''fa-light'', ''fal''), (''fa-regular'', ''far''), (''fa-solid'', ''fas''), (''fa-thin'', ''fat'')]),
     (''duotone'', [(''fa-regular'', ''fadr''), (''fa-light'', ''fadl''), (''fa-thin'', ''fadt'')]),
     (''sharp'', [(''fa-solid'', ''fass''), (''fa-regular'', ''fasr''), (''fa-light'', ''fasl''), (''fa-thin'', ''fast'')]),
     (''sharp-duotone'', [(''fa-solid'', ''fasds''), (''fa-regular'', ''fasdr''), (''fa-light'', ''fasdl''), (''fa-thin'', ''fasdt'')]),
     (''slab'', [(''fa-regular'', ''faslr'')]),
     (''slab-press'', [(''fa-regular'', ''faslpr'')]),
     (''whiteboard'', [(''fa-semibold'', ''fawsb'')]),
     (''thumbprint'', [(''fa-light'', ''fatl'')]),
     (''notdog'', [(''fa-solid'', ''fans'')]),
     (''notdog-duo'', [(''fa-solid'', ''fands'')]),
     (''etch'', [(''fa-solid'', ''faes'')]),
     (''graphite'', [(''fa-thin'', ''fagt'')]),
     (''jelly'', [(''fa-regular'', ''fajr'')]),
     (''jelly-fill'', [(''fa-regular'', ''fajfr'')]),
     (''jelly-duo'', [(''fa-regular'', ''fajdr'')]),
     (''chisel'', [(''fa-regular'', ''facr'')]),
     (''utility'', [(''fa-semibold'', ''fausb'')]),
     (''utility-duo'', [(''fa-semibold'', ''faudsb'')]),
     (''utility-fill'', [(''fa-semibold'', ''faufsb'')])]"

definition fa_Y1 :: "string list obj" where
  "fa_Y1 =
    [(''classic'', [''fas'', ''far'', ''fal'', ''fat'', ''fad'']),
     (''duotone'', [''fadr'', ''fadl'', ''fadt'']),
     (''sharp'', [''fass'', ''fasr'', ''fasl'', ''fast'']),
     (''sharp-duotone'', [''fasds'', ''fasdr'', ''fasdl'', ''fasdt'']), (''slab'', [''faslr'']),
     (''slab-press'', [''faslpr'']), (''whiteboard'', [''fawsb'']),
     (''thumbprint'', [''fatl'']), (''notdog'', [''fans'']), (''notdog-duo'', [''fands'']),
     (''etch'', [''faes'']), (''graphite'', [''fagt'']), (''jelly'', [''fajr'']),
     (''jelly-fill'', [''fajfr'']), (''jelly-duo'', [''fajdr'']), (''chisel'', [''facr'']),
     (''utility'', [''fausb'']), (''utility-duo'', [''faudsb'']),
     (''utility-fill'', [''faufsb''])]"

definition fa_Xl :: "string obj obj" where
  "fa_Xl =
    [(''classic'', [(''fab'', ''fa-brands''), (''fad'', ''fa-duotone''), (''fal'', ''fa-light''), (''far'', ''fa-regular''), (''fas'', ''fa-solid''), (''fat'', ''fa-thin'')]),
     (''duotone'', [(''fadr'', ''fa-regular''), (''fadl'', ''fa-light''), (''fadt'', ''fa-thin'')]),
     (''sharp'', [(''fass'', ''fa-solid''), (''fasr'', ''fa-regular''), (''fasl'', ''fa-light''), (''fast'', ''fa-thin'')]),
     (''sharp-duotone'', [(''fasds'', ''fa-solid''), (''fasdr'', ''fa-regular''), (''fasdl'', ''fa-light''), (''fasdt'', ''fa-thin'')]),
     (''slab'', [(''faslr'', ''fa-regular'')]),
     (''slab-press'', [(''faslpr'', ''fa-regular'')]),
     (''whiteboard'', [(''fawsb'', ''fa-semibold'')]),
     (''thumbprint'', [(''fatl'', ''fa-light'')]),
     (''notdog'', [(''fans'', ''fa-solid'')]),
     (''notdog-duo'', [(''fands'', ''fa-solid'')]),
     (''etch'', [(''faes'', ''fa-solid'')]),
     (''graphite'', [(''fagt'', ''fa-thin'')]),
     (''jelly'', [(''fajr'', ''fa-regular'')]),
     (''jelly-fill'', [(''fajfr'', ''fa-regular'')]),
     (''jelly-duo'', [(''fajdr'', ''fa-regular'')]),
     (''chisel'', [(''facr'', ''fa-regular'')]),
     (''utility'', [(''fausb'', ''fa-semibold'')]),
     (''utility-duo'', [(''faudsb'', ''fa-semibold'')]),
     (''utility-fill'', [(''faufsb'', ''fa-semibold'')])]"

definition fa_V1 :: "string list" where
  "fa_V1 =
    [''fa-solid'', ''fa-regular'', ''fa-light'', ''fa-thin'', ''fa-duotone'', ''fa-brands'',
     ''fa-semibold'']"

definition fa_lo :: "string list" where
  "fa_lo =
    [''fa'', ''fas'', ''far'', ''fal'', ''fat'', ''fad'', ''fadr'', ''fadl'', ''fadt'', ''fab'',
     ''fass'', ''fasr'', ''fasl'', ''fast'', ''fasds'', ''fasdr'', ''fasdl'', ''fasdt'',
     ''faslr'', ''faslpr'', ''fawsb'', ''fatl'', ''fans'', ''fands'', ''faes'', ''fagt'',
     ''fajr'', ''fajfr'', ''fajdr'', ''facr'', ''fausb'', ''faudsb'', ''faufsb'']
    @ fa_f1 @ fa_V1"

definition fa_dollar :: "string list" where
  "fa_dollar = [''solid'', ''regular'', ''light'', ''thin'', ''duotone'', ''brands'', ''semibold'']"

definition fa_z1 :: "nat list" where
  "fa_z1 = [1, 2, 3, 4, 5, 6, 7, 8, 9, 10]"

definition fa_q1 :: "nat list" where
  "fa_q1 = fa_z1 @ [11, 12, 13, 14, 15, 16, 17, 18, 19, 20]"

definition fa_H1 :: "string list" where
  "fa_H1 =
    [''aw'', ''fw'', ''pull-left'', ''pull-right'']"

definition fa_so :: "string list" where
  "fa_so = obj_keys fa_Y1 @ fa_dollar @ fa_H1 @
    [''2xs'', ''xs'', ''sm'', ''lg'', ''xl'', ''2xl'', ''beat'', ''border'', ''fade'',
     ''beat-fade'', ''bounce'', ''flip-both'', ''flip-horizontal'', ''flip-vertical'', ''flip'',
     ''inverse'', ''layers'', ''layers-bottom-left'', ''layers-bottom-right'',
     ''layers-counter'', ''layers-text'', ''layers-top-left'', ''layers-top-right'', ''li'',
     ''pull-end'', ''pull-start'', ''pulse'', ''rotate-180'', ''rotate-270'', ''rotate-90'',
     ''rotate-by'', ''shake'', ''spin-pulse'', ''spin-reverse'', ''spin'', ''stack-1x'',
     ''stack-2x'', ''stack'', ''ul'', ''width-auto'', ''width-fixed'', ''duotone-group'',
     ''swap-opacity'', ''primary'', ''secondary'']
    @ map (\<lambda>n. show_nat n @ ''x'') fa_z1 @ map (\<lambda>n. ''w-'' @ show_nat n) fa_q1"

definition fa_fo :: "string obj obj" where
  "fa_fo =
    [(''Font Awesome 5 Free'', [(''900'', ''fas''), (''400'', ''far'')]),
     (''Font Awesome 5 Pro'', [(''900'', ''fas''), (''400'', ''far''), (''normal'', ''far''), (''300'', ''fal'')]),
     (''Font Awesome 5 Brands'', [(''400'', ''fab''), (''normal'', ''fab'')]),
     (''Font Awesome 5 Duotone'', [(''900'', ''fad'')])]"

section \<open>Constants and family proxies\<close>

definition DEFAULT_CSS_PREFIX :: string where
  "DEFAULT_CSS_PREFIX = ''fa''"

definition DEFAULT_REPLACEMENT_CLASS :: string where
  "DEFAULT_REPLACEMENT_CLASS = ''svg-inline--fa''"

definition DATA_FA_I2SVG :: string where
  "DATA_FA_I2SVG = ''data-fa-i2svg''"

definition DATA_FA_PSEUDO_ELEMENT :: string where
  "DATA_FA_PSEUDO_ELEMENT = ''data-fa-pseudo-element''"

definition DATA_FA_PSEUDO_ELEMENT_PENDING :: string where
  "DATA_FA_PSEUDO_ELEMENT_PENDING = ''data-fa-pseudo-element-pending''"

definition DATA_PREFIX :: string where
  "DATA_PREFIX = ''data-prefix''"

definition DATA_ICON :: string where
  "DATA_ICON = ''data-icon''"

definition LAYERS_TEXT_CLASSNAME :: string where
  "LAYERS_TEXT_CLASSNAME = ''fa-layers-text''"

definition TAGNAMES_TO_SKIP_FOR_PSEUDOELEMENTS :: "string list" where
  "TAGNAMES_TO_SKIP_FOR_PSEUDOELEMENTS = [''HTML'', ''HEAD'', ''STYLE'', ''SCRIPT'']"

definition PSEUDO_ELEMENTS :: "string list" where
  "PSEUDO_ELEMENTS = [''::before'', ''::after'', '':before'', '':after'']"

definition ATTRIBUTES_WATCHED_FOR_MUTATION :: "string list" where
  "ATTRIBUTES_WATCHED_FOR_MUTATION =
     [''class'', ''data-prefix'', ''data-icon'', ''data-fa-transform'', ''data-fa-mask'']"

text \<open>A property of an object that has it.\<close>

definition own :: "'a list obj \<Rightarrow> string \<Rightarrow> 'a list" where
  "own ob k = (case map_of ob k of Some v \<Rightarrow> v | None \<Rightarrow> [])"

text \<open>
  \<^verbatim>\<open>familyProxy\<close>: a read of a property the target does not have gives the classic family. A name
  inherited from \<^verbatim>\<open>Object.prototype\<close> is in the target: the read gives that builtin, which has
  none of the style names as properties, so it counts as an object without own properties.
\<close>

definition familyProxy :: "'a obj obj \<Rightarrow> string \<Rightarrow> 'a obj" where
  "familyProxy target k = (case get_prop target k of
       Own v \<Rightarrow> v
     | Inherited n \<Rightarrow> []
     | Absent \<Rightarrow> own target fa_i)"

definition PREFIX_TO_STYLE_table :: "string obj obj" where
  "PREFIX_TO_STYLE_table = obj_set (spread [] fa_Q) fa_i
     (spread (spread (spread (spread [] [(''fa-duotone'', ''duotone'')]) (own fa_Q fa_i))
        (own fa_Qt ''kit'')) (own fa_Qt ''kit-duotone''))"

definition STYLE_TO_PREFIX_table :: "string obj obj" where
  "STYLE_TO_PREFIX_table = obj_set (spread [] fa_Mt) fa_i
     (spread (spread (spread (spread [] [(''duotone'', ''fad'')]) (own fa_Mt fa_i))
        (own fa_ml ''kit'')) (own fa_ml ''kit-duotone''))"

definition PREFIX_TO_LONG_STYLE_table :: "string obj obj" where
  "PREFIX_TO_LONG_STYLE_table = obj_set (spread [] fa_Xl) fa_i
     (spread (spread [] (own fa_Xl fa_i)) (own fa_nl ''kit''))"

definition LONG_STYLE_TO_PREFIX_table :: "string obj obj" where
  "LONG_STYLE_TO_PREFIX_table = obj_set (spread [] fa_Hl) fa_i
     (spread (spread [] (own fa_Hl fa_i)) (own fa_sl ''kit''))"

definition PREFIX_TO_STYLE :: "string \<Rightarrow> string obj" where
  "PREFIX_TO_STYLE = familyProxy PREFIX_TO_STYLE_table"

definition STYLE_TO_PREFIX :: "string \<Rightarrow> string obj" where
  "STYLE_TO_PREFIX = familyProxy STYLE_TO_PREFIX_table"

definition PREFIX_TO_LONG_STYLE :: "string \<Rightarrow> string obj" where
  "PREFIX_TO_LONG_STYLE = familyProxy PREFIX_TO_LONG_STYLE_table"

definition LONG_STYLE_TO_PREFIX :: "string \<Rightarrow> string obj" where
  "LONG_STYLE_TO_PREFIX = familyProxy LONG_STYLE_TO_PREFIX_table"

definition FONT_WEIGHT_TO_PREFIX :: "string \<Rightarrow> string obj" where
  "FONT_WEIGHT_TO_PREFIX = familyProxy (spread [] fa_yt)"

definition RESERVED_CLASSES :: "string list" where
  "RESERVED_CLASSES = fa_Xt @ fa_so"

text \<open>\<^verbatim>\<open>ICON_SELECTION_SYNTAX_PATTERN\<close>: somewhere \<^verbatim>\<open>fa\<close>, an optional style suffix, a dash or a blank.\<close>

definition selection_suffixes :: "string list" where
  "selection_suffixes = [''k'', ''kd'', ''s'', ''r'', ''l'', ''t'', ''d'', ''dr'', ''dl'', ''dt'', ''b'', ''slr'',
      ''slpr'', ''wsb'', ''tl'', ''ns'', ''nds'', ''es'', ''gt'', ''jr'', ''jfr'', ''jdr'',
      ''usb'', ''ufsb'', ''udsb'', ''cr'', ''ss'', ''sr'', ''sl'', ''st'', ''sds'', ''sdr'',
      ''sdl'', ''sdt'']"

definition ICON_SELECTION_SYNTAX_PATTERN :: "string \<Rightarrow> bool" where
  "ICON_SELECTION_SYNTAX_PATTERN s \<longleftrightarrow>
     list_ex (\<lambda>x. is_infix (''fa'' @ x @ ''-'') s \<or> is_infix (''fa'' @ x @ '' '') s) ([] # selection_suffixes)"

section \<open>The tables, evaluated\<close>

lemma STYLE_TO_PREFIX_table_eval [code]:
  "STYLE_TO_PREFIX_table =
    [(''chisel'', [(''regular'', ''facr'')]),
     (''classic'', [(''duotone'', ''fad''), (''brands'', ''fab''), (''light'', ''fal''),
      (''regular'', ''far''), (''solid'', ''fas''), (''thin'', ''fat''), (''kit'', ''fak''),
      (''kit-duotone'', ''fakd'')]),
     (''duotone'', [(''light'', ''fadl''), (''regular'', ''fadr''), (''solid'', ''fad''),
      (''thin'', ''fadt'')]),
     (''etch'', [(''solid'', ''faes'')]),
     (''graphite'', [(''thin'', ''fagt'')]),
     (''jelly'', [(''regular'', ''fajr'')]),
     (''jelly-duo'', [(''regular'', ''fajdr'')]),
     (''jelly-fill'', [(''regular'', ''fajfr'')]),
     (''notdog'', [(''solid'', ''fans'')]),
     (''notdog-duo'', [(''solid'', ''fands'')]),
     (''sharp'', [(''light'', ''fasl''), (''regular'', ''fasr''), (''solid'', ''fass''),
      (''thin'', ''fast'')]),
     (''sharp-duotone'', [(''light'', ''fasdl''), (''regular'', ''fasdr''), (''solid'',
      ''fasds''), (''thin'', ''fasdt'')]),
     (''slab'', [(''regular'', ''faslr'')]),
     (''slab-press'', [(''regular'', ''faslpr'')]),
     (''thumbprint'', [(''light'', ''fatl'')]),
     (''utility'', [(''semibold'', ''fausb'')]),
     (''utility-duo'', [(''semibold'', ''faudsb'')]),
     (''utility-fill'', [(''semibold'', ''faufsb'')]),
     (''whiteboard'', [(''semibold'', ''fawsb'')])]"
  by code_simp

lemma PREFIX_TO_STYLE_table_eval [code]:
  "PREFIX_TO_STYLE_table =
    [(''classic'', [(''fa-duotone'', ''duotone''), (''fa'', ''solid''), (''fas'', ''solid''),
      (''fa-solid'', ''solid''), (''far'', ''regular''), (''fa-regular'', ''regular''), (''fal'',
      ''light''), (''fa-light'', ''light''), (''fat'', ''thin''), (''fa-thin'', ''thin''),
      (''fab'', ''brands''), (''fa-brands'', ''brands''), (''fak'', ''kit''), (''fa-kit'',
      ''kit''), (''fakd'', ''kit-duotone''), (''fa-kit-duotone'', ''kit-duotone'')]),
     (''duotone'', [(''fa'', ''solid''), (''fad'', ''solid''), (''fa-solid'', ''solid''),
      (''fa-duotone'', ''solid''), (''fadr'', ''regular''), (''fa-regular'', ''regular''),
      (''fadl'', ''light''), (''fa-light'', ''light''), (''fadt'', ''thin''), (''fa-thin'',
      ''thin'')]),
     (''sharp'', [(''fa'', ''solid''), (''fass'', ''solid''), (''fa-solid'', ''solid''),
      (''fasr'', ''regular''), (''fa-regular'', ''regular''), (''fasl'', ''light''),
      (''fa-light'', ''light''), (''fast'', ''thin''), (''fa-thin'', ''thin'')]),
     (''sharp-duotone'', [(''fa'', ''solid''), (''fasds'', ''solid''), (''fa-solid'', ''solid''),
      (''fasdr'', ''regular''), (''fa-regular'', ''regular''), (''fasdl'', ''light''),
      (''fa-light'', ''light''), (''fasdt'', ''thin''), (''fa-thin'', ''thin'')]),
     (''slab'', [(''fa-regular'', ''regular''), (''faslr'', ''regular'')]),
     (''slab-press'', [(''fa-regular'', ''regular''), (''faslpr'', ''regular'')]),
     (''thumbprint'', [(''fa-light'', ''light''), (''fatl'', ''light'')]),
     (''whiteboard'', [(''fa-semibold'', ''semibold''), (''fawsb'', ''semibold'')]),
     (''notdog'', [(''fa-solid'', ''solid''), (''fans'', ''solid'')]),
     (''notdog-duo'', [(''fa-solid'', ''solid''), (''fands'', ''solid'')]),
     (''etch'', [(''fa-solid'', ''solid''), (''faes'', ''solid'')]),
     (''graphite'', [(''fa-thin'', ''thin''), (''fagt'', ''thin'')]),
     (''jelly'', [(''fa-regular'', ''regular''), (''fajr'', ''regular'')]),
     (''jelly-fill'', [(''fa-regular'', ''regular''), (''fajfr'', ''regular'')]),
     (''jelly-duo'', [(''fa-regular'', ''regular''), (''fajdr'', ''regular'')]),
     (''chisel'', [(''fa-regular'', ''regular''), (''facr'', ''regular'')]),
     (''utility'', [(''fa-semibold'', ''semibold''), (''fausb'', ''semibold'')]),
     (''utility-duo'', [(''fa-semibold'', ''semibold''), (''faudsb'', ''semibold'')]),
     (''utility-fill'', [(''fa-semibold'', ''semibold''), (''faufsb'', ''semibold'')])]"
  by code_simp

lemma PREFIX_TO_LONG_STYLE_table_eval [code]:
  "PREFIX_TO_LONG_STYLE_table =
    [(''classic'', [(''fab'', ''fa-brands''), (''fad'', ''fa-duotone''), (''fal'', ''fa-light''),
      (''far'', ''fa-regular''), (''fas'', ''fa-solid''), (''fat'', ''fa-thin''), (''fak'',
      ''fa-kit'')]),
     (''duotone'', [(''fadr'', ''fa-regular''), (''fadl'', ''fa-light''), (''fadt'',
      ''fa-thin'')]),
     (''sharp'', [(''fass'', ''fa-solid''), (''fasr'', ''fa-regular''), (''fasl'', ''fa-light''),
      (''fast'', ''fa-thin'')]),
     (''sharp-duotone'', [(''fasds'', ''fa-solid''), (''fasdr'', ''fa-regular''), (''fasdl'',
      ''fa-light''), (''fasdt'', ''fa-thin'')]),
     (''slab'', [(''faslr'', ''fa-regular'')]),
     (''slab-press'', [(''faslpr'', ''fa-regular'')]),
     (''whiteboard'', [(''fawsb'', ''fa-semibold'')]),
     (''thumbprint'', [(''fatl'', ''fa-light'')]),
     (''notdog'', [(''fans'', ''fa-solid'')]),
     (''notdog-duo'', [(''fands'', ''fa-solid'')]),
     (''etch'', [(''faes'', ''fa-solid'')]),
     (''graphite'', [(''fagt'', ''fa-thin'')]),
     (''jelly'', [(''fajr'', ''fa-regular'')]),
     (''jelly-fill'', [(''fajfr'', ''fa-regular'')]),
     (''jelly-duo'', [(''fajdr'', ''fa-regular'')]),
     (''chisel'', [(''facr'', ''fa-regular'')]),
     (''utility'', [(''fausb'', ''fa-semibold'')]),
     (''utility-duo'', [(''faudsb'', ''fa-semibold'')]),
     (''utility-fill'', [(''faufsb'', ''fa-semibold'')])]"
  by code_simp

end
