(* ===== verification/Fa_Config.thy ===== *)
theory Fa_Config
  imports Fa_Tables
begin

text \<open>
  Configuration of \<^verbatim>\<open>src/static/fa6/js/fontawesome.js\<close> (lines 1151--1237) and the small utilities
  that follow it. The page is an argument: \<open>script_attr a\<close> is the value of the attribute \<open>a\<close> of the
  first script element that carries it, if there is one. The object \<^verbatim>\<open>config\<close> has an accessor for
  each default and one for \<^verbatim>\<open>familyPrefix\<close>; any other property is a plain one, absent until a
  caller assigns it, so it is kept apart in \<open>cf_extra\<close>.
\<close>

section \<open>Loading\<close>

definition config_attrs :: "(string \<times> string) list" where
  "config_attrs =
    [(''data-family-prefix'', ''familyPrefix''), (''data-css-prefix'', ''cssPrefix''),
     (''data-family-default'', ''familyDefault''), (''data-style-default'', ''styleDefault''),
     (''data-replacement-class'', ''replacementClass''), (''data-auto-replace-svg'', ''autoReplaceSvg''),
     (''data-auto-add-css'', ''autoAddCss''), (''data-search-pseudo-elements'', ''searchPseudoElements''),
     (''data-search-pseudo-elements-warnings'', ''searchPseudoElementsWarnings''),
     (''data-search-pseudo-elements-full-scan'', ''searchPseudoElementsFullScan''),
     (''data-observe-mutations'', ''observeMutations''), (''data-mutate-approach'', ''mutateApproach''),
     (''data-keep-original-source'', ''keepOriginalSource''),
     (''data-measure-performance'', ''measurePerformance''),
     (''data-show-missing-icons'', ''showMissingIcons'')]"

definition getAttrConfig :: "(string \<Rightarrow> string option) \<Rightarrow> string \<Rightarrow> jsv" where
  "getAttrConfig script_attr a = (case script_attr a of Some s \<Rightarrow> JStr s | None \<Rightarrow> Undefined)"

definition coerce :: "jsv \<Rightarrow> jsv" where
  "coerce val =
     (if val = JStr [] then JBool True
      else if val = JStr ''false'' then JBool False
      else if val = JStr ''true'' then JBool True
      else val)"

definition read_attrs :: "(string \<Rightarrow> string option) \<Rightarrow> jsv obj \<Rightarrow> jsv obj" where
  "read_attrs script_attr initial =
     fold (\<lambda>(a, key) ob.
         let val = coerce (getAttrConfig script_attr a)
         in if val \<noteq> Undefined \<and> val \<noteq> Null then obj_set ob key val else ob) config_attrs initial"

definition config_default :: "jsv obj" where
  "config_default =
    [(''styleDefault'', JStr ''solid''), (''familyDefault'', JStr fa_i),
     (''cssPrefix'', JStr DEFAULT_CSS_PREFIX), (''replacementClass'', JStr DEFAULT_REPLACEMENT_CLASS),
     (''autoReplaceSvg'', JBool True), (''autoAddCss'', JBool True),
     (''searchPseudoElements'', JBool False), (''searchPseudoElementsWarnings'', JBool True),
     (''searchPseudoElementsFullScan'', JBool False), (''observeMutations'', JBool True),
     (''mutateApproach'', JStr ''async''), (''keepOriginalSource'', JBool True),
     (''measurePerformance'', JBool False), (''showMissingIcons'', JBool True)]"

record fa_config =
  cf_values :: "jsv obj"
  cf_extra :: "jsv obj"

text \<open>\<open>window\<close> is the page's \<^verbatim>\<open>FontAwesomeConfig\<close>, if it has one; \<open>has_query\<close> whether the document
  has \<^verbatim>\<open>querySelector\<close>.\<close>

definition load_config :: "bool \<Rightarrow> (string \<Rightarrow> string option) \<Rightarrow> jsv obj option \<Rightarrow> fa_config" where
  "load_config has_query script_attr window =
     (let initial = (case window of Some w \<Rightarrow> w | None \<Rightarrow> []);
          initial = (if has_query then read_attrs script_attr initial else initial);
          initial = (if truthy (get_jsv initial ''familyPrefix'')
                     then obj_set initial ''cssPrefix'' (get_jsv initial ''familyPrefix'') else initial);
          values = spread (spread [] config_default) initial;
          values = (if \<not> truthy (get_jsv values ''autoReplaceSvg'')
                    then obj_set values ''observeMutations'' (JBool False) else values)
      in \<lparr>cf_values = values, cf_extra = []\<rparr>)"

definition config_get :: "fa_config \<Rightarrow> string \<Rightarrow> jsv" where
  "config_get c key =
     (if key \<in> fst ` set config_default then get_jsv (cf_values c) key
      else if key = ''familyPrefix'' then get_jsv (cf_values c) ''cssPrefix''
      else get_jsv (cf_extra c) key)"

text \<open>The setters; the callbacks they run afterwards are in the resolver's \<open>set_config\<close>.\<close>

definition config_set :: "fa_config \<Rightarrow> string \<Rightarrow> jsv \<Rightarrow> fa_config" where
  "config_set c key val =
     (if key \<in> fst ` set config_default then c\<lparr>cf_values := obj_set (cf_values c) key val\<rparr>
      else if key = ''familyPrefix'' then c\<lparr>cf_values := obj_set (cf_values c) ''cssPrefix'' val\<rparr>
      else c\<lparr>cf_extra := obj_set (cf_extra c) key val\<rparr>)"

text \<open>\<^verbatim>\<open>onChange\<close> appends a callback and returns its removal, \<^verbatim>\<open>splice(indexOf(cb), 1)\<close>: with the
  callback gone the index is \<open>- 1\<close>, which removes the last one.\<close>

definition onChange :: "'cb list \<Rightarrow> 'cb \<Rightarrow> 'cb list" where
  "onChange cbs cb = cbs @ [cb]"

definition onChange_undo :: "'cb list \<Rightarrow> 'cb \<Rightarrow> 'cb list" where
  "onChange_undo cbs cb = (if cb \<in> set cbs then remove1 cb cbs else butlast cbs)"

section \<open>Utilities\<close>

text \<open>\<^verbatim>\<open>nextUniqueId\<close>: twelve characters of the pool, picked by the random numbers given.\<close>

definition idPool :: string where
  "idPool = ''0123456789abcdefghijklmnopqrstuvwxyzABCDEFGHIJKLMNOPQRSTUVWXYZ''"

definition nextUniqueId :: "(nat \<Rightarrow> nat) \<Rightarrow> string" where
  "nextUniqueId random = map (\<lambda>i. idPool ! (random i mod 62)) [0..<12]"

text \<open>Element nodes, with what the code reads of them: attributes in order, the class list when the
  node has one, the rendered text as code units, the first child when it is a text node.\<close>

record node =
  nd_tag :: string
  nd_attributes :: "string obj"
  nd_classList :: "string list option"
  nd_innerText :: "nat list option"
  nd_firstText :: "string option"

definition getAttribute :: "node \<Rightarrow> string \<Rightarrow> jsv" where
  "getAttribute n a = (case map_of (nd_attributes n) a of Some v \<Rightarrow> JStr v | None \<Rightarrow> Null)"

definition classArray :: "node \<Rightarrow> string list" where
  "classArray n = (case nd_classList n of
       Some cs \<Rightarrow> cs
     | None \<Rightarrow> filter (\<lambda>c. c \<noteq> [])
         (split_on (CHR '' '') (case getAttribute n ''class'' of JStr s \<Rightarrow> s | _ \<Rightarrow> [])))"

definition htmlEscape :: "string \<Rightarrow> string" where
  "htmlEscape s =
     replace_all ''>'' ''&gt;'' (replace_all ''<'' ''&lt;'' (replace_all [CHR 0x27] ''&#39;''
       (replace_all [CHR 0x22] ''&quot;'' (replace_all ''&'' ''&amp;'' s))))"

definition joinAttributes :: "jsv obj \<Rightarrow> string" where
  "joinAttributes attributes = js_trim (concat (map
     (\<lambda>a. a @ ''='' @ [CHR 0x22] @ htmlEscape (to_str (get_jsv attributes a)) @ [CHR 0x22] @ '' '')
     (obj_keys attributes)))"

definition joinStyles :: "string obj \<Rightarrow> string" where
  "joinStyles styles = concat (map
     (\<lambda>s. s @ '': '' @ js_trim (case map_of styles s of Some v \<Rightarrow> v | None \<Rightarrow> []) @ '';'') (obj_keys styles))"

section \<open>Properties\<close>

subsection \<open>Escaping\<close>

lemma replace_all_one: "replace_all [p] r s = concat (map (\<lambda>c. if c = p then r else [c]) s)"
proof (induction s)
  case Nil
  show ?case by (subst replace_all.simps) simp
next
  case (Cons c s)
  then show ?case by (subst replace_all.simps) auto
qed

text \<open>The five passes are one substitution per character.\<close>

definition escape_char :: "char \<Rightarrow> string" where
  "escape_char c =
     (if c = CHR ''&'' then ''&amp;'' else if c = CHR 0x22 then ''&quot;''
      else if c = CHR 0x27 then ''&#39;'' else if c = CHR ''<'' then ''&lt;''
      else if c = CHR ''>'' then ''&gt;'' else [c])"

lemma htmlEscape_chars: "htmlEscape s = concat (map escape_char s)"
  unfolding htmlEscape_def replace_all_one
  by (induction s) (simp_all add: escape_char_def)

lemma htmlEscape_safe:
  "c \<in> set (htmlEscape s) \<Longrightarrow> c \<noteq> CHR ''<'' \<and> c \<noteq> CHR ''>'' \<and> c \<noteq> CHR 0x22 \<and> c \<noteq> CHR 0x27"
  by (auto simp: htmlEscape_chars escape_char_def split: if_splits)

text \<open>Reading the five entities back.\<close>

definition html_entities :: "(string \<times> char) list" where
  "html_entities = [(''&amp;'', CHR ''&''), (''&quot;'', CHR 0x22), (''&#39;'', CHR 0x27),
     (''&lt;'', CHR ''<''), (''&gt;'', CHR ''>'')]"

function unescape_html :: "string \<Rightarrow> string" where
  "unescape_html s =
     (if s = [] then []
      else case find (\<lambda>(e, c). e \<noteq> [] \<and> starts_with e s) html_entities of
             Some (e, c) \<Rightarrow> c # unescape_html (drop (length e) s)
           | None \<Rightarrow> hd s # unescape_html (tl s))"
  by pat_completeness auto
termination
  by (relation "measure length")
    (auto dest!: find_Some_iff [THEN iffD1])

declare unescape_html.simps [simp del]

lemma unescape_escape_char: "unescape_html (escape_char c @ s) = c # unescape_html s"
proof (cases "c \<in> {CHR ''&'', CHR 0x22, CHR 0x27, CHR ''<'', CHR ''>''}")
  case True
  then show ?thesis by (subst unescape_html.simps) (auto simp: escape_char_def html_entities_def)
next
  case False
  then show ?thesis by (subst unescape_html.simps) (auto simp: escape_char_def html_entities_def)
qed

text \<open>
  Escaping of text and attribute values: the five replacement passes, in their order,
  leave no quote and no angle bracket, so a value cannot end its attribute or open a tag, and a
  reader that decodes the five entities gets the value back.
\<close>

lemma html_escape_sound:
  "unescape_html (htmlEscape s) = s
   \<and> set (htmlEscape s) \<inter> {CHR ''<'', CHR ''>'', CHR 0x22, CHR 0x27} = {}"
proof
  show "unescape_html (htmlEscape s) = s"
    unfolding htmlEscape_chars
    by (induction s) (simp_all add: unescape_escape_char unescape_html.simps [of "[]"])
  show "set (htmlEscape s) \<inter> {CHR ''<'', CHR ''>'', CHR 0x22, CHR 0x27} = {}"
    using htmlEscape_safe by blast
qed

subsection \<open>Precedence of the configuration sources\<close>

text \<open>The attribute that sets a key, and the value the sources give it: the attribute, else the
  page's object, else the default.\<close>

definition attr_of_key :: "string \<Rightarrow> string option" where
  "attr_of_key key = map_of (map (\<lambda>(a, k). (k, a)) config_attrs) key"

definition configured :: "(string \<Rightarrow> string option) \<Rightarrow> jsv obj \<Rightarrow> string \<Rightarrow> jsv option" where
  "configured script_attr w key =
     (case Option.bind (attr_of_key key) script_attr of
        Some s \<Rightarrow> Some (coerce (JStr s))
      | None \<Rightarrow> (case map_of w key of Some v \<Rightarrow> Some v | None \<Rightarrow> map_of config_default key))"

lemma coerce_defined [simp]: "coerce (JStr s) \<noteq> Undefined" "coerce (JStr s) \<noteq> Null"
  by (auto simp: coerce_def)

lemma read_fold:
  "distinct (map snd as) \<Longrightarrow>
   map_of (fold (\<lambda>(a, key) ob.
       let val = coerce (getAttrConfig script_attr a)
       in if val \<noteq> Undefined \<and> val \<noteq> Null then obj_set ob key val else ob) as ob) key =
     (case Option.bind (map_of (map (\<lambda>(a, k). (k, a)) as) key) script_attr of
        Some s \<Rightarrow> Some (coerce (JStr s)) | None \<Rightarrow> map_of ob key)"
proof (induction as arbitrary: ob)
  case (Cons ak as)
  obtain a k where ak: "ak = (a, k)" by force
  have "map_of (map (\<lambda>(a, k). (k, a)) as) k = None"
    using Cons.prems ak by (force simp: map_of_eq_None_iff)
  then show ?case
    using Cons ak by (auto simp: Let_def getAttrConfig_def coerce_def split: option.splits)
qed simp

lemma read_attrs_map_of:
  "map_of (read_attrs script_attr w) key =
     (case Option.bind (attr_of_key key) script_attr of
        Some s \<Rightarrow> Some (coerce (JStr s)) | None \<Rightarrow> map_of w key)"
  unfolding read_attrs_def attr_of_key_def by (rule read_fold) (simp add: config_attrs_def)

lemma load_values:
  assumes "key \<noteq> ''cssPrefix''" "key \<noteq> ''observeMutations''"
  shows "map_of (cf_values (load_config True script_attr (Some w))) key = configured script_attr w key"
  using assms
  by (auto simp: load_config_def Let_def configured_def read_attrs_map_of map_add_def split: option.splits)

text \<open>
  Configuration precedence: for every default key but the two with special rules, the
  loaded value is the script element's attribute (empty or \<^verbatim>\<open>true\<close> read as true, \<^verbatim>\<open>false\<close> as
  false) when there is one, else the page's \<^verbatim>\<open>FontAwesomeConfig\<close>, else the default; and mutation
  observation is off whenever automatic replacement is.
\<close>

lemma config_precedence:
  assumes "key \<in> fst ` set config_default" "key \<noteq> ''cssPrefix''" "key \<noteq> ''observeMutations''"
  shows "Some (config_get (load_config True script_attr (Some w)) key) = configured script_attr w key
    \<and> (\<not> truthy (config_get (load_config True script_attr (Some w)) ''autoReplaceSvg'') \<longrightarrow>
      config_get (load_config True script_attr (Some w)) ''observeMutations'' = JBool False)"
proof (intro conjI impI)
  have "map_of config_default key \<noteq> None" using assms(1) by (simp add: map_of_eq_None_iff)
  then have "configured script_attr w key \<noteq> None"
    by (simp add: configured_def split: option.split)
  then obtain v where "configured script_attr w key = Some v" by blast
  with load_values [OF assms(2,3)] show "Some (config_get (load_config True script_attr (Some w)) key) = configured script_attr w key"
    using assms(1) by (simp add: config_get_def get_jsv_def get_prop_def of_prop_def)
  have m: "''autoReplaceSvg'' \<in> fst ` set config_default" "''observeMutations'' \<in> fst ` set config_default"
    by (simp_all add: config_default_def)
  assume "\<not> truthy (config_get (load_config True script_attr (Some w)) ''autoReplaceSvg'')"
  then show "config_get (load_config True script_attr (Some w)) ''observeMutations'' = JBool False"
    using m unfolding config_get_def load_config_def Let_def
    by (simp add: get_jsv_def of_prop_def split: if_splits)
qed

lemma config_precedence_example:
  "Some (config_get (load_config True [''data-auto-replace-svg'' \<mapsto> ''false''] (Some [])) ''autoReplaceSvg'')
      = configured [''data-auto-replace-svg'' \<mapsto> ''false''] [] ''autoReplaceSvg''
   \<and> config_get (load_config True [''data-auto-replace-svg'' \<mapsto> ''false''] (Some [])) ''observeMutations'' = JBool False"
proof -
  let ?sa = "[''data-auto-replace-svg'' \<mapsto> ''false'']"
  have k: "''autoReplaceSvg'' \<in> fst ` set config_default" by (simp add: config_default_def)
  have one: "Some (config_get (load_config True ?sa (Some [])) ''autoReplaceSvg'') = configured ?sa [] ''autoReplaceSvg''"
    by (rule config_precedence [THEN conjunct1, OF k]) simp_all
  moreover have "configured ?sa [] ''autoReplaceSvg'' = Some (JBool False)"
    by (simp add: configured_def attr_of_key_def config_attrs_def coerce_def)
  ultimately have "config_get (load_config True ?sa (Some [])) ''autoReplaceSvg'' = JBool False" by simp
  then have "config_get (load_config True ?sa (Some [])) ''observeMutations'' = JBool False"
    by (intro config_precedence [THEN conjunct2, THEN mp, OF k]) simp_all
  with one show ?thesis by simp
qed

end
