(* ===== verification/Fa_Resolve.thy ===== *)
theory Fa_Resolve
  imports Fa_Config
begin

text \<open>
  The icon registry and resolver of \<^verbatim>\<open>src/static/fa6/js/fontawesome.js\<close>: definition of icon packs
  (lines 1432--1540), the lookup tables and the resolution of a list of CSS classes to a prefix, an
  icon name and the remaining classes (1602--1897), the library and the search for a definition
  (1899--2117). The module's variables are the fields of \<open>fa\<close>. An icon is the array the packs
  contain, field by field. Replacing the icons of the page is left to the DOM layer: \<open>autoReplace\<close>
  counts the calls in \<open>f_i2svg\<close>.
\<close>

section \<open>State\<close>

datatype icon_alias = AName string | ACode nat

datatype vector = Mono string | Duo string string

record icon =
  ic_width :: int
  ic_height :: int
  ic_aliases :: "icon_alias list"
  ic_unicode :: string
  ic_vector :: vector

text \<open>A shim is \<^verbatim>\<open>[nameOrUnicode, prefix, iconName]\<close>; the last two may be \<^verbatim>\<open>null\<close>.\<close>

type_synonym shim = "icon_alias \<times> jsv \<times> jsv"

record icon_lookup =
  lk_prefix :: jsv
  lk_iconName :: jsv

record fa =
  f_config :: fa_config
  f_isDom :: bool
  f_addPackHook :: bool
  f_styles :: "icon obj obj"
  f_shims :: "shim list"
  f_byUnicode :: "string obj obj"
  f_byLigature :: "string obj obj"
  f_byAlias :: "string obj obj"
  f_byOldName :: "icon_lookup obj"
  f_byOldUnicode :: "icon_lookup obj"
  f_defaultUsablePrefix :: jsv
  f_definitions :: "icon obj obj"
  f_i2svg :: nat

abbreviation cfg :: "fa \<Rightarrow> string \<Rightarrow> jsv" where
  "cfg st k \<equiv> config_get (f_config st) k"

section \<open>Prefixes and families\<close>

definition isReserved :: "string \<Rightarrow> bool" where
  "isReserved name \<longleftrightarrow> name \<in> set RESERVED_CLASSES"

definition getIconName :: "jsv \<Rightarrow> string \<Rightarrow> string option" where
  "getIconName cssPrefix cls =
     (let parts = split_on (CHR ''-'') cls;
          prefix = hd parts;
          iconName = join_with ''-'' (tl parts)
      in if JStr prefix = cssPrefix \<and> iconName \<noteq> [] \<and> \<not> isReserved iconName then Some iconName else None)"

definition FAMILY_NAMES :: "string list" where
  "FAMILY_NAMES = obj_keys PREFIX_TO_LONG_STYLE_table"

definition PREFIXES_FOR_FAMILY :: "string list obj" where
  "PREFIXES_FOR_FAMILY =
     fold (\<lambda>familyId acc. obj_set acc familyId (obj_keys (PREFIX_TO_LONG_STYLE familyId))) FAMILY_NAMES []"

definition getCanonicalPrefix :: "fa \<Rightarrow> jsv \<Rightarrow> jsv \<Rightarrow> jsv" where
  "getCanonicalPrefix st styleOrPrefix family =
     (let family = (if family = Undefined then JStr fa_i else family);
          style = get_str (PREFIX_TO_STYLE (to_str family)) styleOrPrefix
      in if family = JStr fa_t \<and> \<not> truthy styleOrPrefix then JStr ''fad''
         else let prefix = js_or (get_str (STYLE_TO_PREFIX (to_str family)) styleOrPrefix)
                                 (get_str (STYLE_TO_PREFIX (to_str family)) style);
                  defined = (if js_in (to_str styleOrPrefix) (f_styles st) then styleOrPrefix else Null)
              in js_or (js_or prefix defined) Null)"

definition getFamilyId :: "fa \<Rightarrow> string list \<Rightarrow> string" where
  "getFamilyId st values =
     (let famProps = fold (\<lambda>familyId acc. obj_set acc familyId (to_str (cfg st ''cssPrefix'') @ ''-'' @ familyId))
                       FAMILY_NAMES []
      in fold (\<lambda>familyId family.
            if own famProps familyId \<in> set values
               \<or> list_ex (\<lambda>v. v \<in> set (own PREFIXES_FOR_FAMILY familyId)) values
            then familyId else family) fa_dt fa_i)"

section \<open>Lookup tables\<close>

definition alias_key :: "icon_alias \<Rightarrow> string" where
  "alias_key a = (case a of AName s \<Rightarrow> s | ACode n \<Rightarrow> show_nat n)"

definition lookup :: "icon obj obj \<Rightarrow> (string obj \<Rightarrow> icon \<Rightarrow> string \<Rightarrow> string obj) \<Rightarrow> string obj obj" where
  "lookup styles reducer =
     js_reduce styles (\<lambda>ob style prefix. obj_set ob prefix (js_reduce style reducer [])) []"

definition unicode_reducer :: "string obj \<Rightarrow> icon \<Rightarrow> string \<Rightarrow> string obj" where
  "unicode_reducer acc ic iconName =
     (let acc = (if ic_unicode ic \<noteq> [] then obj_set acc (ic_unicode ic) iconName else acc)
      in fold (\<lambda>a acc. case a of ACode n \<Rightarrow> obj_set acc (hex_nat n) iconName | AName _ \<Rightarrow> acc) (ic_aliases ic) acc)"

definition ligature_reducer :: "string obj \<Rightarrow> icon \<Rightarrow> string \<Rightarrow> string obj" where
  "ligature_reducer acc ic iconName =
     fold (\<lambda>a acc. case a of AName s \<Rightarrow> obj_set acc s iconName | ACode _ \<Rightarrow> acc) (ic_aliases ic)
       (obj_set acc iconName iconName)"

definition alias_reducer :: "string obj \<Rightarrow> icon \<Rightarrow> string \<Rightarrow> string obj" where
  "alias_reducer acc ic iconName =
     fold (\<lambda>a acc. obj_set acc (alias_key a) iconName) (ic_aliases ic) (obj_set acc iconName iconName)"

definition shim_lookups :: "bool \<Rightarrow> shim list \<Rightarrow> icon_lookup obj \<times> icon_lookup obj" where
  "shim_lookups hasRegular shims =
     fold (\<lambda>(name, prefix, iconName) (names, unicodes).
         let prefix = (if prefix = JStr ''far'' \<and> \<not> hasRegular then JStr ''fas'' else prefix);
             entry = \<lparr>lk_prefix = prefix, lk_iconName = iconName\<rparr>
         in case name of
              AName s \<Rightarrow> (obj_set names s entry, unicodes)
            | ACode n \<Rightarrow> (names, obj_set unicodes (hex_nat n) entry)) shims ([], [])"

definition build :: "fa \<Rightarrow> fa" where
  "build st =
     (let hasRegular = js_in ''far'' (f_styles st) \<or> truthy (cfg st ''autoFetchSvg'');
          (names, unicodes) = shim_lookups hasRegular (f_shims st)
      in st\<lparr>f_byUnicode := lookup (f_styles st) unicode_reducer,
            f_byLigature := lookup (f_styles st) ligature_reducer,
            f_byAlias := lookup (f_styles st) alias_reducer,
            f_byOldName := names, f_byOldUnicode := unicodes,
            f_defaultUsablePrefix := getCanonicalPrefix st (cfg st ''styleDefault'') (cfg st ''familyDefault'')\<rparr>)"

text \<open>The state once the script has run, up to its bootstrap: the packs and shims that earlier scripts
  left in the page's namespace are read, and the tables built.\<close>

definition load_core :: "fa_config \<Rightarrow> bool \<Rightarrow> icon obj obj \<Rightarrow> shim list \<Rightarrow> fa" where
  "load_core c isDom styles shims = build
     \<lparr>f_config = c, f_isDom = isDom, f_addPackHook = False, f_styles = styles, f_shims = shims,
      f_byUnicode = [], f_byLigature = [], f_byAlias = [], f_byOldName = [], f_byOldUnicode = [],
      f_defaultUsablePrefix = Null, f_definitions = [], f_i2svg = 0\<rparr>"

text \<open>An assignment to \<^verbatim>\<open>config\<close> runs the callbacks; the resolver's own recomputes the default prefix.\<close>

definition set_config :: "fa \<Rightarrow> string \<Rightarrow> jsv \<Rightarrow> fa" where
  "set_config st key val =
     (let st' = st\<lparr>f_config := config_set (f_config st) key val\<rparr>
      in if key \<in> fst ` set config_default \<or> key = ''familyPrefix''
         then st'\<lparr>f_defaultUsablePrefix :=
                getCanonicalPrefix st' (cfg st' ''styleDefault'') (cfg st' ''familyDefault'')\<rparr>
         else st')"

definition get2 :: "string obj obj \<Rightarrow> jsv \<Rightarrow> jsv \<Rightarrow> jsv" where
  "get2 tab p k = get_str (case get_prop tab (to_str p) of Own t \<Rightarrow> t | _ \<Rightarrow> []) k"

definition byUnicode :: "fa \<Rightarrow> jsv \<Rightarrow> jsv \<Rightarrow> jsv" where
  "byUnicode st prefix unicode = get2 (f_byUnicode st) prefix unicode"

definition byLigature :: "fa \<Rightarrow> jsv \<Rightarrow> jsv \<Rightarrow> jsv" where
  "byLigature st prefix ligature = get2 (f_byLigature st) prefix ligature"

definition byAlias :: "fa \<Rightarrow> jsv \<Rightarrow> jsv \<Rightarrow> jsv" where
  "byAlias st prefix alias = get2 (f_byAlias st) prefix alias"

text \<open>A name inherited from \<^verbatim>\<open>Object.prototype\<close> gives a builtin, whose two properties are undefined.\<close>

definition lookup_entry :: "icon_lookup obj \<Rightarrow> string \<Rightarrow> icon_lookup option" where
  "lookup_entry tab k = (case get_prop tab k of
       Own e \<Rightarrow> Some e
     | Inherited n \<Rightarrow> Some \<lparr>lk_prefix = Undefined, lk_iconName = Undefined\<rparr>
     | Absent \<Rightarrow> None)"

definition byOldName :: "fa \<Rightarrow> jsv \<Rightarrow> icon_lookup" where
  "byOldName st name = (case lookup_entry (f_byOldName st) (to_str name) of
       Some e \<Rightarrow> e | None \<Rightarrow> \<lparr>lk_prefix = Null, lk_iconName = Null\<rparr>)"

definition byOldUnicode :: "fa \<Rightarrow> jsv \<Rightarrow> icon_lookup" where
  "byOldUnicode st unicode =
     (let newUnicode = byUnicode st (JStr ''fas'') unicode
      in case lookup_entry (f_byOldUnicode st) (to_str unicode) of
           Some e \<Rightarrow> e
         | None \<Rightarrow> if truthy newUnicode then \<lparr>lk_prefix = JStr ''fas'', lk_iconName = newUnicode\<rparr>
                   else \<lparr>lk_prefix = Null, lk_iconName = Null\<rparr>)"

definition getDefaultUsablePrefix :: "fa \<Rightarrow> jsv" where
  "getDefaultUsablePrefix st = f_defaultUsablePrefix st"

section \<open>Resolving a list of classes\<close>

record canonical =
  cn_prefix :: jsv
  cn_iconName :: jsv
  cn_rest :: "string list"

definition emptyCanonicalIcon :: canonical where
  "emptyCanonicalIcon = \<lparr>cn_prefix = Null, cn_iconName = Null, cn_rest = []\<rparr>"

definition moveNonFaClassesToRest :: "fa \<Rightarrow> string list \<Rightarrow> jsv \<times> string list" where
  "moveNonFaClassesToRest st classNames =
     fold (\<lambda>cls (iconName, rest).
         case getIconName (cfg st ''cssPrefix'') cls of
           Some n \<Rightarrow> (JStr n, rest)
         | None \<Rightarrow> if cls \<noteq> [] then (iconName, rest @ [cls]) else (iconName, rest)) classNames (Null, [])"

definition faCombinedClasses :: "string list" where
  "faCombinedClasses = fa_lo @ fa_Ht"

text \<open>The filter keeps every family, because of its \<^verbatim>\<open>||\<close>.\<close>

definition newCanonicalFamilies :: "string list" where
  "newCanonicalFamilies = filter (\<lambda>familyId. familyId \<noteq> fa_i \<or> familyId \<noteq> fa_t) fa_dt"

definition newCanonicalStyles :: "string list" where
  "newCanonicalStyles = concat (map (\<lambda>key. obj_keys (own fa_Xl key)) (filter (\<lambda>key. key \<noteq> fa_i) (obj_keys fa_Xl)))"

definition getDefaultCanonicalPrefix :: "fa \<Rightarrow> string list \<Rightarrow> string \<Rightarrow> jsv \<Rightarrow> canonical \<Rightarrow> canonical" where
  "getDefaultCanonicalPrefix st values family givenPrefix cn =
     (let isDuotoneFamily = (family = fa_t);
          valuesHasDuotone = (''fa-duotone'' \<in> set values \<or> ''fad'' \<in> set values);
          defaultFamilyIsDuotone = (cfg st ''familyDefault'' = JStr ''duotone'');
          canonicalPrefixIsDuotone = (cn_prefix cn = JStr ''fad'' \<or> cn_prefix cn = JStr ''fa-duotone'');
          cn = (if \<not> isDuotoneFamily \<and> (valuesHasDuotone \<or> defaultFamilyIsDuotone \<or> canonicalPrefixIsDuotone)
                then cn\<lparr>cn_prefix := JStr ''fad''\<rparr> else cn);
          cn = (if ''fa-brands'' \<in> set values \<or> ''fab'' \<in> set values
                then cn\<lparr>cn_prefix := JStr ''fab''\<rparr> else cn);
          cn = (if \<not> truthy (cn_prefix cn) \<and> family \<in> set newCanonicalFamilies
                then let validPrefix = find (\<lambda>key. key \<in> set newCanonicalStyles) (obj_keys (f_styles st))
                     in if (case validPrefix of Some p \<Rightarrow> p \<noteq> [] | None \<Rightarrow> False) \<or> truthy (cfg st ''autoFetchSvg'')
                        then (case map_of fa_Et family of
                                Some e \<Rightarrow>
                                  let p = JStr (defaultShortPrefixId e)
                                  in cn\<lparr>cn_prefix := p, cn_iconName := js_or (byAlias st p (cn_iconName cn)) (cn_iconName cn)\<rparr>
                              | None \<Rightarrow> cn)
                        else cn
                else cn)
      in if cn_prefix cn = JStr ''fa'' \<or> givenPrefix = JStr ''fa''
         then cn\<lparr>cn_prefix := js_or (getDefaultUsablePrefix st) (JStr ''fas'')\<rparr> else cn)"

definition applyShimAndAlias :: "fa \<Rightarrow> bool \<Rightarrow> jsv \<Rightarrow> canonical \<Rightarrow> canonical" where
  "applyShimAndAlias st skipLookups givenPrefix cn =
     (let prefix = cn_prefix cn; iconName = cn_iconName cn
      in if skipLookups \<or> \<not> truthy prefix \<or> \<not> truthy iconName then cn
         else let shim = (if givenPrefix = JStr ''fa'' then byOldName st iconName
                          else \<lparr>lk_prefix = Undefined, lk_iconName = Undefined\<rparr>);
                  aliasIconName = byAlias st prefix iconName;
                  iconName = js_or (js_or (lk_iconName shim) aliasIconName) iconName;
                  prefix = js_or (lk_prefix shim) prefix;
                  prefix = (if prefix = JStr ''far'' \<and> \<not> js_in ''far'' (f_styles st)
                               \<and> js_in ''fas'' (f_styles st) \<and> \<not> truthy (cfg st ''autoFetchSvg'')
                            then JStr ''fas'' else prefix)
              in cn\<lparr>cn_prefix := prefix, cn_iconName := iconName\<rparr>)"

definition getCanonicalIcon :: "fa \<Rightarrow> string list \<Rightarrow> bool \<Rightarrow> canonical" where
  "getCanonicalIcon st values skipLookups =
     (let faStyleOrFamilyClasses = sortedUniqueValues (filter (\<lambda>cls. cls \<in> set faCombinedClasses) values);
          nonStyleOrFamilyClasses = sortedUniqueValues (filter (\<lambda>cls. cls \<notin> set faCombinedClasses) values);
          givenPrefix = (if faStyleOrFamilyClasses = [] then Null else JStr (last faStyleOrFamilyClasses));
          faStyles = filter (\<lambda>cls. cls \<notin> set fa_Z) faStyleOrFamilyClasses;
          styleFromValues = (case faStyles of [] \<Rightarrow> Null | s # _ \<Rightarrow> JStr s);
          family = getFamilyId st faStyleOrFamilyClasses;
          (iconName, rest) = moveNonFaClassesToRest st nonStyleOrFamilyClasses;
          cn = \<lparr>cn_prefix = getCanonicalPrefix st styleFromValues (JStr family), cn_iconName = iconName, cn_rest = rest\<rparr>;
          cn = getDefaultCanonicalPrefix st values family givenPrefix cn
      in applyShimAndAlias st skipLookups givenPrefix cn)"

section \<open>Laws of the resolver\<close>

lemma sortedUniqueValues_set: "sortedUniqueValues arr = sorted_list_of_set (set arr)"
proof -
  let ?s = "sort arr"
  let ?p = "\<lambda>(v, i). find (\<lambda>j. ?s ! j = v) [0..<length ?s] = Some i"
  let ?z = "zip ?s [0..<length ?s]"
  have eq: "sortedUniqueValues arr = map fst (filter ?p ?z)"
    by (simp add: sortedUniqueValues_def Let_def)
  have srt: "sorted (map fst (filter ?p ?z))" by (rule sorted_filter) simp
  have "inj_on fst (set (filter ?p ?z))" by (auto simp: inj_on_def)
  then have dst: "distinct (map fst (filter ?p ?z))"
    by (simp add: distinct_map distinct_zipI2)
  have "v \<in> fst ` set (filter ?p ?z)" if v: "v \<in> set arr" for v
  proof -
    obtain j where "j < length ?s" "?s ! j = v" using v by (metis in_set_conv_nth set_sort)
    then have "find (\<lambda>j. ?s ! j = v) [0..<length ?s] \<noteq> None" by (auto simp: find_None_iff)
    then obtain i where i: "find (\<lambda>j. ?s ! j = v) [0..<length ?s] = Some i" by blast
    then have "i < length ?s" "?s ! i = v" by (auto simp: find_Some_iff)
    then have "(v, i) \<in> set (filter ?p ?z)" using i by (auto simp: set_zip)
    then show ?thesis by force
  qed
  then have "set (map fst (filter ?p ?z)) = set arr" by (auto dest: set_zip_leftD)
  with srt dst show ?thesis
    unfolding eq by (metis List.finite_set sorted_list_of_set.idem_if_sorted_distinct)
qed

lemma moveNonFaClassesToRest_rest:
  "snd (moveNonFaClassesToRest st cs) = filter (\<lambda>c. getIconName (cfg st ''cssPrefix'') c = None \<and> c \<noteq> []) cs"
proof -
  let ?step = "\<lambda>cls (iconName, rest).
         case getIconName (cfg st ''cssPrefix'') cls of
           Some n \<Rightarrow> (JStr n, rest)
         | None \<Rightarrow> if cls \<noteq> [] then (iconName, rest @ [cls]) else (iconName, rest)"
  have "snd (fold ?step cs (i, r)) =
      r @ filter (\<lambda>c. getIconName (cfg st ''cssPrefix'') c = None \<and> c \<noteq> []) cs" for i r
    by (induction cs arbitrary: i r) (auto split: option.splits)
  then show ?thesis by (simp add: moveNonFaClassesToRest_def)
qed

lemma cn_rest_default [simp]: "cn_rest (getDefaultCanonicalPrefix st vs fam g cn) = cn_rest cn"
  by (simp add: getDefaultCanonicalPrefix_def Let_def split: option.split)

lemma cn_rest_shim [simp]: "cn_rest (applyShimAndAlias st sk g cn) = cn_rest cn"
  by (simp add: applyShimAndAlias_def Let_def)

lemma getDefaultCanonicalPrefix_set:
  "set vs = set ws \<Longrightarrow> getDefaultCanonicalPrefix st vs = getDefaultCanonicalPrefix st ws"
  by (intro ext) (simp add: getDefaultCanonicalPrefix_def)

text \<open>
  Resolution of classes looks at the set of classes only: two class lists with the same
  members, in whatever order and however often repeated, resolve to the same prefix, icon name and
  remaining classes.
\<close>

lemma canonical_icon_depends_on_set:
  assumes "set vs = set ws"
  shows "getCanonicalIcon st vs skipLookups = getCanonicalIcon st ws skipLookups"
  using assms getDefaultCanonicalPrefix_set [OF assms, of st]
  by (simp add: getCanonicalIcon_def sortedUniqueValues_set set_filter)

lemma canonical_icon_depends_on_set_example:
  "getCanonicalIcon (load_core (load_config False Map.empty None) True [] []) [''fa-user'', ''fas'', ''x'', ''fas''] True
   = getCanonicalIcon (load_core (load_config False Map.empty None) True [] []) [''x'', ''fas'', ''fa-user''] True"
  by (rule canonical_icon_depends_on_set) auto

text \<open>
  No class is lost and none invented: the remaining classes of a resolution are, sorted
  and without repetition, exactly the non-empty classes that are neither style nor family classes
  of the library nor an icon class under the configured prefix.
\<close>

lemma canonical_rest_exact:
  "cn_rest (getCanonicalIcon st vs skipLookups) =
     sorted_list_of_set {c \<in> set vs. c \<notin> set faCombinedClasses \<and> c \<noteq> []
       \<and> getIconName (cfg st ''cssPrefix'') c = None}"
proof -
  let ?cs = "sorted_list_of_set {c \<in> set vs. c \<notin> set faCombinedClasses}"
  have "cn_rest (getCanonicalIcon st vs skipLookups) = snd (moveNonFaClassesToRest st ?cs)"
    by (simp add: getCanonicalIcon_def sortedUniqueValues_set set_filter Let_def split: prod.split)
  also have "\<dots> = filter (\<lambda>c. getIconName (cfg st ''cssPrefix'') c = None \<and> c \<noteq> []) ?cs"
    by (rule moveNonFaClassesToRest_rest)
  also have "\<dots> = sorted_list_of_set {c \<in> set ?cs. getIconName (cfg st ''cssPrefix'') c = None \<and> c \<noteq> []}"
    by (rule sorted_distinct_set_unique) (simp_all add: sorted_wrt_filter distinct_filter)
  finally show ?thesis by (simp add: conj_ac)
qed

end
