(* ===== verification/Fa_Styles.thy ===== *)
theory Fa_Styles
  imports Fa_Resolve
begin

text \<open>
  The style tables and the resolver together: what the style and family classes of a class list
  decide on their own, and the theorem that both spellings of every style lead to its prefix. The
  tables are finite, so the statement about them is evaluated, slice by slice.
\<close>

section \<open>Style classes\<close>

text \<open>What the style and family classes alone decide, under the default class prefix.\<close>

definition style_family :: "string list \<Rightarrow> string" where
  "style_family S = fold (\<lambda>familyId family.
     if ''fa-'' @ familyId \<in> set S \<or> list_ex (\<lambda>v. v \<in> set (own PREFIXES_FOR_FAMILY familyId)) S
     then familyId else family) fa_dt fa_i"

definition first_style :: "string list \<Rightarrow> jsv" where
  "first_style S = (case filter (\<lambda>c. c \<notin> set fa_Z) S of [] \<Rightarrow> Null | c # _ \<Rightarrow> JStr c)"

definition table_prefix :: "string list \<Rightarrow> jsv" where
  "table_prefix S =
     (let style = first_style S; fam = style_family S
      in if fam = fa_t \<and> \<not> truthy style then JStr ''fad''
         else js_or (get_str (STYLE_TO_PREFIX fam) style)
           (get_str (STYLE_TO_PREFIX fam) (get_str (PREFIX_TO_STYLE fam) style)))"

definition style_prefix :: "string list \<Rightarrow> jsv" where
  "style_prefix S =
     (if ''fa-brands'' \<in> set S \<or> ''fab'' \<in> set S then JStr ''fab''
      else if style_family S \<noteq> fa_t \<and> (''fa-duotone'' \<in> set S \<or> ''fad'' \<in> set S
        \<or> table_prefix S = JStr ''fad'' \<or> table_prefix S = JStr ''fa-duotone'') then JStr ''fad''
      else table_prefix S)"

lemma to_str_family_props:
  "own (fold (\<lambda>familyId acc. obj_set acc familyId (p @ ''-'' @ familyId)) ks ob) f =
     (if f \<in> set ks then p @ ''-'' @ f else own ob f)"
  by (induction ks arbitrary: ob) (auto simp: own_def)

lemma PREFIXES_FOR_FAMILY_eval [code]:
  "PREFIXES_FOR_FAMILY =
    [(''classic'', [''fab'', ''fad'', ''fal'', ''far'', ''fas'', ''fat'', ''fak'']),
     (''duotone'', [''fadr'', ''fadl'', ''fadt'']),
     (''sharp'', [''fass'', ''fasr'', ''fasl'', ''fast'']),
     (''sharp-duotone'', [''fasds'', ''fasdr'', ''fasdl'', ''fasdt'']),
     (''slab'', [''faslr'']),
     (''slab-press'', [''faslpr'']),
     (''whiteboard'', [''fawsb'']),
     (''thumbprint'', [''fatl'']),
     (''notdog'', [''fans'']),
     (''notdog-duo'', [''fands'']),
     (''etch'', [''faes'']),
     (''graphite'', [''fagt'']),
     (''jelly'', [''fajr'']),
     (''jelly-fill'', [''fajfr'']),
     (''jelly-duo'', [''fajdr'']),
     (''chisel'', [''facr'']),
     (''utility'', [''fausb'']),
     (''utility-duo'', [''faudsb'']),
     (''utility-fill'', [''faufsb''])]"
  by code_simp

text \<open>The families in the order they are tried, with their class and their short prefixes.\<close>

definition family_rows :: "(string \<times> string \<times> string list) list" where
  "family_rows =
    [(''classic'', ''fa-classic'', [''fab'', ''fad'', ''fal'', ''far'', ''fas'', ''fat'', ''fak'']),
     (''duotone'', ''fa-duotone'', [''fadr'', ''fadl'', ''fadt'']),
     (''sharp'', ''fa-sharp'', [''fass'', ''fasr'', ''fasl'', ''fast'']),
     (''sharp-duotone'', ''fa-sharp-duotone'', [''fasds'', ''fasdr'', ''fasdl'', ''fasdt'']),
     (''chisel'', ''fa-chisel'', [''facr'']),
     (''etch'', ''fa-etch'', [''faes'']),
     (''graphite'', ''fa-graphite'', [''fagt'']),
     (''jelly'', ''fa-jelly'', [''fajr'']),
     (''jelly-duo'', ''fa-jelly-duo'', [''fajdr'']),
     (''jelly-fill'', ''fa-jelly-fill'', [''fajfr'']),
     (''notdog'', ''fa-notdog'', [''fans'']),
     (''notdog-duo'', ''fa-notdog-duo'', [''fands'']),
     (''slab'', ''fa-slab'', [''faslr'']),
     (''slab-press'', ''fa-slab-press'', [''faslpr'']),
     (''thumbprint'', ''fa-thumbprint'', [''fatl'']),
     (''utility'', ''fa-utility'', [''fausb'']),
     (''utility-duo'', ''fa-utility-duo'', [''faudsb'']),
     (''utility-fill'', ''fa-utility-fill'', [''faufsb'']),
     (''whiteboard'', ''fa-whiteboard'', [''fawsb''])]"

lemma family_rows_tables:
  "family_rows = map (\<lambda>f. (f, ''fa-'' @ f, own PREFIXES_FOR_FAMILY f)) fa_dt"
  by code_simp

lemma style_family_rows [code]:
  "style_family S = fold (\<lambda>(f, c, ps) family.
     if c \<in> set S \<or> list_ex (\<lambda>v. v \<in> set ps) S then f else family) family_rows fa_i"
  unfolding family_rows_tables style_family_def by (simp add: fold_map comp_def)

lemma families_named: "set fa_dt \<subseteq> set FAMILY_NAMES"
  by code_simp

lemma getFamilyId_style:
  assumes "cfg st ''cssPrefix'' = JStr ''fa''"
  shows "getFamilyId st S = style_family S"
  unfolding getFamilyId_def style_family_def Let_def assms to_str.simps to_str_family_props
  by (rule fold_cong) (use families_named in auto)

lemma combined_style_classes:
  "set [''fa-brands'', ''fab'', ''fa-duotone'', ''fad''] \<subseteq> set faCombinedClasses"
  by code_simp

lemma default_prefix:
  assumes "q = (if ''fa-brands'' \<in> set vs \<or> ''fab'' \<in> set vs then JStr ''fab''
      else if fam \<noteq> fa_t \<and> (''fa-duotone'' \<in> set vs \<or> ''fad'' \<in> set vs
        \<or> cfg st ''familyDefault'' = JStr ''duotone'' \<or> p = JStr ''fad'' \<or> p = JStr ''fa-duotone'')
      then JStr ''fad'' else p)"
    and "truthy q" "q \<noteq> JStr ''fa''" "g \<noteq> JStr ''fa''"
  shows "cn_prefix (getDefaultCanonicalPrefix st vs fam g \<lparr>cn_prefix = p, cn_iconName = n, cn_rest = r\<rparr>) = q"
proof -
  define c1 where "c1 \<longleftrightarrow> ''fa-brands'' \<in> set vs \<or> ''fab'' \<in> set vs"
  define c2 where "c2 \<longleftrightarrow> fam \<noteq> fa_t \<and> ((''fa-duotone'' \<in> set vs \<or> ''fad'' \<in> set vs)
        \<or> cfg st ''familyDefault'' = JStr ''duotone'' \<or> p = JStr ''fad'' \<or> p = JStr ''fa-duotone'')"
  have q: "q = (if c1 then JStr ''fab'' else if c2 then JStr ''fad'' else p)"
    using assms(1) unfolding c1_def c2_def by (simp only: disj_assoc)
  show ?thesis
    using assms(2-4) unfolding q getDefaultCanonicalPrefix_def Let_def canonical.select_convs
      c1_def [symmetric] c2_def [symmetric]
    by (cases c1; cases c2) simp_all
qed

lemma prefix_by_style:
  assumes css: "cfg st ''cssPrefix'' = JStr ''fa''" and fam: "cfg st ''familyDefault'' \<noteq> JStr ''duotone''"
    and S: "S = sorted_list_of_set {c \<in> set vs. c \<in> set faCombinedClasses}"
    and ok: "truthy (style_prefix S)" "style_prefix S \<noteq> JStr ''fa''" "''fa'' \<notin> set S" "S \<noteq> []"
  shows "cn_prefix (getCanonicalIcon st vs True) = style_prefix S"
proof -
  have memb: "''fa-brands'' \<in> set vs \<longleftrightarrow> ''fa-brands'' \<in> set S" "''fab'' \<in> set vs \<longleftrightarrow> ''fab'' \<in> set S"
    "''fa-duotone'' \<in> set vs \<longleftrightarrow> ''fa-duotone'' \<in> set S" "''fad'' \<in> set vs \<longleftrightarrow> ''fad'' \<in> set S"
    using combined_style_classes by (auto simp: S)
  have l: "last S \<noteq> ''fa''" using ok(3,4) by (metis last_in_set)
  define P where "P = getCanonicalPrefix st (first_style S) (JStr (style_family S))"
  have PT: "truthy (table_prefix S) \<Longrightarrow> P = table_prefix S"
    by (auto simp: P_def getCanonicalPrefix_def table_prefix_def Let_def js_or_def split: if_splits)
  have "cn_prefix (getCanonicalIcon st vs True) = cn_prefix (getDefaultCanonicalPrefix st vs (style_family S)
      (JStr (last S)) \<lparr>cn_prefix = P, cn_iconName = fst (moveNonFaClassesToRest st
        (sorted_list_of_set {c \<in> set vs. c \<notin> set faCombinedClasses})), cn_rest = snd (moveNonFaClassesToRest st
        (sorted_list_of_set {c \<in> set vs. c \<notin> set faCombinedClasses}))\<rparr>)"
    unfolding P_def using ok(4)
    by (simp add: getCanonicalIcon_def sortedUniqueValues_set set_filter Let_def applyShimAndAlias_def
        getFamilyId_style [OF css] first_style_def flip: S split: prod.split)
  also have "\<dots> = style_prefix S"
  proof (rule default_prefix)
    show "style_prefix S = (if ''fa-brands'' \<in> set vs \<or> ''fab'' \<in> set vs then JStr ''fab''
      else if style_family S \<noteq> fa_t \<and> (''fa-duotone'' \<in> set vs \<or> ''fad'' \<in> set vs
        \<or> cfg st ''familyDefault'' = JStr ''duotone'' \<or> P = JStr ''fad'' \<or> P = JStr ''fa-duotone'')
      then JStr ''fad'' else P)"
    proof (cases "truthy (table_prefix S)")
      case True
      then show ?thesis using fam unfolding style_prefix_def memb PT [OF True] by simp
    next
      case False
      then have "''fa-brands'' \<in> set S \<or> ''fab'' \<in> set S \<or>
          style_family S \<noteq> fa_t \<and> (''fa-duotone'' \<in> set S \<or> ''fad'' \<in> set S)"
        using ok(1) unfolding style_prefix_def by (auto split: if_splits)
      then show ?thesis unfolding style_prefix_def memb by (elim disjE conjE) simp_all
    qed
  qed (use ok l in simp_all)
  finally show ?thesis .
qed

text \<open>The whole style table, evaluated: one class for the short prefix, or the long class with the
  family class.\<close>

definition resolves_to :: "string list \<Rightarrow> string \<Rightarrow> bool" where
  "resolves_to S p \<longleftrightarrow> style_prefix S = JStr p \<and> p \<noteq> [] \<and> p \<noteq> ''fa'' \<and> ''fa'' \<notin> set S \<and> S \<noteq> []"

definition style_row :: "string \<times> string obj \<Rightarrow> bool" where
  "style_row ft \<longleftrightarrow> list_all (\<lambda>(p, l). resolves_to [p] p
     \<and> resolves_to (sort (remdups [l, ''fa-'' @ fst ft])) p) (snd ft)"

lemma style_rows_1: "list_all style_row (take 1 PREFIX_TO_LONG_STYLE_table)"
  by code_simp

lemma style_rows_2: "list_all style_row (take 2 (drop 1 PREFIX_TO_LONG_STYLE_table))"
  by code_simp

lemma style_rows_3: "list_all style_row (take 4 (drop 3 PREFIX_TO_LONG_STYLE_table))"
  by code_simp

lemma style_rows_4: "list_all style_row (take 6 (drop 7 PREFIX_TO_LONG_STYLE_table))"
  by code_simp

lemma style_rows_5: "list_all style_row (drop 13 PREFIX_TO_LONG_STYLE_table)"
  by code_simp

lemma style_table_resolves: "list_all style_row PREFIX_TO_LONG_STYLE_table"
proof -
  have cut: "list_all style_row (take n (drop m xs)) \<Longrightarrow> list_all style_row (drop (m + n) xs) \<Longrightarrow>
      list_all style_row (drop m xs)" for m n xs
    by (metis append_take_drop_id drop_drop add.commute list_all_append)
  show ?thesis
    using style_rows_1 style_rows_2 style_rows_3 style_rows_4 style_rows_5
      cut [of 6 7 PREFIX_TO_LONG_STYLE_table] cut [of 4 3 PREFIX_TO_LONG_STYLE_table]
      cut [of 2 1 PREFIX_TO_LONG_STYLE_table] cut [of 1 0 PREFIX_TO_LONG_STYLE_table]
    by (simp add: numeral_3_eq_3)
qed



end
