(* ===== verification/Fa_Library.thy ===== *)
theory Fa_Library
  imports Fa_Resolve
begin

text \<open>
  Registration and search of icons in \<^verbatim>\<open>src/static/fa6/js/fontawesome.js\<close>: the normalisation and
  definition of packs (lines 1502--1540), the class \<^verbatim>\<open>Library\<close> (1899--1952), the search for a
  definition and \<^verbatim>\<open>parse.icon\<close> (2023--2110), the hooks that \<^verbatim>\<open>bootstrap\<close> installs in the page's
  namespace (2119--2152) and the registration of the version 4 shims
  (\<^verbatim>\<open>src/static/fa6/js/v4-shims.js\<close>, lines 720--727). A definition handed to the library has a
  non-empty prefix and name, as its type in the package says.
\<close>

section \<open>Packs\<close>

datatype icon_input = Raw icon | Expanded string icon

definition normalizeIcons :: "icon_input obj \<Rightarrow> icon obj" where
  "normalizeIcons icons = js_reduce icons (\<lambda>acc inp iconName. case inp of
       Expanded n ic \<Rightarrow> obj_set acc n ic | Raw ic \<Rightarrow> obj_set acc iconName ic) []"

definition pack_of :: "icon obj obj \<Rightarrow> string \<Rightarrow> icon obj" where
  "pack_of styles prefix = (case map_of styles prefix of Some p \<Rightarrow> p | None \<Rightarrow> [])"

definition add_styles :: "fa \<Rightarrow> string \<Rightarrow> icon obj \<Rightarrow> fa" where
  "add_styles st prefix icons =
     st\<lparr>f_styles := obj_set (f_styles st) prefix (spread (spread [] (pack_of (f_styles st) prefix)) icons)\<rparr>"

definition autoReplace :: "fa \<Rightarrow> fa" where
  "autoReplace st =
     (if (obj_keys (f_styles st) \<noteq> [] \<or> truthy (cfg st ''autoFetchSvg'')) \<and> f_isDom st
         \<and> truthy (cfg st ''autoReplaceSvg'')
      then st\<lparr>f_i2svg := f_i2svg st + 1\<rparr> else st)"

definition addPack :: "fa \<Rightarrow> string \<Rightarrow> icon obj \<Rightarrow> fa" where
  "addPack st prefix icons = autoReplace (build (add_styles st prefix icons))"

definition addPacks :: "fa \<Rightarrow> (string \<times> icon obj) list \<Rightarrow> fa" where
  "addPacks st packs = autoReplace (build (fold (\<lambda>(prefix, icons) st. add_styles st prefix icons) packs st))"

definition addShims :: "fa \<Rightarrow> shim list \<Rightarrow> fa" where
  "addShims st shims = autoReplace (build (st\<lparr>f_shims := f_shims st @ shims\<rparr>))"

definition bootstrap_hooks :: "fa \<Rightarrow> fa" where
  "bootstrap_hooks st = st\<lparr>f_addPackHook := True\<rparr>"

text \<open>The code defines \<^verbatim>\<open>fa\<close> again after \<^verbatim>\<open>fas\<close>, by one recursive call that does not recur.\<close>

definition defineIcons_one :: "fa \<Rightarrow> string \<Rightarrow> icon_input obj \<Rightarrow> bool \<Rightarrow> fa" where
  "defineIcons_one st prefix icons skipHooks =
     (if f_addPackHook st \<and> \<not> skipHooks then addPack st prefix (normalizeIcons icons)
      else add_styles st prefix (normalizeIcons icons))"

definition defineIcons :: "fa \<Rightarrow> string \<Rightarrow> icon_input obj \<Rightarrow> bool \<Rightarrow> fa" where
  "defineIcons st prefix icons skipHooks =
     (let st' = defineIcons_one st prefix icons skipHooks
      in if prefix = ''fas'' then defineIcons_one st' ''fa'' icons False else st')"

text \<open>The script of the shims: through the hook when the core is loaded, else into the namespace.\<close>

definition v4_shims_load :: "fa \<Rightarrow> shim list \<Rightarrow> fa" where
  "v4_shims_load st shims =
     (if f_addPackHook st then addShims st shims else st\<lparr>f_shims := f_shims st @ shims\<rparr>)"

section \<open>The library\<close>

record icon_def =
  d_prefix :: string
  d_iconName :: string
  d_icon :: icon

datatype library_arg = Def icon_def | Pack "icon_def obj"

definition pull_one :: "icon obj obj \<Rightarrow> icon_def \<Rightarrow> icon obj obj" where
  "pull_one additions df =
     (let ic = d_icon df;
          names = fold (\<lambda>a ob. case a of AName s \<Rightarrow> obj_set ob s ic | ACode _ \<Rightarrow> ob) (ic_aliases ic)
                    (pack_of additions (d_prefix df))
      in obj_set additions (d_prefix df) (obj_set names (d_iconName df) ic))"

definition pullDefinitions :: "icon obj obj \<Rightarrow> library_arg \<Rightarrow> icon obj obj" where
  "pullDefinitions additions arg =
     (let normalized = (case arg of Def df \<Rightarrow> [(''0'', df)] | Pack p \<Rightarrow> p)
      in fold (\<lambda>k ads. case map_of normalized k of Some df \<Rightarrow> pull_one ads df | None \<Rightarrow> ads)
           (obj_keys normalized) additions)"

definition add_key :: "icon obj \<Rightarrow> string \<Rightarrow> fa \<Rightarrow> fa" where
  "add_key icons key st =
     (let st = st\<lparr>f_definitions := obj_set (f_definitions st) key
                    (spread (spread [] (pack_of (f_definitions st) key)) icons)\<rparr>;
          raw = map (\<lambda>(n, ic). (n, Raw ic)) icons;
          st = defineIcons st key raw False;
          st = (case map_of (PREFIX_TO_LONG_STYLE fa_i) key of
                  Some longPrefix \<Rightarrow> defineIcons st longPrefix raw False
                | None \<Rightarrow> st)
      in build st)"

definition library_add :: "fa \<Rightarrow> library_arg list \<Rightarrow> fa" where
  "library_add st args =
     (let additions = fold (\<lambda>a ads. pullDefinitions ads a) args []
      in fold (\<lambda>key st. add_key (pack_of additions key) key st) (obj_keys additions) st)"

definition library_reset :: "fa \<Rightarrow> fa" where
  "library_reset st = st\<lparr>f_definitions := []\<rparr>"

section \<open>Searching\<close>

record found_icon =
  fi_prefix :: jsv
  fi_iconName :: jsv
  fi_icon :: "icon propval"

definition iconFromMapping :: "icon obj obj \<Rightarrow> jsv \<Rightarrow> jsv \<Rightarrow> found_icon option" where
  "iconFromMapping mapping prefix iconName =
     (case get_prop mapping (to_str prefix) of
        Absent \<Rightarrow> None
      | Own pack \<Rightarrow> (case get_prop pack (to_str iconName) of
                      Absent \<Rightarrow> None
                    | p \<Rightarrow> Some \<lparr>fi_prefix = prefix, fi_iconName = iconName, fi_icon = p\<rparr>)
      | Inherited n \<Rightarrow> (case get_prop ([] :: icon obj) (to_str iconName) of
                      Absent \<Rightarrow> None
                    | p \<Rightarrow> Some \<lparr>fi_prefix = prefix, fi_iconName = iconName, fi_icon = p\<rparr>))"

definition findIconDefinition :: "fa \<Rightarrow> icon_lookup \<Rightarrow> found_icon option" where
  "findIconDefinition st lk =
     (let lk = (if lk_prefix lk = JStr ''fa'' then lk\<lparr>lk_prefix := JStr ''fas''\<rparr> else lk);
          iconName = lk_iconName lk;
          prefix = js_or (lk_prefix lk) (getDefaultUsablePrefix st)
      in if \<not> truthy iconName then None
         else let iconName = js_or (byAlias st prefix iconName) iconName
              in case iconFromMapping (f_definitions st) prefix iconName of
                   Some d \<Rightarrow> Some d
                 | None \<Rightarrow> iconFromMapping (f_styles st) prefix iconName)"

text \<open>The argument of \<^verbatim>\<open>parse.icon\<close>: null, an object, a pair, a string, or anything else.\<close>

datatype icon_arg = INull | IObject jsv jsv | IPair jsv string | IString string | IOther

definition parse_icon :: "fa \<Rightarrow> icon_arg \<Rightarrow> icon_lookup option" where
  "parse_icon st arg = (case arg of
       INull \<Rightarrow> None
     | IObject p n \<Rightarrow>
         if truthy p \<and> truthy n then Some \<lparr>lk_prefix = p, lk_iconName = js_or (byAlias st p n) n\<rparr> else None
     | IPair s n \<Rightarrow>
         (let iconName = JStr (if starts_with ''fa-'' n then drop 3 n else n);
              prefix = getCanonicalPrefix st s Undefined
          in Some \<lparr>lk_prefix = prefix, lk_iconName = js_or (byAlias st prefix iconName) iconName\<rparr>)
     | IString s \<Rightarrow>
         if is_infix (to_str (cfg st ''cssPrefix'') @ ''-'') s \<or> ICON_SELECTION_SYNTAX_PATTERN s
         then let c = getCanonicalIcon st (split_on (CHR '' '') s) True
              in Some \<lparr>lk_prefix = js_or (cn_prefix c) (getDefaultUsablePrefix st),
                       lk_iconName = js_or (byAlias st (cn_prefix c) (cn_iconName c)) (cn_iconName c)\<rparr>
         else let prefix = getDefaultUsablePrefix st
              in Some \<lparr>lk_prefix = prefix, lk_iconName = js_or (byAlias st prefix (JStr s)) (JStr s)\<rparr>
     | IOther \<Rightarrow> None)"

section \<open>Laws of the lookup tables\<close>

lemma map_of_lookup:
  "map_of (lookup styles red) p = map_option (\<lambda>s. js_reduce s red []) (map_of styles p)"
proof -
  have "map_of (fold (\<lambda>k acc. case map_of styles k of Some v \<Rightarrow> obj_set acc k (js_reduce v red []) | None \<Rightarrow> acc) ks ob) p
      = (if p \<in> set ks \<and> p \<in> dom (map_of styles) then map_option (\<lambda>s. js_reduce s red []) (map_of styles p)
         else map_of ob p)" for ks ob
    by (induction ks arbitrary: ob) (auto split: option.splits)
  then show ?thesis
    unfolding lookup_def js_reduce_def [of styles]
    by (auto simp: set_obj_keys dom_map_of_conv_image_fst [symmetric] domIff)
qed

lemma alias_fold:
  "map_of (fold (\<lambda>a acc. obj_set acc (alias_key a) n) as acc) x =
     (if x \<in> alias_key ` set as then Some n else map_of acc x)"
  by (induction as arbitrary: acc) auto

definition names_icon :: "icon obj \<Rightarrow> string \<Rightarrow> string \<Rightarrow> bool" where
  "names_icon pack a n \<longleftrightarrow> (\<exists>ic. map_of pack n = Some ic \<and> (a = n \<or> a \<in> alias_key ` set (ic_aliases ic)))"

lemma alias_table:
  shows alias_table_sound: "map_of (js_reduce pack alias_reducer []) a = Some n \<Longrightarrow> names_icon pack a n"
    and alias_table_complete: "names_icon pack a n \<Longrightarrow> \<exists>m. map_of (js_reduce pack alias_reducer []) a = Some m"
proof -
  let ?f = "\<lambda>k acc. case map_of pack k of Some v \<Rightarrow> alias_reducer acc v k | None \<Rightarrow> acc"
  have red: "map_of (alias_reducer acc v k) x =
      (if x = k \<or> x \<in> alias_key ` set (ic_aliases v) then Some k else map_of acc x)" for acc v k x
    by (simp add: alias_reducer_def alias_fold)
  have step: "\<forall>a n. map_of (?f k acc) a = Some n \<longrightarrow> names_icon pack a n"
    if "\<forall>a n. map_of acc a = Some n \<longrightarrow> names_icon pack a n" for k acc
    using that by (auto simp: red names_icon_def split: option.splits if_splits)
  have snd: "\<forall>a n. map_of (fold ?f ks acc) a = Some n \<longrightarrow> names_icon pack a n"
    if "\<forall>a n. map_of acc a = Some n \<longrightarrow> names_icon pack a n" for ks acc
    using that
  proof (induction ks arbitrary: acc)
    case (Cons k ks)
    from Cons.IH [OF step [OF Cons.prems]] show ?case by simp
  qed simp
  from snd [of "[]" "obj_keys pack"] show "map_of (js_reduce pack alias_reducer []) a = Some n \<Longrightarrow> names_icon pack a n"
    by (auto simp: js_reduce_def)
  have mono: "a \<in> dom (map_of acc) \<Longrightarrow> a \<in> dom (map_of (fold ?f ks acc))" for ks acc
    by (induction ks arbitrary: acc) (auto simp: red domIff split: option.splits)
  have cmp: "n \<in> set ks \<Longrightarrow> names_icon pack a n \<Longrightarrow> a \<in> dom (map_of (fold ?f ks acc))" for ks acc
  proof (induction ks arbitrary: acc)
    case (Cons k ks)
    show ?case
    proof (cases "n = k")
      case True
      then have "a \<in> dom (map_of (?f k acc))" using Cons.prems by (auto simp: names_icon_def red)
      then show ?thesis using mono by simp
    qed (use Cons in auto)
  qed simp
  show "names_icon pack a n \<Longrightarrow> \<exists>m. map_of (js_reduce pack alias_reducer []) a = Some m"
    using cmp [of "obj_keys pack" "[]"] unfolding js_reduce_def set_obj_keys
    by (force simp: names_icon_def dest: map_of_SomeD)
qed

lemma build_frame [simp]:
  "f_styles (build st) = f_styles st" "f_shims (build st) = f_shims st" "f_config (build st) = f_config st"
  "f_definitions (build st) = f_definitions st" "f_addPackHook (build st) = f_addPackHook st"
  "f_isDom (build st) = f_isDom st"
  by (simp_all add: build_def Let_def split: prod.split)

lemma f_byAlias_build [simp]: "f_byAlias (build st) = lookup (f_styles st) alias_reducer"
  by (simp add: build_def Let_def split: prod.split)

lemma byAlias_build:
  "map_of (f_styles st) p = Some pack \<Longrightarrow>
   byAlias (build st) (JStr p) (JStr a) = of_prop JStr (get_prop (js_reduce pack alias_reducer []) a)"
  by (simp add: byAlias_def get2_def get_prop_def [of _ p] map_of_lookup get_str_def)

text \<open>
  The alias table is exact: after a rebuild, a name looked up in a loaded pack is
  answered with a string exactly when it is the name or an alias (text or code point) of some icon
  of the pack, and the answer is then the name of such an icon.
\<close>

lemma alias_lookup_exact:
  assumes "map_of (f_styles st) p = Some pack"
  shows "((\<exists>n. byAlias (build st) (JStr p) (JStr a) = JStr n) \<longleftrightarrow> (\<exists>n. names_icon pack a n))
    \<and> (\<forall>n. byAlias (build st) (JStr p) (JStr a) = JStr n \<longrightarrow> names_icon pack a n)"
proof -
  have "byAlias (build st) (JStr p) (JStr a) = JStr n \<longleftrightarrow> map_of (js_reduce pack alias_reducer []) a = Some n" for n
    using assms by (auto simp: byAlias_build get_prop_def of_prop_def split: option.splits)
  then show ?thesis using alias_table_sound alias_table_complete by metis
qed

definition demo_icon :: icon where
  "demo_icon = \<lparr>ic_width = 512, ic_height = 512, ic_aliases = [AName ''cog'', ACode 9881],
     ic_unicode = ''f013'', ic_vector = Mono ''M0 0''\<rparr>"

definition demo_fa :: fa where
  "demo_fa = load_core (load_config False Map.empty None) True [(''fas'', [(''gear'', demo_icon)])] []"

lemma alias_lookup_exact_example:
  "\<exists>n. byAlias (build demo_fa) (JStr ''fas'') (JStr ''cog'') = JStr n \<and> names_icon [(''gear'', demo_icon)] ''cog'' n"
proof -
  have "map_of (f_styles demo_fa) ''fas'' = Some [(''gear'', demo_icon)]"
    by (simp add: demo_fa_def load_core_def)
  note exact = alias_lookup_exact [OF this, of "''cog''"]
  have "\<exists>n. names_icon [(''gear'', demo_icon)] ''cog'' n"
    by (intro exI [of _ "''gear''"]) (simp add: names_icon_def demo_icon_def alias_key_def)
  with exact show ?thesis by blast
qed

section \<open>Adding and finding\<close>

lemma map_of_raw: "map_of (normalizeIcons (map (\<lambda>(n, ic). (n, Raw ic)) icons)) = map_of icons"
proof
  fix x
  let ?raw = "map (\<lambda>(n, ic). (n, Raw ic)) icons"
  have raw: "map_of ?raw k = map_option Raw (map_of icons k)" for k by (induction icons) auto
  have "map_of (fold (\<lambda>k acc. case map_of ?raw k of Some v \<Rightarrow> (case v of
         Expanded n ic \<Rightarrow> obj_set acc n ic | Raw ic \<Rightarrow> obj_set acc k ic) | None \<Rightarrow> acc) ks acc) x =
      (if x \<in> set ks \<and> x \<in> dom (map_of icons) then map_of icons x else map_of acc x)" for ks acc
    by (induction ks arbitrary: acc) (auto simp: raw split: option.splits)
  moreover have "set (obj_keys ?raw) = dom (map_of icons)"
    by (force simp: set_obj_keys dom_map_of_conv_image_fst)
  ultimately show "map_of (normalizeIcons ?raw) x = map_of icons x"
    by (auto simp: normalizeIcons_def js_reduce_def domIff)
qed

text \<open>What a sequence of definitions does to the pack of one prefix, read as a map.\<close>

definition pack_map :: "fa \<Rightarrow> string \<Rightarrow> string \<rightharpoonup> icon" where
  "pack_map st p = map_of (pack_of (f_styles st) p)"

lemma pack_map_add_styles:
  "pack_map (add_styles st q icons) p = (if p = q then pack_map st p ++ map_of icons else pack_map st p)"
  by (simp add: pack_map_def add_styles_def pack_of_def)

lemma pack_map_frame [simp]:
  "pack_map (build st) p = pack_map st p" "pack_map (autoReplace st) p = pack_map st p"
  "pack_map (st\<lparr>f_definitions := d\<rparr>) p = pack_map st p"
  by (simp_all add: pack_map_def autoReplace_def)

lemma pack_map_defineIcons:
  "pack_map (defineIcons st q (map (\<lambda>(n, ic). (n, Raw ic)) icons) sk) p =
     (if p = q \<or> q = ''fas'' \<and> p = ''fa'' then pack_map st p ++ map_of icons else pack_map st p)"
  by (auto simp: defineIcons_def defineIcons_one_def addPack_def pack_map_add_styles map_of_raw Let_def)

lemma defs_frame [simp]:
  "f_definitions (autoReplace st) = f_definitions st"
  "f_definitions (defineIcons st q icons sk) = f_definitions st"
  by (simp_all add: autoReplace_def defineIcons_def defineIcons_one_def addPack_def add_styles_def Let_def)

lemma map_add_self [simp]: "m ++ m = m"
  by (auto simp: map_add_def split: option.splits)

lemma add_key_pack:
  assumes "pack_map st key = Map.empty"
  shows "pack_map (add_key icons key st) key = map_of icons"
  using assms by (auto simp: add_key_def Let_def pack_map_defineIcons split: option.split)

lemma add_key_defs:
  "f_definitions (add_key icons key st) =
     obj_set (f_definitions st) key (spread (spread [] (pack_of (f_definitions st) key)) icons)"
  by (simp add: add_key_def Let_def split: option.split)

lemma add_key_built: "\<exists>st'. add_key icons key st = build st'"
  by (auto simp: add_key_def Let_def)

lemma obj_keys_single: "obj_keys [(k, v)] = [k]"
  by (simp add: obj_keys_def show_read_digits)

lemma pull_map:
  "map_of (pack_of (pull_one [] df) (d_prefix df)) x =
     (if x = d_iconName df \<or> AName x \<in> set (ic_aliases (d_icon df)) then Some (d_icon df) else None)"
proof -
  have "map_of (fold (\<lambda>a ob. case a of AName s \<Rightarrow> obj_set ob s ic | ACode _ \<Rightarrow> ob) as ob) x =
      (if AName x \<in> set as then Some ic else map_of ob x)" for ic :: icon and as ob
    by (induction as arbitrary: ob) (auto split: icon_alias.splits)
  then show ?thesis by (simp add: pull_one_def pack_of_def Let_def)
qed

lemma library_add_one:
  "library_add st [Def df] = add_key (pack_of (pull_one [] df) (d_prefix df)) (d_prefix df) st"
proof -
  have "pullDefinitions [] (Def df) = pull_one [] df"
    by (simp add: pullDefinitions_def obj_keys_single)
  moreover have "obj_keys (pull_one [] df) = [d_prefix df]"
    by (simp add: pull_one_def Let_def obj_keys_single)
  ultimately show ?thesis by (simp add: library_add_def)
qed

lemma added_icon_found:
  assumes "map_of (f_styles st) (d_prefix df) = None" and "map_of (f_definitions st) (d_prefix df) = None"
    and "d_prefix df \<noteq> []" and "d_prefix df \<noteq> ''fa''"
    and "x = d_iconName df \<or> AName x \<in> set (ic_aliases (d_icon df))" and "x \<noteq> []"
  shows "\<exists>n. findIconDefinition (library_add st [Def df])
      \<lparr>lk_prefix = JStr (d_prefix df), lk_iconName = JStr x\<rparr> =
    Some \<lparr>fi_prefix = JStr (d_prefix df), fi_iconName = n, fi_icon = Own (d_icon df)\<rparr>"
proof -
  let ?p = "d_prefix df" let ?st = "library_add st [Def df]" let ?m = "map_of (pack_of (pull_one [] df) ?p)"
  have "pack_map st ?p = Map.empty" using assms(1) by (simp add: pack_map_def pack_of_def)
  then have pm: "pack_map ?st ?p = ?m" by (simp add: library_add_one add_key_pack)
  have x: "?m x = Some (d_icon df)" using assms(5) by (simp add: pull_map)
  then obtain pack where pack: "map_of (f_styles ?st) ?p = Some pack" "map_of pack = ?m"
    using pm by (cases "map_of (f_styles ?st) ?p") (auto simp: pack_map_def pack_of_def)
  obtain st' where b: "?st = build st'" using add_key_built library_add_one by metis
  have "names_icon pack x x" using pack(2) x by (simp add: names_icon_def)
  then obtain m where m: "map_of (js_reduce pack alias_reducer []) x = Some m"
    using alias_table_complete by blast
  then have "m \<in> dom ?m" using alias_table_sound [OF m] pack(2) by (auto simp: names_icon_def)
  then have dm: "?m m = Some (d_icon df)" by (auto simp: pull_map split: if_splits)
  have "byAlias ?st (JStr ?p) (JStr x) = JStr m"
    using pack(1) m unfolding b by (simp add: byAlias_build get_prop_def of_prop_def)
  moreover have defs: "map_of (pack_of (f_definitions ?st) ?p) = ?m"
    using assms(2) by (simp add: library_add_one add_key_defs pack_of_def)
  moreover have "map_of (f_definitions ?st) ?p = Some (pack_of (f_definitions ?st) ?p)"
    by (simp add: library_add_one add_key_defs pack_of_def)
  ultimately show ?thesis
    using assms(3,4,6) x dm
    by (auto simp: findIconDefinition_def iconFromMapping_def get_prop_def Let_def)
qed

section \<open>The tables are never stale\<close>

text \<open>\<open>fresh\<close>: rebuilding would change nothing, so every table and the default prefix agree with the
  packs, shims and configuration in force.\<close>

definition fresh :: "fa \<Rightarrow> bool" where
  "fresh st \<longleftrightarrow> build st = st"

inductive page_step :: "fa \<Rightarrow> fa \<Rightarrow> bool" where
  step_config: "key \<in> fst ` set config_default \<or> key = ''familyPrefix'' \<Longrightarrow> page_step st (set_config st key val)"
| step_hooks: "page_step st (bootstrap_hooks st)"
| step_pack: "page_step st (addPack st prefix icons)"
| step_packs: "page_step st (addPacks st packs)"
| step_shims: "page_step st (addShims st shims)"
| step_library: "page_step st (library_add st args)"
| step_reset: "page_step st (library_reset st)"

lemma same:
  "st\<lparr>f_byUnicode := a, f_byLigature := b, f_byAlias := c, f_byOldName := d, f_byOldUnicode := e,
      f_defaultUsablePrefix := f\<rparr> = st \<longleftrightarrow>
   f_byUnicode st = a \<and> f_byLigature st = b \<and> f_byAlias st = c \<and> (f_byOldName st, f_byOldUnicode st) = (d, e)
     \<and> f_defaultUsablePrefix st = f"
  by (cases st) auto

lemma fresh_iff:
  "fresh st \<longleftrightarrow> f_byUnicode st = lookup (f_styles st) unicode_reducer
     \<and> f_byLigature st = lookup (f_styles st) ligature_reducer
     \<and> f_byAlias st = lookup (f_styles st) alias_reducer
     \<and> (f_byOldName st, f_byOldUnicode st) =
         shim_lookups (js_in ''far'' (f_styles st) \<or> truthy (cfg st ''autoFetchSvg'')) (f_shims st)
     \<and> f_defaultUsablePrefix st = getCanonicalPrefix st (cfg st ''styleDefault'') (cfg st ''familyDefault'')"
proof -
  obtain ns us where s: "shim_lookups (js_in ''far'' (f_styles st) \<or> truthy (cfg st ''autoFetchSvg'')) (f_shims st) = (ns, us)"
    by force
  show ?thesis
    unfolding fresh_def build_def Let_def s prod.case same by blast
qed

lemma getCanonicalPrefix_styles:
  "f_styles st' = f_styles st \<Longrightarrow> getCanonicalPrefix st' = getCanonicalPrefix st"
  by (intro ext) (simp add: getCanonicalPrefix_def)

lemma build_fresh [simp]: "fresh (build st)"
  unfolding fresh_iff build_frame getCanonicalPrefix_styles [OF build_frame(1)]
  by (simp add: build_def Let_def split: prod.split)

lemma fresh_irrelevant:
  assumes "fresh st"
    and "f_styles st' = f_styles st" "f_shims st' = f_shims st" "f_config st' = f_config st"
    and "f_byUnicode st' = f_byUnicode st" "f_byLigature st' = f_byLigature st" "f_byAlias st' = f_byAlias st"
    and "f_byOldName st' = f_byOldName st" "f_byOldUnicode st' = f_byOldUnicode st"
    and "f_defaultUsablePrefix st' = f_defaultUsablePrefix st"
  shows "fresh st'"
  using assms getCanonicalPrefix_styles [OF assms(2)] by (simp add: fresh_iff)

lemma autoReplace_fresh: "fresh st \<Longrightarrow> fresh (autoReplace st)"
  by (erule fresh_irrelevant) (simp_all add: autoReplace_def)

lemma fold_add_key_fresh: "fresh st \<Longrightarrow> fresh (fold (\<lambda>key st. add_key (icons key) key st) ks st)"
proof (induction ks arbitrary: st)
  case (Cons k ks)
  have "fresh (add_key (icons k) k st)" using add_key_built build_fresh by metis
  then show ?case using Cons.IH by simp
qed simp

lemma set_config_fresh:
  assumes "fresh st" "key \<in> fst ` set config_default \<or> key = ''familyPrefix''"
  shows "fresh (set_config st key val)"
proof -
  have "''autoFetchSvg'' \<notin> fst ` set config_default" by (simp add: config_default_def)
  then have "cfg (set_config st key val) ''autoFetchSvg'' = cfg st ''autoFetchSvg''"
    using assms(2) by (auto simp: set_config_def config_set_def config_get_def Let_def)
  moreover have "f_styles (set_config st key val) = f_styles st" by (simp add: set_config_def Let_def)
  note getCanonicalPrefix_styles [OF this]
  ultimately show ?thesis
    using assms unfolding fresh_iff by (auto simp: set_config_def Let_def getCanonicalPrefix_def)
qed

lemma page_step_fresh: "page_step st st' \<Longrightarrow> fresh st \<Longrightarrow> fresh st'"
proof (induction rule: page_step.induct)
  case step_config
  then show ?case using set_config_fresh by blast
next
  case step_library
  then show ?case by (simp add: library_add_def Let_def fold_add_key_fresh)
next
  case step_hooks
  then show ?case by (simp add: fresh_irrelevant bootstrap_hooks_def)
next
  case step_reset
  then show ?case by (simp add: fresh_irrelevant library_reset_def)
qed (simp_all add: addPack_def addPacks_def addShims_def autoReplace_fresh)

interpretation page: step_system "\<lambda>st. \<exists>c isDom styles shims. st = load_core c isDom styles shims" page_step fresh
  by unfold_locales (auto simp: load_core_def intro: page_step_fresh)



end
