(* ===== verification/Fa_Load.thy ===== *)
theory Fa_Load
  imports Fa_Library "HOL-Library.Multiset"
begin

text \<open>
  The scripts of a page and the order they run in: \<^verbatim>\<open>src/static/fa6/js/brands.js\<close>, \<^verbatim>\<open>regular.js\<close>
  and \<^verbatim>\<open>solid.js\<close>, which define the icons of one style under its short and its long prefix,
  \<^verbatim>\<open>v4-shims.js\<close>, \<^verbatim>\<open>fontawesome.js\<close>, the core, and \<^verbatim>\<open>all.js\<close>, which is the three packs and
  the core in one file. They meet in the namespace \<^verbatim>\<open>window.___FONT_AWESOME___\<close>: a script that runs
  before the core leaves its icons there, one that runs after it goes through the hooks. The drawings
  of a pack are an argument. An exception in a script is swallowed by \<^verbatim>\<open>bunker\<close>; none of the
  operations here throws.
\<close>

section \<open>The scripts\<close>

datatype script =
    Core_js fa_config environment
  | Icons_js string string "icon_input obj"
  | Shims_js "shim list"

definition solid_js :: "icon_input obj \<Rightarrow> script" where
  "solid_js icons = Icons_js ''fas'' ''fa-solid'' icons"

definition regular_js :: "icon_input obj \<Rightarrow> script" where
  "regular_js icons = Icons_js ''far'' ''fa-regular'' icons"

definition brands_js :: "icon_input obj \<Rightarrow> script" where
  "brands_js icons = Icons_js ''fab'' ''fa-brands'' icons"

definition all_js :: "icon_input obj \<Rightarrow> icon_input obj \<Rightarrow> icon_input obj \<Rightarrow> fa_config \<Rightarrow> environment \<Rightarrow> script list" where
  "all_js brands regular solid c en = [brands_js brands, regular_js regular, solid_js solid, Core_js c en]"

text \<open>The namespace before any script: no styles, no shims, no hooks. The fields of the core, which are
  not read before it has run, have arbitrary values.\<close>

definition empty_namespace :: fa where
  "empty_namespace = \<lparr>f_config = load_config False Map.empty None, f_isDom = False, f_addPackHook = False, f_styles = [], f_shims = [],
      f_byUnicode = [], f_byLigature = [], f_byAlias = [], f_byOldName = [], f_byOldUnicode = [],
      f_defaultUsablePrefix = Null, f_definitions = [], f_i2svg = 0\<rparr>"

definition run_script :: "script \<Rightarrow> fa \<Rightarrow> fa" where
  "run_script s st = (case s of
       Core_js c en \<Rightarrow> bootstrap_hooks (load_core c (IS_DOM en) (f_styles st) (f_shims st))
     | Icons_js short long icons \<Rightarrow> defineIcons (defineIcons st short icons False) long icons False
     | Shims_js shims \<Rightarrow> v4_shims_load st shims)"

definition load_page :: "script list \<Rightarrow> fa" where
  "load_page scripts = fold run_script scripts empty_namespace"

section \<open>What the scripts leave\<close>

definition prefix_names :: "string \<Rightarrow> string list" where
  "prefix_names p = p # (if p = ''fas'' then [''fa''] else [])"

fun script_prefixes :: "script \<Rightarrow> string list" where
  "script_prefixes (Icons_js short long icons) = prefix_names short @ prefix_names long"
| "script_prefixes _ = []"

fun is_core :: "script \<Rightarrow> bool" where
  "is_core (Core_js c en) = True"
| "is_core _ = False"

fun shims_of :: "script \<Rightarrow> shim list" where
  "shims_of (Shims_js shims) = shims"
| "shims_of _ = []"

text \<open>A page with one core, packs of different styles and at most one set of shims.\<close>

definition page_scripts :: "script list \<Rightarrow> bool" where
  "page_scripts xs \<longleftrightarrow> length (filter is_core xs) = 1 \<and> distinct (concat (map script_prefixes xs))
     \<and> length (filter (\<lambda>s. shims_of s \<noteq> []) xs) \<le> 1"

lemma core_frame [simp]:
  "f_styles (autoReplace st) = f_styles st" "f_shims (autoReplace st) = f_shims st" "f_config (autoReplace st) = f_config st"
  "f_addPackHook (autoReplace st) = f_addPackHook st"
  "f_styles (load_core c d sty shs) = sty" "f_shims (load_core c d sty shs) = shs" "f_config (load_core c d sty shs) = c"
  "f_definitions (load_core c d sty shs) = []"
  by (simp_all add: autoReplace_def load_core_def)

lemma defineIcons_frame [simp]:
  "f_shims (defineIcons st p icons sk) = f_shims st" "f_config (defineIcons st p icons sk) = f_config st"
  "f_addPackHook (defineIcons st p icons sk) = f_addPackHook st"
  by (simp_all add: defineIcons_def defineIcons_one_def addPack_def add_styles_def Let_def)

text \<open>With or without the hooks, the namespace gets the same packs.\<close>

lemma defineIcons_styles:
  assumes "map_of (f_styles st) q = None \<or> q \<notin> set (prefix_names p)"
  shows "map_of (f_styles (defineIcons st p icons False)) q
    = (if q \<in> set (prefix_names p) then Some (spread [] (normalizeIcons icons)) else map_of (f_styles st) q)"
proof -
  have one: "map_of (f_styles (defineIcons_one st' p' icons False)) q'
      = (if q' = p' then Some (spread (spread [] (pack_of (f_styles st') p')) (normalizeIcons icons)) else map_of (f_styles st') q')" for st' p' q'
    by (simp add: defineIcons_one_def addPack_def add_styles_def)
  have nil: "spread [] [] = ([] :: icon obj)" by (simp add: spread_def obj_keys_def)
  show ?thesis
    using assms by (auto simp: defineIcons_def Let_def one prefix_names_def pack_of_def nil)
qed

lemma icons_script_styles:
  assumes "set (prefix_names short) \<inter> set (prefix_names long) = {}"
    and "q \<in> set (prefix_names short @ prefix_names long) \<Longrightarrow> map_of (f_styles st) q = None"
  shows "map_of (f_styles (defineIcons (defineIcons st short icons False) long icons False)) q
    = (if q \<in> set (prefix_names short @ prefix_names long) then Some (spread [] (normalizeIcons icons)) else map_of (f_styles st) q)"
proof -
  let ?st = "defineIcons st short icons False"
  have "map_of (f_styles ?st) q = (if q \<in> set (prefix_names short) then Some (spread [] (normalizeIcons icons)) else map_of (f_styles st) q)"
    by (rule defineIcons_styles) (use assms(2) in auto)
  moreover have "map_of (f_styles ?st) q = None \<or> q \<notin> set (prefix_names long)"
    using calculation assms by (cases "q \<in> set (prefix_names long)") auto
  note defineIcons_styles [OF this, of icons]
  ultimately show ?thesis by simp
qed

lemma load_page_snoc [simp]: "load_page (xs @ [s]) = run_script s (load_page xs)"
  by (simp add: load_page_def)

text \<open>The packs of the namespace are those of the scripts that have run, each under its prefixes.\<close>

definition pack_at :: "script list \<Rightarrow> string \<Rightarrow> icon obj \<Rightarrow> bool" where
  "pack_at xs q pack \<longleftrightarrow> (\<exists>short long icons. Icons_js short long icons \<in> set xs
     \<and> q \<in> set (prefix_names short @ prefix_names long) \<and> pack = spread [] (normalizeIcons icons))"

lemma load_page_styles:
  "distinct (concat (map script_prefixes xs)) \<Longrightarrow> map_of (f_styles (load_page xs)) q = Some pack \<longleftrightarrow> pack_at xs q pack"
proof (induction xs arbitrary: q pack rule: rev_induct)
  case Nil
  show ?case by (simp add: load_page_def empty_namespace_def pack_at_def)
next
  case (snoc s xs)
  show ?case
  proof (cases s)
    case (Icons_js short long icons)
    let ?st = "load_page xs"
    have none: "map_of (f_styles ?st) q' = None" if "q' \<in> set (prefix_names short @ prefix_names long)" for q'
    proof (rule ccontr)
      assume "map_of (f_styles ?st) q' \<noteq> None"
      then obtain sh lo ic where "Icons_js sh lo ic \<in> set xs" "q' \<in> set (prefix_names sh @ prefix_names lo)"
        using snoc.IH snoc.prems by (auto simp: pack_at_def)
      then have "q' \<in> set (concat (map script_prefixes xs))" by force
      then show False using that snoc.prems Icons_js by auto
    qed
    have disj: "set (prefix_names short) \<inter> set (prefix_names long) = {}" using snoc.prems Icons_js by auto
    have "map_of (f_styles (run_script s ?st)) q
        = (if q \<in> set (prefix_names short @ prefix_names long) then Some (spread [] (normalizeIcons icons)) else map_of (f_styles ?st) q)"
      using icons_script_styles [OF disj] none by (simp add: run_script_def Icons_js)
    moreover have "pack_at (xs @ [s]) q pack \<longleftrightarrow> pack_at xs q pack
        \<or> q \<in> set (prefix_names short @ prefix_names long) \<and> pack = spread [] (normalizeIcons icons)"
      unfolding pack_at_def Icons_js by auto
    moreover have IH: "map_of (f_styles ?st) q = Some pack \<longleftrightarrow> pack_at xs q pack" using snoc by simp
    ultimately show ?thesis
      using none [of q] unfolding load_page_snoc by (cases "q \<in> set (prefix_names short @ prefix_names long)") (simp, blast, simp)
  qed (use snoc in \<open>auto simp: run_script_def pack_at_def bootstrap_hooks_def v4_shims_load_def addShims_def\<close>)
qed

lemma load_page_shims: "f_shims (load_page xs) = concat (map shims_of xs)"
proof (induction xs rule: rev_induct)
  case Nil
  show ?case by (simp add: load_page_def empty_namespace_def)
next
  case (snoc s xs)
  then show ?case by (cases s) (auto simp: run_script_def bootstrap_hooks_def v4_shims_load_def addShims_def)
qed

lemma load_page_definitions: "f_definitions (load_page xs) = []"
proof (induction xs rule: rev_induct)
  case Nil
  show ?case by (simp add: load_page_def empty_namespace_def)
next
  case (snoc s xs)
  then show ?case by (cases s) (auto simp: run_script_def bootstrap_hooks_def v4_shims_load_def addShims_def)
qed

text \<open>Once the core has run, the configuration is its own and the tables are up to date.\<close>

lemma defineIcons_fresh: "f_addPackHook st \<Longrightarrow> fresh (defineIcons st p icons False)"
  by (auto simp: defineIcons_def defineIcons_one_def addPack_def autoReplace_fresh add_styles_def Let_def)

lemma bootstrap_fresh: "fresh st \<Longrightarrow> fresh (bootstrap_hooks st)"
  by (erule fresh_irrelevant) (simp_all add: bootstrap_hooks_def)

lemma load_core_fresh: "fresh (load_core c d sty shs)"
  by (simp add: load_core_def)

lemma load_page_core:
  assumes "length (filter is_core xs) \<le> 1" "Core_js c en \<in> set xs"
  shows "f_addPackHook (load_page xs) \<and> f_config (load_page xs) = c \<and> fresh (load_page xs)"
  using assms
proof (induction xs rule: rev_induct)
  case (snoc s xs)
  show ?case
  proof (cases "is_core s")
    case True
    then have "Core_js c en \<notin> set xs" using snoc.prems(1) by (auto simp: filter_empty_conv)
    then have "s = Core_js c en" using snoc.prems(2) by auto
    then show ?thesis
      using bootstrap_fresh [of "load_core c (IS_DOM en) (f_styles (load_page xs)) (f_shims (load_page xs))"]
      by (simp add: run_script_def load_core_fresh) (simp add: bootstrap_hooks_def)
  next
    case False
    then have "Core_js c en \<in> set xs" using snoc.prems(2) by auto
    with snoc False show ?thesis
      by (cases s) (auto simp: run_script_def v4_shims_load_def addShims_def autoReplace_fresh defineIcons_fresh)
  qed
qed simp

section \<open>The order of the scripts does not matter\<close>

text \<open>Two states that agree on the packs as maps, the shims, the configuration and the library answer every
  query alike.\<close>

definition same_content :: "fa \<Rightarrow> fa \<Rightarrow> bool" where
  "same_content a b \<longleftrightarrow> map_of (f_styles a) = map_of (f_styles b) \<and> f_shims a = f_shims b
     \<and> f_config a = f_config b \<and> f_definitions a = f_definitions b \<and> fresh a \<and> fresh b"

lemma same_get_prop: "map_of a = map_of b \<Longrightarrow> get_prop a = get_prop b" "map_of a = map_of b \<Longrightarrow> js_in k a = js_in k b"
  by (simp_all add: get_prop_def js_in_def fun_eq_iff)

lemma same_prefix: "same_content a b \<Longrightarrow> getCanonicalPrefix a = getCanonicalPrefix b"
  using same_get_prop(2) [of "f_styles a" "f_styles b"] by (intro ext) (simp add: getCanonicalPrefix_def same_content_def)

lemma same_tables:
  assumes "same_content a b"
  shows "byUnicode a = byUnicode b" "byLigature a = byLigature b" "byAlias a = byAlias b"
    "f_byOldName a = f_byOldName b" "f_byOldUnicode a = f_byOldUnicode b" "getDefaultUsablePrefix a = getDefaultUsablePrefix b"
proof -
  have l: "get2 (lookup (f_styles a) r) = get2 (lookup (f_styles b) r)" for r
    using assms by (intro ext) (simp add: get2_def get_prop_def map_of_lookup same_content_def)
  show "byUnicode a = byUnicode b" "byLigature a = byLigature b" "byAlias a = byAlias b"
    using assms l by (auto simp: fun_eq_iff byUnicode_def byLigature_def byAlias_def same_content_def fresh_iff)
  have "(f_byOldName a, f_byOldUnicode a) = (f_byOldName b, f_byOldUnicode b)"
    using assms same_get_prop(2) [of "f_styles a" "f_styles b"] by (simp add: same_content_def fresh_iff)
  then show "f_byOldName a = f_byOldName b" "f_byOldUnicode a = f_byOldUnicode b" by simp_all
  show "getDefaultUsablePrefix a = getDefaultUsablePrefix b"
    using assms same_prefix [OF assms] by (simp add: getDefaultUsablePrefix_def same_content_def fresh_iff)
qed

lemma same_byOldName: "same_content a b \<Longrightarrow> byOldName a = byOldName b"
  by (intro ext) (simp add: byOldName_def same_tables)

lemma same_definition: "same_content a b \<Longrightarrow> findIconDefinition a = findIconDefinition b"
proof
  fix lk
  assume c: "same_content a b"
  then have "get_prop (f_styles a) = get_prop (f_styles b)" and defs: "f_definitions a = f_definitions b"
    using same_get_prop(1) [of "f_styles a" "f_styles b"] by (simp_all add: same_content_def)
  then have styles: "iconFromMapping (f_styles a) = iconFromMapping (f_styles b)"
    by (intro ext) (simp add: iconFromMapping_def)
  show "findIconDefinition a lk = findIconDefinition b lk"
    unfolding findIconDefinition_def styles defs same_tables [OF c] by (rule refl)
qed

text \<open>The only place where the order of the keys could show is the search for a pack of a new family, which asks
  whether there is one.\<close>

lemma new_style_nonempty: "[] \<notin> set newCanonicalStyles"
proof -
  have "list_all (\<lambda>(k, t). [] \<notin> fst ` set t) fa_Xl" by (simp add: fa_Xl_def)
  then have "[] \<notin> set (obj_keys (own fa_Xl key))" for key
    by (cases "map_of fa_Xl key") (auto simp: own_def set_obj_keys list_all_iff dest!: map_of_SomeD)
  then show ?thesis by (simp add: newCanonicalStyles_def)
qed

lemma same_default_prefix:
  assumes "same_content a b"
  shows "getDefaultCanonicalPrefix a = getDefaultCanonicalPrefix b"
proof -
  have valid: "(case find (\<lambda>key. key \<in> set newCanonicalStyles) ks of Some p \<Rightarrow> p \<noteq> [] | None \<Rightarrow> False)
      = (\<exists>p \<in> set ks. p \<in> set newCanonicalStyles)" for ks
    by (induction ks) (use new_style_nonempty in auto)
  have keys: "fst ` set (f_styles a) = fst ` set (f_styles b)"
    using assms by (simp add: same_content_def flip: dom_map_of_conv_image_fst)
  have c: "f_config a = f_config b" using assms by (simp add: same_content_def)
  show ?thesis
    unfolding getDefaultCanonicalPrefix_def Let_def valid set_obj_keys keys c same_tables [OF assms] by (rule refl)
qed

lemma same_canonical:
  assumes "same_content a b"
  shows "getCanonicalIcon a = getCanonicalIcon b"
proof -
  have c: "f_config a = f_config b" using assms by (simp add: same_content_def)
  have styles: "js_in k (f_styles a) = js_in k (f_styles b)" for k
    using assms same_get_prop(2) [of "f_styles a" "f_styles b"] by (simp add: same_content_def)
  have "applyShimAndAlias a = applyShimAndAlias b"
    unfolding applyShimAndAlias_def same_tables [OF assms] same_byOldName [OF assms] c styles by (rule refl)
  then show ?thesis
    unfolding getCanonicalIcon_def same_default_prefix [OF assms] same_prefix [OF assms] getFamilyId_def moveNonFaClassesToRest_def c
    by simp
qed

lemma same_parse:
  assumes "same_content a b"
  shows "parse_icon a = parse_icon b"
proof -
  have c: "f_config a = f_config b" using assms by (simp add: same_content_def)
  show ?thesis unfolding parse_icon_def same_tables [OF assms] same_canonical [OF assms] same_prefix [OF assms] c by (rule refl)
qed

lemma page_has_core:
  assumes "page_scripts xs"
  obtains c en where "Core_js c en \<in> set xs"
  using assms unfolding page_scripts_def by (metis One_nat_def filter_empty_conv is_core.elims(2) length_0_conv nat.distinct(1))

lemma same_when_permuted:
  assumes "mset xs = mset ys" "page_scripts xs"
  shows "same_content (load_page xs) (load_page ys)"
proof -
  have s: "set xs = set ys" using assms(1) by (rule mset_eq_setD)
  have filt: "length (filter P xs) = length (filter P ys)" "length (filter P xs) \<le> 1 \<Longrightarrow> filter P xs = filter P ys" for P
  proof -
    have m: "mset (filter P xs) = mset (filter P ys)" using assms(1) by (simp add: mset_filter)
    then show l: "length (filter P xs) = length (filter P ys)" by (rule mset_eq_length)
    show "filter P xs = filter P ys" if "length (filter P xs) \<le> 1"
      using m l that by (cases "filter P xs"; cases "filter P ys") auto
  qed
  have "mset (concat (map f zs)) = \<Sum>\<^sub># (image_mset (mset \<circ> f) (mset zs))" for f :: "script \<Rightarrow> string list" and zs
    by (induction zs) simp_all
  then have "mset (concat (map script_prefixes xs)) = mset (concat (map script_prefixes ys))"
    by (simp only: assms(1))
  then have d: "distinct (concat (map script_prefixes xs))" "distinct (concat (map script_prefixes ys))"
    using assms(2) by (auto simp: page_scripts_def dest: mset_eq_imp_distinct_iff)
  have "pack_at xs q pack = pack_at ys q pack" for q pack by (simp add: pack_at_def s)
  then have "map_of (f_styles (load_page xs)) = map_of (f_styles (load_page ys))"
    using load_page_styles [OF d(1)] load_page_styles [OF d(2)] by (metis (no_types) option.exhaust ext)
  moreover have shims: "concat (map shims_of zs) = concat (map shims_of (filter (\<lambda>s. shims_of s \<noteq> []) zs))" for zs
    by (induction zs) auto
  have "f_shims (load_page xs) = f_shims (load_page ys)"
    unfolding load_page_shims shims [of xs] shims [of ys] using filt(2) [of "\<lambda>s. shims_of s \<noteq> []"] assms(2) by (simp add: page_scripts_def)
  moreover obtain c en where "Core_js c en \<in> set xs" by (rule page_has_core [OF assms(2)])
  ultimately show ?thesis
    using load_page_core [of xs c en] load_page_core [of ys c en] assms(2) filt(1) [of is_core] s
    by (simp add: same_content_def page_scripts_def load_page_definitions)
qed

text \<open>
  Claim C28. The order of the scripts does not matter: a page with the core, the packs and the shims, in whatever order
  their files run, before or after the core, finds the same drawing for every lookup, resolves every list
  of classes and every argument of the functions to the same icon, and answers every table lookup alike.
\<close>

theorem load_order_irrelevant:
  assumes "mset xs = mset ys" "page_scripts xs"
  shows "findIconDefinition (load_page xs) lk = findIconDefinition (load_page ys) lk
    \<and> getCanonicalIcon (load_page xs) classes sk = getCanonicalIcon (load_page ys) classes sk
    \<and> parse_icon (load_page xs) arg = parse_icon (load_page ys) arg
    \<and> byUnicode (load_page xs) p k = byUnicode (load_page ys) p k
    \<and> byLigature (load_page xs) p k = byLigature (load_page ys) p k
    \<and> byOldName (load_page xs) k = byOldName (load_page ys) k
    \<and> getDefaultUsablePrefix (load_page xs) = getDefaultUsablePrefix (load_page ys)"
  using same_when_permuted [OF assms] by (simp add: same_definition same_canonical same_parse same_tables same_byOldName)

definition demo_env :: environment where
  "demo_env = \<lparr>en_window_document = True, en_userAgent = None, en_documentElement = True, en_head = True,
     en_addEventListener = True, en_createElement = True\<rparr>"

text \<open>The shims and then \<^verbatim>\<open>all.js\<close> against the core, the packs one by one and the shims.\<close>

theorem load_order_irrelevant_witness:
  "findIconDefinition (load_page (Shims_js [(AName ''cogs'', Null, JStr ''gear'')]
      # all_js [] [] [(''gear'', Raw demo_icon)] (load_config False Map.empty None) demo_env)) \<lparr>lk_prefix = JStr ''fas'', lk_iconName = JStr ''cog''\<rparr>
   = findIconDefinition (load_page [Core_js (load_config False Map.empty None) demo_env, solid_js [(''gear'', Raw demo_icon)],
      brands_js [], regular_js [], Shims_js [(AName ''cogs'', Null, JStr ''gear'')]]) \<lparr>lk_prefix = JStr ''fas'', lk_iconName = JStr ''cog''\<rparr>"
  by (rule load_order_irrelevant [THEN conjunct1])
    (simp_all add: all_js_def solid_js_def brands_js_def regular_js_def page_scripts_def prefix_names_def)

text \<open>And the drawings are there: an icon of a pack that has run is found under each prefix of its pack, unless another
  icon of the pack claims its name.\<close>

lemma loaded_icon_found:
  assumes "page_scripts xs" "Icons_js short long icons \<in> set xs" "p \<in> set (prefix_names short @ prefix_names long)"
    and "p \<noteq> ''fa''" "p \<noteq> []" "p \<notin> set object_prototype" "n \<noteq> []" "map_of (normalizeIcons icons) n = Some ic"
    and "\<And>m. names_icon (spread [] (normalizeIcons icons)) n m \<Longrightarrow> m = n"
  shows "findIconDefinition (load_page xs) \<lparr>lk_prefix = JStr p, lk_iconName = JStr n\<rparr>
    = Some \<lparr>fi_prefix = JStr p, fi_iconName = JStr n, fi_icon = Own ic\<rparr>"
proof -
  let ?pack = "spread [] (normalizeIcons icons)" and ?st = "load_page xs"
  have pack: "map_of (f_styles ?st) p = Some ?pack"
    using load_page_styles [of xs p ?pack] assms(1-3) by (auto simp: page_scripts_def pack_at_def)
  obtain c en where "Core_js c en \<in> set xs" by (rule page_has_core [OF assms(1)])
  then have "fresh ?st" using load_page_core [of xs c en] assms(1) by (simp add: page_scripts_def)
  then have build: "build ?st = ?st" by (simp add: fresh_def)
  have icon: "map_of ?pack n = Some ic" using assms(8) by simp
  have "names_icon ?pack n n" using icon by (simp add: names_icon_def)
  then obtain m where m: "map_of (js_reduce ?pack alias_reducer []) n = Some m" using alias_table_complete by blast
  then have "m = n" using alias_table_sound assms(9) by blast
  then have "byAlias ?st (JStr p) (JStr n) = JStr n"
    using byAlias_build [OF pack, of n] m unfolding build by (simp add: get_prop_def of_prop_def)
  then show ?thesis
    using assms(4-7) pack icon by (simp add: findIconDefinition_def iconFromMapping_def load_page_definitions get_prop_def)
qed

end
