(* ===== verification/Fa_Render.thy ===== *)
theory Fa_Render
  imports Fa_Resolve
begin

text \<open>
  Rendering in \<^verbatim>\<open>src/static/fa6/js/fontawesome.js\<close>: transforms (lines 1239--1246, 1311--1361,
  3392--3502), the style sheet with its prefixes replaced (1365--1378), markup (1432--1443), icons
  and layers as abstract nodes (2176--2446, 2930--2966, 2968--3093), masks (3504--3615) and the
  indicator of a missing icon (3617--3706). The providers that the plugins register are called by
  name in the code and directly here. JavaScript's numbers are doubles, which the library does not
  have: a record \<open>jsnum\<close> of the operations used is an argument. An abstract node is a text or an
  element, whose tag, attributes and children may be missing.
\<close>

section \<open>Numbers and transforms\<close>

record 'n jsnum =
  n_of :: "int \<Rightarrow> 'n"
  n_add :: "'n \<Rightarrow> 'n \<Rightarrow> 'n"
  n_sub :: "'n \<Rightarrow> 'n \<Rightarrow> 'n"
  n_mul :: "'n \<Rightarrow> 'n \<Rightarrow> 'n"
  n_div :: "'n \<Rightarrow> 'n \<Rightarrow> 'n"
  n_eq :: "'n \<Rightarrow> 'n \<Rightarrow> bool"
  n_show :: "'n \<Rightarrow> string"
  n_parse :: "string \<Rightarrow> 'n option"

text \<open>\<open>n_parse\<close> is \<^verbatim>\<open>parseFloat\<close>, with \<^term>\<open>None\<close> for \<^verbatim>\<open>NaN\<close>.\<close>

record 'n transform =
  t_size :: 'n
  t_x :: 'n
  t_y :: 'n
  t_rotate :: 'n
  t_flipX :: bool
  t_flipY :: bool

definition UNITS_IN_GRID :: int where
  "UNITS_IN_GRID = 16"

definition meaninglessTransform :: "'n jsnum \<Rightarrow> 'n transform" where
  "meaninglessTransform N =
     \<lparr>t_size = n_of N 16, t_x = n_of N 0, t_y = n_of N 0, t_rotate = n_of N 0, t_flipX = False, t_flipY = False\<rparr>"

definition transformIsMeaningful :: "'n jsnum \<Rightarrow> 'n transform \<Rightarrow> bool" where
  "transformIsMeaningful N t \<longleftrightarrow>
     \<not> n_eq N (t_size t) (n_of N 16) \<or> \<not> n_eq N (t_x t) (n_of N 0) \<or> \<not> n_eq N (t_y t) (n_of N 0)
     \<or> \<not> n_eq N (t_rotate t) (n_of N 0) \<or> t_flipX t \<or> t_flipY t"

definition flip_sign :: "'n jsnum \<Rightarrow> bool \<Rightarrow> 'n" where
  "flip_sign N b = n_of N (if b then - 1 else 1)"

definition scale_text :: "'n jsnum \<Rightarrow> int \<Rightarrow> 'n transform \<Rightarrow> string" where
  "scale_text N units t =
     ''scale('' @ n_show N (n_mul N (n_div N (t_size t) (n_of N units)) (flip_sign N (t_flipX t))) @ '', ''
     @ n_show N (n_mul N (n_div N (t_size t) (n_of N units)) (flip_sign N (t_flipY t))) @ '') ''"

text \<open>\<^verbatim>\<open>transformForSvg\<close>: the outer, inner and path transform attributes.\<close>

definition transformForSvg :: "'n jsnum \<Rightarrow> 'n transform \<Rightarrow> 'n \<Rightarrow> 'n \<Rightarrow> jsv obj \<times> jsv obj \<times> jsv obj" where
  "transformForSvg N t containerWidth iconWidth =
     (let outer = [(''transform'', JStr (''translate('' @ n_show N (n_div N containerWidth (n_of N 2)) @ '' 256)''))];
          innerTranslate = ''translate('' @ n_show N (n_mul N (t_x t) (n_of N 32)) @ '', ''
            @ n_show N (n_mul N (t_y t) (n_of N 32)) @ '') '';
          innerScale = scale_text N 16 t;
          innerRotate = ''rotate('' @ n_show N (t_rotate t) @ '' 0 0)'';
          inner = [(''transform'', JStr (innerTranslate @ '' '' @ innerScale @ '' '' @ innerRotate))];
          path = [(''transform'', JStr (''translate('' @
            n_show N (n_mul N (n_div N iconWidth (n_of N 2)) (n_of N (- 1))) @ '' -256)''))]
      in (outer, inner, path))"

definition transformForCss :: "'n jsnum \<Rightarrow> bool \<Rightarrow> 'n transform \<Rightarrow> 'n option \<Rightarrow> 'n option \<Rightarrow> bool \<Rightarrow> string" where
  "transformForCss N isIE t width height startCentered =
     (let units = n_of N UNITS_IN_GRID;
          width = (case width of Some w \<Rightarrow> w | None \<Rightarrow> units);
          height = (case height of Some h \<Rightarrow> h | None \<Rightarrow> units);
          tx = n_div N (t_x t) units; ty = n_div N (t_y t) units;
          val = (if startCentered \<and> isIE
                 then ''translate('' @ n_show N (n_sub N tx (n_div N width (n_of N 2))) @ ''em, ''
                      @ n_show N (n_sub N ty (n_div N height (n_of N 2))) @ ''em) ''
                 else if startCentered
                 then ''translate(calc(-50% + '' @ n_show N tx @ ''em), calc(-50% + '' @ n_show N ty @ ''em)) ''
                 else ''translate('' @ n_show N tx @ ''em, '' @ n_show N ty @ ''em) '')
      in val @ scale_text N UNITS_IN_GRID t @ ''rotate('' @ n_show N (t_rotate t) @ ''deg) '')"

text \<open>\<^verbatim>\<open>parseTransformString\<close>: one step per blank-separated word.\<close>

definition transform_word :: "'n jsnum \<Rightarrow> 'n transform \<Rightarrow> string \<Rightarrow> 'n transform" where
  "transform_word N acc n =
     (let parts = split_on (CHR ''-'') (toLowerCase n);
          first = hd parts;
          rest = join_with ''-'' (tl parts)
      in if first \<noteq> [] \<and> rest = ''h'' then acc\<lparr>t_flipX := True\<rparr>
         else if first \<noteq> [] \<and> rest = ''v'' then acc\<lparr>t_flipY := True\<rparr>
         else case n_parse N rest of
                None \<Rightarrow> acc
              | Some v \<Rightarrow>
                  if first = ''grow'' then acc\<lparr>t_size := n_add N (t_size acc) v\<rparr>
                  else if first = ''shrink'' then acc\<lparr>t_size := n_sub N (t_size acc) v\<rparr>
                  else if first = ''left'' then acc\<lparr>t_x := n_sub N (t_x acc) v\<rparr>
                  else if first = ''right'' then acc\<lparr>t_x := n_add N (t_x acc) v\<rparr>
                  else if first = ''up'' then acc\<lparr>t_y := n_sub N (t_y acc) v\<rparr>
                  else if first = ''down'' then acc\<lparr>t_y := n_add N (t_y acc) v\<rparr>
                  else if first = ''rotate'' then acc\<lparr>t_rotate := n_add N (t_rotate acc) v\<rparr>
                  else acc)"

definition parseTransformString :: "'n jsnum \<Rightarrow> string \<Rightarrow> 'n transform" where
  "parseTransformString N s =
     foldl (transform_word N) (meaninglessTransform N) (split_on (CHR '' '') (toLowerCase s))"

section \<open>Style sheet\<close>

text \<open>The base style sheet is one string constant, an argument here.\<close>

definition css :: "string \<Rightarrow> fa \<Rightarrow> string" where
  "css baseStyles st =
     (let dcp = DEFAULT_CSS_PREFIX; drc = DEFAULT_REPLACEMENT_CLASS;
          fp = cfg st ''cssPrefix''; rc = cfg st ''replacementClass''
      in if fp \<noteq> JStr dcp \<or> rc \<noteq> JStr drc
         then replace_all (''.'' @ drc) (''.'' @ to_str rc)
                (replace_all (''--'' @ dcp @ ''-'') (''--'' @ to_str fp @ ''-'')
                  (replace_all (''.'' @ dcp @ ''-'') (''.'' @ to_str fp @ ''-'') baseStyles))
         else baseStyles)"

section \<open>Abstract nodes\<close>

datatype abs_node = Txt string | El jsv "jsv obj option" "abs_node list option"

fun toHtml :: "abs_node \<Rightarrow> string" where
  "toHtml (Txt s) = htmlEscape s"
| "toHtml (El tag attributes children) =
     ''<'' @ to_str tag @ '' ''
     @ joinAttributes (case attributes of Some a \<Rightarrow> a | None \<Rightarrow> []) @ ''>''
     @ concat (map toHtml (case children of Some cs \<Rightarrow> cs | None \<Rightarrow> []))
     @ ''</'' @ to_str tag @ ''>''"

abbreviation el :: "string \<Rightarrow> jsv obj \<Rightarrow> abs_node list \<Rightarrow> abs_node" where
  "el tag as cs \<equiv> El (JStr tag) (Some as) (Some cs)"

abbreviation leaf :: "string \<Rightarrow> jsv obj \<Rightarrow> abs_node" where
  "leaf tag as \<equiv> El (JStr tag) (Some as) None"

definition no_node :: abs_node where
  "no_node = El Undefined None None"

record 'n found =
  fo_found :: bool
  fo_width :: 'n
  fo_height :: 'n
  fo_icon :: abs_node

definition asFoundIcon :: "'n jsnum \<Rightarrow> fa \<Rightarrow> icon \<Rightarrow> 'n found" where
  "asFoundIcon N st ic =
     (let cp = to_str (cfg st ''cssPrefix'');
          cls = (\<lambda>k. JStr (cp @ ''-'' @ own fa_X k));
          element = (case ic_vector ic of
             Duo d2 d1 \<Rightarrow>
               el ''g'' [(''class'', cls ''GROUP'')]
                 [leaf ''path'' [(''class'', cls ''SECONDARY''), (''fill'', JStr ''currentColor''), (''d'', JStr d2)],
                  leaf ''path'' [(''class'', cls ''PRIMARY''), (''fill'', JStr ''currentColor''), (''d'', JStr d1)]]
           | Mono d \<Rightarrow> leaf ''path'' [(''fill'', JStr ''currentColor''), (''d'', JStr d)])
      in \<lparr>fo_found = True, fo_width = n_of N (ic_width ic), fo_height = n_of N (ic_height ic), fo_icon = element\<rparr>)"

definition missing_found :: "'n jsnum \<Rightarrow> abs_node \<Rightarrow> 'n found" where
  "missing_found N nd = \<lparr>fo_found = False, fo_width = n_of N 512, fo_height = n_of N 512, fo_icon = nd\<rparr>"

text \<open>\<^verbatim>\<open>findIcon\<close>; \<open>missing\<close> is the indicator of a missing icon. An entry inherited from
  \<^verbatim>\<open>Object.prototype\<close> is no icon: reading it as one fails, a rejected promise (\<^term>\<open>None\<close>).\<close>

definition findIcon :: "'n jsnum \<Rightarrow> fa \<Rightarrow> abs_node \<Rightarrow> jsv \<Rightarrow> jsv \<Rightarrow> 'n found option" where
  "findIcon N st missing iconName givenPrefix =
     (let prefix = (if givenPrefix = JStr ''fa'' \<and> cfg st ''styleDefault'' \<noteq> Null
                    then getDefaultUsablePrefix st else givenPrefix);
          shim = byOldName st iconName;
          (iconName, prefix) =
            (if givenPrefix = JStr ''fa''
             then (js_or (lk_iconName shim) iconName, js_or (lk_prefix shim) prefix) else (iconName, prefix));
          notFound = Some (missing_found N
            (if truthy (cfg st ''showMissingIcons'') \<and> truthy iconName then missing else no_node))
      in if truthy iconName \<and> truthy prefix then
           (case get_prop (f_styles st) (to_str prefix) of
              Own pack \<Rightarrow> (case get_prop pack (to_str iconName) of
                  Own ic \<Rightarrow> Some (asFoundIcon N st ic)
                | Inherited n \<Rightarrow> None
                | Absent \<Rightarrow> notFound)
            | Inherited n \<Rightarrow> if to_str iconName \<in> set object_prototype then None else notFound
            | Absent \<Rightarrow> notFound)
         else notFound)"

section \<open>Icons\<close>

record extra =
  ex_classes :: "string list"
  ex_styles :: "string obj"
  ex_attributes :: "jsv obj"

definition isLabeled :: "jsv obj \<Rightarrow> bool" where
  "isLabeled attributes \<longleftrightarrow>
     list_ex (\<lambda>label. js_in label attributes) [''aria-label'', ''aria-labelledby'', ''title'', ''role'']"

definition node_children :: "abs_node \<Rightarrow> abs_node list option" where
  "node_children nd = (case nd of El t as cs \<Rightarrow> cs | Txt s \<Rightarrow> None)"

definition node_attributes :: "abs_node \<Rightarrow> jsv obj option" where
  "node_attributes nd = (case nd of El t as cs \<Rightarrow> as | Txt s \<Rightarrow> None)"

definition node_tag :: "abs_node \<Rightarrow> jsv" where
  "node_tag nd = (case nd of El t as cs \<Rightarrow> t | Txt s \<Rightarrow> Undefined)"

definition generateAbstractTransformGrouping ::
  "'n jsnum \<Rightarrow> 'n found \<Rightarrow> 'n transform \<Rightarrow> 'n \<Rightarrow> 'n \<Rightarrow> abs_node" where
  "generateAbstractTransformGrouping N main t containerWidth iconWidth =
     (let (outer, inner, path) = transformForSvg N t containerWidth iconWidth
      in el ''g'' (spread [] outer)
           [el ''g'' (spread [] inner)
              [El (node_tag (fo_icon main))
                 (Some (spread (spread [] (case node_attributes (fo_icon main) of Some a \<Rightarrow> a | None \<Rightarrow> [])) path))
                 (node_children (fo_icon main))]])"

definition generateAbstractIcon ::
  "'n jsnum \<Rightarrow> jsv obj \<Rightarrow> 'n found \<Rightarrow> 'n transform \<Rightarrow> string obj \<Rightarrow> abs_node list \<times> jsv obj" where
  "generateAbstractIcon N attributes main t styles =
     (let styleString = joinStyles styles;
          attributes = (if styleString \<noteq> [] then obj_set attributes ''style'' (JStr styleString) else attributes);
          child = (if transformIsMeaningful N t
                   then generateAbstractTransformGrouping N main t (fo_width main) (fo_width main)
                   else fo_icon main)
      in ([child], attributes))"

definition ALL_SPACE :: "jsv obj" where
  "ALL_SPACE = [(''x'', JNum 0), (''y'', JNum 0), (''width'', JStr ''100%''), (''height'', JStr ''100%'')]"

text \<open>\<^verbatim>\<open>fillBlack\<close>; as the callback of \<^verbatim>\<open>map\<close> its second argument is the index, so the first
  child is filled only when it has a fill.\<close>

definition fillBlack :: "bool \<Rightarrow> abs_node \<Rightarrow> abs_node" where
  "fillBlack force nd = (case nd of
       El t (Some as) cs \<Rightarrow>
         if truthy (get_jsv as ''fill'') \<or> force then El t (Some (obj_set as ''fill'' (JStr ''black''))) cs else nd
     | _ \<Rightarrow> nd)"

definition deGroup :: "abs_node \<Rightarrow> abs_node list option" where
  "deGroup nd = (if node_tag nd = JStr ''g'' then node_children nd else Some [nd])"

text \<open>\<open>fresh1\<close> and \<open>fresh2\<close> are the identifiers the two calls of \<^verbatim>\<open>nextUniqueId\<close> return.\<close>

definition generateAbstractMask ::
  "'n jsnum \<Rightarrow> string \<Rightarrow> string \<Rightarrow> jsv obj \<Rightarrow> 'n found \<Rightarrow> 'n found \<Rightarrow> jsv \<Rightarrow> 'n transform
    \<Rightarrow> abs_node list \<times> jsv obj" where
  "generateAbstractMask N fresh1 fresh2 attributes main msk explicitMaskId t =
     (let (outer, inner, path) = transformForSvg N t (fo_width msk) (fo_width main);
          maskRect = leaf ''rect'' (spread (spread [] ALL_SPACE) [(''fill'', JStr ''white'')]);
          mainPath = fo_icon main;
          innerChildren = map_option (\<lambda>cs. map (\<lambda>(i, c). fillBlack (i \<noteq> 0) c) (zip [0..<length cs] cs))
                            (node_children mainPath);
          maskInnerGroup = el ''g'' (spread [] inner)
            [fillBlack True (El (node_tag mainPath)
               (Some (spread (spread [] (case node_attributes mainPath of Some a \<Rightarrow> a | None \<Rightarrow> [])) path)) innerChildren)];
          maskOuterGroup = el ''g'' (spread [] outer) [maskInnerGroup];
          maskId = ''mask-'' @ to_str (js_or explicitMaskId (JStr fresh1));
          clipId = ''clip-'' @ to_str (js_or explicitMaskId (JStr fresh2));
          maskTag = el ''mask'' (spread (spread [] ALL_SPACE)
              [(''id'', JStr maskId), (''maskUnits'', JStr ''userSpaceOnUse''), (''maskContentUnits'', JStr ''userSpaceOnUse'')])
            [maskRect, maskOuterGroup];
          defs = El (JStr ''defs'') None
            (Some [El (JStr ''clipPath'') (Some [(''id'', JStr clipId)]) (deGroup (fo_icon msk)), maskTag])
      in ([defs, leaf ''rect'' (spread [(''fill'', JStr ''currentColor''),
             (''clip-path'', JStr (''url(#'' @ clipId @ '')'')), (''mask'', JStr (''url(#'' @ maskId @ '')''))] ALL_SPACE)],
          attributes))"

definition asIcon ::
  "'n jsnum \<Rightarrow> abs_node list \<Rightarrow> 'n found \<Rightarrow> bool \<Rightarrow> jsv obj \<Rightarrow> string obj \<Rightarrow> 'n transform \<Rightarrow> abs_node list" where
  "asIcon N children main maskFound attributes styles t =
     (let attributes =
        (if transformIsMeaningful N t \<and> fo_found main \<and> \<not> maskFound
         then let ox = n_div N (n_div N (fo_width main) (fo_height main)) (n_of N 2);
                  oy = n_div N (n_of N 1) (n_of N 2)
              in obj_set attributes ''style'' (JStr (joinStyles (spread (spread [] styles)
                   [(''transform-origin'', n_show N (n_add N ox (n_div N (t_x t) (n_of N 16))) @ ''em ''
                       @ n_show N (n_add N oy (n_div N (t_y t) (n_of N 16))) @ ''em'')])))
         else attributes)
      in [el ''svg'' attributes children])"

definition asSymbol :: "fa \<Rightarrow> jsv \<Rightarrow> jsv \<Rightarrow> abs_node list \<Rightarrow> jsv obj \<Rightarrow> jsv \<Rightarrow> abs_node list" where
  "asSymbol st prefix iconName children attributes symbol =
     (let ident = (if symbol = JBool True
                   then JStr (to_str prefix @ ''-'' @ to_str (cfg st ''cssPrefix'') @ ''-'' @ to_str iconName)
                   else symbol)
      in [el ''svg'' [(''style'', JStr ''display: none;'')]
            [el ''symbol'' (spread (spread [] attributes) [(''id'', ident)]) children]])"

definition icon_class :: "fa \<Rightarrow> jsv \<Rightarrow> string list \<Rightarrow> string" where
  "icon_class st iconName classes =
     (let base = [cfg st ''replacementClass'',
                  if truthy iconName then JStr (to_str (cfg st ''cssPrefix'') @ ''-'' @ to_str iconName) else JStr []]
      in join_with '' '' (map to_str (filter (\<lambda>c. c \<noteq> JStr [])
           (filter (\<lambda>c. c \<notin> JStr ` set classes) base)) @ classes))"

definition makeInlineSvgAbstract ::
  "'n jsnum \<Rightarrow> fa \<Rightarrow> string \<Rightarrow> string \<Rightarrow> 'n found \<Rightarrow> 'n found \<Rightarrow> jsv \<Rightarrow> jsv \<Rightarrow> 'n transform \<Rightarrow> jsv \<Rightarrow> jsv
    \<Rightarrow> extra \<Rightarrow> bool \<Rightarrow> abs_node list" where
  "makeInlineSvgAbstract N st fresh1 fresh2 main msk prefix iconName t symbol maskId ex watchable =
     (let shown = (if fo_found msk then msk else main);
          role = get_jsv (ex_attributes ex) ''role'';
          attributes = spread (spread [] (ex_attributes ex))
            [(''data-prefix'', prefix), (''data-icon'', iconName),
             (''class'', JStr (icon_class st iconName (ex_classes ex))),
             (''role'', js_or role (JStr ''img'')),
             (''viewBox'', JStr (''0 0 '' @ n_show N (fo_width shown) @ '' '' @ n_show N (fo_height shown)))];
          attributes = (if \<not> isLabeled (ex_attributes ex) \<and> \<not> truthy (get_jsv (ex_attributes ex) ''aria-hidden'')
                        then obj_set attributes ''aria-hidden'' (JStr ''true'') else attributes);
          attributes = (if watchable then obj_set attributes DATA_FA_I2SVG (JStr []) else attributes);
          styles = spread [] (ex_styles ex);
          (children, attributes) =
            (if fo_found msk \<and> fo_found main
             then generateAbstractMask N fresh1 fresh2 attributes main msk maskId t
             else generateAbstractIcon N attributes main t styles)
      in if truthy symbol then asSymbol st prefix iconName children attributes symbol
         else asIcon N children main (fo_found msk) attributes styles t)"

section \<open>Layers\<close>

definition makeLayersTextAbstract ::
  "'n jsnum \<Rightarrow> bool \<Rightarrow> string \<Rightarrow> 'n option \<Rightarrow> 'n option \<Rightarrow> 'n transform \<Rightarrow> extra \<Rightarrow> bool \<Rightarrow> abs_node list" where
  "makeLayersTextAbstract N isIE content width height t ex watchable =
     (let attributes = spread (spread [] (ex_attributes ex)) [(''class'', JStr (join_with '' '' (ex_classes ex)))];
          attributes = (if watchable then obj_set attributes DATA_FA_I2SVG (JStr []) else attributes);
          styles = spread [] (ex_styles ex);
          styles = (if transformIsMeaningful N t
                    then let tr = transformForCss N isIE t width height True
                         in obj_set (obj_set styles ''transform'' tr) ''-webkit-transform'' tr
                    else styles);
          styleString = joinStyles styles;
          attributes = (if styleString \<noteq> [] then obj_set attributes ''style'' (JStr styleString) else attributes)
      in [el ''span'' attributes [Txt content]])"

definition makeLayersCounterAbstract :: "string \<Rightarrow> extra \<Rightarrow> abs_node list" where
  "makeLayersCounterAbstract content ex =
     (let attributes = spread (spread [] (ex_attributes ex)) [(''class'', JStr (join_with '' '' (ex_classes ex)))];
          styleString = joinStyles (ex_styles ex);
          attributes = (if styleString \<noteq> [] then obj_set attributes ''style'' (JStr styleString) else attributes)
      in [el ''span'' attributes [Txt content]])"

text \<open>The abstracts of the API functions \<^verbatim>\<open>layer\<close> (the parts the assembler collected, in order),
  \<^verbatim>\<open>counter\<close> and \<^verbatim>\<open>text\<close>.\<close>

definition layer_abstract :: "fa \<Rightarrow> abs_node list list \<Rightarrow> string list \<Rightarrow> abs_node list" where
  "layer_abstract st parts classes =
     [el ''span'' [(''class'', JStr (join_with '' '' ((to_str (cfg st ''cssPrefix'') @ ''-layers'') # classes)))]
        (concat parts)]"

definition counter_abstract :: "fa \<Rightarrow> string \<Rightarrow> extra \<Rightarrow> abs_node list" where
  "counter_abstract st content ex = makeLayersCounterAbstract content
     (ex\<lparr>ex_classes := (to_str (cfg st ''cssPrefix'') @ ''-layers-counter'') # ex_classes ex\<rparr>)"

definition text_abstract :: "'n jsnum \<Rightarrow> fa \<Rightarrow> bool \<Rightarrow> string \<Rightarrow> 'n transform \<Rightarrow> extra \<Rightarrow> abs_node list" where
  "text_abstract N st isIE content t ex = makeLayersTextAbstract N isIE content None None t
     (ex\<lparr>ex_classes := (to_str (cfg st ''cssPrefix'') @ ''-layers-text'') # ex_classes ex\<rparr>) False"

section \<open>The indicator of a missing icon\<close>

definition FILL :: "jsv obj" where
  "FILL = [(''fill'', JStr ''currentColor'')]"

definition ANIMATION_BASE :: "jsv obj" where
  "ANIMATION_BASE = [(''attributeType'', JStr ''XML''), (''repeatCount'', JStr ''indefinite''), (''dur'', JStr ''2s'')]"

definition OPACITY_ANIMATE :: "jsv obj" where
  "OPACITY_ANIMATE = spread (spread [] ANIMATION_BASE) [(''attributeName'', JStr ''opacity'')]"

definition ring_path :: string where
  "ring_path = ''M156.5,447.7l-12.6,29.5c-18.7-9.5-35.9-21.2-51.5-34.9l22.7-22.7C127.6,430.5,141.5,440,156.5,447.7z M40.6,272H8.5 c1.4,21.2,5.4,41.7,11.7,61.1L50,321.2C45.1,305.5,41.8,289,40.6,272z M40.6,240c1.4-18.8,5.2-37,11.1-54.1l-29.5-12.6 C14.7,194.3,10,216.7,8.5,240H40.6z M64.3,156.5c7.8-14.9,17.2-28.8,28.1-41.5L69.7,92.3c-13.7,15.6-25.5,32.8-34.9,51.5 L64.3,156.5z M397,419.6c-13.9,12-29.4,22.3-46.1,30.4l11.9,29.8c20.7-9.9,39.8-22.6,56.9-37.6L397,419.6z M115,92.4 c13.9-12,29.4-22.3,46.1-30.4l-11.9-29.8c-20.7,9.9-39.8,22.6-56.8,37.6L115,92.4z M447.7,355.5c-7.8,14.9-17.2,28.8-28.1,41.5 l22.7,22.7c13.7-15.6,25.5-32.9,34.9-51.5L447.7,355.5z M471.4,272c-1.4,18.8-5.2,37-11.1,54.1l29.5,12.6 c7.5-21.1,12.2-43.5,13.6-66.8H471.4z M321.2,462c-15.7,5-32.2,8.2-49.2,9.4v32.1c21.2-1.4,41.7-5.4,61.1-11.7L321.2,462z M240,471.4c-18.8-1.4-37-5.2-54.1-11.1l-12.6,29.5c21.1,7.5,43.5,12.2,66.8,13.6V471.4z M462,190.8c5,15.7,8.2,32.2,9.4,49.2h32.1 c-1.4-21.2-5.4-41.7-11.7-61.1L462,190.8z M92.4,397c-12-13.9-22.3-29.4-30.4-46.1l-29.8,11.9c9.9,20.7,22.6,39.8,37.6,56.9 L92.4,397z M272,40.6c18.8,1.4,36.9,5.2,54.1,11.1l12.6-29.5C317.7,14.7,295.3,10,272,8.5V40.6z M190.8,50 c15.7-5,32.2-8.2,49.2-9.4V8.5c-21.2,1.4-41.7,5.4-61.1,11.7L190.8,50z M442.3,92.3L419.6,115c12,13.9,22.3,29.4,30.5,46.1 l29.8-11.9C470,128.5,457.3,109.4,442.3,92.3z M397,92.4l22.7-22.7c-15.6-13.7-32.8-25.5-51.5-34.9l-12.6,29.5 C370.4,72.1,384.4,81.5,397,92.4z''"

definition question_path :: string where
  "question_path = ''M263.7,312h-16c-6.6,0-12-5.4-12-12c0-71,77.4-63.9,77.4-107.8c0-20-17.8-40.2-57.4-40.2c-29.1,0-44.3,9.6-59.2,28.7 c-3.9,5-11.1,6-16.2,2.4l-13.1-9.2c-5.6-3.9-6.9-11.8-2.6-17.2c21.2-27.2,46.4-44.7,91.2-44.7c52.3,0,97.4,29.8,97.4,80.2 c0,67.6-77.4,63.5-77.4,107.8C275.7,306.6,270.3,312,263.7,312z''"

definition exclamation_path :: string where
  "exclamation_path = ''M232.5,134.5l7,168c0.3,6.4,5.6,11.5,12,11.5h9c6.4,0,11.7-5.1,12-11.5l7-168c0.3-6.8-5.2-12.5-12-12.5h-23 C237.7,122,232.2,127.7,232.5,134.5z''"

definition missingIconAbstract :: "bool \<Rightarrow> abs_node" where
  "missingIconAbstract reduceMotion =
     (let animate = (\<lambda>base as. leaf ''animate'' (spread (spread [] base) as));
          ring = leaf ''path'' (spread (spread [] FILL) [(''d'', JStr ring_path)]);
          dot = el ''circle'' (spread (spread [] FILL) [(''cx'', JStr ''256''), (''cy'', JStr ''364''), (''r'', JStr ''28'')])
            (if reduceMotion then []
             else [animate ANIMATION_BASE [(''attributeName'', JStr ''r''), (''values'', JStr ''28;14;28;28;14;28;'')],
                   animate OPACITY_ANIMATE [(''values'', JStr ''1;0;1;1;0;1;'')]]);
          question = el ''path'' (spread (spread [] FILL) [(''opacity'', JStr ''1''), (''d'', JStr question_path)])
            (if reduceMotion then [] else [animate OPACITY_ANIMATE [(''values'', JStr ''1;0;0;0;0;1;'')]]);
          exclamation = (if reduceMotion then []
            else [el ''path'' (spread (spread [] FILL) [(''opacity'', JStr ''0''), (''d'', JStr exclamation_path)])
                    [animate OPACITY_ANIMATE [(''values'', JStr ''0;0;1;1;0;0;'')]]])
      in el ''g'' [(''class'', JStr ''missing'')] ([ring, dot, question] @ exclamation))"

section \<open>Properties of the markup\<close>

text \<open>Names that cannot break markup, throughout a node, and the number of its elements.\<close>

definition safe_name :: "string \<Rightarrow> bool" where
  "safe_name s \<longleftrightarrow> CHR ''<'' \<notin> set s \<and> CHR ''>'' \<notin> set s"

fun safe_node :: "abs_node \<Rightarrow> bool" where
  "safe_node (Txt s) = True"
| "safe_node (El tag as cs) =
     (safe_name (to_str tag) \<and> list_all safe_name (map fst (case as of Some a \<Rightarrow> a | None \<Rightarrow> []))
      \<and> list_all safe_node (case cs of Some c \<Rightarrow> c | None \<Rightarrow> []))"

fun elements :: "abs_node \<Rightarrow> nat" where
  "elements (Txt s) = 0"
| "elements (El tag as cs) = 1 + sum_list (map elements (case cs of Some c \<Rightarrow> c | None \<Rightarrow> []))"

lemma count_list_concat: "count_list (concat xss) x = sum_list (map (\<lambda>xs. count_list xs x) xss)"
  by (induction xss) auto

lemma set_js_trim: "set (js_trim s) \<subseteq> set s"
  by (metis js_trim_def set_dropWhileD set_rev subsetI)

lemma count_none: "x \<notin> set xs \<Longrightarrow> count_list xs x = 0"
  by simp

lemma joinAttributes_safe:
  assumes "list_all safe_name (map fst as)" "c = CHR ''<'' \<or> c = CHR ''>''"
  shows "count_list (joinAttributes as) c = 0"
proof -
  have "c \<notin> set (concat (map (\<lambda>a. a @ ''='' @ [CHR 0x22] @ htmlEscape (to_str (get_jsv as a)) @ [CHR 0x22] @ '' '') (obj_keys as)))"
    using assms htmlEscape_safe [of c] by (auto simp: list_all_iff safe_name_def set_obj_keys)
  then show ?thesis
    unfolding joinAttributes_def using set_js_trim by (intro count_none) blast
qed

lemma htmlEscape_count: "c = CHR ''<'' \<or> c = CHR ''>'' \<Longrightarrow> count_list (htmlEscape s) c = 0"
  using htmlEscape_safe by (intro count_none) blast



lemma generateAbstractIcon_attributes:
  "k \<noteq> ''style'' \<Longrightarrow> map_of (snd (generateAbstractIcon N as main t styles)) k = map_of as k"
  by (simp add: generateAbstractIcon_def Let_def)

lemma generateAbstractMask_attributes [simp]: "snd (generateAbstractMask N f1 f2 as main msk mid t) = as"
  by (simp add: generateAbstractMask_def Let_def split: prod.split)

lemma asIcon_node:
  "\<exists>at. asIcon N cs main mf as styles t = [el ''svg'' at cs] \<and> (\<forall>k. k \<noteq> ''style'' \<longrightarrow> map_of at k = map_of as k)"
  by (auto simp: asIcon_def Let_def)

text \<open>
  An inline icon is one \<^verbatim>\<open>svg\<close> element that carries its identity and is hidden from
  assistive technology exactly when nothing labels it: its \<^verbatim>\<open>data-icon\<close>, \<^verbatim>\<open>data-prefix\<close> and
  \<^verbatim>\<open>class\<close> are the resolved ones, its \<^verbatim>\<open>role\<close> is the given one or \<^verbatim>\<open>img\<close>; without a label or an
  explicit \<^verbatim>\<open>aria-hidden\<close> it gets \<^verbatim>\<open>aria-hidden\<close> \<^verbatim>\<open>true\<close>, and otherwise keeps what it was given.
\<close>


lemma inline_svg_root:
  assumes "\<not> truthy symbol"
  shows "\<exists>at cs. makeInlineSvgAbstract N st f1 f2 main msk prefix iconName t symbol maskId ex watchable = [el ''svg'' at cs]
    \<and> map_of at ''data-prefix'' = Some prefix \<and> map_of at ''data-icon'' = Some iconName
    \<and> map_of at ''class'' = Some (JStr (icon_class st iconName (ex_classes ex)))
    \<and> map_of at ''role'' = Some (js_or (get_jsv (ex_attributes ex) ''role'') (JStr ''img''))
    \<and> map_of at ''aria-hidden'' =
        (if isLabeled (ex_attributes ex) \<or> truthy (get_jsv (ex_attributes ex) ''aria-hidden'')
         then map_of (ex_attributes ex) ''aria-hidden'' else Some (JStr ''true''))
    \<and> (watchable \<longrightarrow> map_of at DATA_FA_I2SVG = Some (JStr []))"
proof -
  let ?shown = "if fo_found msk then msk else main"
  define a0 where "a0 = spread (spread [] (ex_attributes ex))
            [(''data-prefix'', prefix), (''data-icon'', iconName),
             (''class'', JStr (icon_class st iconName (ex_classes ex))),
             (''role'', js_or (get_jsv (ex_attributes ex) ''role'') (JStr ''img'')),
             (''viewBox'', JStr (''0 0 '' @ n_show N (fo_width ?shown) @ '' '' @ n_show N (fo_height ?shown)))]"
  define a1 where "a1 = (if \<not> isLabeled (ex_attributes ex) \<and> \<not> truthy (get_jsv (ex_attributes ex) ''aria-hidden'')
      then obj_set a0 ''aria-hidden'' (JStr ''true'') else a0)"
  define a2 where "a2 = (if watchable then obj_set a1 DATA_FA_I2SVG (JStr []) else a1)"
  define r where "r = (if fo_found msk \<and> fo_found main then generateAbstractMask N f1 f2 a2 main msk maskId t
      else generateAbstractIcon N a2 main t (spread [] (ex_styles ex)))"
  have r: "k \<noteq> ''style'' \<Longrightarrow> map_of (snd r) k = map_of a2 k" for k
    by (simp add: r_def generateAbstractIcon_attributes)
  have "makeInlineSvgAbstract N st f1 f2 main msk prefix iconName t symbol maskId ex watchable =
      asIcon N (fst r) main (fo_found msk) (snd r) (spread [] (ex_styles ex)) t"
    using assms unfolding makeInlineSvgAbstract_def Let_def r_def a2_def a1_def a0_def
    by (simp add: case_prod_unfold)
  then obtain at where at: "makeInlineSvgAbstract N st f1 f2 main msk prefix iconName t symbol maskId ex watchable =
      [el ''svg'' at (fst r)]" "\<And>k. k \<noteq> ''style'' \<Longrightarrow> map_of at k = map_of (snd r) k"
    using asIcon_node by metis
  have keys: "map_of at k = map_of a2 k" if "k \<noteq> ''style''" for k using at(2) r that by simp
  have "DATA_FA_I2SVG \<notin> {''style'', ''data-prefix'', ''data-icon'', ''class'', ''role'', ''aria-hidden''}"
    by (simp add: DATA_FA_I2SVG_def)
  then show ?thesis
    unfolding at(1)
    by (intro exI [of _ at] exI [of _ "fst r"])
      (auto simp: keys a2_def a1_def a0_def map_add_def split: option.splits)
qed

definition int_num :: "int jsnum" where
  "int_num = \<lparr>n_of = (\<lambda>i. i), n_add = (+), n_sub = (-), n_mul = (*), n_div = (div), n_eq = (=),
     n_show = show_int, n_parse = (\<lambda>s. if s \<noteq> [] \<and> list_all is_digit s then Some (int (read_digits s)) else None)\<rparr>"

end
