(* ===== verification/Fa_Dom.thy ===== *)
theory Fa_Dom
  imports Fa_Render Fa_Library
begin

text \<open>
  The page side of \<^verbatim>\<open>src/static/fa6/js/fontawesome.js\<close>: reading an icon element (lines 2634--2732,
  with the \<^verbatim>\<open>parseNodeAttributes\<close> hooks of the transform, mask and symbol plugins), the mutation
  that replaces it (2447--2553, 2735--2882), the passes over the tree and the mutation observer
  (2554--2632). The browser's tree is explicit where the code changes it: a mutator returns the
  nodes that take the element's place in its parent. What the browser computes (serialised markup,
  the matches of a selector) is an argument.
\<close>

section \<open>Elements\<close>

definition isWatched :: "node \<Rightarrow> bool" where
  "isWatched n \<longleftrightarrow> (case getAttribute n DATA_FA_I2SVG of JStr s \<Rightarrow> True | _ \<Rightarrow> False)"

definition hasPrefixAndIcon :: "node \<Rightarrow> bool" where
  "hasPrefixAndIcon n \<longleftrightarrow> truthy (getAttribute n DATA_PREFIX) \<and> truthy (getAttribute n DATA_ICON)"

definition hasBeenReplaced :: "fa \<Rightarrow> node \<Rightarrow> bool" where
  "hasBeenReplaced st n \<longleftrightarrow> (case nd_classList n of
       Some cs \<Rightarrow> to_str (cfg st ''replacementClass'') \<in> set cs | None \<Rightarrow> False)"

text \<open>An array (\<open>[]\<close>) when there is no style, an object otherwise; both are read by key.\<close>

definition styleParser :: "node \<Rightarrow> string obj" where
  "styleParser n = (case getAttribute n ''style'' of
       JStr (c # cs) \<Rightarrow>
         foldl (\<lambda>acc style.
             let styles = split_on (CHR '':'') style;
                 p = hd styles;
                 value = tl styles
             in if p \<noteq> [] \<and> value \<noteq> [] then obj_set acc p (js_trim (join_with '':'' value)) else acc)
           [] (split_on (CHR '';'') (c # cs))
     | _ \<Rightarrow> [])"

text \<open>The text of a node as a key: code units above 255 match no key of the tables.\<close>

definition unit_string :: "nat list \<Rightarrow> string option" where
  "unit_string us = (if list_all (\<lambda>u. u < 256) us then Some (map char_of us) else None)"

fun code_points :: "nat list \<Rightarrow> nat list" where
  "code_points [] = []"
| "code_points [u] = [u]"
| "code_points (u # v # us) =
     (if 0xD800 \<le> u \<and> u \<le> 0xDBFF \<and> 0xDC00 \<le> v \<and> v \<le> 0xDFFF
      then ((u - 0xD800) * 1024 + (v - 0xDC00) + 0x10000) # code_points us
      else u # code_points (v # us))"

definition toHex :: "nat list \<Rightarrow> jsv" where
  "toHex us = (case code_points us of [n] \<Rightarrow> JStr (hex_nat n) | _ \<Rightarrow> Null)"

definition unit_space :: "nat \<Rightarrow> bool" where
  "unit_space u \<longleftrightarrow> u \<in> {0x09, 0x0A, 0x0B, 0x0C, 0x0D, 0x20, 0xA0, 0x1680, 0x2028, 0x2029, 0x202F, 0x205F, 0x3000, 0xFEFF}
     \<or> 0x2000 \<le> u \<and> u \<le> 0x200A"

definition classParser :: "fa \<Rightarrow> node \<Rightarrow> canonical" where
  "classParser st n =
     (let existingPrefix = getAttribute n DATA_PREFIX;
          existingIconName = getAttribute n DATA_ICON;
          hasText = (case nd_innerText n of Some us \<Rightarrow> list_ex (\<lambda>u. \<not> unit_space u) us | None \<Rightarrow> False);
          val = getCanonicalIcon st (classArray n) False;
          val = (if \<not> truthy (cn_prefix val) then val\<lparr>cn_prefix := getDefaultUsablePrefix st\<rparr> else val);
          val = (if truthy existingPrefix \<and> truthy existingIconName
                 then val\<lparr>cn_prefix := existingPrefix, cn_iconName := existingIconName\<rparr> else val)
      in if truthy (cn_iconName val) \<and> truthy (cn_prefix val) then val
         else let val = (if truthy (cn_prefix val) \<and> hasText
                 then let us = (case nd_innerText n of Some us \<Rightarrow> us | None \<Rightarrow> []);
                          lig = (case unit_string us of Some s \<Rightarrow> byLigature st (cn_prefix val) (JStr s) | None \<Rightarrow> Undefined)
                      in val\<lparr>cn_iconName := js_or lig (byUnicode st (cn_prefix val) (toHex us))\<rparr>
                 else val)
              in if \<not> truthy (cn_iconName val) \<and> truthy (cfg st ''autoFetchSvg'')
                 then (case nd_firstText n of Some t \<Rightarrow> val\<lparr>cn_iconName := JStr t\<rparr> | None \<Rightarrow> val)
                 else val)"

text \<open>The test reads \<^verbatim>\<open>acc.name\<close>, the attribute collected under the name \<^verbatim>\<open>name\<close>, not the name of
  the attribute at hand.\<close>

definition attributesParser :: "node \<Rightarrow> string obj" where
  "attributesParser n =
     foldl (\<lambda>acc (name, value).
         if map_of acc ''name'' \<noteq> Some ''class'' \<and> map_of acc ''name'' \<noteq> Some ''style''
         then obj_set acc name value else acc) [] (nd_attributes n)"

record 'n meta =
  m_iconName :: jsv
  m_prefix :: jsv
  m_transform :: "'n transform"
  m_symbol :: jsv
  m_mask :: canonical
  m_maskId :: jsv
  m_extra :: extra

definition blankMeta :: "'n jsnum \<Rightarrow> 'n meta" where
  "blankMeta N = \<lparr>m_iconName = Null, m_prefix = Null, m_transform = meaninglessTransform N,
     m_symbol = JBool False, m_mask = emptyCanonicalIcon, m_maskId = Null,
     m_extra = \<lparr>ex_classes = [], ex_styles = [], ex_attributes = []\<rparr>\<rparr>"

text \<open>The hooks of the plugins \<^verbatim>\<open>PowerTransforms\<close>, \<^verbatim>\<open>Masks\<close> and \<^verbatim>\<open>SvgSymbols\<close>.\<close>

definition transform_hook :: "'n jsnum \<Rightarrow> node \<Rightarrow> 'n transform option" where
  "transform_hook N n = (case getAttribute n ''data-fa-transform'' of
       JStr (c # cs) \<Rightarrow> Some (parseTransformString N (c # cs)) | _ \<Rightarrow> None)"

definition mask_hook :: "fa \<Rightarrow> node \<Rightarrow> canonical \<times> jsv" where
  "mask_hook st n =
     (let m = (case getAttribute n ''data-fa-mask'' of
                 JStr (c # cs) \<Rightarrow> getCanonicalIcon st (map js_trim (split_on (CHR '' '') (c # cs))) False
               | _ \<Rightarrow> emptyCanonicalIcon);
          m = (if \<not> truthy (cn_prefix m) then m\<lparr>cn_prefix := getDefaultUsablePrefix st\<rparr> else m)
      in (m, getAttribute n ''data-fa-mask-id''))"

definition symbol_hook :: "node \<Rightarrow> jsv" where
  "symbol_hook n = (case getAttribute n ''data-fa-symbol'' of
       JStr [] \<Rightarrow> JBool True | JStr s \<Rightarrow> JStr s | _ \<Rightarrow> JBool False)"

definition parseMeta :: "'n jsnum \<Rightarrow> fa \<Rightarrow> node \<Rightarrow> bool \<Rightarrow> 'n meta" where
  "parseMeta N st n withStyles =
     (let c = classParser st n; (m, mid) = mask_hook st n
      in \<lparr>m_iconName = cn_iconName c, m_prefix = cn_prefix c,
          m_transform = (case transform_hook N n of Some t \<Rightarrow> t | None \<Rightarrow> meaninglessTransform N),
          m_symbol = symbol_hook n, m_mask = m, m_maskId = mid,
          m_extra = \<lparr>ex_classes = cn_rest c, ex_styles = (if withStyles then styleParser n else []),
                     ex_attributes = map (\<lambda>(k, v). (k, JStr v)) (attributesParser n)\<rparr>\<rparr>)"

section \<open>Mutations\<close>

datatype dom = DText string | DComment string | DElem bool jsv "string obj" "dom list"

text \<open>\<^verbatim>\<open>convertSVG\<close>: the namespace is chosen at the root, by its tag, and handed down.\<close>

fun convert_ns :: "bool \<Rightarrow> abs_node \<Rightarrow> dom" where
  "convert_ns svg (Txt s) = DText s"
| "convert_ns svg (El tag as cs) =
     DElem svg tag (map (\<lambda>k. (k, to_str (get_jsv (case as of Some a \<Rightarrow> a | None \<Rightarrow> []) k)))
                      (obj_keys (case as of Some a \<Rightarrow> a | None \<Rightarrow> [])))
       (map (convert_ns svg) (case cs of Some c \<Rightarrow> c | None \<Rightarrow> []))"

definition convertSVG :: "abs_node \<Rightarrow> dom" where
  "convertSVG nd = convert_ns (node_tag nd = JStr ''svg'') nd"

definition nodeAsComment :: "string \<Rightarrow> string" where
  "nodeAsComment outerHTML = '' '' @ outerHTML @ '' Font Awesome fontawesome.com ''"

definition mutator_replace :: "fa \<Rightarrow> string \<Rightarrow> node \<Rightarrow> abs_node list \<Rightarrow> dom list" where
  "mutator_replace st outerHTML n abstracts =
     map convertSVG abstracts
     @ (if getAttribute n DATA_FA_I2SVG = Null \<and> truthy (cfg st ''keepOriginalSource'')
        then [DComment (nodeAsComment outerHTML)] else [])"

text \<open>The parent's children after the replacement of the child at \<open>i\<close>.\<close>

definition replace_child :: "dom list \<Rightarrow> nat \<Rightarrow> dom list \<Rightarrow> dom list" where
  "replace_child xs i new = take i xs @ new @ drop (Suc i) xs"

text \<open>\<^verbatim>\<open>nest\<close>: the element's attributes and inner markup afterwards, or a fall back to
  \<^verbatim>\<open>replace\<close> when the element was replaced before; \<open>None\<close> is the type error of an abstract without
  a first element or without attributes. The prefix of the configuration is a plain word, so that
  the pattern \<^verbatim>\<open>new RegExp(cssPrefix + "-.*")\<close> finds it literally.\<close>

definition mutator_nest ::
  "fa \<Rightarrow> string \<Rightarrow> node \<Rightarrow> abs_node list \<Rightarrow> (dom list + string obj \<times> string) option" where
  "mutator_nest st outerHTML n abstracts =
     (if list_ex (\<lambda>c. JStr c = cfg st ''replacementClass'') (classArray n)
      then Some (Inl (mutator_replace st outerHTML n abstracts))
      else case abstracts of
        El tag (Some as) cs # rest \<Rightarrow>
          (let as = obj_delete as ''id'';
               cls = get_jsv as ''class'';
               parts = split_on (CHR '' '') (to_str cls);
               forSvg = (\<lambda>c. JStr c = cfg st ''replacementClass'' \<or> is_infix (to_str (cfg st ''cssPrefix'') @ ''-'') c);
               toSvg = filter forSvg parts;
               toNode = filter (\<lambda>c. \<not> forSvg c) parts;
               (as, attrs) =
                 (if truthy cls
                  then (obj_set as ''class'' (JStr (join_with '' '' toSvg)),
                        if toNode = [] then obj_delete (nd_attributes n) ''class''
                        else obj_set (nd_attributes n) ''class'' (join_with '' '' toNode))
                  else (as, nd_attributes n))
           in Some (Inr (obj_set attrs DATA_FA_I2SVG [],
                   join_with [CHR 0x0A] (map toHtml (El tag (Some as) cs # rest)))))
      | _ \<Rightarrow> None)"

datatype mutator = Replace | Nest | NoMutator

definition getMutator :: "fa \<Rightarrow> mutator" where
  "getMutator st =
     (let v = cfg st ''autoReplaceSvg''
      in if v = JBool True then Replace
         else if to_str v = ''nest'' then Nest
         else if to_str v = ''replace'' then Replace
         else if to_str v \<in> set object_prototype then NoMutator
         else Replace)"

text \<open>What \<^verbatim>\<open>perform\<close> schedules, in order: it runs at once, or in the next animation frame.\<close>

datatype perform_step = RunMutator nat | RunCallback

definition perform :: "fa \<Rightarrow> bool \<Rightarrow> nat \<Rightarrow> bool \<times> perform_step list" where
  "perform st hasFrames n =
     (if n = 0 then (False, [RunCallback])
      else (cfg st ''mutateApproach'' = JStr ''async'' \<and> hasFrames, map RunMutator [0..<n] @ [RunCallback]))"

definition generateSvgReplacementMutation ::
  "'n jsnum \<Rightarrow> fa \<Rightarrow> bool \<Rightarrow> string \<Rightarrow> string \<Rightarrow> 'n meta \<Rightarrow> abs_node list option" where
  "generateSvgReplacementMutation N st reduceMotion fresh1 fresh2 meta =
     (let missing = missingIconAbstract reduceMotion;
          main = findIcon N st missing (m_iconName meta) (m_prefix meta);
          msk = (if truthy (cn_iconName (m_mask meta))
                 then findIcon N st missing (cn_iconName (m_mask meta)) (cn_prefix (m_mask meta))
                 else Some (missing_found N no_node))
      in case (main, msk) of
           (Some mn, Some mk) \<Rightarrow>
             Some (makeInlineSvgAbstract N st fresh1 fresh2 mn mk (m_prefix meta) (m_iconName meta)
                     (m_transform meta) (m_symbol meta) (m_maskId meta) (m_extra meta) True)
         | _ \<Rightarrow> None)"

text \<open>\<^verbatim>\<open>generateMutation\<close>: the abstract nodes for an element; \<open>innerHTML\<close> and \<open>size\<close> are what the
  browser reports of it.\<close>

definition generateMutation ::
  "'n jsnum \<Rightarrow> fa \<Rightarrow> bool \<Rightarrow> bool \<Rightarrow> string \<Rightarrow> string \<Rightarrow> string \<Rightarrow> ('n \<times> 'n) option \<Rightarrow> node \<Rightarrow> abs_node list option" where
  "generateMutation N st isIE reduceMotion fresh1 fresh2 innerHTML sz n =
     (let meta = parseMeta N st n (cfg st ''autoReplaceSvg'' \<noteq> JStr ''nest'')
      in if LAYERS_TEXT_CLASSNAME \<in> set (ex_classes (m_extra meta))
         then Some (makeLayersTextAbstract N isIE innerHTML (if isIE then map_option fst sz else None)
                (if isIE then map_option snd sz else None) (m_transform meta) (m_extra meta) True)
         else generateSvgReplacementMutation N st reduceMotion fresh1 fresh2 meta)"

definition getKnownPrefixes :: "string list" where
  "getKnownPrefixes = fa_Ht @ fa_lo"

definition query_classes :: "fa \<Rightarrow> string list" where
  "query_classes st =
     (let prefixes = (if truthy (cfg st ''autoFetchSvg'') then getKnownPrefixes else fa_Z @ obj_keys (f_styles st));
          prefixes = (if ''fa'' \<in> set prefixes then prefixes else prefixes @ [''fa''])
      in LAYERS_TEXT_CLASSNAME # prefixes)"

definition prefixesDomQuery :: "fa \<Rightarrow> string" where
  "prefixesDomQuery st = join_with '', ''
     (map (\<lambda>c. ''.'' @ c @ '':not(['' @ DATA_FA_I2SVG @ ''])'') (query_classes st))"

text \<open>What the browser selects by that query: an element with one of the classes and without the
  marker attribute.\<close>

definition candidate :: "fa \<Rightarrow> dom \<Rightarrow> bool" where
  "candidate st d \<longleftrightarrow> (case d of
       DElem svg tag as cs \<Rightarrow> map_of as DATA_FA_I2SVG = None
         \<and> (case map_of as ''class'' of
              Some c \<Rightarrow> list_ex (\<lambda>w. w \<in> set (query_classes st)) (split_on (CHR '' '') c) | None \<Rightarrow> False)
     | _ \<Rightarrow> False)"

text \<open>\<^verbatim>\<open>onTree\<close> over the elements the query found, each with what its \<^verbatim>\<open>generateMutation\<close> gives: an
  exception (caught), no promise, a promise that rejects or one that resolves to a mutation. The
  steps are the classes put on and taken off the root element, the mutations performed, and how the
  returned promise ends.\<close>

datatype 'm outcome = Throws | NoMutation | Rejects | Resolves 'm

datatype 'm tree_step = HclAdd string | HclRemove string | Perform "'m list" | Settle bool

definition onTree :: "bool \<Rightarrow> 'm outcome list \<Rightarrow> 'm tree_step list" where
  "onTree isDom outs =
     (if \<not> isDom \<or> outs = [] then [Settle True]
      else [HclAdd ''pending'', HclRemove ''complete'']
        @ (if Rejects \<in> set outs then [Settle False]
           else [Perform (concat (map (\<lambda>r. case r of Resolves m \<Rightarrow> [m] | _ \<Rightarrow> []) outs)),
                 HclAdd ''active'', HclAdd ''complete'', HclRemove ''pending'', Settle True]))"

section \<open>The mutation observer\<close>

datatype record_type = ChildList | Attributes | OtherRecord

record mutation_record =
  mr_type :: record_type
  mr_added :: "node list"
  mr_target :: node
  mr_hasParent :: bool
  mr_attribute :: string

datatype observer_action = PseudoTree node | TreeCallback node | PseudoNode node | SetAttr node string string | NodeCallback node

definition observe_record :: "fa \<Rightarrow> mutation_record \<Rightarrow> observer_action list" where
  "observe_record st r =
     (let t = mr_target r; pseudo = truthy (cfg st ''searchPseudoElements'');
          tree = (if mr_type r = ChildList \<and> mr_added r \<noteq> [] \<and> \<not> isWatched (hd (mr_added r))
                  then (if pseudo then [PseudoTree t] else []) @ [TreeCallback t] else []);
          pse = (if mr_type r = Attributes \<and> mr_hasParent r \<and> pseudo then [PseudoNode t] else []);
          upd = (if mr_type r = Attributes \<and> isWatched t \<and> mr_attribute r \<in> set ATTRIBUTES_WATCHED_FOR_MUTATION
                 then if mr_attribute r = ''class'' \<and> hasPrefixAndIcon t
                      then let c = getCanonicalIcon st (classArray t) False
                           in SetAttr t DATA_PREFIX (to_str (js_or (cn_prefix c) (getDefaultUsablePrefix st)))
                              # (if truthy (cn_iconName c) then [SetAttr t DATA_ICON (to_str (cn_iconName c))] else [])
                      else if hasBeenReplaced st t then [NodeCallback t] else []
                 else [])
      in tree @ pse @ upd)"

definition observe_callback :: "fa \<Rightarrow> bool \<Rightarrow> mutation_record list \<Rightarrow> observer_action list" where
  "observe_callback st disabled rs = (if disabled then [] else concat (map (observe_record st) rs))"

section \<open>Properties\<close>

subsection \<open>Styles\<close>

lemma dropWhile_hd: "dropWhile P xs = [] \<or> \<not> P (hd (dropWhile P xs))"
  by (induction xs) auto

lemma js_trim_idem [simp]: "js_trim (js_trim s) = js_trim s"
proof -
  let ?t = "rev (dropWhile js_space s)"
  have "dropWhile js_space (js_trim s) = js_trim s"
  proof (cases "js_trim s")
    case (Cons c cs)
    have "rev ?t = js_trim s @ rev (takeWhile js_space ?t)"
      unfolding js_trim_def by (metis rev_append takeWhile_dropWhile_id)
    with Cons have "dropWhile js_space s = c # cs @ rev (takeWhile js_space ?t)" by simp
    then have "\<not> js_space c" using dropWhile_hd [of js_space s] by (metis list.sel(1) list.distinct(1))
    then show ?thesis using Cons by simp
  qed simp
  moreover have "dropWhile js_space (dropWhile js_space ?t) = dropWhile js_space ?t"
    using dropWhile_hd [of js_space ?t] by (cases "dropWhile js_space ?t") auto
  ultimately show ?thesis by (simp add: js_trim_def)
qed

lemma js_trim_space [simp]: "js_trim (CHR '' '' # s) = js_trim s"
  by (simp add: js_trim_def js_space_def)

lemma split_joined:
  assumes "\<And>k. k \<in> set ks \<Longrightarrow> c \<notin> set (f k)"
  shows "split_on c (concat (map (\<lambda>k. f k @ [c]) ks)) = map f ks @ [[]]"
  using assms by (induction ks) (simp_all add: split_on_append)

lemma styleParser_fold:
  assumes "\<And>k. k \<in> set ks \<Longrightarrow> k \<noteq> [] \<and> CHR '':'' \<notin> set k"
  shows "map_of (foldl (\<lambda>acc style.
             let styles = split_on (CHR '':'') style; p = hd styles; value = tl styles
             in if p \<noteq> [] \<and> value \<noteq> [] then obj_set acc p (js_trim (join_with '':'' value)) else acc)
           acc (map (\<lambda>k. k @ '': '' @ f k) ks)) j
     = (if j \<in> set ks then Some (js_trim (f j)) else map_of acc j)"
  using assms
proof (induction ks arbitrary: acc)
  case (Cons k ks)
  have "split_on (CHR '':'') (k @ '': '' @ f k) = k # split_on (CHR '':'') (CHR '' '' # f k)"
    using Cons.prems [of k] split_on_append [of "CHR '':''" k "CHR '' '' # f k"] by simp
  then show ?case
    using Cons by (simp add: Let_def join_split_on del: split_on.simps)
qed simp

text \<open>
  Styles survive the page: whatever style object an icon is rendered with (names non-empty
  and free of \<^verbatim>\<open>:\<close> and \<^verbatim>\<open>;\<close>, values free of \<^verbatim>\<open>;\<close>), reading the style attribute that
  \<^verbatim>\<open>joinStyles\<close> wrote gives back each value, up to surrounding white space, and nothing else.
\<close>

lemma style_roundtrip:
  assumes "styles \<noteq> []"
    and "\<forall>(k, v) \<in> set styles. k \<noteq> [] \<and> CHR '':'' \<notin> set k \<and> CHR '';'' \<notin> set k \<and> CHR '';'' \<notin> set v"
    and "getAttribute n ''style'' = JStr (joinStyles styles)"
  shows "map_of (styleParser n) = (\<lambda>k. map_option js_trim (map_of styles k))"
proof
  fix j
  let ?f = "\<lambda>k. js_trim (case map_of styles k of Some v \<Rightarrow> v | None \<Rightarrow> [])"
  let ?ks = "obj_keys styles"
  have ks: "k \<noteq> [] \<and> CHR '':'' \<notin> set k \<and> CHR '';'' \<notin> set k" if "k \<in> set ?ks" for k
    using that assms(2) by (force simp: set_obj_keys)
  have vs: "CHR '';'' \<notin> set (?f k)" for k
    using assms(2) set_js_trim [of "case map_of styles k of Some v \<Rightarrow> v | None \<Rightarrow> []"]
    by (auto split: option.splits dest!: map_of_SomeD)
  have join: "joinStyles styles = concat (map (\<lambda>k. (k @ '': '' @ ?f k) @ '';'') ?ks)"
    by (simp add: joinStyles_def)
  have split: "split_on (CHR '';'') (joinStyles styles) = map (\<lambda>k. k @ '': '' @ ?f k) ?ks @ [[]]"
    unfolding join by (rule split_joined) (use ks vs in auto)
  have "?ks \<noteq> []" using assms(1) set_obj_keys [of styles] by (cases styles) auto
  then obtain c cs where cs: "joinStyles styles = c # cs"
    using ks unfolding join by (cases ?ks; cases "hd ?ks") auto
  have dom: "j \<in> set ?ks \<longleftrightarrow> map_of styles j \<noteq> None"
    by (metis set_obj_keys map_of_eq_None_iff)
  have "map_of (styleParser n) j = (if j \<in> set ?ks then Some (js_trim (?f j)) else None)"
    using styleParser_fold [where ks = ?ks and f = ?f and acc = "[]" and j = j] ks
    unfolding styleParser_def assms(3) cs jsv.case list.case split [unfolded cs] foldl_append
    by simp
  then show "map_of (styleParser n) j = map_option js_trim (map_of styles j)"
    using dom by auto
qed

lemma style_roundtrip_example:
  "map_of (styleParser \<lparr>nd_tag = ''i'', nd_attributes = [(''style'', joinStyles [(''background'', '' url(a:b) '')])],
      nd_classList = None, nd_innerText = None, nd_firstText = None\<rparr>)
   = (\<lambda>k. map_option js_trim (map_of [(''background'', '' url(a:b) '')] k))"
  by (rule style_roundtrip) (simp_all add: getAttribute_def)

subsection \<open>Attributes\<close>

text \<open>
  The attributes of an element are copied without exception: unless the element has an
  attribute called \<^verbatim>\<open>name\<close>, the extra attributes of its icon are all its attributes, \<^verbatim>\<open>class\<close> and
  \<^verbatim>\<open>style\<close> included, which the test in \<^verbatim>\<open>attributesParser\<close> was written to leave out.
\<close>

lemma attributes_all_copied:
  assumes "''name'' \<notin> fst ` set (nd_attributes n)" and "distinct (map fst (nd_attributes n))"
  shows "map_of (attributesParser n) = map_of (nd_attributes n)"
proof -
  have "map_of (foldl (\<lambda>acc (name, value).
         if map_of acc ''name'' \<noteq> Some ''class'' \<and> map_of acc ''name'' \<noteq> Some ''style''
         then obj_set acc name value else acc) acc as) = map_of acc ++ map_of as"
    if "map_of acc ''name'' = None" "''name'' \<notin> fst ` set as" "distinct (map fst as)"
    for acc :: "string obj" and as
    using that
  proof (induction as arbitrary: acc)
    case (Cons a as)
    then have "fst a \<noteq> ''name''" "fst a \<notin> dom (map_of as)" by (auto simp: dom_map_of_conv_image_fst)
    with Cons show ?case by (cases a) (auto simp: fun_eq_iff map_add_def domIff split: option.splits)
  qed simp
  from this [of "[]"] show ?thesis using assms by (simp add: attributesParser_def)
qed

lemma attributes_all_copied_example:
  "map_of (attributesParser \<lparr>nd_tag = ''i'', nd_attributes = [(''class'', ''fas''), (''style'', ''x: y'')],
      nd_classList = None, nd_innerText = None, nd_firstText = None\<rparr>)
   = map_of [(''class'', ''fas''), (''style'', ''x: y'')]"
  using attributes_all_copied [of "\<lparr>nd_tag = ''i'', nd_attributes = [(''class'', ''fas''), (''style'', ''x: y'')],
      nd_classList = None, nd_innerText = None, nd_firstText = None\<rparr>"] by simp

subsection \<open>Replacement\<close>


definition demo_mutation :: "dom list" where
  "demo_mutation = mutator_replace demo_fa [] \<lparr>nd_tag = ''i'', nd_attributes = [], nd_classList = None,
     nd_innerText = None, nd_firstText = None\<rparr> (makeInlineSvgAbstract int_num demo_fa [] []
       (missing_found int_num no_node) (missing_found int_num no_node) (JStr ''fas'') (JStr ''user'')
       (meaninglessTransform int_num) (JBool False) Null
       \<lparr>ex_classes = [''fa''], ex_styles = [], ex_attributes = []\<rparr> True)"


subsection \<open>A pass that is blocked\<close>

lemma findIcon_inherited:
  assumes "k \<in> set object_prototype" "p \<noteq> []" "p \<noteq> ''fa''"
    and "map_of (f_styles st) p = Some pack" "map_of pack k = None"
  shows "findIcon N st missing (JStr k) (JStr p) = None"
  using assms by (auto simp: findIcon_def Let_def get_prop_def object_prototype_def)

lemma classParser_rest: "set (cn_rest (classParser st n)) \<subseteq> set (classArray n)"
proof -
  have "cn_rest (classParser st n) = cn_rest (getCanonicalIcon st (classArray n) False)"
    by (simp add: classParser_def Let_def split: option.split)
  also have "set \<dots> \<subseteq> set (classArray n)"
    by (auto simp: getCanonicalIcon_def sortedUniqueValues_set Let_def split: prod.splits
      dest!: arg_cong [where f = snd] simp: moveNonFaClassesToRest_rest)
  finally show ?thesis .
qed

lemma parseMeta_fields:
  "m_iconName (parseMeta N st n w) = cn_iconName (classParser st n)"
  "m_prefix (parseMeta N st n w) = cn_prefix (classParser st n)"
  "ex_classes (m_extra (parseMeta N st n w)) = cn_rest (classParser st n)"
  by (simp_all add: parseMeta_def Let_def split: prod.split)

lemma generateSvgReplacementMutation_None:
  "findIcon N st (missingIconAbstract rm) (m_iconName meta) (m_prefix meta) = None \<Longrightarrow>
   generateSvgReplacementMutation N st rm f1 f2 meta = None"
  by (simp add: generateSvgReplacementMutation_def Let_def)

text \<open>
  Claim C33. One element can stop a whole pass: an element whose \<^verbatim>\<open>data-icon\<close> is the name of a member
  that every object inherits, and whose \<^verbatim>\<open>data-prefix\<close> is a loaded style, makes the pass over the
  page reject. No icon of the page is replaced and the class \<^verbatim>\<open>pending\<close> stays on the root.
\<close>

theorem inherited_icon_blocks_pass:
  assumes "n \<in> set ns"
    and "getAttribute n DATA_PREFIX = JStr p" and "getAttribute n DATA_ICON = JStr k"
    and "k \<in> set object_prototype" and "p \<noteq> []" and "p \<noteq> ''fa''"
    and "map_of (f_styles st) p = Some pack" and "map_of pack k = None"
    and "LAYERS_TEXT_CLASSNAME \<notin> set (classArray n)"
  shows "onTree True (map (\<lambda>n. case generateMutation N st isIE rm f1 f2 html sz n of
        Some a \<Rightarrow> Resolves (n, a) | None \<Rightarrow> Rejects) ns)
    = [HclAdd ''pending'', HclRemove ''complete'', Settle False]"
proof -
  have "k \<noteq> []" using assms(4) by (auto simp: object_prototype_def)
  then have cp: "cn_prefix (classParser st n) = JStr p" "cn_iconName (classParser st n) = JStr k"
    using assms(2,3,5) by (auto simp: classParser_def Let_def)
  have "generateSvgReplacementMutation N st rm f1 f2 (parseMeta N st n w) = None" for w
    by (rule generateSvgReplacementMutation_None) (simp add: parseMeta_fields cp findIcon_inherited [OF assms(4-8)])
  then have "generateMutation N st isIE rm f1 f2 html sz n = None"
    using assms(9) classParser_rest [of st n] by (auto simp: generateMutation_def Let_def parseMeta_fields)
  then have "Rejects \<in> set (map (\<lambda>n. case generateMutation N st isIE rm f1 f2 html sz n of
        Some a \<Rightarrow> Resolves (n, a) | None \<Rightarrow> Rejects) ns)"
    using assms(1) by force
  then show ?thesis by (auto simp: onTree_def)
qed

theorem inherited_icon_blocks_pass_witness:
  "onTree True (map (\<lambda>n. case generateMutation int_num demo_fa False True [] [] [] None n of
        Some a \<Rightarrow> Resolves (n, a) | None \<Rightarrow> Rejects)
      [\<lparr>nd_tag = ''i'', nd_attributes = [(''data-prefix'', ''fas''), (''data-icon'', ''constructor'')],
        nd_classList = Some [], nd_innerText = None, nd_firstText = None\<rparr>])
    = [HclAdd ''pending'', HclRemove ''complete'', Settle False]"
  by (rule inherited_icon_blocks_pass [where n = "\<lparr>nd_tag = ''i'',
        nd_attributes = [(''data-prefix'', ''fas''), (''data-icon'', ''constructor'')],
        nd_classList = Some [], nd_innerText = None, nd_firstText = None\<rparr>"
      and p = "''fas''" and k = "''constructor''" and pack = "[(''gear'', demo_icon)]"])
    (simp_all add: demo_fa_def load_core_def getAttribute_def classArray_def
      DATA_PREFIX_def DATA_ICON_def object_prototype_def)

end
