(* ===== verification/Fa_Pseudo.thy ===== *)
theory Fa_Pseudo
  imports Fa_Dom
begin

text \<open>
  The pseudo-element search of \<^verbatim>\<open>src/static/fa6/js/fontawesome.js\<close> (lines 3095--3220): from the computed
  style of a pseudo-element to an icon, and the replacement of the pseudo-elements of one node. A
  replacement has two parts, the call and the continuation that runs when the icon has been found,
  so the state between them is explicit and the parts of several replacements interleave. Computed
  styles and the elements that an assigned markup gives are the browser's and arguments here.
\<close>

section \<open>Fonts\<close>

text \<open>\<^verbatim>\<open>_FONT_FAMILY_WEIGHT_TO_PREFIX\<close> and the two tables computed from it.\<close>

definition font_weights :: "string obj obj" where
  "font_weights = spread (spread (spread (spread []
     [(''FontAwesome'', [(''normal'', ''fas''), (''400'', ''fas'')])]) fa_Kt) fa_fo) fa_hl"

definition FONT_FAMILY_WEIGHT_TO_PREFIX :: "string obj obj" where
  "FONT_FAMILY_WEIGHT_TO_PREFIX =
     fold (\<lambda>key acc. obj_set acc (toLowerCase key) (own font_weights key)) (obj_keys font_weights) []"

definition FONT_FAMILY_WEIGHT_FALLBACK :: "jsv obj" where
  "FONT_FAMILY_WEIGHT_FALLBACK =
     fold (\<lambda>fontFamily acc.
         let weights = own FONT_FAMILY_WEIGHT_TO_PREFIX fontFamily
         in obj_set acc fontFamily (js_or (get_str weights (JStr ''900''))
              (case obj_keys weights of k # ks \<Rightarrow> get_str weights (JStr k) | [] \<Rightarrow> Undefined)))
       (obj_keys FONT_FAMILY_WEIGHT_TO_PREFIX) []"

text \<open>\<^verbatim>\<open>fontFamily.match(FONT_FAMILY_PATTERN)\<close>: all of the pattern after \<^verbatim>\<open>Font ?Awesome\<close> is optional and
  ends in \<^verbatim>\<open>.*\<close>, so the match begins at the first occurrence, whatever its case; its text up to the
  end of the line is the result.\<close>

fun font_match :: "string \<Rightarrow> string option" where
  "font_match [] = None"
| "font_match (c # cs) =
     (if starts_with ''fontawesome'' (to_lower (c # cs)) \<or> starts_with ''font awesome'' (to_lower (c # cs))
      then Some (takeWhile (\<lambda>x. x \<noteq> CHR 0x0A \<and> x \<noteq> CHR 0x0D) (c # cs)) else font_match cs)"

section \<open>The content of a pseudo-element\<close>

text \<open>Contents are lists of UTF-16 code units; 34 is the double quote.\<close>

definition clean_content :: "nat list \<Rightarrow> nat list" where
  "clean_content us = filter (\<lambda>u. u \<noteq> 34) us"

definition first_char :: "nat list \<Rightarrow> nat list" where
  "first_char us = (case us of
       u # v # _ \<Rightarrow> if 0xD800 \<le> u \<and> u \<le> 0xDBFF \<and> 0xDC00 \<le> v \<and> v \<le> 0xDFFF then [u, v] else [u]
     | _ \<Rightarrow> us)"

definition hexValueFromContent :: "nat list \<Rightarrow> jsv" where
  "hexValueFromContent content = toHex (first_char (clean_content content))"

record computed =
  cs_fontFamily :: string
  cs_fontWeight :: string
  cs_content :: "nat list"
  cs_features :: string

definition isSecondaryLayer :: "computed \<Rightarrow> bool" where
  "isSecondaryLayer styles =
     (let hasStylisticSet = is_infix ''ss01'' (cs_features styles);
          cleaned = clean_content (cs_content styles);
          isPrependTen = (case code_points cleaned of p # _ \<Rightarrow> 1105920 \<le> p \<and> p \<le> 1112319 | [] \<Rightarrow> False);
          isDoubled = (case cleaned of [a, b] \<Rightarrow> a = b | _ \<Rightarrow> False)
      in isPrependTen \<or> isDoubled \<or> hasStylisticSet)"

text \<open>\<^verbatim>\<open>parseInt\<close> without a radix; \<^term>\<open>None\<close> is \<^verbatim>\<open>NaN\<close>.\<close>

definition hex_digit :: "char \<Rightarrow> nat option" where
  "hex_digit c = (let d = to_lower [c] in find (\<lambda>i. d = [''0123456789abcdef'' ! i]) [0..<16])"

definition parseInt :: "string \<Rightarrow> int option" where
  "parseInt s =
     (let s = dropWhile js_space s;
          neg = (s \<noteq> [] \<and> hd s = CHR ''-'');
          s = (if s \<noteq> [] \<and> (hd s = CHR ''-'' \<or> hd s = CHR ''+'') then tl s else s);
          hex = starts_with ''0x'' (to_lower s);
          s = (if hex then drop 2 s else s);
          radix = (if hex then 16 else 10);
          ds = takeWhile (\<lambda>c. case hex_digit c of Some d \<Rightarrow> d < radix | None \<Rightarrow> False) s;
          n = foldl (\<lambda>n c. n * int radix + int (the (hex_digit c))) 0 ds
      in if ds = [] then None else Some (if neg then - n else n))"

definition is_quote :: "char \<Rightarrow> bool" where
  "is_quote c \<longleftrightarrow> c = CHR 0x27 \<or> c = CHR 0x22"

text \<open>\<^verbatim>\<open>replace(/^['"]|['"]$/g, '')\<close>.\<close>

definition strip_quotes :: "string \<Rightarrow> string" where
  "strip_quotes s =
     (let s = (if s \<noteq> [] \<and> is_quote (hd s) then tl s else s)
      in if s \<noteq> [] \<and> is_quote (last s) then butlast s else s)"

definition getPrefix :: "string \<Rightarrow> string \<Rightarrow> jsv" where
  "getPrefix fontFamily fontWeight =
     (let fontFamilySanitized = toLowerCase (strip_quotes fontFamily);
          fontWeightSanitized = (case parseInt fontWeight of Some n \<Rightarrow> JNum n | None \<Rightarrow> JStr ''normal'');
          weights = (case get_prop FONT_FAMILY_WEIGHT_TO_PREFIX fontFamilySanitized of Own t \<Rightarrow> t | _ \<Rightarrow> [])
      in js_or (get_str weights fontWeightSanitized) (get_jsv FONT_FAMILY_WEIGHT_FALLBACK fontFamilySanitized))"

section \<open>Replacing a pseudo-element\<close>

text \<open>The node: its attributes and those of its child elements, in order.\<close>

record pseudo_node =
  pn_attrs :: "string obj"
  pn_children :: "string obj list"

text \<open>What the continuation of a replacement remembers.\<close>

record pseudo_job =
  j_position :: string
  j_prefix :: jsv
  j_iconName :: jsv
  j_identifier :: jsv

definition pendingAttribute :: "string \<Rightarrow> string" where
  "pendingAttribute position = DATA_FA_PSEUDO_ELEMENT_PENDING @ replace_first '':'' ''-'' position"

definition marked :: "string \<Rightarrow> string obj \<Rightarrow> bool" where
  "marked position c \<longleftrightarrow> map_of c DATA_FA_PSEUDO_ELEMENT = Some position"

fun remove_first :: "('a \<Rightarrow> bool) \<Rightarrow> 'a list \<Rightarrow> 'a list" where
  "remove_first P [] = []"
| "remove_first P (x # xs) = (if P x then xs else x # remove_first P xs)"

definition attr_of :: "string obj \<Rightarrow> string \<Rightarrow> jsv" where
  "attr_of c a = (case map_of c a of Some v \<Rightarrow> JStr v | None \<Rightarrow> Null)"

text \<open>Which icon the computed style stands for: its prefix, its name and the identifier that is
  written to the element, which for the fonts of version 4 is not the name.\<close>

definition pseudo_icon :: "fa \<Rightarrow> computed \<Rightarrow> string \<Rightarrow> string \<Rightarrow> pseudo_job" where
  "pseudo_icon st styles matched position =
     (let prefix = getPrefix (cs_fontFamily styles) (cs_fontWeight styles);
          hexValue = hexValueFromContent (cs_content styles);
          isV4 = starts_with ''FontAwesome'' matched;
          iconName = byUnicode st prefix hexValue;
          iconIdentifier = iconName;
          iconName4 = byOldUnicode st hexValue;
          (iconName, prefix) =
            (if isV4 \<and> truthy (lk_iconName iconName4) \<and> truthy (lk_prefix iconName4)
             then (lk_iconName iconName4, lk_prefix iconName4) else (iconName, prefix))
      in \<lparr>j_position = position, j_prefix = prefix, j_iconName = iconName, j_identifier = iconIdentifier\<rparr>)"

text \<open>The call: the node afterwards and, unless the promise is resolved at once, the job whose
  continuation waits for the icon.\<close>

definition replaceForPosition ::
  "fa \<Rightarrow> computed \<Rightarrow> pseudo_node \<Rightarrow> string \<Rightarrow> pseudo_node \<times> pseudo_job option" where
  "replaceForPosition st styles node position =
     (if map_of (pn_attrs node) (pendingAttribute position) \<noteq> None then (node, None)
      else
        let already = find (marked position) (pn_children node);
            removed = remove_first (marked position) (pn_children node);
            content = cs_content styles
        in case font_match (cs_fontFamily styles) of
             None \<Rightarrow> (case already of Some c \<Rightarrow> (node\<lparr>pn_children := removed\<rparr>, None) | None \<Rightarrow> (node, None))
           | Some matched \<Rightarrow>
               if content \<noteq> map of_char ''none'' \<and> content \<noteq> []
               then let job = pseudo_icon st styles matched position
                    in if truthy (j_iconName job) \<and> \<not> isSecondaryLayer styles
                          \<and> (case already of
                               None \<Rightarrow> True
                             | Some c \<Rightarrow> attr_of c DATA_PREFIX \<noteq> j_prefix job
                                 \<or> attr_of c DATA_ICON \<noteq> j_identifier job)
                       then (node\<lparr>pn_attrs := obj_set (pn_attrs node) (pendingAttribute position)
                                      (to_str (j_identifier job)),
                                  pn_children := removed\<rparr>, Some job)
                       else (node, None)
               else (node, None))"

text \<open>The markup of the new element, for the icon that was found.\<close>

definition pseudo_svg ::
  "'n jsnum \<Rightarrow> fa \<Rightarrow> string \<Rightarrow> string \<Rightarrow> 'n found \<Rightarrow> pseudo_job \<Rightarrow> abs_node list" where
  "pseudo_svg N st fresh1 fresh2 main job =
     (let meta = blankMeta N;
          extra = (m_extra meta)\<lparr>ex_attributes :=
            obj_set (ex_attributes (m_extra meta)) DATA_FA_PSEUDO_ELEMENT (JStr (j_position job))\<rparr>
      in makeInlineSvgAbstract N st fresh1 fresh2 main (missing_found N no_node) (j_prefix job) (j_identifier job)
           (m_transform meta) (m_symbol meta) (m_maskId meta) extra True)"

text \<open>The continuation. \<open>parse\<close> gives the elements, as their attributes, that the browser makes of a
  markup. \<^term>\<open>None\<close> is a rejection, which leaves the node as it is, pending attribute included.\<close>

definition replace_continue ::
  "'n jsnum \<Rightarrow> fa \<Rightarrow> abs_node \<Rightarrow> string \<Rightarrow> string \<Rightarrow> (string \<Rightarrow> string obj list) \<Rightarrow> pseudo_job
    \<Rightarrow> pseudo_node \<Rightarrow> pseudo_node option" where
  "replace_continue N st missing fresh1 fresh2 parse job node =
     (case findIcon N st missing (j_iconName job) (j_prefix job) of
        None \<Rightarrow> None
      | Some main \<Rightarrow>
          let new = parse (join_with [CHR 0x0A] (map toHtml (pseudo_svg N st fresh1 fresh2 main job)))
          in Some (node\<lparr>pn_attrs := obj_delete (pn_attrs node) (pendingAttribute (j_position job)),
                        pn_children := (if j_position job = ''::before'' then new @ pn_children node
                                        else pn_children node @ new)\<rparr>))"

text \<open>\<^verbatim>\<open>replace\<close>: both positions are called, one after the other, before any continuation runs.\<close>

definition replace_node ::
  "fa \<Rightarrow> (string \<Rightarrow> computed) \<Rightarrow> pseudo_node \<Rightarrow> pseudo_node \<times> pseudo_job list" where
  "replace_node st styles node =
     (let (node, before) = replaceForPosition st (styles ''::before'') node ''::before'';
          (node, after) = replaceForPosition st (styles ''::after'') node ''::after''
      in (node, (case before of Some j \<Rightarrow> [j] | None \<Rightarrow> []) @ (case after of Some j \<Rightarrow> [j] | None \<Rightarrow> [])))"

section \<open>Properties\<close>

subsection \<open>Fonts\<close>

lemma map_of_fold_lower:
  assumes "distinct (map toLowerCase ks)" "k \<in> set ks"
  shows "map_of (fold (\<lambda>key acc. obj_set acc (toLowerCase key) (f key)) ks acc) (toLowerCase k) = Some (f k)"
proof -
  have keep: "map_of (fold (\<lambda>key acc. obj_set acc (toLowerCase key) (f key)) ks acc) j = map_of acc j"
    if "j \<notin> toLowerCase ` set ks" for j ks acc
    using that by (induction ks arbitrary: acc) auto
  from assms show ?thesis
  proof (induction ks arbitrary: acc)
    case (Cons x xs)
    then show ?case by (cases "k = x") (auto simp: keep)
  qed simp
qed

lemma toLowerCase_families: "distinct (map toLowerCase (obj_keys font_weights))"
  by code_simp

lemma font_weights_readable:
  "list_all (\<lambda>(f, ws). f \<noteq> [] \<and> list_all (\<lambda>c. \<not> is_quote c) f \<and>
     list_all (\<lambda>(w, p). p \<noteq> [] \<and> (case parseInt w of Some n \<Rightarrow> show_int n = w | None \<Rightarrow> w = ''normal'')) ws)
   font_weights"
  by code_simp

lemma js_lower_char_quote: "is_quote (js_lower_char d) \<longleftrightarrow> is_quote d"
proof -
  have iff: "is_quote c \<longleftrightarrow> (of_char c :: nat) = 39 \<or> (of_char c :: nat) = 34" for c
  proof -
    have "c = char_of (of_char c :: nat)" by simp
    then have "(of_char c :: nat) = 39 \<Longrightarrow> c = CHR 0x27" "(of_char c :: nat) = 34 \<Longrightarrow> c = CHR 0x22"
      by (simp_all add: char_of_def bit_0)
    then show ?thesis by (auto simp: is_quote_def)
  qed
  show ?thesis unfolding iff by (auto simp: js_lower_char_def Let_def)
qed

lemma toLowerCase_quote:
  assumes "toLowerCase f = toLowerCase g" "list_all (\<lambda>c. \<not> is_quote c) g"
  shows "list_all (\<lambda>c. \<not> is_quote c) f"
proof -
  have "list_all (\<lambda>c. \<not> is_quote c) (toLowerCase s) = list_all (\<lambda>c. \<not> is_quote c) s" for s
    by (simp add: toLowerCase_def list_all_iff js_lower_char_quote)
  with assms show ?thesis by metis
qed

lemma strip_quotes_around:
  assumes "list_all (\<lambda>c. \<not> is_quote c) f" "f \<noteq> []" "q = [] \<or> (\<exists>c. is_quote c \<and> q = [c])"
  shows "strip_quotes (q @ f @ q) = f"
  using assms by (auto simp: strip_quotes_def Let_def butlast_append list_all_iff)

text \<open>
  Fonts name their icons' prefix: for every font family of the tables, written in whatever
  case and with or without quotes around it, and every weight that the tables list for it, the prefix
  is the one of the tables.
\<close>

lemma font_prefix_exact:
  assumes "map_of font_weights family = Some ws" and "map_of ws w = Some p"
    and "toLowerCase f = toLowerCase family" and "q = [] \<or> q = [CHR 0x22] \<or> q = [CHR 0x27]"
  shows "getPrefix (q @ f @ q) w = JStr p"
proof -
  have fam: "(family, ws) \<in> set font_weights" using assms(1) by (rule map_of_SomeD)
  then have key: "family \<in> set (obj_keys font_weights)" by (force simp: set_obj_keys)
  note tab = font_weights_readable [unfolded list_all_iff, rule_format, OF fam, unfolded prod.case]
  have w: "p \<noteq> []" "case parseInt w of Some n \<Rightarrow> show_int n = w | None \<Rightarrow> w = ''normal''"
    using tab map_of_SomeD [OF assms(2)] by (auto simp: list_all_iff)
  have quote: "q = [] \<or> (\<exists>c. is_quote c \<and> q = [c])" using assms(4) by (auto simp: is_quote_def)
  have f: "list_all (\<lambda>c. \<not> is_quote c) f" "f \<noteq> []"
    using tab assms(3) toLowerCase_quote [OF assms(3)] by (auto simp: toLowerCase_def list_all_iff)
  have "map_of FONT_FAMILY_WEIGHT_TO_PREFIX (toLowerCase family) = Some (own font_weights family)"
    unfolding FONT_FAMILY_WEIGHT_TO_PREFIX_def by (rule map_of_fold_lower [OF toLowerCase_families key])
  then have "get_prop FONT_FAMILY_WEIGHT_TO_PREFIX (toLowerCase f) = Own ws"
    using assms(1,3) by (simp add: get_prop_def own_def)
  moreover have "get_str ws (case parseInt w of Some n \<Rightarrow> JNum n | None \<Rightarrow> JStr ''normal'') = JStr p"
    using w(2) assms(2) by (auto simp: get_str_def get_prop_def of_prop_def split: option.splits)
  ultimately show ?thesis
    using w(1) by (simp add: getPrefix_def strip_quotes_around [OF f quote])
qed

lemma font_prefix_exact_example:
  "getPrefix ([CHR 0x22] @ ''FONT awesome 7 free'' @ [CHR 0x22]) ''400'' = JStr ''far''"
proof (rule font_prefix_exact)
  show "map_of font_weights ''Font Awesome 7 Free'' = Some [(''900'', ''fas''), (''400'', ''far'')]"
    by (simp add: font_weights_def fa_Kt_def fa_fo_def fa_hl_def)
qed (simp_all add: toLowerCase_def js_lower_char_def char_of_def bit_0)

subsection \<open>The new element\<close>

definition pseudo_attributes :: "'n jsnum \<Rightarrow> fa \<Rightarrow> 'n found \<Rightarrow> pseudo_job \<Rightarrow> jsv obj" where
  "pseudo_attributes N st main job =
     [(''data-fa-pseudo-element'', JStr (j_position job)), (''data-prefix'', j_prefix job),
      (''data-icon'', j_identifier job), (''class'', JStr (icon_class st (j_identifier job) [])),
      (''role'', JStr ''img''),
      (''viewBox'', JStr (''0 0 '' @ n_show N (fo_width main) @ '' '' @ n_show N (fo_height main))),
      (''aria-hidden'', JStr ''true''), (''data-fa-i2svg'', JStr [])]"

lemma pseudo_svg_root:
  "\<exists>at cs. pseudo_svg N st f1 f2 main job = [el ''svg'' at cs]
     \<and> (\<exists>style. at = pseudo_attributes N st main job @ style \<and> (style = [] \<or> (\<exists>s. style = [(''style'', JStr s)])))"
proof -
  let ?ea = "[(''data-fa-pseudo-element'', JStr (j_position job))]"
  have label: "\<not> isLabeled ?ea" "\<not> truthy (get_jsv ?ea ''aria-hidden'')" "get_jsv ?ea ''role'' = Undefined"
    by (simp_all add: isLabeled_def js_in_def get_jsv_def get_prop_def of_prop_def object_prototype_def)
  have sp: "spread (spread [] ?ea) [(''data-prefix'', a), (''data-icon'', b), (''class'', c), (''role'', d), (''viewBox'', e)]
      = ?ea @ [(''data-prefix'', a), (''data-icon'', b), (''class'', c), (''role'', d), (''viewBox'', e)]"
    for a b c d e by (simp add: spread_def obj_keys_def is_index_def is_digit_def)
  have empty: "spread [] ([] :: string obj) = []" "joinStyles [] = []"
    by (simp_all add: spread_def obj_keys_def joinStyles_def)
  show ?thesis
    by (simp add: pseudo_svg_def blankMeta_def makeInlineSvgAbstract_def missing_found_def generateAbstractIcon_def
        asIcon_def sp label empty pseudo_attributes_def DATA_FA_PSEUDO_ELEMENT_def DATA_FA_I2SVG_def Let_def)
qed

text \<open>What is assumed of the browser: the markup of one svg element becomes one element, which has the
  attributes written.\<close>

definition reads_back :: "(string \<Rightarrow> string obj list) \<Rightarrow> abs_node list \<Rightarrow> bool" where
  "reads_back parse nodes \<longleftrightarrow> (\<forall>at cs. nodes = [el ''svg'' at cs] \<longrightarrow>
     (\<exists>e. parse (toHtml (el ''svg'' at cs)) = [e] \<and> (\<forall>k v. map_of at k = Some v \<longrightarrow> map_of e k = Some (to_str v))))"

lemma continue_cases:
  assumes "reads_back parse (pseudo_svg N st f1 f2 main job)"
    and "findIcon N st missing (j_iconName job) (j_prefix job) = Some main"
  shows "\<exists>e. replace_continue N st missing f1 f2 parse job node =
      Some (node\<lparr>pn_attrs := obj_delete (pn_attrs node) (pendingAttribute (j_position job)),
                 pn_children := (if j_position job = ''::before'' then e # pn_children node else pn_children node @ [e])\<rparr>)
    \<and> map_of e DATA_FA_PSEUDO_ELEMENT = Some (j_position job) \<and> map_of e DATA_PREFIX = Some (to_str (j_prefix job))
    \<and> map_of e DATA_ICON = Some (to_str (j_identifier job))"
proof -
  obtain at cs style where at: "pseudo_svg N st f1 f2 main job = [el ''svg'' at cs]"
    "at = pseudo_attributes N st main job @ style"
    using pseudo_svg_root [of N st f1 f2 main job] by blast
  then obtain e where e: "parse (toHtml (el ''svg'' at cs)) = [e]"
    "\<And>k v. map_of at k = Some v \<Longrightarrow> map_of e k = Some (to_str v)"
    using assms(1) unfolding reads_back_def by blast
  have "map_of e DATA_FA_PSEUDO_ELEMENT = Some (to_str (JStr (j_position job)))"
    "map_of e DATA_PREFIX = Some (to_str (j_prefix job))" "map_of e DATA_ICON = Some (to_str (j_identifier job))"
    by (rule e(2), simp add: at(2) pseudo_attributes_def DATA_FA_PSEUDO_ELEMENT_def DATA_PREFIX_def DATA_ICON_def)+
  then show ?thesis
    using e(1) by (intro exI [of _ e]) (simp add: replace_continue_def assms(2) at(1) Let_def del: toHtml.simps)
qed

subsection \<open>Replacing once\<close>

lemma remove_first_unmarked:
  "length (filter P xs) \<le> 1 \<Longrightarrow> filter P (remove_first P xs) = []"
  by (induction xs) auto

lemma length_remove_first:
  "length (filter P (remove_first P xs)) = length (filter P xs) - 1"
  by (induction xs) auto

lemma filter_remove_first:
  "(\<And>x. P x \<Longrightarrow> \<not> Q x) \<Longrightarrow> filter Q (remove_first P xs) = filter Q xs"
  by (induction xs) auto

lemma find_marked_None: "find P xs = None \<longleftrightarrow> filter P xs = []"
  by (auto simp: find_None_iff filter_empty_conv)

lemma find_snoc: "find P (xs @ [x]) = (case find P xs of Some y \<Rightarrow> Some y | None \<Rightarrow> if P x then Some x else None)"
  by (induction xs) auto

lemma pseudo_icon_position [simp]: "j_position (pseudo_icon st styles matched position) = position"
  by (simp add: pseudo_icon_def Let_def case_prod_unfold)

text \<open>When a call leaves a job, the node is marked as pending and the earlier element is gone.\<close>

lemma replaceForPosition_job:
  assumes "replaceForPosition st styles node position = (node1, Some job)"
  shows "map_of (pn_attrs node) (pendingAttribute position) = None"
    and "j_position job = position"
    and "node1 = node\<lparr>pn_attrs := obj_set (pn_attrs node) (pendingAttribute position) (to_str (j_identifier job)),
                      pn_children := remove_first (marked position) (pn_children node)\<rparr>"
    and "\<exists>matched. font_match (cs_fontFamily styles) = Some matched \<and> cs_content styles \<noteq> map of_char ''none''
      \<and> cs_content styles \<noteq> [] \<and> job = pseudo_icon st styles matched position
      \<and> truthy (j_iconName job) \<and> \<not> isSecondaryLayer styles"
proof -
  have cond: "map_of (pn_attrs node) (pendingAttribute position) = None \<and> (\<exists>matched. font_match (cs_fontFamily styles) = Some matched
      \<and> cs_content styles \<noteq> map of_char ''none'' \<and> cs_content styles \<noteq> [] \<and> job = pseudo_icon st styles matched position
      \<and> truthy (j_iconName job) \<and> \<not> isSecondaryLayer styles)
    \<and> node1 = node\<lparr>pn_attrs := obj_set (pn_attrs node) (pendingAttribute position) (to_str (j_identifier job)),
                      pn_children := remove_first (marked position) (pn_children node)\<rparr>"
    using assms unfolding replaceForPosition_def Let_def
    by (simp split: if_split_asm option.split_asm del: list.map)
  then show "map_of (pn_attrs node) (pendingAttribute position) = None"
    and "node1 = node\<lparr>pn_attrs := obj_set (pn_attrs node) (pendingAttribute position) (to_str (j_identifier job)),
                      pn_children := remove_first (marked position) (pn_children node)\<rparr>"
    and "\<exists>matched. font_match (cs_fontFamily styles) = Some matched \<and> cs_content styles \<noteq> map of_char ''none''
      \<and> cs_content styles \<noteq> [] \<and> job = pseudo_icon st styles matched position
      \<and> truthy (j_iconName job) \<and> \<not> isSecondaryLayer styles"
    by blast+
  from cond show "j_position job = position" by auto
qed

lemma to_str_JStr: "JStr (to_str v) = v \<longleftrightarrow> (\<exists>s. v = JStr s)"
  by (cases v) auto

text \<open>
  A pseudo-element is replaced once: after a replacement a further scan with the same
  computed style leaves the node alone, if prefix and identifier of the icon are strings. They are not
  when only the tables of version 4 know the character: then the identifier is undefined, no attribute
  ever equals it, and each scan removes the element and starts the same replacement over.
\<close>

lemma replaced_once:
  assumes "replaceForPosition st styles node position = (node1, Some job)"
    and "length (filter (marked position) (pn_children node)) \<le> 1"
    and "findIcon N st missing (j_iconName job) (j_prefix job) = Some main"
    and "reads_back parse (pseudo_svg N st f1 f2 main job)"
  shows "\<exists>node2. replace_continue N st missing f1 f2 parse job node1 = Some node2
    \<and> (if (\<exists>s. j_prefix job = JStr s) \<and> (\<exists>s. j_identifier job = JStr s)
       then replaceForPosition st styles node2 position = (node2, None)
       else snd (replaceForPosition st styles node2 position) = Some job)"
proof -
  note job = replaceForPosition_job [OF assms(1)]
  obtain e where e: "replace_continue N st missing f1 f2 parse job node1 =
      Some (node1\<lparr>pn_attrs := obj_delete (pn_attrs node1) (pendingAttribute position),
                 pn_children := (if position = ''::before'' then e # pn_children node1 else pn_children node1 @ [e])\<rparr>)"
    "map_of e DATA_FA_PSEUDO_ELEMENT = Some position" "map_of e DATA_PREFIX = Some (to_str (j_prefix job))"
    "map_of e DATA_ICON = Some (to_str (j_identifier job))"
    using continue_cases [OF assms(4,3)] job(2) by metis
  define node2 where "node2 = node1\<lparr>pn_attrs := obj_delete (pn_attrs node1) (pendingAttribute position),
                 pn_children := (if position = ''::before'' then e # pn_children node1 else pn_children node1 @ [e])\<rparr>"
  have gone: "find (marked position) (pn_children node1) = None"
    by (simp add: job(3) find_marked_None remove_first_unmarked [OF assms(2)])
  have marked_e: "marked position e" using e(2) by (simp add: marked_def)
  have found: "find (marked position) (pn_children node2) = Some e"
    using gone marked_e by (auto simp: node2_def find_snoc)
  have free: "map_of (pn_attrs node2) (pendingAttribute position) = None"
    by (simp add: node2_def)
  have attrs: "attr_of e DATA_PREFIX = JStr (to_str (j_prefix job))" "attr_of e DATA_ICON = JStr (to_str (j_identifier job))"
    using e(3,4) by (simp_all add: attr_of_def)
  obtain matched where m: "font_match (cs_fontFamily styles) = Some matched" "cs_content styles \<noteq> map of_char ''none''"
      "cs_content styles \<noteq> []" "job = pseudo_icon st styles matched position" "truthy (j_iconName job)" "\<not> isSecondaryLayer styles"
    using job(4) by blast
  have "replaceForPosition st styles node2 position =
      (if JStr (to_str (j_prefix job)) \<noteq> j_prefix job \<or> JStr (to_str (j_identifier job)) \<noteq> j_identifier job
       then (node2\<lparr>pn_attrs := obj_set (pn_attrs node2) (pendingAttribute position) (to_str (j_identifier job)),
                   pn_children := remove_first (marked position) (pn_children node2)\<rparr>, Some job)
       else (node2, None))"
    using free found attrs m unfolding replaceForPosition_def by (simp add: Let_def)
  then show ?thesis
    using e(1) unfolding to_str_JStr by (intro exI [of _ node2]) (auto simp: node2_def)
qed

subsection \<open>Interleaved replacements\<close>

text \<open>The life of a node: scans of either position, with whatever style and state of the library, the
  continuations of the jobs in any order, and changes by the page that concern neither the pending
  attributes nor the generated elements.\<close>

inductive pseudo_step :: "'n jsnum \<Rightarrow> (string \<Rightarrow> string obj list) \<Rightarrow> pseudo_node \<times> pseudo_job list
    \<Rightarrow> pseudo_node \<times> pseudo_job list \<Rightarrow> bool" for N parse where
  scan: "position = ''::before'' \<or> position = ''::after'' \<Longrightarrow>
    replaceForPosition st styles node position = (node', job) \<Longrightarrow>
    pseudo_step N parse (node, jobs) (node', jobs @ (case job of Some j \<Rightarrow> [j] | None \<Rightarrow> []))"
| continue: "replace_continue N st missing f1 f2 parse job node = Some node' \<Longrightarrow>
    pseudo_step N parse (node, jobs1 @ job # jobs2) (node', jobs1 @ jobs2)"
| reject: "replace_continue N st missing f1 f2 parse job node = None \<Longrightarrow>
    pseudo_step N parse (node, jobs1 @ job # jobs2) (node, jobs1 @ jobs2)"
| page: "(\<And>position. map_of (pn_attrs node') (pendingAttribute position) = map_of (pn_attrs node) (pendingAttribute position)) \<Longrightarrow>
    (\<And>position. filter (marked position) (pn_children node') = filter (marked position) (pn_children node)) \<Longrightarrow>
    pseudo_step N parse (node, jobs) (node', jobs)"

definition generated :: "string \<Rightarrow> pseudo_node \<times> pseudo_job list \<Rightarrow> nat" where
  "generated position s = length (filter (marked position) (pn_children (fst s)))
     + length (filter (\<lambda>j. j_position j = position) (snd s))"

definition pseudo_inv :: "pseudo_node \<times> pseudo_job list \<Rightarrow> bool" where
  "pseudo_inv s \<longleftrightarrow> (\<forall>position. generated position s \<le> 1)
     \<and> (\<forall>j \<in> set (snd s). j_position j \<in> {''::before'', ''::after''}
          \<and> map_of (pn_attrs (fst s)) (pendingAttribute (j_position j)) \<noteq> None)"

lemma pending_inj:
  "p \<in> {''::before'', ''::after''} \<Longrightarrow> q \<in> {''::before'', ''::after''} \<Longrightarrow> pendingAttribute p = pendingAttribute q \<Longrightarrow> p = q"
  by (auto simp: pendingAttribute_def)

lemma replaceForPosition_idle:
  assumes "replaceForPosition st styles node position = (node', None)"
  shows "pn_attrs node' = pn_attrs node"
    and "pn_children node' = pn_children node \<or> pn_children node' = remove_first (marked position) (pn_children node)"
proof -
  have "node' = node \<or> node' = node\<lparr>pn_children := remove_first (marked position) (pn_children node)\<rparr>"
    using assms unfolding replaceForPosition_def Let_def by (simp split: if_split_asm option.split_asm del: list.map)
  then show "pn_attrs node' = pn_attrs node"
    and "pn_children node' = pn_children node \<or> pn_children node' = remove_first (marked position) (pn_children node)"
    by auto
qed

lemma marked_remove_first:
  "length (filter (marked p) (remove_first (marked q) xs)) = length (filter (marked p) xs) - (if p = q then 1 else 0)"
proof (cases "p = q")
  case False
  then have "marked q x \<Longrightarrow> \<not> marked p x" for x by (simp add: marked_def)
  from filter_remove_first [of "marked q" "marked p" xs, OF this] False show ?thesis by simp
qed (simp add: length_remove_first)

lemma pseudo_inv_mono:
  assumes "pseudo_inv (node, jobs)" "set jobs' \<subseteq> set jobs"
    and "\<And>p. map_of (pn_attrs node') (pendingAttribute p) = map_of (pn_attrs node) (pendingAttribute p)"
    and "\<And>p. generated p (node', jobs') \<le> generated p (node, jobs)"
  shows "pseudo_inv (node', jobs')"
  using assms order_trans [OF assms(4)] unfolding pseudo_inv_def by fastforce

lemma pseudo_inv_scan:
  assumes "pseudo_inv (node, jobs)" "position = ''::before'' \<or> position = ''::after''"
    and "replaceForPosition st styles node position = (node', job)"
  shows "pseudo_inv (node', jobs @ (case job of Some j \<Rightarrow> [j] | None \<Rightarrow> []))"
proof (cases job)
  case None
  note idle = replaceForPosition_idle [OF assms(3) [unfolded None]]
  have "generated p (node', jobs) \<le> generated p (node, jobs)" for p
    using idle(2) by (auto simp: generated_def marked_remove_first)
  with assms(1) show ?thesis by (simp add: None idle(1) pseudo_inv_mono)
next
  case (Some j)
  note job = replaceForPosition_job [OF assms(3) [unfolded Some]]
  have none: "j_position i \<noteq> position" if "i \<in> set jobs" for i
    using assms(1) that job(1) by (auto simp: pseudo_inv_def)
  then have "filter (\<lambda>i. j_position i = position) jobs = []" by (auto simp: filter_empty_conv)
  then have "generated p (node', jobs @ [j]) \<le> 1" for p
    using assms(1) job(2) by (cases "p = position") (auto simp: pseudo_inv_def generated_def job(3) marked_remove_first dest: spec [of _ p])
  then show ?thesis
    using assms(1,2) job(2) by (auto simp: Some pseudo_inv_def job(3))
qed

lemma pseudo_inv_continue:
  assumes "pseudo_inv (node, jobs1 @ job # jobs2)" "replace_continue N st missing f1 f2 parse job node = Some node'"
    and "\<And>main. reads_back parse (pseudo_svg N st f1 f2 main job)"
  shows "pseudo_inv (node', jobs1 @ jobs2)"
proof -
  let ?p = "j_position job"
  obtain main where "findIcon N st missing (j_iconName job) (j_prefix job) = Some main"
    using assms(2) by (auto simp: replace_continue_def split: option.splits)
  from continue_cases [OF assms(3) this, of node] assms(2)
  obtain e where e: "pn_attrs node' = obj_delete (pn_attrs node) (pendingAttribute ?p)"
    "pn_children node' = (if ?p = ''::before'' then e # pn_children node else pn_children node @ [e])"
    "map_of e DATA_FA_PSEUDO_ELEMENT = Some ?p" by auto
  have gen: "generated p (node', jobs1 @ jobs2) = generated p (node, jobs1 @ job # jobs2)" for p
    using e(3) by (auto simp: generated_def e(2) marked_def)
  have "generated ?p (node, jobs1 @ job # jobs2) \<le> 1" using assms(1) by (simp add: pseudo_inv_def)
  then have only: "filter (\<lambda>j. j_position j = ?p) (jobs1 @ jobs2) = []" by (simp add: generated_def)
  have "map_of (pn_attrs node') (pendingAttribute (j_position j)) \<noteq> None" if "j \<in> set (jobs1 @ jobs2)" for j
  proof -
    have "j_position j \<noteq> ?p" using only that by (auto simp: filter_empty_conv)
    moreover have "j_position j \<in> {''::before'', ''::after''}" "?p \<in> {''::before'', ''::after''}"
      "map_of (pn_attrs node) (pendingAttribute (j_position j)) \<noteq> None"
      using assms(1) that by (auto simp: pseudo_inv_def)
    ultimately show ?thesis using pending_inj [of "j_position j" ?p] by (auto simp: e(1))
  qed
  then show ?thesis using assms(1) gen by (auto simp: pseudo_inv_def)
qed

text \<open>
  Claim C26. Each pseudo-element gets at most one svg element: however scans of a node, their
  continuations and changes of the page interleave, starting from a node without generated elements,
  no position of the node ever has two generated elements, nor a generated element while the next one
  is under way, and a replacement that is under way is announced by its pending attribute.
\<close>

theorem one_element_per_position:
  assumes "\<And>st f1 f2 main job. reads_back parse (pseudo_svg N st f1 f2 main job)"
    and "\<And>position. filter (marked position) (pn_children node) = []"
    and "(pseudo_step N parse)\<^sup>*\<^sup>* (node, []) s"
  shows "pseudo_inv s"
  using assms(3)
proof (induction rule: rtranclp_induct)
  case base
  show ?case using assms(2) by (simp add: pseudo_inv_def generated_def)
next
  case (step s s')
  from step(2,3) show ?case
  proof cases
    case (scan position st styles node node' job jobs)
    then show ?thesis using pseudo_inv_scan step.IH by blast
  next
    case (continue st missing f1 f2 job node node' jobs1 jobs2)
    then show ?thesis using pseudo_inv_continue assms(1) step.IH by blast
  next
    case (reject st missing f1 f2 job node jobs1 jobs2)
    then show ?thesis using step.IH by (auto intro: pseudo_inv_mono simp: generated_def)
  next
    case (page node' node jobs)
    then show ?thesis using step.IH by (auto intro!: pseudo_inv_mono [of node jobs] simp: generated_def)
  qed
qed

subsection \<open>A reader of start tags\<close>

text \<open>The attributes of the start tag of a markup, for the witnesses: a function that meets what is
  assumed of the browser.\<close>

function read_attributes :: "string \<Rightarrow> string obj" where
  "read_attributes s =
     (let s = dropWhile (\<lambda>c. c = CHR '' '') s;
          name = takeWhile (\<lambda>c. c \<noteq> CHR ''='') s;
          rest = drop (length name + 2) s;
          value = takeWhile (\<lambda>c. c \<noteq> CHR 0x22) rest
      in if s = [] then []
         else (name, unescape_html value) # read_attributes (drop (length value + 1) rest))"
  by pat_completeness auto
termination
proof (relation "measure length")
  fix s x xa xb xc :: string
  assume x: "x = dropWhile (\<lambda>c. c = CHR '' '') s" and ne: "x \<noteq> []" and xb: "xb = drop (length xa + 2) x"
  from ne have "length xb < length x" unfolding xb by simp
  moreover have "length x \<le> length s" unfolding x by (rule length_dropWhile_le)
  ultimately show "(drop (length xc + 1) xb, s) \<in> measure length" by simp
qed simp

declare read_attributes.simps [simp del]

definition read_tag :: "string \<Rightarrow> string obj" where
  "read_tag h = read_attributes (takeWhile (\<lambda>c. c \<noteq> CHR ''>'') (drop 5 h))"

definition written :: "(string \<Rightarrow> string) \<Rightarrow> string \<Rightarrow> string" where
  "written f k = k @ ''='' @ [CHR 0x22] @ htmlEscape (f k) @ [CHR 0x22]"

definition plain_key :: "string \<Rightarrow> bool" where
  "plain_key k \<longleftrightarrow> k \<noteq> [] \<and> list_all (\<lambda>c. \<not> js_space c \<and> c \<noteq> CHR ''='' \<and> c \<noteq> CHR ''<'' \<and> c \<noteq> CHR ''>'') k"

lemma written_ends:
  assumes "plain_key k"
  shows "\<exists>c s. written f k = c # s \<and> \<not> js_space c" "\<exists>s. written f k = s @ [CHR 0x22]"
  using assms by (cases k; auto simp: written_def plain_key_def)+

lemma trim_keep:
  assumes "j = c # s" "\<not> js_space c" "j = t @ [d]" "\<not> js_space d"
  shows "js_trim (j @ '' '') = j"
proof -
  have "dropWhile js_space (j @ '' '') = j @ '' ''" using assms(1,2) by simp
  then show ?thesis by (simp add: js_trim_def assms(3,4)) (simp add: js_space_def)
qed

lemma trim_written:
  assumes "\<And>k. k \<in> set ks \<Longrightarrow> plain_key k"
  shows "js_trim (concat (map (\<lambda>k. written f k @ '' '') ks)) = join_with '' '' (map (written f) ks)"
proof (cases ks)
  case (Cons k ks')
  have snoc: "concat (map (\<lambda>k. written f k @ '' '') ks) = join_with '' '' (map (written f) ks) @ '' ''" if "ks \<noteq> []" for ks
    using that
  proof (induction ks)
    case (Cons k ks)
    then show ?case by (cases ks) auto
  qed simp
  let ?j = "join_with '' '' (map (written f) ks)"
  have "\<exists>c s. ?j = c # s \<and> \<not> js_space c"
    using written_ends(1) [of k f] assms [of k] Cons by (cases ks') auto
  then obtain c s where front_j: "?j = c # s" "\<not> js_space c" by blast
  have "\<exists>s. join_with '' '' (map (written f) ks) = s @ [CHR 0x22]" if "ks \<noteq> []" "\<And>k. k \<in> set ks \<Longrightarrow> plain_key k" for ks
    using that
  proof (induction "'' ''" "map (written f) ks" arbitrary: ks rule: join_with.induct)
    case (2 p ks)
    then show ?case using written_ends(2) by (metis join_with.simps(2) list.set_intros(1) map_eq_Cons_D)
  next
    case (3 p q ps ks)
    then obtain k ks1 where ks: "ks = k # ks1" "map (written f) ks1 = q # ps" by auto
    with 3 obtain s where "join_with '' '' (map (written f) ks1) = s @ [CHR 0x22]"
      by (metis list.discI list.set_intros(2) list.simps(8))
    then show ?case using ks by auto
  qed simp
  then obtain t where tail_j: "?j = t @ [CHR 0x22]" using Cons assms by blast
  have "js_trim (?j @ '' '') = ?j" by (rule trim_keep [OF front_j tail_j]) (simp add: js_space_def)
  then show ?thesis using snoc [of ks] Cons by simp
qed (simp add: js_trim_def)

lemma read_written:
  assumes "plain_key k"
  shows "read_attributes (written f k @ rest) = (k, f k) # read_attributes rest"
proof -
  have k: "takeWhile (\<lambda>c. c \<noteq> CHR ''='') (k @ CHR ''='' # t) = k" for t
    using assms by (subst takeWhile_append2) (auto simp: plain_key_def list_all_iff)
  have v: "takeWhile (\<lambda>c. c \<noteq> CHR 0x22) (htmlEscape u @ CHR 0x22 # t) = htmlEscape u" for u t
    using htmlEscape_safe by (subst takeWhile_append2) auto
  have d: "dropWhile (\<lambda>c. c = CHR '' '') (k @ CHR ''='' # t) = k @ CHR ''='' # t" for t
    using assms by (cases k) (auto simp: plain_key_def js_space_def)
  show "read_attributes (written f k @ rest) = (k, f k) # read_attributes rest"
    by (subst read_attributes.simps) (simp add: d Let_def written_def k v html_escape_sound [THEN conjunct1])
qed

lemma read_space: "read_attributes (CHR '' '' # s) = read_attributes s"
  by (subst (1 2) read_attributes.simps) simp

lemma read_join:
  assumes "\<And>k. k \<in> set ks \<Longrightarrow> plain_key k"
  shows "read_attributes (join_with '' '' (map (written f) ks)) = map (\<lambda>k. (k, f k)) ks"
  using assms
proof (induction "'' ''" "map (written f) ks" arbitrary: ks rule: join_with.induct)
  case 1
  then show ?case by (subst read_attributes.simps) simp
next
  case (2 p ks)
  then obtain k where "ks = [k]" by auto
  then show ?case using 2 read_written [of k f "[]"] by (simp add: read_attributes.simps [of "[]"])
next
  case (3 p q ps ks)
  then obtain k ks1 where ks: "ks = k # ks1" "map (written f) ks1 = q # ps" by auto
  have "read_attributes (written f k @ '' '' @ join_with '' '' (map (written f) ks1))
      = (k, f k) # read_attributes (join_with '' '' (map (written f) ks1))"
    using read_written [of k f "'' '' @ join_with '' '' (map (written f) ks1)"] 3(3) ks(1) by (simp add: read_space)
  moreover have "read_attributes (join_with '' '' (map (written f) ks1)) = map (\<lambda>k. (k, f k)) ks1"
    using 3(1) [OF ks(2) [symmetric]] 3(3) ks(1) by simp
  ultimately show ?case using ks by simp
qed

lemma read_tag_svg:
  assumes "\<And>k. k \<in> set (obj_keys at) \<Longrightarrow> plain_key k"
  shows "read_tag (toHtml (el ''svg'' at cs)) = map (\<lambda>k. (k, to_str (get_jsv at k))) (obj_keys at)"
proof -
  let ?f = "\<lambda>k. to_str (get_jsv at k)"
  have join: "joinAttributes at = join_with '' '' (map (written ?f) (obj_keys at))"
    unfolding joinAttributes_def by (subst trim_written [symmetric]) (use assms in \<open>simp_all add: written_def\<close>)
  have "list_all safe_name (map fst at)"
    using assms by (auto simp: list_all_iff safe_name_def plain_key_def set_obj_keys)
  then have "CHR ''>'' \<notin> set (joinAttributes at)"
    using joinAttributes_safe [of at "CHR ''>''"] by (simp add: count_list_0_iff)
  then have "takeWhile (\<lambda>c. c \<noteq> CHR ''>'') (joinAttributes at @ CHR ''>'' # t) = joinAttributes at" for t
    by (subst takeWhile_append2) auto
  then show ?thesis
    using read_join [of "obj_keys at" ?f] assms by (simp add: read_tag_def join)
qed

lemma read_tag_reads_back: "reads_back (\<lambda>h. [read_tag h]) (pseudo_svg N st f1 f2 main job)"
  unfolding reads_back_def
proof (intro allI impI exI conjI)
  fix at cs k v
  assume svg: "pseudo_svg N st f1 f2 main job = [el ''svg'' at cs]" and v: "map_of at k = Some v"
  then obtain style where at: "at = pseudo_attributes N st main job @ style" "style = [] \<or> (\<exists>s. style = [(''style'', JStr s)])"
    using pseudo_svg_root [of N st f1 f2 main job] by auto
  have keys: "obj_keys at = map fst at"
    using at(2) by (auto simp: at(1) pseudo_attributes_def obj_keys_def is_index_def is_digit_def)
  have plain: "plain_key k" if "k \<in> set (obj_keys at)" for k
    using that at(2) unfolding keys by (auto simp: at(1) pseudo_attributes_def plain_key_def js_space_def)
  have "k \<in> set (obj_keys at)" using v unfolding set_obj_keys by (force dest: map_of_SomeD)
  then show "map_of (read_tag (toHtml (el ''svg'' at cs))) k = Some (to_str v)"
    using v by (simp add: read_tag_svg [OF plain] map_of_map_restrict get_jsv_def get_prop_def of_prop_def del: toHtml.simps)
qed simp

subsection \<open>Examples\<close>

definition demo_style :: computed where
  "demo_style = \<lparr>cs_fontFamily = [CHR 0x22] @ ''Font Awesome 7 Free'' @ [CHR 0x22], cs_fontWeight = ''900'',
     cs_content = [34, 0xF013, 34], cs_features = ''normal''\<rparr>"

definition demo_pseudo :: pseudo_node where
  "demo_pseudo = \<lparr>pn_attrs = [(''class'', ''gear'')], pn_children = []\<rparr>"

definition demo_job :: pseudo_job where
  "demo_job = \<lparr>j_position = ''::before'', j_prefix = JStr ''fas'', j_iconName = JStr ''gear'', j_identifier = JStr ''gear''\<rparr>"

lemma demo_prefix: "getPrefix ([CHR 0x22] @ ''Font Awesome 7 Free'' @ [CHR 0x22]) ''900'' = JStr ''fas''"
proof (rule font_prefix_exact)
  show "map_of font_weights ''Font Awesome 7 Free'' = Some [(''900'', ''fas''), (''400'', ''far'')]"
    by (simp add: font_weights_def fa_Kt_def fa_fo_def fa_hl_def)
qed simp_all

lemma demo_unicode: "byUnicode demo_fa (JStr ''fas'') (JStr ''f013'') = JStr ''gear''"
  by (simp add: byUnicode_def get2_def get_str_def get_prop_def of_prop_def demo_fa_def load_core_def build_def
    lookup_def js_reduce_def obj_keys_def is_index_def is_digit_def unicode_reducer_def demo_icon_def
    alias_key_def hex_nat.simps Let_def split: prod.split)

lemma demo_hex: "hexValueFromContent [34, 0xF013, 34] = JStr ''f013''"
  by (simp add: hexValueFromContent_def clean_content_def first_char_def toHex_def hex_nat.simps)

lemma demo_font: "font_match ([CHR 0x22] @ ''Font Awesome 7 Free'' @ [CHR 0x22]) = Some (''Font Awesome 7 Free'' @ [CHR 0x22])"
  by (simp add: to_lower_def lower_char_def char_of_def bit_0)

lemma demo_layer: "isSecondaryLayer demo_style = False"
  by (simp add: isSecondaryLayer_def demo_style_def clean_content_def)

lemma demo_replace:
  "replaceForPosition demo_fa demo_style demo_pseudo ''::before'' =
     (\<lparr>pn_attrs = [(''class'', ''gear''), (pendingAttribute ''::before'', ''gear'')], pn_children = []\<rparr>, Some demo_job)"
proof -
  have "pseudo_icon demo_fa demo_style (''Font Awesome 7 Free'' @ [CHR 0x22]) ''::before'' = demo_job"
    using demo_prefix by (simp add: pseudo_icon_def demo_style_def demo_hex demo_unicode demo_job_def Let_def)
  moreover have "pendingAttribute ''::before'' \<noteq> ''class''"
    by (simp add: pendingAttribute_def DATA_FA_PSEUDO_ELEMENT_PENDING_def)
  ultimately show ?thesis
    using demo_font demo_layer
    by (simp add: replaceForPosition_def demo_pseudo_def demo_style_def demo_job_def Let_def)
qed

lemma demo_found: "\<exists>main. findIcon N demo_fa missing (JStr ''gear'') (JStr ''fas'') = Some main"
  by (simp add: findIcon_def Let_def demo_fa_def load_core_def build_def get_prop_def split: prod.split)

lemma replaced_once_example:
  "\<exists>node1 node2. replaceForPosition demo_fa demo_style demo_pseudo ''::before'' = (node1, Some demo_job)
    \<and> replace_continue int_num demo_fa no_node [] [] (\<lambda>h. [read_tag h]) demo_job node1 = Some node2
    \<and> replaceForPosition demo_fa demo_style node2 ''::before'' = (node2, None)"
proof -
  obtain main where "findIcon int_num demo_fa no_node (JStr ''gear'') (JStr ''fas'') = Some main"
    using demo_found by blast
  then have main: "findIcon int_num demo_fa no_node (j_iconName demo_job) (j_prefix demo_job) = Some main"
    by (simp add: demo_job_def)
  have none: "length (filter (marked ''::before'') (pn_children demo_pseudo)) \<le> 1" by (simp add: demo_pseudo_def)
  show ?thesis
    using replaced_once [OF demo_replace none main read_tag_reads_back [of int_num demo_fa "[]" "[]" main demo_job]]
    by (auto simp: demo_replace) (auto simp: demo_job_def)
qed

theorem one_element_per_position_witness:
  "pseudo_inv (\<lparr>pn_attrs = [(''class'', ''gear''), (pendingAttribute ''::before'', ''gear'')], pn_children = []\<rparr>, [demo_job])"
proof (rule one_element_per_position [where N = int_num and parse = "\<lambda>h. [read_tag h]" and node = demo_pseudo])
  show "reads_back (\<lambda>h. [read_tag h]) (pseudo_svg int_num st f1 f2 main job)" for st f1 f2 main job
    by (rule read_tag_reads_back)
  show "filter (marked position) (pn_children demo_pseudo) = []" for position by (simp add: demo_pseudo_def)
  show "(pseudo_step int_num (\<lambda>h. [read_tag h]))\<^sup>*\<^sup>* (demo_pseudo, [])
      (\<lparr>pn_attrs = [(''class'', ''gear''), (pendingAttribute ''::before'', ''gear'')], pn_children = []\<rparr>, [demo_job])"
    using pseudo_step.scan [of "''::before''" demo_fa demo_style demo_pseudo _ "Some demo_job" int_num "\<lambda>h. [read_tag h]" "[]"]
      demo_replace by auto
qed

end
