(* ===== verification/Fa_Selectors.thy ===== *)
theory Fa_Selectors
  imports Fa_Pseudo
begin

text \<open>
  Which nodes the pseudo-element search of \<^verbatim>\<open>src/static/fa6/js/fontawesome.js\<close> works on (lines
  3221--3356): the filter of single nodes, the selectors that are read from the rules of the page's
  style sheets, the query made of them, and the search itself. Style sheets and the matches of a
  selector are the browser's and arguments here.
\<close>

section \<open>Nodes and rules\<close>

text \<open>\<^verbatim>\<open>toUpperCase\<close> of a tag name; no character beyond the letters a to z becomes one of the letters of
  the table it is compared with.\<close>

definition upper_tag :: "string \<Rightarrow> string" where
  "upper_tag s = map (\<lambda>c. if 97 \<le> (of_char c :: nat) \<and> (of_char c :: nat) \<le> 122
                           then char_of ((of_char c :: nat) - 32) else c) s"

text \<open>The parent of a node, if it has one: whether it is the head, and its tag name.\<close>

definition processable :: "(bool \<times> string) option \<Rightarrow> string \<Rightarrow> string obj \<Rightarrow> bool" where
  "processable parent tagName attrs \<longleftrightarrow>
     (case parent of Some (isHead, ptag) \<Rightarrow> \<not> isHead | None \<Rightarrow> True)
     \<and> upper_tag tagName \<notin> set TAGNAMES_TO_SKIP_FOR_PSEUDOELEMENTS
     \<and> \<not> truthy (attr_of attrs DATA_FA_PSEUDO_ELEMENT)
     \<and> (case parent of Some (isHead, ptag) \<Rightarrow> ptag \<noteq> ''svg'' | None \<Rightarrow> True)"

definition hasPseudoElement :: "string \<Rightarrow> bool" where
  "hasPseudoElement selector \<longleftrightarrow>
     selector \<noteq> [] \<and> list_ex (\<lambda>pseudoSelector. is_infix pseudoSelector selector) PSEUDO_ELEMENTS"

text \<open>\<^verbatim>\<open>split(/,(?![^()]*\))/)\<close>: a comma is a separator unless the next parenthesis closes one.\<close>

definition closes :: "string \<Rightarrow> bool" where
  "closes s \<longleftrightarrow> (case dropWhile (\<lambda>c. c \<noteq> CHR ''('' \<and> c \<noteq> CHR '')'') s of c # _ \<Rightarrow> c = CHR '')'' | [] \<Rightarrow> False)"

definition push_char :: "'a \<Rightarrow> 'a list list \<Rightarrow> 'a list list" where
  "push_char c ps = (case ps of [] \<Rightarrow> [[c]] | p # ps \<Rightarrow> (c # p) # ps)"

fun split_selectors :: "string \<Rightarrow> string list" where
  "split_selectors [] = [[]]"
| "split_selectors (c # cs) =
     (if c = CHR '','' \<and> \<not> closes cs then [] # split_selectors cs else push_char c (split_selectors cs))"

definition set_add :: "'a list \<Rightarrow> 'a \<Rightarrow> 'a list" where
  "set_add s x = (if x \<in> set s then s else s @ [x])"

definition without_pseudo :: "string \<Rightarrow> string" where
  "without_pseudo selector = foldl (\<lambda>acc pseudoSelector. replace_first pseudoSelector [] acc) selector PSEUDO_ELEMENTS"

definition add_selector :: "string list \<Rightarrow> string \<Rightarrow> string list" where
  "add_selector selectorSet selector =
     (if hasPseudoElement selector \<and> without_pseudo selector \<noteq> [] \<and> without_pseudo selector \<noteq> ''*''
      then set_add selectorSet (without_pseudo selector) else selectorSet)"

definition rule_selectors :: "string \<Rightarrow> string list" where
  "rule_selectors selectorText = concat (map
     (\<lambda>s. if CHR ''('' \<in> set s then [s] else map js_trim (split_on (CHR '','') s))
     (map js_trim (split_selectors selectorText)))"

definition parseCSSRuleForPseudos :: "string \<Rightarrow> string list" where
  "parseCSSRuleForPseudos selectorText =
     (if selectorText = [] then [] else foldl add_selector [] (rule_selectors selectorText))"

text \<open>A style sheet is the texts of its rules (empty for a rule without selector), or cannot be read.
  The loop over the sheets gives the set of selectors and the number of warnings.\<close>

definition sheet_selectors :: "bool \<Rightarrow> string list option list \<Rightarrow> string list \<times> nat" where
  "sheet_selectors warnings sheets =
     foldl (\<lambda>(selectorSet, warned) sheet. case sheet of
         None \<Rightarrow> (selectorSet, if warnings then warned + 1 else warned)
       | Some rules \<Rightarrow> (foldl (\<lambda>acc rule. foldl set_add acc (parseCSSRuleForPseudos rule)) selectorSet rules, warned))
       ([], 0) sheets"

text \<open>The nodes a search works on: \<open>query\<close> is \<^verbatim>\<open>root.querySelectorAll\<close>, \<^term>\<open>None\<close> when it throws;
  \<open>given\<close> the nodes when the caller passes a list. The result is \<^term>\<open>None\<close> when the function
  returns without a promise.\<close>

definition search_nodes ::
  "fa \<Rightarrow> 'd list option \<Rightarrow> (string \<Rightarrow> 'd list option) \<Rightarrow> string list option list \<Rightarrow> 'd list option" where
  "search_nodes st given query sheets =
     (if \<not> f_isDom st then None
      else case given of
        Some ns \<Rightarrow> Some ns
      | None \<Rightarrow>
          if truthy (cfg st ''searchPseudoElementsFullScan'')
          then Some (case query ''*'' of Some ns \<Rightarrow> ns | None \<Rightarrow> [])
          else let selectorSet = fst (sheet_selectors (truthy (cfg st ''searchPseudoElementsWarnings'')) sheets)
               in if selectorSet = [] then None
                  else Some (case query (join_with '', '' selectorSet) of Some ns \<Rightarrow> ns | None \<Rightarrow> []))"

text \<open>What the search does, in order, up to the point where it waits for all continuations; when they
  have ended, however they ended, observation is enabled again.\<close>

datatype 'd search_step = ReplaceNode 'd | DisableObservation | EnableObservation | SearchEnds bool

definition searchPseudoElements ::
  "fa \<Rightarrow> ('d \<Rightarrow> bool) \<Rightarrow> 'd list option \<Rightarrow> (string \<Rightarrow> 'd list option) \<Rightarrow> string list option list
    \<Rightarrow> 'd search_step list" where
  "searchPseudoElements st ok given query sheets =
     (case search_nodes st given query sheets of
        None \<Rightarrow> []
      | Some ns \<Rightarrow> map ReplaceNode (filter ok ns) @ [DisableObservation])"

definition search_settled :: "bool list \<Rightarrow> 'd search_step list" where
  "search_settled outcomes = [EnableObservation, SearchEnds (list_all (\<lambda>b. b) outcomes)]"

definition pseudoElements2svg ::
  "fa \<Rightarrow> ('d \<Rightarrow> bool) \<Rightarrow> (string \<Rightarrow> 'd list option) \<Rightarrow> string list option list \<Rightarrow> 'd search_step list" where
  "pseudoElements2svg st ok query sheets =
     (if truthy (cfg st ''searchPseudoElements'') then searchPseudoElements st ok None query sheets else [])"

section \<open>Properties\<close>

subsection \<open>Selectors\<close>

text \<open>The reference: split at the commas outside all parentheses. A text is flat when its parentheses
  match and are not nested.\<close>

fun split_outside :: "nat \<Rightarrow> string \<Rightarrow> string list" where
  "split_outside d [] = [[]]"
| "split_outside d (c # cs) =
     (if c = CHR '','' \<and> d = 0 then [] # split_outside 0 cs
      else push_char c (split_outside
        (if c = CHR ''('' then d + 1 else if c = CHR '')'' then d - 1 else d) cs))"

fun flat_text :: "bool \<Rightarrow> string \<Rightarrow> bool" where
  "flat_text inside [] = (\<not> inside)"
| "flat_text inside (c # cs) =
     (if c = CHR ''('' then \<not> inside \<and> flat_text True cs
      else if c = CHR '')'' then inside \<and> flat_text False cs
      else flat_text inside cs)"

lemma flat_closes: "flat_text inside s \<Longrightarrow> closes s = inside"
proof (induction s)
  case (Cons c s)
  then show ?case by (auto simp: closes_def split: if_splits)
qed (simp add: closes_def)

lemma split_selectors_flat:
  "flat_text inside s \<Longrightarrow> split_selectors s = split_outside (if inside then 1 else 0) s"
proof (induction s arbitrary: inside)
  case (Cons c s)
  have "flat_text (c = CHR ''('' \<or> c \<noteq> CHR '')'' \<and> inside) s"
    using Cons.prems by (auto split: if_splits)
  from Cons.IH [OF this] flat_closes [OF this] Cons.prems show ?case
    by (cases inside) (auto split: if_splits)
qed simp

text \<open>
  The regular expression that splits a list of selectors does what it is for, on selectors
  without nested parentheses: it splits at exactly the commas that stand outside parentheses.
\<close>

lemma selectors_split_exact:
  assumes "flat_text False s"
  shows "split_selectors s = split_outside 0 s"
  using split_selectors_flat [OF assms] by simp

lemma selectors_split_exact_example:
  "split_selectors ''.a:is(b,c)::before, i'' = split_outside 0 ''.a:is(b,c)::before, i''"
  by (rule selectors_split_exact) simp

definition paren_excess :: "string \<Rightarrow> int" where
  "paren_excess s = int (count_list s (CHR ''('')) - int (count_list s (CHR '')''))"

lemma paren_excess_simps [simp]:
  "paren_excess [] = 0"
  "paren_excess (s @ t) = paren_excess s + paren_excess t"
  "paren_excess (c # s) = (if c = CHR ''('' then 1 else if c = CHR '')'' then -1 else 0) + paren_excess s"
  by (auto simp: paren_excess_def)

lemma paren_free: "CHR ''('' \<notin> set s \<Longrightarrow> CHR '')'' \<notin> set s \<Longrightarrow> paren_excess s = 0"
  by (induction s) auto

lemma push_char_excess:
  "ps \<noteq> [] \<Longrightarrow> map paren_excess (push_char c ps) = (paren_excess [c] + paren_excess (hd ps)) # map paren_excess (tl ps)"
  by (cases ps) (auto simp: push_char_def)

lemma split_outside_not_Nil [simp]: "split_outside d s \<noteq> []"
  by (induction d s rule: split_outside.induct) (auto simp: push_char_def split: list.split)

text \<open>On a flat text every selector has as many opening as closing parentheses.\<close>

lemma split_outside_excess:
  "flat_text (d = 1) s \<Longrightarrow> d \<le> 1 \<Longrightarrow>
   map paren_excess (split_outside d s) = (- int d) # replicate (length (split_outside d s) - 1) 0"
proof (induction d s rule: split_outside.induct)
  case (2 d c cs)
  have len: "length (push_char c ps) = length ps" if "ps \<noteq> []" for ps :: "string list"
    using that by (cases ps) (auto simp: push_char_def)
  obtain p ps where eq: "split_outside (if c = CHR ''('' then d + 1 else if c = CHR '')'' then d - 1 else d) cs = p # ps"
    by (meson neq_Nil_conv split_outside_not_Nil)
  show ?case
  proof (cases "c = CHR '','' \<and> d = 0")
    case True
    then show ?thesis using 2 by (simp add: Cons_replicate_eq)
  next
    case False
    then show ?thesis
      using 2 eq by (auto simp: push_char_excess len split: if_splits)
  qed
qed auto

lemma js_trim_excess [simp]: "paren_excess (js_trim s) = paren_excess s"
proof -
  have drop: "paren_excess (dropWhile js_space s) = paren_excess s" for s
    by (induction s) (auto simp: js_space_def)
  have rev: "paren_excess (rev s) = paren_excess s" for s by (induction s) auto
  show ?thesis by (simp add: js_trim_def drop rev)
qed

lemma replace_first_excess:
  assumes "paren_excess p = 0"
  shows "paren_excess (replace_first p [] s) = paren_excess s"
proof (induction s)
  case (Cons c s)
  have "paren_excess (drop (length p) (c # s)) = paren_excess (c # s)" if "starts_with p (c # s)"
  proof -
    from that have "c # s = p @ drop (length p) (c # s)" unfolding starts_with_iff by (metis append_eq_conv_conj)
    then have "paren_excess (c # s) = paren_excess p + paren_excess (drop (length p) (c # s))"
      by (metis paren_excess_simps(2))
    with assms show ?thesis by simp
  qed
  with Cons show ?case by auto
qed (simp add: assms)

lemma set_foldl_add [simp]: "set (foldl set_add s xs) = set s \<union> set xs"
  by (induction xs arbitrary: s) (auto simp: set_add_def)

lemma distinct_foldl_add: "distinct s \<Longrightarrow> distinct (foldl set_add s xs)"
  by (induction xs arbitrary: s) (auto simp: set_add_def)

lemma split_on_subset: "u \<in> set (split_on d s) \<Longrightarrow> set u \<subseteq> set s"
proof (induction s arbitrary: u)
  case (Cons c s)
  then show ?case by (cases "split_on d s") (fastforce split: if_splits)+
qed simp

lemma excess_no_open: "paren_excess s = 0 \<Longrightarrow> CHR ''('' \<notin> set s \<Longrightarrow> CHR '')'' \<notin> set s"
  by (auto simp: paren_excess_def count_list_0_iff)

lemma set_foldl_selector: "set (foldl add_selector acc sels) \<subseteq> set acc \<union> without_pseudo ` set sels"
  by (induction sels arbitrary: acc) (fastforce simp: add_selector_def set_add_def split: if_splits)+

lemma split_selectors_excess:
  assumes "flat_text False stext" "p \<in> set (split_selectors stext)"
  shows "paren_excess p = 0"
proof -
  have "split_selectors stext = split_outside 0 stext" using split_selectors_flat [OF assms(1)] by simp
  then have "map paren_excess (split_selectors stext) = replicate (length (split_selectors stext)) 0"
    using split_outside_excess [of 0 stext] assms(1) by (cases "split_outside 0 stext") auto
  then show ?thesis using assms(2) by (metis in_set_conv_nth length_replicate nth_map nth_replicate)
qed

lemma rule_selectors_excess:
  assumes "flat_text False stext" "sel \<in> set (rule_selectors stext)"
  shows "paren_excess sel = 0"
proof -
  from assms(2) obtain p where p: "p \<in> set (split_selectors stext)"
    "sel = js_trim p \<or> CHR ''('' \<notin> set (js_trim p) \<and> sel \<in> js_trim ` set (split_on (CHR '','') (js_trim p))"
    by (auto simp: rule_selectors_def split: if_splits)
  have "paren_excess (js_trim p) = 0" using split_selectors_excess [OF assms(1) p(1)] by simp
  note none = excess_no_open [OF this]
  from p(2) show ?thesis
  proof (elim disjE conjE imageE)
    fix u assume "CHR ''('' \<notin> set (js_trim p)" "u \<in> set (split_on (CHR '','') (js_trim p))" "sel = js_trim u"
    then show ?thesis using none split_on_subset [of u "CHR '',''" "js_trim p"] by (auto intro!: paren_free)
  qed (simp add: split_selectors_excess [OF assms(1) p(1)])
qed

lemma parsed_excess:
  assumes "flat_text False stext" "s \<in> set (parseCSSRuleForPseudos stext)"
  shows "paren_excess s = 0"
proof -
  obtain sel where "sel \<in> set (rule_selectors stext)" "s = without_pseudo sel"
    using assms(2) set_foldl_selector [of "[]" "rule_selectors stext"]
    by (auto simp: parseCSSRuleForPseudos_def split: if_splits)
  then show ?thesis
    using rule_selectors_excess [OF assms(1)] by (simp add: without_pseudo_def PSEUDO_ELEMENTS_def replace_first_excess)
qed

definition torn_selector :: string where
  "torn_selector = ''.a:is(.b, :not(.c))::before''"

lemma torn_parsed: "parseCSSRuleForPseudos torn_selector = ['':not(.c))'']"
  by (simp add: parseCSSRuleForPseudos_def rule_selectors_def add_selector_def without_pseudo_def
    torn_selector_def closes_def push_char_def js_trim_def js_space_def
    hasPseudoElement_def PSEUDO_ELEMENTS_def set_add_def)

lemma join_excess: "paren_excess (join_with '', '' ps) = sum_list (map paren_excess ps)"
  by (induction "'', ''" ps rule: join_with.induct) auto

lemma sheet_selectors_set:
  "set (fst (sheet_selectors w sheets)) = (\<Union>rules \<in> {rules. Some rules \<in> set sheets}. \<Union>r \<in> set rules. set (parseCSSRuleForPseudos r))
   \<and> distinct (fst (sheet_selectors w sheets))"
proof -
  let ?rules = "\<lambda>acc rules. foldl (\<lambda>acc rule. foldl set_add acc (parseCSSRuleForPseudos rule)) acc rules"
  have rules: "set (?rules acc rules) = set acc \<union> (\<Union>r \<in> set rules. set (parseCSSRuleForPseudos r))" for acc rules
    by (induction rules arbitrary: acc) auto
  have dist: "distinct acc \<Longrightarrow> distinct (?rules acc rules)" for acc rules
    by (induction rules arbitrary: acc) (auto simp: distinct_foldl_add)
  let ?step = "\<lambda>(selectorSet, warned) sheet. case sheet of
         None \<Rightarrow> (selectorSet, if w then warned + 1 else warned) | Some rules \<Rightarrow> (?rules selectorSet rules, warned)"
  have "set (fst (foldl ?step (acc, n) sheets)) =
      set acc \<union> (\<Union>rules \<in> {rules. Some rules \<in> set sheets}. \<Union>r \<in> set rules. set (parseCSSRuleForPseudos r))
    \<and> (distinct acc \<longrightarrow> distinct (fst (foldl ?step (acc, n) sheets)))" for acc and n :: nat
  proof (induction sheets arbitrary: acc n)
    case (Cons sheet sheets)
    show ?case using Cons.IH by (cases sheet) (auto simp: rules dist)
  qed simp
  from this [of "[]" 0] show ?thesis by (simp add: sheet_selectors_def)
qed

text \<open>
  One rule of a style sheet can switch the search off: a rule whose selector has nested
  parentheses with a comma inside (here \<^verbatim>\<open>.a:is(.b, :not(.c))::before\<close>) is torn apart at that comma, its
  second half is not a selector, and as the browser refuses a list that contains it, no
  pseudo-element of the page is processed, whatever the other rules are, if only these are flat.
\<close>

lemma nested_selector_stops_search:
  assumes "f_isDom st" and "\<not> truthy (cfg st ''searchPseudoElementsFullScan'')"
    and "\<And>s. paren_excess s < 0 \<Longrightarrow> query s = None"
    and "Some rules \<in> set sheets" and "torn_selector \<in> set rules"
    and "\<And>rs r. Some rs \<in> set sheets \<Longrightarrow> r \<in> set rs \<Longrightarrow> r = torn_selector \<or> flat_text False r"
  shows "searchPseudoElements st ok None query sheets = [DisableObservation]"
proof -
  let ?S = "fst (sheet_selectors (truthy (cfg st ''searchPseudoElementsWarnings'')) sheets)"
  let ?t = "'':not(.c))''"
  have S: "set ?S = (\<Union>rules \<in> {rules. Some rules \<in> set sheets}. \<Union>r \<in> set rules. set (parseCSSRuleForPseudos r))"
    "distinct ?S" using sheet_selectors_set by blast+
  have mem: "?t \<in> set ?S" using assms(4,5) torn_parsed unfolding S(1) by fastforce
  have zero: "paren_excess s = 0" if mem_s: "s \<in> set ?S" and other: "s \<noteq> ?t" for s
  proof -
    obtain rs r where "Some rs \<in> set sheets" "r \<in> set rs" "s \<in> set (parseCSSRuleForPseudos r)"
      using mem_s unfolding S(1) by auto
    then show ?thesis using assms(6) [of rs r] parsed_excess [of r s] torn_parsed other by auto
  qed
  have "sum_list (map paren_excess ?S) = (\<Sum>s \<in> set ?S. paren_excess s)"
    using S(2) by (simp add: sum_list_distinct_conv_sum_set)
  also have "\<dots> = paren_excess ?t + (\<Sum>s \<in> set ?S - {?t}. paren_excess s)"
    using mem by (simp add: sum.remove)
  also have "\<dots> = -1" using zero by simp
  finally have "query (join_with '', '' ?S) = None" using assms(3) by (simp add: join_excess)
  moreover have "?S \<noteq> []" using mem by auto
  ultimately show ?thesis using assms(1,2) by (simp add: searchPseudoElements_def search_nodes_def Let_def)
qed

lemma nested_selector_stops_search_example:
  "searchPseudoElements demo_fa (\<lambda>d. True) None
     (\<lambda>s. if paren_excess s < 0 then None else Some [''i'', ''b'']) [Some [''.fa-user::before'', torn_selector]]
   = [DisableObservation]"
proof (rule nested_selector_stops_search)
  show "f_isDom demo_fa" by (simp add: demo_fa_def load_core_def build_def Let_def split: prod.split)
  show "\<not> truthy (cfg demo_fa ''searchPseudoElementsFullScan'')"
    by (simp add: demo_fa_def load_core_def build_def load_config_def read_attrs_def config_get_def
      config_default_def config_attrs_def getAttrConfig_def coerce_def get_jsv_def get_prop_def of_prop_def object_prototype_def Let_def
      split: prod.split)
qed auto

end
