(* ===== verification/Fa_Plugins.thy ===== *)
theory Fa_Plugins
  imports Fa_Selectors "HOL-Library.Multiset"
begin

text \<open>
  The plugin system of \<^verbatim>\<open>src/static/fa6/js/fontawesome.js\<close> and the life of the page it drives: the
  registration of plugins and the calls by name (lines 1954--2021), the eleven plugins of the bundle
  with their mixouts, hooks and providers, the insertion of the style sheet (1260--1278, 1379--1385),
  the queue of functions that wait for the document (1414--1430), the switches \<^verbatim>\<open>noAuto\<close>,
  \<^verbatim>\<open>dom.watch\<close> and \<^verbatim>\<open>dom.unwatch\<close> (2034--2064, 3358--3390), the observers that the page has created
  (2572--2632) and \<^verbatim>\<open>bootstrap\<close> (2119--2128). The \<^verbatim>\<open>api\<close> object itself is a table of function names.
\<close>

section \<open>Registration\<close>

text \<open>A mixout is a function, or an object of functions that is merged into the object of that name.\<close>

datatype 'f mixval = MFun 'f | MObj "'f obj"

record 'f plugin =
  pl_mixout :: "'f mixval obj"
  pl_hooks :: "'f obj"
  pl_provides :: "'f obj"

record 'f plugin_tables =
  rg_api :: "'f mixval obj"
  rg_hooks :: "'f list obj"
  rg_providers :: "'f obj"

text \<open>A member set on a function leaves it the function that it is.\<close>

definition set_member :: "'f mixval obj \<Rightarrow> string \<Rightarrow> string \<Rightarrow> 'f \<Rightarrow> 'f mixval obj" where
  "set_member api tk sk v = (case map_of api tk of
       Some (MFun f) \<Rightarrow> api
     | Some (MObj ob) \<Rightarrow> obj_set api tk (MObj (obj_set ob sk v))
     | None \<Rightarrow> obj_set api tk (MObj [(sk, v)]))"

definition mix_into :: "'f mixval obj \<Rightarrow> 'f mixval obj \<Rightarrow> 'f mixval obj" where
  "mix_into mixout api =
     fold (\<lambda>tk api. case map_of mixout tk of
         Some (MFun f) \<Rightarrow> obj_set api tk (MFun f)
       | Some (MObj ob) \<Rightarrow> fold (\<lambda>sk api. case map_of ob sk of Some v \<Rightarrow> set_member api tk sk v | None \<Rightarrow> api) (obj_keys ob) api
       | None \<Rightarrow> api) (obj_keys mixout) api"

definition push_hook :: "'f list obj \<Rightarrow> string \<Rightarrow> 'f \<Rightarrow> 'f list obj" where
  "push_hook hooks h f = obj_set hooks h ((case map_of hooks h of Some fs \<Rightarrow> fs | None \<Rightarrow> []) @ [f])"

definition register_plugin :: "'f plugin \<Rightarrow> 'f plugin_tables \<Rightarrow> 'f plugin_tables" where
  "register_plugin p rg =
     \<lparr>rg_api = mix_into (pl_mixout p) (rg_api rg),
      rg_hooks = fold (\<lambda>h hooks. case map_of (pl_hooks p) h of Some f \<Rightarrow> push_hook hooks h f | None \<Rightarrow> hooks)
                   (obj_keys (pl_hooks p)) (rg_hooks rg),
      rg_providers = fold (\<lambda>(k, f) ps. obj_set ps k f) (pl_provides p) (rg_providers rg)\<rparr>"

text \<open>\<^verbatim>\<open>registerPlugins\<close>: the hooks start empty, and as there are no default providers all are deleted.\<close>

definition registerPlugins :: "'f plugin list \<Rightarrow> 'f mixval obj \<Rightarrow> 'f plugin_tables" where
  "registerPlugins nextPlugins api = fold register_plugin nextPlugins \<lparr>rg_api = api, rg_hooks = [], rg_providers = []\<rparr>"

definition hook_fns :: "'f plugin_tables \<Rightarrow> string \<Rightarrow> 'f list" where
  "hook_fns rg hook = (case map_of (rg_hooks rg) hook of Some fs \<Rightarrow> fs | None \<Rightarrow> [])"

text \<open>\<open>run f\<close> is what the function \<open>f\<close> does to the accumulator, or, for \<^verbatim>\<open>callHooks\<close>, to the state.\<close>

definition chainHooks :: "('f \<Rightarrow> 'a \<Rightarrow> 'a) \<Rightarrow> 'f plugin_tables \<Rightarrow> string \<Rightarrow> 'a \<Rightarrow> 'a" where
  "chainHooks run rg hook accumulator = foldl (\<lambda>acc f. run f acc) accumulator (hook_fns rg hook)"

definition callHooks :: "('f \<Rightarrow> 's \<Rightarrow> 's) \<Rightarrow> 'f plugin_tables \<Rightarrow> string \<Rightarrow> 's \<Rightarrow> 's" where
  "callHooks run rg hook st = foldl (\<lambda>st f. run f st) st (hook_fns rg hook)"

definition callProvided :: "'f plugin_tables \<Rightarrow> string \<Rightarrow> 'f option" where
  "callProvided rg hook = map_of (rg_providers rg) hook"

section \<open>The plugins of the bundle\<close>

text \<open>The functions that the plugins contribute, by the plugin and the member.\<close>

datatype fa_fun =
    InjectCSS_css | InjectCSS_insertCss | InjectCSS_beforeDOMElementCreation | InjectCSS_beforeI2svg
  | ReplaceElements_icon | ReplaceElements_callbacks | ReplaceElements_i2svg
  | ReplaceElements_mutation | ReplaceElements_abstractIcon
  | Layers_layer | LayersCounter_counter | LayersText_text | LayersText_generate
  | PseudoElements_callbacks | PseudoElements_i2svg
  | MutationObserver_unwatch | MutationObserver_bootstrap | MutationObserver_noAuto | MutationObserver_watch
  | PowerTransforms_transform | PowerTransforms_attributes | PowerTransforms_grouping
  | Masks_attributes | Masks_abstract | MissingIconIndicator_abstract | SvgSymbols_attributes
  | Api_function string

definition InjectCSS :: "fa_fun plugin" where
  "InjectCSS = \<lparr>pl_mixout = [(''dom'', MObj [(''css'', InjectCSS_css), (''insertCss'', InjectCSS_insertCss)])],
     pl_hooks = [(''beforeDOMElementCreation'', InjectCSS_beforeDOMElementCreation), (''beforeI2svg'', InjectCSS_beforeI2svg)],
     pl_provides = []\<rparr>"

definition ReplaceElements :: "fa_fun plugin" where
  "ReplaceElements = \<lparr>pl_mixout = [(''icon'', MFun ReplaceElements_icon)],
     pl_hooks = [(''mutationObserverCallbacks'', ReplaceElements_callbacks)],
     pl_provides = [(''i2svg'', ReplaceElements_i2svg), (''generateSvgReplacementMutation'', ReplaceElements_mutation),
       (''generateAbstractIcon'', ReplaceElements_abstractIcon)]\<rparr>"

definition Layers :: "fa_fun plugin" where
  "Layers = \<lparr>pl_mixout = [(''layer'', MFun Layers_layer)], pl_hooks = [], pl_provides = []\<rparr>"

definition LayersCounter :: "fa_fun plugin" where
  "LayersCounter = \<lparr>pl_mixout = [(''counter'', MFun LayersCounter_counter)], pl_hooks = [], pl_provides = []\<rparr>"

definition LayersText :: "fa_fun plugin" where
  "LayersText = \<lparr>pl_mixout = [(''text'', MFun LayersText_text)], pl_hooks = [],
     pl_provides = [(''generateLayersText'', LayersText_generate)]\<rparr>"

definition PseudoElements :: "fa_fun plugin" where
  "PseudoElements = \<lparr>pl_mixout = [], pl_hooks = [(''mutationObserverCallbacks'', PseudoElements_callbacks)],
     pl_provides = [(''pseudoElements2svg'', PseudoElements_i2svg)]\<rparr>"

definition MutationObserver1 :: "fa_fun plugin" where
  "MutationObserver1 = \<lparr>pl_mixout = [(''dom'', MObj [(''unwatch'', MutationObserver_unwatch)])],
     pl_hooks = [(''bootstrap'', MutationObserver_bootstrap), (''noAuto'', MutationObserver_noAuto),
       (''watch'', MutationObserver_watch)], pl_provides = []\<rparr>"

definition PowerTransforms :: "fa_fun plugin" where
  "PowerTransforms = \<lparr>pl_mixout = [(''parse'', MObj [(''transform'', PowerTransforms_transform)])],
     pl_hooks = [(''parseNodeAttributes'', PowerTransforms_attributes)],
     pl_provides = [(''generateAbstractTransformGrouping'', PowerTransforms_grouping)]\<rparr>"

definition Masks :: "fa_fun plugin" where
  "Masks = \<lparr>pl_mixout = [], pl_hooks = [(''parseNodeAttributes'', Masks_attributes)],
     pl_provides = [(''generateAbstractMask'', Masks_abstract)]\<rparr>"

definition MissingIconIndicator :: "fa_fun plugin" where
  "MissingIconIndicator = \<lparr>pl_mixout = [], pl_hooks = [],
     pl_provides = [(''missingIconAbstract'', MissingIconIndicator_abstract)]\<rparr>"

definition SvgSymbols :: "fa_fun plugin" where
  "SvgSymbols = \<lparr>pl_mixout = [], pl_hooks = [(''parseNodeAttributes'', SvgSymbols_attributes)], pl_provides = []\<rparr>"

definition plugins :: "fa_fun plugin list" where
  "plugins = [InjectCSS, ReplaceElements, Layers, LayersCounter, LayersText, PseudoElements, MutationObserver1,
     PowerTransforms, Masks, MissingIconIndicator, SvgSymbols]"

text \<open>The functions of \<^verbatim>\<open>api\<close> before the plugins add theirs.\<close>

definition api :: "fa_fun mixval obj" where
  "api = [(''noAuto'', MFun (Api_function ''noAuto'')), (''config'', MObj []),
     (''dom'', MObj [(''i2svg'', Api_function ''i2svg''), (''watch'', Api_function ''watch'')]),
     (''parse'', MObj [(''icon'', Api_function ''icon'')]),
     (''library'', MObj []), (''findIconDefinition'', MFun (Api_function ''findIconDefinition'')),
     (''toHtml'', MFun (Api_function ''toHtml''))]"

definition fa_tables :: "fa_fun plugin_tables" where
  "fa_tables = registerPlugins plugins api"

text \<open>The accumulator of \<^verbatim>\<open>parseNodeAttributes\<close>, an object whose members may be missing.\<close>

record 'n attr_acc =
  aa_transform :: "'n transform option"
  aa_mask :: "canonical option"
  aa_maskId :: "jsv option"
  aa_symbol :: "jsv option"

definition run_attributes :: "'n jsnum \<Rightarrow> fa \<Rightarrow> node \<Rightarrow> fa_fun \<Rightarrow> 'n attr_acc \<Rightarrow> 'n attr_acc" where
  "run_attributes N st n f acc =
     (if f = PowerTransforms_attributes
      then (case transform_hook N n of Some t \<Rightarrow> acc\<lparr>aa_transform := Some t\<rparr> | None \<Rightarrow> acc)
      else if f = Masks_attributes
      then acc\<lparr>aa_mask := Some (fst (mask_hook st n)), aa_maskId := Some (snd (mask_hook st n))\<rparr>
      else if f = SvgSymbols_attributes then acc\<lparr>aa_symbol := Some (symbol_hook n)\<rparr>
      else acc)"

text \<open>\<^verbatim>\<open>parseMeta\<close> as the code composes it: the defaults, then what the hooks left.\<close>

definition parseMeta_hooked ::
  "'n jsnum \<Rightarrow> fa_fun plugin_tables \<Rightarrow> fa \<Rightarrow> node \<Rightarrow> bool \<Rightarrow> 'n meta" where
  "parseMeta_hooked N rg st n withStyles =
     (let c = classParser st n;
          extraAttributes = attributesParser n;
          pluginMeta = chainHooks (run_attributes N st n) rg ''parseNodeAttributes''
            \<lparr>aa_transform = None, aa_mask = None, aa_maskId = None, aa_symbol = None\<rparr>;
          extraStyles = (if withStyles then styleParser n else []);
          dflt = (\<lambda>d v. case v of Some x \<Rightarrow> x | None \<Rightarrow> d)
      in \<lparr>m_iconName = cn_iconName c, m_prefix = cn_prefix c,
          m_transform = (case aa_transform pluginMeta of Some t \<Rightarrow> t | None \<Rightarrow> meaninglessTransform N),
          m_symbol = dflt (JBool False) (aa_symbol pluginMeta),
          m_mask = (case aa_mask pluginMeta of Some m \<Rightarrow> m | None \<Rightarrow> emptyCanonicalIcon),
          m_maskId = dflt Null (aa_maskId pluginMeta),
          m_extra = \<lparr>ex_classes = cn_rest c, ex_styles = extraStyles,
                     ex_attributes = map (\<lambda>(k, v). (k, JStr v)) extraAttributes\<rparr>\<rparr>)"

section \<open>The page\<close>

text \<open>The children of the head: elements by their tag name, other nodes, and the style element that the
  library inserts.\<close>

datatype head_child = HeadElem string | HeadOther | FaStyle string

definition head_tag :: "head_child \<Rightarrow> string" where
  "head_tag c = upper_tag (case c of HeadElem t \<Rightarrow> t | HeadOther \<Rightarrow> [] | FaStyle s \<Rightarrow> ''style'')"

text \<open>\<^verbatim>\<open>insertCss\<close>: the loop runs from the last child to the first and keeps the child seen last.\<close>

definition before_child :: "head_child list \<Rightarrow> nat option" where
  "before_child hd_children =
     foldl (\<lambda>b i. if head_tag (hd_children ! i) \<in> {''STYLE'', ''LINK''} then Some i else b) None (rev [0..<length hd_children])"

definition insertCss :: "bool \<Rightarrow> string \<Rightarrow> head_child list \<Rightarrow> head_child list" where
  "insertCss isDom sheet children =
     (if sheet = [] \<or> \<not> isDom then children
      else case before_child children of
             Some i \<Rightarrow> take i children @ [FaStyle sheet] @ drop i children
           | None \<Rightarrow> children @ [FaStyle sheet])"

text \<open>Functions that wait for the document: the one of \<^verbatim>\<open>bootstrap\<close> and those of \<^verbatim>\<open>dom.watch\<close>, with the
  root that is to be observed (\<^term>\<open>None\<close> is the document).\<close>

datatype ready_task = BootTask | WatchTask "nat option"

record callbacks =
  cb_tree :: bool
  cb_node :: bool
  cb_pseudo :: bool

record observer =
  ob_connected :: bool
  ob_callbacks :: callbacks
  ob_root :: "nat option"

text \<open>The variables of the module and the part of the document they concern. All observers ever made
  are kept; the variable \<^verbatim>\<open>mo\<close> is the last one. \<open>pg_run\<close> lists the ready functions in the order they ran.\<close>

record fa_page =
  pg_fa :: fa
  pg_hasObserver :: bool
  pg_cssInserted :: bool
  pg_head :: "head_child list"
  pg_loaded :: bool
  pg_functions :: "ready_task list"
  pg_timers :: "ready_task list"
  pg_run :: "ready_task list"
  pg_observers :: "observer list"
  pg_disabled :: bool
  pg_unwatched :: bool

definition ensureCss :: "string \<Rightarrow> fa_page \<Rightarrow> fa_page" where
  "ensureCss base p =
     (if truthy (cfg (pg_fa p) ''autoAddCss'') \<and> \<not> pg_cssInserted p
      then p\<lparr>pg_head := insertCss (f_isDom (pg_fa p)) (css base (pg_fa p)) (pg_head p), pg_cssInserted := True\<rparr>
      else p)"

definition run_callbacks :: "fa_fun \<Rightarrow> callbacks \<Rightarrow> callbacks" where
  "run_callbacks f acc =
     (if f = ReplaceElements_callbacks then acc\<lparr>cb_tree := True, cb_node := True\<rparr>
      else if f = PseudoElements_callbacks then acc\<lparr>cb_pseudo := True\<rparr> else acc)"

definition observer_callbacks :: callbacks where
  "observer_callbacks = chainHooks run_callbacks fa_tables ''mutationObserverCallbacks''
     \<lparr>cb_tree = False, cb_node = False, cb_pseudo = False\<rparr>"

definition observe :: "callbacks \<Rightarrow> nat option \<Rightarrow> fa_page \<Rightarrow> fa_page" where
  "observe cbs root p =
     (if \<not> pg_hasObserver p \<or> \<not> truthy (cfg (pg_fa p) ''observeMutations'') then p
      else p\<lparr>pg_observers := pg_observers p
               @ [\<lparr>ob_connected = f_isDom (pg_fa p), ob_callbacks = cbs, ob_root = root\<rparr>]\<rparr>)"

definition disconnect :: "fa_page \<Rightarrow> fa_page" where
  "disconnect p =
     (if pg_observers p = [] then p
      else p\<lparr>pg_observers := butlast (pg_observers p) @ [(last (pg_observers p))\<lparr>ob_connected := False\<rparr>]\<rparr>)"

definition enableObservation :: "fa_page \<Rightarrow> fa_page" where
  "enableObservation p = p\<lparr>pg_disabled := False\<rparr>"

definition disableObservation :: "fa_page \<Rightarrow> fa_page" where
  "disableObservation p = p\<lparr>pg_disabled := True\<rparr>"

text \<open>What the hooks do to the page; \<open>root\<close> is the argument of \<^verbatim>\<open>watch\<close>.\<close>

definition run_hook :: "string \<Rightarrow> nat option \<Rightarrow> fa_fun \<Rightarrow> fa_page \<Rightarrow> fa_page" where
  "run_hook base root f p =
     (if f = InjectCSS_beforeDOMElementCreation \<or> f = InjectCSS_beforeI2svg then ensureCss base p
      else if f = MutationObserver_bootstrap then observe observer_callbacks None p
      else if f = MutationObserver_noAuto then disconnect p
      else if f = MutationObserver_watch
      then (if pg_unwatched p then enableObservation p else observe observer_callbacks root p)
      else p)"

abbreviation call :: "string \<Rightarrow> nat option \<Rightarrow> string \<Rightarrow> fa_page \<Rightarrow> fa_page" where
  "call base root hook p \<equiv> callHooks (run_hook base root) fa_tables hook p"

text \<open>\<^verbatim>\<open>autoReplace\<close> with the hooks of the \<^verbatim>\<open>dom.i2svg\<close> it calls; the passes themselves are counted.\<close>

definition page_autoReplace :: "string \<Rightarrow> fa_page \<Rightarrow> fa_page" where
  "page_autoReplace base p =
     (let st = autoReplace (pg_fa p)
      in if f_i2svg st = f_i2svg (pg_fa p) then p else call base None ''beforeI2svg'' (p\<lparr>pg_fa := st\<rparr>))"

definition run_task :: "string \<Rightarrow> ready_task \<Rightarrow> fa_page \<Rightarrow> fa_page" where
  "run_task base t p =
     (let p = page_autoReplace base (p\<lparr>pg_run := pg_run p @ [t]\<rparr>)
      in case t of BootTask \<Rightarrow> call base None ''bootstrap'' p | WatchTask root \<Rightarrow> call base root ''watch'' p)"

definition domready :: "ready_task \<Rightarrow> fa_page \<Rightarrow> fa_page" where
  "domready t p =
     (if \<not> f_isDom (pg_fa p) then p
      else if pg_loaded p then p\<lparr>pg_timers := pg_timers p @ [t]\<rparr>
      else p\<lparr>pg_functions := pg_functions p @ [t]\<rparr>)"

text \<open>The listener of \<^verbatim>\<open>DOMContentLoaded\<close> removes itself, so the event has an effect once.\<close>

definition listener :: "string \<Rightarrow> fa_page \<Rightarrow> fa_page" where
  "listener base p =
     (if pg_loaded p then p
      else fold (run_task base) (pg_functions p) (p\<lparr>pg_loaded := True\<rparr>))"

definition timer :: "string \<Rightarrow> fa_page \<Rightarrow> fa_page" where
  "timer base p = (case pg_timers p of [] \<Rightarrow> p | t # ts \<Rightarrow> run_task base t (p\<lparr>pg_timers := ts\<rparr>))"

definition noAuto :: "string \<Rightarrow> fa_page \<Rightarrow> fa_page" where
  "noAuto base p =
     (let st = set_config (set_config (pg_fa p) ''autoReplaceSvg'' (JBool False)) ''observeMutations'' (JBool False)
      in call base None ''noAuto'' (p\<lparr>pg_fa := st\<rparr>))"

definition dom_watch :: "nat option \<Rightarrow> fa_page \<Rightarrow> fa_page" where
  "dom_watch root p =
     (let st = pg_fa p;
          st = (if cfg st ''autoReplaceSvg'' = JBool False then set_config st ''autoReplaceSvg'' (JBool True) else st);
          st = set_config st ''observeMutations'' (JBool True)
      in domready (WatchTask root) (p\<lparr>pg_fa := st\<rparr>))"

definition dom_unwatch :: "fa_page \<Rightarrow> fa_page" where
  "dom_unwatch p = (disableObservation p)\<lparr>pg_unwatched := True\<rparr>"

definition bootstrap :: "fa_page \<Rightarrow> fa_page" where
  "bootstrap p = (let p = domready BootTask p in p\<lparr>pg_fa := bootstrap_hooks (pg_fa p)\<rparr>)"

text \<open>The page when the script has run; \<open>ready\<close> tells whether the document was parsed by then.\<close>

definition start_page :: "fa \<Rightarrow> bool \<Rightarrow> bool \<Rightarrow> head_child list \<Rightarrow> fa_page" where
  "start_page st hasObserver ready children = bootstrap
     \<lparr>pg_fa = st, pg_hasObserver = hasObserver, pg_cssInserted = False, pg_head = children,
      pg_loaded = f_isDom st \<and> ready, pg_functions = [], pg_timers = [], pg_run = [], pg_observers = [],
      pg_disabled = False, pg_unwatched = False\<rparr>"

section \<open>Properties\<close>

subsection \<open>Hooks\<close>

lemma fold_push_hooks:
  assumes "distinct ks"
  shows "(case map_of (fold (\<lambda>h hooks. case map_of ob h of Some f \<Rightarrow> push_hook hooks h f | None \<Rightarrow> hooks) ks hooks) k of
            Some fs \<Rightarrow> fs | None \<Rightarrow> [])
       = (case map_of hooks k of Some fs \<Rightarrow> fs | None \<Rightarrow> [])
         @ (if k \<in> set ks then (case map_of ob k of Some f \<Rightarrow> [f] | None \<Rightarrow> []) else [])"
  using assms
proof (induction ks arbitrary: hooks)
  case (Cons h ks)
  then show ?case by (auto simp: push_hook_def split: option.splits)
qed simp

lemma distinct_obj_keys:
  assumes "distinct (map fst ob)"
  shows "distinct (obj_keys ob)"
proof -
  have inj: "inj_on read_digits {k. is_index k}" by (metis inj_onI mem_Collect_eq show_read_digits)
  have "distinct (map read_digits (filter is_index (map fst ob)))"
    using assms inj by (auto simp: distinct_map intro: inj_on_subset)
  then have "distinct (map show_nat (sort (map read_digits (filter is_index (map fst ob)))))"
    by (auto simp: distinct_map show_read_digits intro!: inj_onI)
  moreover have "set (map show_nat (sort (map read_digits (filter is_index (map fst ob))))) \<subseteq> {k. is_index k}"
    by (auto simp: show_read_digits)
  ultimately show ?thesis using assms by (auto simp: obj_keys_def Let_def)
qed

text \<open>A hook runs the functions of the plugins that define it, in the order of the plugins.\<close>

lemma hooks_in_plugin_order:
  assumes "\<forall>p \<in> set ps. distinct (map fst (pl_hooks p))"
  shows "hook_fns (registerPlugins ps a) h = concat (map (\<lambda>p. case map_of (pl_hooks p) h of Some f \<Rightarrow> [f] | None \<Rightarrow> []) ps)"
proof -
  have "hook_fns (fold register_plugin ps rg) h = hook_fns rg h
      @ concat (map (\<lambda>p. case map_of (pl_hooks p) h of Some f \<Rightarrow> [f] | None \<Rightarrow> []) ps)" for rg
    using assms
  proof (induction ps arbitrary: rg)
    case (Cons p ps)
    have "hook_fns (register_plugin p rg) h = hook_fns rg h @ (case map_of (pl_hooks p) h of Some f \<Rightarrow> [f] | None \<Rightarrow> [])"
      using Cons.prems fold_push_hooks [OF distinct_obj_keys, of "pl_hooks p" "pl_hooks p" "rg_hooks rg" h]
      by (auto simp: hook_fns_def register_plugin_def set_obj_keys split: option.splits dest: map_of_SomeD)
        (force dest: map_of_SomeD)+
    with Cons show ?case by simp
  qed simp
  then show ?thesis by (simp add: registerPlugins_def hook_fns_def)
qed

lemmas plugin_defs = InjectCSS_def ReplaceElements_def Layers_def LayersCounter_def LayersText_def PseudoElements_def
  MutationObserver1_def PowerTransforms_def Masks_def MissingIconIndicator_def SvgSymbols_def

lemma fa_hooks:
  "hook_fns fa_tables h = concat (map (\<lambda>p. case map_of (pl_hooks p) h of Some f \<Rightarrow> [f] | None \<Rightarrow> []) plugins)"
  unfolding fa_tables_def by (rule hooks_in_plugin_order) (simp add: plugins_def plugin_defs)


subsection \<open>The life of a page\<close>

datatype page_event = Load | Timeout | Watch "nat option" | NoAuto | Unwatch | InsertCss

definition page_event :: "string \<Rightarrow> page_event \<Rightarrow> fa_page \<Rightarrow> fa_page" where
  "page_event base e p = (case e of
       Load \<Rightarrow> listener base p | Timeout \<Rightarrow> timer base p | Watch root \<Rightarrow> dom_watch root p
     | NoAuto \<Rightarrow> noAuto base p | Unwatch \<Rightarrow> dom_unwatch p | InsertCss \<Rightarrow> ensureCss base p)"

definition page_life :: "string \<Rightarrow> fa_page \<Rightarrow> page_event list \<Rightarrow> fa_page" where
  "page_life base p es = fold (page_event base) es p"

lemma fa_hook_lists [simp]:
  "hook_fns fa_tables ''bootstrap'' = [MutationObserver_bootstrap]"
  "hook_fns fa_tables ''watch'' = [MutationObserver_watch]"
  "hook_fns fa_tables ''noAuto'' = [MutationObserver_noAuto]"
  "hook_fns fa_tables ''beforeI2svg'' = [InjectCSS_beforeI2svg]"
  by (simp_all add: fa_hooks plugins_def plugin_defs)

lemma set_config_isDom [simp]: "f_isDom (set_config st k v) = f_isDom st"
  by (simp add: set_config_def Let_def)

lemma autoReplace_frame [simp]: "f_isDom (autoReplace st) = f_isDom st" "f_config (autoReplace st) = f_config st"
  by (simp_all add: autoReplace_def)

text \<open>What the ready functions leave alone.\<close>

lemma ensureCss_frame [simp]:
  "pg_fa (ensureCss base p) = pg_fa p" "pg_loaded (ensureCss base p) = pg_loaded p"
  "pg_functions (ensureCss base p) = pg_functions p" "pg_timers (ensureCss base p) = pg_timers p"
  "pg_run (ensureCss base p) = pg_run p" "pg_observers (ensureCss base p) = pg_observers p"
  "pg_disabled (ensureCss base p) = pg_disabled p" "pg_unwatched (ensureCss base p) = pg_unwatched p"
  "pg_hasObserver (ensureCss base p) = pg_hasObserver p"
  by (simp_all add: ensureCss_def)

lemma observe_frame [simp]:
  "pg_fa (observe c r p) = pg_fa p" "pg_loaded (observe c r p) = pg_loaded p"
  "pg_functions (observe c r p) = pg_functions p" "pg_timers (observe c r p) = pg_timers p"
  "pg_run (observe c r p) = pg_run p" "pg_head (observe c r p) = pg_head p"
  "pg_cssInserted (observe c r p) = pg_cssInserted p" "pg_disabled (observe c r p) = pg_disabled p"
  "pg_unwatched (observe c r p) = pg_unwatched p" "pg_hasObserver (observe c r p) = pg_hasObserver p"
  by (simp_all add: observe_def)

lemma autoReplace_page:
  "page_autoReplace base p = (if f_i2svg (autoReplace (pg_fa p)) = f_i2svg (pg_fa p) then p
     else ensureCss base (p\<lparr>pg_fa := autoReplace (pg_fa p)\<rparr>))"
  by (simp add: page_autoReplace_def callHooks_def run_hook_def Let_def)

lemma run_task_eq:
  "run_task base t p =
     (let p = page_autoReplace base (p\<lparr>pg_run := pg_run p @ [t]\<rparr>)
      in case t of BootTask \<Rightarrow> observe observer_callbacks None p
         | WatchTask root \<Rightarrow> if pg_unwatched p then enableObservation p else observe observer_callbacks root p)"
  by (simp add: run_task_def callHooks_def run_hook_def Let_def split: ready_task.split)

lemma run_task_frame [simp]:
  "f_isDom (pg_fa (run_task base t p)) = f_isDom (pg_fa p)" "pg_loaded (run_task base t p) = pg_loaded p"
  "pg_functions (run_task base t p) = pg_functions p" "pg_timers (run_task base t p) = pg_timers p"
  "pg_run (run_task base t p) = pg_run p @ [t]"
  by (simp_all add: run_task_eq autoReplace_page enableObservation_def Let_def split: ready_task.split)

lemma run_tasks_frame [simp]:
  "f_isDom (pg_fa (fold (run_task base) ts p)) = f_isDom (pg_fa p)"
  "pg_loaded (fold (run_task base) ts p) = pg_loaded p"
  "pg_functions (fold (run_task base) ts p) = pg_functions p"
  "pg_timers (fold (run_task base) ts p) = pg_timers p"
  "pg_run (fold (run_task base) ts p) = pg_run p @ ts"
  by (induction ts arbitrary: p) simp_all

definition waiting :: "fa_page \<Rightarrow> ready_task list" where
  "waiting p = pg_timers p @ (if pg_loaded p then [] else pg_functions p)"

lemma event_tasks:
  assumes "f_isDom (pg_fa p)"
  shows "mset (pg_run (page_event base e p)) + mset (waiting (page_event base e p)) =
      mset (pg_run p) + mset (waiting p) + mset (case e of Watch r \<Rightarrow> [WatchTask r] | _ \<Rightarrow> [])
    \<and> f_isDom (pg_fa (page_event base e p))"
  using assms
  by (cases e) (auto simp: page_event_def waiting_def listener_def timer_def dom_watch_def domready_def noAuto_def
      callHooks_def run_hook_def disconnect_def dom_unwatch_def disableObservation_def Let_def split: list.split)

text \<open>
  Every function that waits for the document runs exactly once: whatever happens to the page,
  the functions that ran and those that still wait are, counted with multiplicity, the one of
  \<^verbatim>\<open>bootstrap\<close> and one per call of \<^verbatim>\<open>dom.watch\<close>. So once the document is there and no timer is left,
  each has run once.
\<close>

lemma ready_functions_run_once:
  assumes "f_isDom st"
  shows "mset (pg_run (page_life base (start_page st ho ready ch) es))
      + mset (waiting (page_life base (start_page st ho ready ch) es))
    = mset (BootTask # concat (map (\<lambda>e. case e of Watch r \<Rightarrow> [WatchTask r] | _ \<Rightarrow> []) es))"
proof -
  have start: "f_isDom (pg_fa (start_page st ho ready ch))"
    "mset (pg_run (start_page st ho ready ch)) + mset (waiting (start_page st ho ready ch)) = {#BootTask#}"
    using assms by (auto simp: start_page_def bootstrap_def domready_def bootstrap_hooks_def waiting_def Let_def)
  have "mset (pg_run (page_life base p es)) + mset (waiting (page_life base p es)) =
      mset (pg_run p) + mset (waiting p) + mset (concat (map (\<lambda>e. case e of Watch r \<Rightarrow> [WatchTask r] | _ \<Rightarrow> []) es))"
    if "f_isDom (pg_fa p)" for p
    using that
  proof (induction es arbitrary: p)
    case (Cons e es)
    from event_tasks [OF Cons.prems, of base e] Cons.IH [of "page_event base e p"]
    show ?case by (simp add: page_life_def)
  qed (simp add: page_life_def)
  from this [OF start(1)] start(2) show ?thesis by simp
qed

lemma ready_functions_run_once_example:
  "mset (pg_run (page_life [] (start_page demo_fa True False []) [Load, Watch None, Timeout]))
      + mset (waiting (page_life [] (start_page demo_fa True False []) [Load, Watch None, Timeout]))
    = {#BootTask, WatchTask None#}"
proof -
  have "f_isDom demo_fa" by (simp add: demo_fa_def load_core_def build_def Let_def split: prod.split)
  from ready_functions_run_once [OF this, of "[]" True False "[]" "[Load, Watch None, Timeout]"] show ?thesis by simp
qed

subsection \<open>The style sheet\<close>

fun is_fa_style :: "head_child \<Rightarrow> bool" where
  "is_fa_style (FaStyle s) = True"
| "is_fa_style c = False"

text \<open>The sheet is inserted before the first style element or link, so that the page can override it.\<close>

lemma before_child_first:
  "before_child ch = find (\<lambda>i. head_tag (ch ! i) \<in> {''STYLE'', ''LINK''}) [0..<length ch]"
proof -
  have "foldl (\<lambda>b i. if P i then Some i else b) None (rev xs) = find P xs" for P and xs :: "nat list"
    by (induction xs) auto
  from this [of "\<lambda>i. head_tag (ch ! i) \<in> {''STYLE'', ''LINK''}"] show ?thesis by (simp add: before_child_def)
qed

lemma insertCss_count:
  "length (filter is_fa_style (insertCss isDom s ch)) \<le> length (filter is_fa_style ch) + 1"
proof -
  have "filter is_fa_style ch = filter is_fa_style (take i ch) @ filter is_fa_style (drop i ch)" for i
    by (metis append_take_drop_id filter_append)
  then have "length (filter is_fa_style ch) = length (filter is_fa_style (take i ch)) + length (filter is_fa_style (drop i ch))" for i
    by (metis length_append)
  then show ?thesis by (simp add: insertCss_def split: option.split)
qed

definition css_inv :: "fa_page \<Rightarrow> bool" where
  "css_inv p \<longleftrightarrow> length (filter is_fa_style (pg_head p)) \<le> (if pg_cssInserted p then 1 else 0)"

lemma css_inv_ensure: "css_inv p \<Longrightarrow> css_inv (ensureCss base p)"
  using insertCss_count [of "f_isDom (pg_fa p)" "css base (pg_fa p)" "pg_head p"]
  by (auto simp: css_inv_def ensureCss_def)

lemma css_inv_frame:
  "css_inv p \<Longrightarrow> pg_head q = pg_head p \<Longrightarrow> pg_cssInserted q = pg_cssInserted p \<Longrightarrow> css_inv q"
  by (simp add: css_inv_def)

lemma css_inv_task: "css_inv p \<Longrightarrow> css_inv (run_task base t p)"
proof -
  assume "css_inv p"
  then have "css_inv (page_autoReplace base (p\<lparr>pg_run := pg_run p @ [t]\<rparr>))"
    by (auto simp: autoReplace_page intro!: css_inv_ensure elim: css_inv_frame)
  then show ?thesis
    by (auto simp: run_task_eq enableObservation_def Let_def elim: css_inv_frame split: ready_task.split)
qed

lemma css_inv_event: "css_inv p \<Longrightarrow> css_inv (page_event base e p)"
proof -
  assume inv: "css_inv p"
  have tasks: "css_inv q \<Longrightarrow> css_inv (fold (run_task base) ts q)" for ts q
    by (induction ts arbitrary: q) (simp_all add: css_inv_task)
  show ?thesis
    using inv
    by (cases e) (auto simp: page_event_def listener_def timer_def dom_watch_def domready_def noAuto_def callHooks_def
        run_hook_def disconnect_def dom_unwatch_def disableObservation_def Let_def
        intro!: tasks css_inv_task css_inv_ensure elim: css_inv_frame split: list.split)
qed

text \<open>However often icons are rendered, replaced or the sheet is asked for, the head has at most one
  sheet of the library.\<close>

lemma one_style_sheet:
  assumes "filter is_fa_style ch = []"
  shows "length (filter is_fa_style (pg_head (page_life base (start_page st ho ready ch) es))) \<le> 1"
proof -
  have "css_inv (start_page st ho ready ch)"
    using assms by (simp add: css_inv_def start_page_def bootstrap_def domready_def Let_def)
  then have "css_inv (page_life base (start_page st ho ready ch) es)"
    unfolding page_life_def by (induction es arbitrary: ch rule: rev_induct) (simp_all add: css_inv_event)
  then show ?thesis by (auto simp: css_inv_def split: if_splits)
qed

subsection \<open>Switching off\<close>

lemma cfg_set_config:
  assumes "k \<in> fst ` set config_default" "j \<in> fst ` set config_default"
  shows "cfg (set_config st k v) j = (if j = k then v else cfg st j)"
  using assms by (auto simp: set_config_def config_get_def config_set_def get_jsv_def of_prop_def Let_def)

lemma config_keys [simp]:
  "''observeMutations'' \<in> fst ` set config_default" "''autoReplaceSvg'' \<in> fst ` set config_default"
  by (simp_all add: config_default_def)

lemma page_autoReplace_frame [simp]:
  "cfg (pg_fa (page_autoReplace base p)) k = cfg (pg_fa p) k" "f_isDom (pg_fa (page_autoReplace base p)) = f_isDom (pg_fa p)"
  "pg_hasObserver (page_autoReplace base p) = pg_hasObserver p" "pg_unwatched (page_autoReplace base p) = pg_unwatched p"
  "pg_observers (page_autoReplace base p) = pg_observers p" "pg_disabled (page_autoReplace base p) = pg_disabled p"
  "pg_loaded (page_autoReplace base p) = pg_loaded p" "pg_timers (page_autoReplace base p) = pg_timers p"
  by (simp_all add: autoReplace_page)

text \<open>
  \<^verbatim>\<open>noAuto\<close> does not switch the observation off on a page that called \<^verbatim>\<open>dom.watch\<close>: that call
  makes a second observer, the variable \<^verbatim>\<open>mo\<close> holds only this one, and so the observer of the start
  stays connected with all its callbacks after \<^verbatim>\<open>noAuto\<close>, which was to stop all automatic
  replacement.
\<close>

lemma noAuto_leaves_observer:
  assumes "f_isDom st" and "truthy (cfg st ''observeMutations'')"
  shows "map ob_connected (pg_observers (page_life base (start_page st True False ch) [Load, Watch root, Timeout, NoAuto]))
      = [True, False]
    \<and> cb_tree (ob_callbacks (hd (pg_observers (page_life base (start_page st True False ch) [Load, Watch root, Timeout, NoAuto]))))
    \<and> \<not> pg_disabled (page_life base (start_page st True False ch) [Load, Watch root, Timeout, NoAuto])"
proof -
  have cbs: "cb_tree observer_callbacks"
    by (simp add: observer_callbacks_def chainHooks_def fa_hooks plugins_def plugin_defs run_callbacks_def)
  show ?thesis
    using assms cbs
    by (simp add: page_life_def page_event_def start_page_def bootstrap_def domready_def bootstrap_hooks_def listener_def
        run_task_eq observe_def dom_watch_def timer_def noAuto_def callHooks_def run_hook_def disconnect_def
        cfg_set_config Let_def)
qed

lemma noAuto_leaves_observer_example:
  "map ob_connected (pg_observers (page_life [] (start_page demo_fa True False []) [Load, Watch None, Timeout, NoAuto]))
     = [True, False]"
proof -
  have "f_isDom demo_fa" by (simp add: demo_fa_def load_core_def build_def Let_def split: prod.split)
  moreover have "truthy (cfg demo_fa ''observeMutations'')"
    by (simp add: demo_fa_def load_core_def build_def load_config_def config_get_def config_default_def get_jsv_def
        get_prop_def of_prop_def object_prototype_def Let_def split: prod.split)
  ultimately show ?thesis using noAuto_leaves_observer [of demo_fa "[]" "[]" None] by simp
qed

end
