(* ===== verification/Fa_Api.thy ===== *)
theory Fa_Api
  imports Fa_Plugins
begin

text \<open>
  The functions that \<^verbatim>\<open>src/static/fa6/js/fontawesome.js\<close> offers to a page for making icons: \<^verbatim>\<open>icon\<close>,
  \<^verbatim>\<open>layer\<close>, \<^verbatim>\<open>counter\<close> and \<^verbatim>\<open>text\<close> (lines 2153--2175, 2820--2888, 2967--3069), \<^verbatim>\<open>dom.i2svg\<close> (2039--2049),
  the replacement of a single node (2812--2819) and the provider of layer texts (3071--3092). The
  object that such a function returns computes its \<^verbatim>\<open>abstract\<close>, \<^verbatim>\<open>html\<close> and \<^verbatim>\<open>node\<close> each time they are
  read; reading them may insert the style sheet and draws new identifiers for a mask.
\<close>

section \<open>Values with getters\<close>

text \<open>The random identifiers that \<^verbatim>\<open>nextUniqueId\<close> returns during a reading, by the position in the tree of
  values where they are drawn.\<close>

type_synonym id_supply = "nat list \<Rightarrow> string"

text \<open>\<^verbatim>\<open>domVariants\<close>: the abstract by the identifiers drawn; \<^term>\<open>None\<close> when the getter throws.\<close>

record dom_variants =
  dv_type :: string
  dv_abstract :: "id_supply \<Rightarrow> abs_node list option"

text \<open>A getter is read on a page: the hooks of \<^verbatim>\<open>beforeDOMElementCreation\<close> run first.\<close>

definition get_abstract ::
  "string \<Rightarrow> dom_variants \<Rightarrow> id_supply \<Rightarrow> fa_page \<Rightarrow> abs_node list option \<times> fa_page" where
  "get_abstract base v ids p = (dv_abstract v ids, call base None ''beforeDOMElementCreation'' p)"

definition get_html ::
  "string \<Rightarrow> dom_variants \<Rightarrow> id_supply \<Rightarrow> fa_page \<Rightarrow> string list option \<times> fa_page" where
  "get_html base v ids p =
     (case get_abstract base v ids p of (a, p) \<Rightarrow> (map_option (map toHtml) a, p))"

text \<open>The \<^verbatim>\<open>node\<close>: the text that is assigned to \<^verbatim>\<open>innerHTML\<close>, an array that is turned into a string by
  joining its elements with commas; without a document the getter is undefined.\<close>

definition get_node ::
  "string \<Rightarrow> dom_variants \<Rightarrow> id_supply \<Rightarrow> fa_page \<Rightarrow> string option option \<times> fa_page" where
  "get_node base v ids p =
     (if \<not> f_isDom (pg_fa p) then (Some None, p)
      else case get_html base v ids p of (h, p) \<Rightarrow> (map_option (\<lambda>h. Some (join_with '','' h)) h, p))"

section \<open>Icons\<close>

text \<open>What is given as an icon: nothing, an object with an \<^verbatim>\<open>icon\<close> member, or one to look up.\<close>

datatype icon_request = NoRequest | Definition jsv jsv icon | Lookup icon_lookup

text \<open>The members of a transform that are given.\<close>

record 'n transform_params =
  tp_size :: "'n option"
  tp_x :: "'n option"
  tp_y :: "'n option"
  tp_rotate :: "'n option"
  tp_flipX :: "bool option"
  tp_flipY :: "bool option"

definition over :: "'a option \<Rightarrow> 'a \<Rightarrow> 'a" where
  "over v d = (case v of Some x \<Rightarrow> x | None \<Rightarrow> d)"

definition spread_transform :: "'n transform \<Rightarrow> 'n transform_params \<Rightarrow> 'n transform" where
  "spread_transform d t =
     \<lparr>t_size = over (tp_size t) (t_size d), t_x = over (tp_x t) (t_x d), t_y = over (tp_y t) (t_y d),
      t_rotate = over (tp_rotate t) (t_rotate d), t_flipX = over (tp_flipX t) (t_flipX d), t_flipY = over (tp_flipY t) (t_flipY d)\<rparr>"

record 'n icon_params =
  ip_transform :: "'n transform_params option"
  ip_symbol :: "jsv option"
  ip_mask :: icon_request
  ip_maskId :: "jsv option"
  ip_classes :: "string list option"
  ip_attributes :: "jsv obj option"
  ip_styles :: "string obj option"

definition params_extra :: "'n icon_params \<Rightarrow> extra" where
  "params_extra params = \<lparr>ex_classes = over (ip_classes params) [], ex_styles = over (ip_styles params) [],
     ex_attributes = over (ip_attributes params) []\<rparr>"

definition params_transform :: "'n jsnum \<Rightarrow> 'n icon_params \<Rightarrow> 'n transform" where
  "params_transform N params = (case ip_transform params of
       None \<Rightarrow> meaninglessTransform N | Some t \<Rightarrow> spread_transform (meaninglessTransform N) t)"

text \<open>\<^verbatim>\<open>resolveIcons\<close> on the icon and on the mask.\<close>

definition resolve_request :: "fa \<Rightarrow> icon_request \<Rightarrow> found_icon option" where
  "resolve_request st r = (case r of
       NoRequest \<Rightarrow> findIconDefinition st \<lparr>lk_prefix = Undefined, lk_iconName = Undefined\<rparr>
     | Definition p n ic \<Rightarrow> Some \<lparr>fi_prefix = p, fi_iconName = n, fi_icon = Own ic\<rparr>
     | Lookup lk \<Rightarrow> findIconDefinition st lk)"

definition resolve_mask :: "fa \<Rightarrow> icon_request \<Rightarrow> found_icon option" where
  "resolve_mask st r = (if r = NoRequest then None else resolve_request st r)"

text \<open>\<^verbatim>\<open>asFoundIcon\<close> of the \<^verbatim>\<open>icon\<close> member, which throws when that is a member of \<^verbatim>\<open>Object.prototype\<close>.\<close>

definition found_of :: "'n jsnum \<Rightarrow> fa \<Rightarrow> found_icon \<Rightarrow> 'n found option" where
  "found_of N st fi = (case fi_icon fi of Own ic \<Rightarrow> Some (asFoundIcon N st ic) | _ \<Rightarrow> None)"

definition no_mask :: "'n jsnum \<Rightarrow> 'n found" where
  "no_mask N = \<lparr>fo_found = False, fo_width = n_of N 0, fo_height = n_of N 0, fo_icon = no_node\<rparr>"

definition render :: "'n jsnum \<Rightarrow> fa \<Rightarrow> found_icon option \<Rightarrow> found_icon option \<Rightarrow> 'n icon_params \<Rightarrow> dom_variants option" where
  "render N st iconDefinition msk params = (case iconDefinition of
       None \<Rightarrow> None
     | Some fi \<Rightarrow> Some \<lparr>dv_type = ''icon'', dv_abstract = (\<lambda>ids.
         case (found_of N st fi, case msk of Some m \<Rightarrow> found_of N st m | None \<Rightarrow> Some (no_mask N)) of
           (Some main, Some mk) \<Rightarrow>
             Some (makeInlineSvgAbstract N st (ids [0]) (ids [1]) main mk (fi_prefix fi) (fi_iconName fi) (params_transform N params)
               (over (ip_symbol params) (JBool False)) (over (ip_maskId params) Null) (params_extra params) False)
         | _ \<Rightarrow> None)\<rparr>)"

definition api_icon :: "'n jsnum \<Rightarrow> fa \<Rightarrow> icon_request \<Rightarrow> 'n icon_params \<Rightarrow> dom_variants option" where
  "api_icon N st r params = render N st (resolve_request st r) (resolve_mask st (ip_mask params)) params"

section \<open>Layers, counters and texts\<close>

text \<open>The assembler of a layer adds values, whose abstracts are read as they are added.\<close>

definition api_layer :: "fa \<Rightarrow> dom_variants list \<Rightarrow> string list option \<Rightarrow> dom_variants" where
  "api_layer st added classes = \<lparr>dv_type = ''layer'', dv_abstract = (\<lambda>ids.
     map_option (\<lambda>parts. layer_abstract st parts (over classes []))
       (those (map (\<lambda>(k, v). dv_abstract v (\<lambda>l. ids (k # l))) (enumerate 0 added))))\<rparr>"

definition api_counter :: "fa \<Rightarrow> string \<Rightarrow> 'n icon_params \<Rightarrow> dom_variants" where
  "api_counter st content params =
     \<lparr>dv_type = ''counter'', dv_abstract = (\<lambda>ids. Some (counter_abstract st content (params_extra params)))\<rparr>"

definition api_text :: "'n jsnum \<Rightarrow> fa \<Rightarrow> bool \<Rightarrow> string \<Rightarrow> 'n icon_params \<Rightarrow> dom_variants" where
  "api_text N st isIE content params =
     \<lparr>dv_type = ''text'', dv_abstract = (\<lambda>ids.
        Some (text_abstract N st isIE content (params_transform N params) (params_extra params)))\<rparr>"

text \<open>The provider for layer texts on a page: the size in units of the font size, which only Internet
  Explorer needs.\<close>

definition generateLayersText :: "'n jsnum \<Rightarrow> bool \<Rightarrow> 'n \<Rightarrow> 'n \<times> 'n \<Rightarrow> string \<Rightarrow> 'n meta \<Rightarrow> abs_node list" where
  "generateLayersText N isIE computedFontSize rect innerHTML meta =
     (let width = (if isIE then Some (n_div N (fst rect) computedFontSize) else None);
          height = (if isIE then Some (n_div N (snd rect) computedFontSize) else None)
      in makeLayersTextAbstract N isIE innerHTML width height (m_transform meta) (m_extra meta) True)"

section \<open>The document\<close>

text \<open>\<^verbatim>\<open>dom.i2svg\<close>: the hooks, then the two passes; without a document the promise is rejected.\<close>

definition dom_i2svg :: "string \<Rightarrow> (fa \<Rightarrow> 'a) \<Rightarrow> (fa \<Rightarrow> 'b) \<Rightarrow> fa_page \<Rightarrow> ('a \<times> 'b) option \<times> fa_page" where
  "dom_i2svg base pseudo_pass tree_pass p =
     (if f_isDom (pg_fa p) then
        let p = call base None ''beforeI2svg'' p in (Some (pseudo_pass (pg_fa p), tree_pass (pg_fa p)), p)
      else (None, p))"

text \<open>\<^verbatim>\<open>onNode\<close>: what is performed for one node; a mutation that rejects performs nothing.\<close>

definition onNode :: "fa \<Rightarrow> bool \<Rightarrow> 'm outcome \<Rightarrow> bool \<times> perform_step list" where
  "onNode st hasFrames r = (case r of Resolves m \<Rightarrow> perform st hasFrames 1 | _ \<Rightarrow> (False, []))"

section \<open>The page and the functions make the same icons\<close>

text \<open>An icon without mask and symbol: one \<^verbatim>\<open>svg\<close> element, the same for the page and the functions but
  for the mark of a replacement.\<close>

definition base_attributes :: "'n jsnum \<Rightarrow> fa \<Rightarrow> 'n found \<Rightarrow> jsv \<Rightarrow> jsv \<Rightarrow> extra \<Rightarrow> jsv obj" where
  "base_attributes N st main prefix iconName ex =
     (let attributes = spread (spread [] (ex_attributes ex))
            [(''data-prefix'', prefix), (''data-icon'', iconName),
             (''class'', JStr (icon_class st iconName (ex_classes ex))),
             (''role'', js_or (get_jsv (ex_attributes ex) ''role'') (JStr ''img'')),
             (''viewBox'', JStr (''0 0 '' @ n_show N (fo_width main) @ '' '' @ n_show N (fo_height main)))]
      in if \<not> isLabeled (ex_attributes ex) \<and> \<not> truthy (get_jsv (ex_attributes ex) ''aria-hidden'')
         then obj_set attributes ''aria-hidden'' (JStr ''true'') else attributes)"

definition icon_child :: "'n jsnum \<Rightarrow> 'n found \<Rightarrow> 'n transform \<Rightarrow> abs_node" where
  "icon_child N main t = (if transformIsMeaningful N t
     then generateAbstractTransformGrouping N main t (fo_width main) (fo_width main) else fo_icon main)"

definition svg_style :: "'n jsnum \<Rightarrow> 'n found \<Rightarrow> 'n transform \<Rightarrow> string obj \<Rightarrow> string option" where
  "svg_style N main t styles =
     (if transformIsMeaningful N t \<and> fo_found main
      then Some (joinStyles (spread (spread [] styles)
        [(''transform-origin'', n_show N (n_add N (n_div N (n_div N (fo_width main) (fo_height main)) (n_of N 2)) (n_div N (t_x t) (n_of N 16))) @ ''em ''
            @ n_show N (n_add N (n_div N (n_of N 1) (n_of N 2)) (n_div N (t_y t) (n_of N 16))) @ ''em'')]))
      else if joinStyles styles \<noteq> [] then Some (joinStyles styles) else None)"

definition styled :: "string option \<Rightarrow> jsv obj \<Rightarrow> jsv obj" where
  "styled sty as = (case sty of Some s \<Rightarrow> obj_set as ''style'' (JStr s) | None \<Rightarrow> as)"

definition watch_mark :: "bool \<Rightarrow> jsv obj \<Rightarrow> jsv obj" where
  "watch_mark watchable as = (if watchable then obj_set as DATA_FA_I2SVG (JStr []) else as)"

lemma obj_set_again [simp]: "obj_set (obj_set ob k v) k w = obj_set ob k w"
  by (induction ob k v rule: obj_set.induct) auto

lemma svg_shape:
  assumes "\<not> truthy symbol" "\<not> fo_found msk"
  shows "makeInlineSvgAbstract N st f1 f2 main msk prefix iconName t symbol maskId ex watchable =
    [el ''svg'' (styled (svg_style N main t (spread [] (ex_styles ex)))
        (watch_mark watchable (base_attributes N st main prefix iconName ex))) [icon_child N main t]]"
  using assms
  by (simp add: makeInlineSvgAbstract_def generateAbstractIcon_def asIcon_def base_attributes_def watch_mark_def styled_def
      svg_style_def icon_child_def Let_def)

lemma styled_marked:
  "map_of (styled sty (watch_mark True as)) = (map_of (styled sty (watch_mark False as)))(DATA_FA_I2SVG \<mapsto> JStr [])"
  by (auto simp: styled_def watch_mark_def DATA_FA_I2SVG_def split: option.split)

lemma base_attributes_keys:
  "map_of (styled sty (watch_mark w (base_attributes N st main prefix iconName ex))) ''viewBox'' =
     Some (JStr (''0 0 '' @ n_show N (fo_width main) @ '' '' @ n_show N (fo_height main)))"
  "map_of (styled sty (watch_mark w (base_attributes N st main prefix iconName ex))) ''data-prefix'' = Some prefix"
  "map_of (styled sty (watch_mark w (base_attributes N st main prefix iconName ex))) ''data-icon'' = Some iconName"
  by (auto simp: styled_def watch_mark_def DATA_FA_I2SVG_def base_attributes_def Let_def split: option.split)

lemma no_mask_found [simp]: "\<not> fo_found (no_mask N)" "\<not> fo_found (missing_found N nd)"
  by (simp_all add: no_mask_def missing_found_def)

definition plain_params :: "'n icon_params \<Rightarrow> bool" where
  "plain_params params \<longleftrightarrow> ip_mask params = NoRequest \<and> \<not> truthy (over (ip_symbol params) (JBool False))"

lemma api_icon_plain:
  assumes "resolve_request st r = Some \<lparr>fi_prefix = prefix, fi_iconName = iconName, fi_icon = Own ic\<rparr>" "plain_params params"
  shows "\<exists>v. api_icon N st r params = Some v \<and> (\<forall>ids. dv_abstract v ids =
    Some [el ''svg'' (styled (svg_style N (asFoundIcon N st ic) (params_transform N params) (spread [] (ex_styles (params_extra params))))
        (watch_mark False (base_attributes N st (asFoundIcon N st ic) prefix iconName (params_extra params))))
      [icon_child N (asFoundIcon N st ic) (params_transform N params)]])"
  using assms by (simp add: api_icon_def render_def plain_params_def resolve_mask_def found_of_def svg_shape)


definition demo_params :: "int icon_params" where
  "demo_params = \<lparr>ip_transform = None, ip_symbol = None, ip_mask = NoRequest, ip_maskId = None, ip_classes = None,
     ip_attributes = None, ip_styles = None\<rparr>"


section \<open>What a page gets\<close>

lemma layer_single: "\<exists>nd. layer_abstract st parts classes = [nd]" "\<exists>nd. counter_abstract st content ex = [nd]"
  "\<exists>nd. text_abstract N st isIE content t ex = [nd]"
  by (simp_all add: layer_abstract_def counter_abstract_def makeLayersCounterAbstract_def text_abstract_def makeLayersTextAbstract_def Let_def)

lemma svg_single: "\<exists>nd. makeInlineSvgAbstract N st f1 f2 main msk prefix iconName t symbol maskId ex watchable = [nd]"
  by (simp add: makeInlineSvgAbstract_def asIcon_def asSymbol_def Let_def case_prod_unfold)

text \<open>Values that the functions return.\<close>

inductive api_value :: "'n jsnum \<Rightarrow> fa \<Rightarrow> bool \<Rightarrow> dom_variants \<Rightarrow> bool" for N st isIE where
  value_icon: "api_icon N st r params = Some v \<Longrightarrow> api_value N st isIE v"
| value_layer: "list_all (api_value N st isIE) added \<Longrightarrow> api_value N st isIE (api_layer st added classes)"
| value_counter: "api_value N st isIE (api_counter st content (params :: 'n icon_params))"
| value_text: "api_value N st isIE (api_text N st isIE content params)"

lemma api_value_single:
  assumes "api_value N st isIE v" "dv_abstract v ids = Some nodes"
  shows "\<exists>nd. nodes = [nd]"
  using assms
proof cases
  case (value_icon r params)
  then show ?thesis
    using assms(2) svg_single by (auto simp: api_icon_def render_def split: option.splits)
qed (use assms(2) layer_single in \<open>auto simp: api_layer_def api_counter_def api_text_def\<close>)

text \<open>The element that the page gets from \<^verbatim>\<open>node\<close> is the markup of the one root of the abstract: the array of
  markups has one element, so that turning it into a string adds no comma.\<close>

lemma node_markup:
  assumes "api_value N st isIE v" "f_isDom (pg_fa p)" "dv_abstract v ids = Some nodes"
  shows "\<exists>nd. nodes = [nd] \<and> fst (get_node base v ids p) = Some (Some (toHtml nd))"
  using api_value_single [OF assms(1,3)] assms(2,3)
  by (auto simp: get_node_def get_html_def get_abstract_def)



text \<open>The provider of layer texts is what a pass over the tree uses.\<close>

lemma generateMutation_layer_text:
  assumes "LAYERS_TEXT_CLASSNAME \<in> set (ex_classes (m_extra (parseMeta N st n (cfg st ''autoReplaceSvg'' \<noteq> JStr ''nest''))))"
  shows "generateMutation N st isIE reduceMotion f1 f2 innerHTML (Some (n_div N w computedFontSize, n_div N h computedFontSize)) n =
    Some (generateLayersText N isIE computedFontSize (w, h) innerHTML (parseMeta N st n (cfg st ''autoReplaceSvg'' \<noteq> JStr ''nest'')))"
  using assms by (simp add: generateMutation_def generateLayersText_def Let_def)

end
