(* ===== verification/Fa_Md5.thy ===== *)
theory Fa_Md5
  imports Js_Base
begin

unbundle bit_operations_syntax

text \<open>
  The MD5 implementation bundled in \<^verbatim>\<open>src/static/fa6/js/conflict-detection.js\<close> (lines 182--549),
  which the conflict detector uses to key the scripts and styles of a page. A number under a bit
  operator is a \<^typ>\<open>32 word\<close> (\<^verbatim>\<open>>>\<close> is the signed shift, \<^verbatim>\<open>>>>\<close> the unsigned one); the sums of
  \<open>safeAdd\<close> stay far below \<open>2 ^ 31\<close>, so computing them on words is exact. A hole of an array reads
  as \<^verbatim>\<open>undefined\<close>, which every bit operator takes for 0. Raw strings are lists of char codes.
  The 64 assignments of the block function are the rows of \<open>md5_rows\<close>, in order. The theory ends
  with the RFC 1321 algorithm and the theorem that the code computes it.
\<close>

type_synonym i32 = "32 word"

section \<open>The code\<close>

definition safeAdd :: "i32 \<Rightarrow> i32 \<Rightarrow> i32" where
  "safeAdd x y =
     (let lsw = (x AND 0xffff) + (y AND 0xffff);
          msw = signed_drop_bit 16 x + signed_drop_bit 16 y + signed_drop_bit 16 lsw
      in push_bit 16 msw OR (lsw AND 0xffff))"

definition bitRotateLeft :: "i32 \<Rightarrow> nat \<Rightarrow> i32" where
  "bitRotateLeft num cnt = push_bit cnt num OR drop_bit (32 - cnt) num"

definition md5cmn :: "i32 \<Rightarrow> i32 \<Rightarrow> i32 \<Rightarrow> i32 \<Rightarrow> nat \<Rightarrow> i32 \<Rightarrow> i32" where
  "md5cmn q a b x s t = safeAdd (bitRotateLeft (safeAdd (safeAdd a q) (safeAdd x t)) s) b"

type_synonym md5fun = "i32 \<Rightarrow> i32 \<Rightarrow> i32 \<Rightarrow> i32 \<Rightarrow> i32 \<Rightarrow> nat \<Rightarrow> i32 \<Rightarrow> i32"

definition md5ff :: md5fun where
  "md5ff a b c d x s t = md5cmn (b AND c OR NOT b AND d) a b x s t"

definition md5gg :: md5fun where
  "md5gg a b c d x s t = md5cmn (b AND d OR c AND NOT d) a b x s t"

definition md5hh :: md5fun where
  "md5hh a b c d x s t = md5cmn (b XOR c XOR d) a b x s t"

definition md5ii :: md5fun where
  "md5ii a b c d x s t = md5cmn (c XOR (b OR NOT d)) a b x s t"

text \<open>Arrays of 32-bit numbers, with holes as 0; a negative index is not an element.\<close>

definition arr_get :: "i32 list \<Rightarrow> nat \<Rightarrow> i32" where
  "arr_get x i = (if i < length x then x ! i else 0)"

definition arr_set :: "i32 list \<Rightarrow> int \<Rightarrow> i32 \<Rightarrow> i32 list" where
  "arr_set x i v =
     (if i < 0 then x
      else if nat i < length x then x[nat i := v]
      else x @ replicate (nat i - length x) 0 @ [v])"

definition arr_or :: "i32 list \<Rightarrow> int \<Rightarrow> i32 \<Rightarrow> i32 list" where
  "arr_or x i v = (if i < 0 then x else arr_set x i (arr_get x (nat i) OR v))"

text \<open>One row per assignment: \<open>(A, f, k, s, t)\<close> is \<^verbatim>\<open>a = f(a, b, c, d, x[i + k], s, t)\<close>, and the
  other registers rotate the argument list the way the code writes it.\<close>

datatype reg = A | B | C | D

type_synonym md5state = "i32 \<times> i32 \<times> i32 \<times> i32"
type_synonym md5row = "reg \<times> md5fun \<times> nat \<times> nat \<times> i32"

fun exec_row :: "(nat \<Rightarrow> i32) \<Rightarrow> md5row \<Rightarrow> md5state \<Rightarrow> md5state" where
  "exec_row x (A, f, k, s, t) (a, b, c, d) = (f a b c d (x k) s t, b, c, d)"
| "exec_row x (D, f, k, s, t) (a, b, c, d) = (a, b, c, f d a b c (x k) s t)"
| "exec_row x (C, f, k, s, t) (a, b, c, d) = (a, b, f c d a b (x k) s t, d)"
| "exec_row x (B, f, k, s, t) (a, b, c, d) = (a, f b c d a (x k) s t, c, d)"

definition md5_rows :: "md5row list" where
  "md5_rows =
    [(A, md5ff, 0, 7, - 680876936), (D, md5ff, 1, 12, - 389564586),
     (C, md5ff, 2, 17, 606105819), (B, md5ff, 3, 22, - 1044525330),
     (A, md5ff, 4, 7, - 176418897), (D, md5ff, 5, 12, 1200080426),
     (C, md5ff, 6, 17, - 1473231341), (B, md5ff, 7, 22, - 45705983),
     (A, md5ff, 8, 7, 1770035416), (D, md5ff, 9, 12, - 1958414417),
     (C, md5ff, 10, 17, - 42063), (B, md5ff, 11, 22, - 1990404162),
     (A, md5ff, 12, 7, 1804603682), (D, md5ff, 13, 12, - 40341101),
     (C, md5ff, 14, 17, - 1502002290), (B, md5ff, 15, 22, 1236535329),
     (A, md5gg, 1, 5, - 165796510), (D, md5gg, 6, 9, - 1069501632),
     (C, md5gg, 11, 14, 643717713), (B, md5gg, 0, 20, - 373897302),
     (A, md5gg, 5, 5, - 701558691), (D, md5gg, 10, 9, 38016083),
     (C, md5gg, 15, 14, - 660478335), (B, md5gg, 4, 20, - 405537848),
     (A, md5gg, 9, 5, 568446438), (D, md5gg, 14, 9, - 1019803690),
     (C, md5gg, 3, 14, - 187363961), (B, md5gg, 8, 20, 1163531501),
     (A, md5gg, 13, 5, - 1444681467), (D, md5gg, 2, 9, - 51403784),
     (C, md5gg, 7, 14, 1735328473), (B, md5gg, 12, 20, - 1926607734),
     (A, md5hh, 5, 4, - 378558), (D, md5hh, 8, 11, - 2022574463),
     (C, md5hh, 11, 16, 1839030562), (B, md5hh, 14, 23, - 35309556),
     (A, md5hh, 1, 4, - 1530992060), (D, md5hh, 4, 11, 1272893353),
     (C, md5hh, 7, 16, - 155497632), (B, md5hh, 10, 23, - 1094730640),
     (A, md5hh, 13, 4, 681279174), (D, md5hh, 0, 11, - 358537222),
     (C, md5hh, 3, 16, - 722521979), (B, md5hh, 6, 23, 76029189),
     (A, md5hh, 9, 4, - 640364487), (D, md5hh, 12, 11, - 421815835),
     (C, md5hh, 15, 16, 530742520), (B, md5hh, 2, 23, - 995338651),
     (A, md5ii, 0, 6, - 198630844), (D, md5ii, 7, 10, 1126891415),
     (C, md5ii, 14, 15, - 1416354905), (B, md5ii, 5, 21, - 57434055),
     (A, md5ii, 12, 6, 1700485571), (D, md5ii, 3, 10, - 1894986606),
     (C, md5ii, 10, 15, - 1051523), (B, md5ii, 1, 21, - 2054922799),
     (A, md5ii, 8, 6, 1873313359), (D, md5ii, 15, 10, - 30611744),
     (C, md5ii, 6, 15, - 1560198380), (B, md5ii, 13, 21, 1309151649),
     (A, md5ii, 4, 6, - 145523070), (D, md5ii, 11, 10, - 1120210379),
     (C, md5ii, 2, 15, 718787259), (B, md5ii, 9, 21, - 343485551)]"

definition md5_block :: "i32 list \<Rightarrow> nat \<Rightarrow> md5state \<Rightarrow> md5state" where
  "md5_block x i old =
     (let (olda, oldb, oldc, oldd) = old;
          (a, b, c, d) = fold (exec_row (\<lambda>k. arr_get x (i + k))) md5_rows old
      in (safeAdd a olda, safeAdd b oldb, safeAdd c oldc, safeAdd d oldd))"

function binl_loop :: "i32 list \<Rightarrow> nat \<Rightarrow> md5state \<Rightarrow> md5state" where
  "binl_loop x i st = (if i < length x then binl_loop x (i + 16) (md5_block x i st) else st)"
  by pat_completeness auto
termination by (relation "measure (\<lambda>(x, i, st). length x - i)") auto

declare binl_loop.simps [simp del]

definition md5_init :: md5state where
  "md5_init = (1732584193, - 271733879, - 1732584194, 271733878)"

definition binlMD5 :: "i32 list \<Rightarrow> nat \<Rightarrow> i32 list" where
  "binlMD5 x len =
     (let x = arr_or x (sint (signed_drop_bit 5 (of_nat len :: i32))) (push_bit (len mod 32) 0x80);
          x = arr_set x (sint (push_bit 4 (drop_bit 9 (of_nat (len + 64) :: i32))) + 14) (of_nat len);
          (a, b, c, d) = binl_loop x 0 md5_init
      in [a, b, c, d])"

definition binl2rstr :: "i32 list \<Rightarrow> nat list" where
  "binl2rstr input =
     map (\<lambda>j. unat (drop_bit (8 * j mod 32) (arr_get input (j div 4)) AND 0xff)) [0..<length input * 4]"

definition rstr2binl :: "nat list \<Rightarrow> i32 list" where
  "rstr2binl input =
     fold (\<lambda>j output. arr_or output (int (j div 4)) (push_bit (8 * j mod 32) (of_nat (input ! j) AND 0xff)))
       [0..<length input] (replicate (length input div 4) 0)"

definition rstrMD5 :: "nat list \<Rightarrow> nat list" where
  "rstrMD5 s = binl2rstr (binlMD5 (rstr2binl s) (length s * 8))"

definition rstrHMACMD5 :: "nat list \<Rightarrow> nat list \<Rightarrow> nat list" where
  "rstrHMACMD5 key data =
     (let bkey = rstr2binl key;
          bkey = (if length bkey > 16 then binlMD5 bkey (length key * 8) else bkey);
          ipad = map (\<lambda>i. arr_get bkey i XOR 0x36363636) [0..<16];
          opad = map (\<lambda>i. arr_get bkey i XOR 0x5c5c5c5c) [0..<16];
          hash = binlMD5 (ipad @ rstr2binl data) (512 + length data * 8)
      in binl2rstr (binlMD5 (opad @ hash) (512 + 128)))"

definition rstr2hex :: "nat list \<Rightarrow> string" where
  "rstr2hex input =
     concat (map (\<lambda>x. [''0123456789abcdef'' ! (x div 16 mod 16), ''0123456789abcdef'' ! (x mod 16)]) input)"

text \<open>\<^verbatim>\<open>unescape(encodeURIComponent(s))\<close>: the UTF-8 bytes of the UTF-16 code units, or a
  \<^verbatim>\<open>URIError\<close> (\<^term>\<open>None\<close>) at an unpaired surrogate.\<close>

definition utf8_code_point :: "nat \<Rightarrow> nat list" where
  "utf8_code_point n =
     (if n < 0x80 then [n]
      else if n < 0x800 then [0xC0 + n div 64, 0x80 + n mod 64]
      else if n < 0x10000 then [0xE0 + n div 4096, 0x80 + n div 64 mod 64, 0x80 + n mod 64]
      else [0xF0 + n div 262144, 0x80 + n div 4096 mod 64, 0x80 + n div 64 mod 64, 0x80 + n mod 64])"

fun str2rstrUTF8 :: "nat list \<Rightarrow> nat list option" where
  "str2rstrUTF8 [] = Some []"
| "str2rstrUTF8 (u # us) =
     (if 0xDC00 \<le> u \<and> u \<le> 0xDFFF then None
      else if 0xD800 \<le> u \<and> u \<le> 0xDBFF then
        (case us of
           v # vs \<Rightarrow>
             if 0xDC00 \<le> v \<and> v \<le> 0xDFFF
             then map_option (\<lambda>r. utf8_code_point ((u - 0xD800) * 1024 + (v - 0xDC00) + 0x10000) @ r)
                    (str2rstrUTF8 vs)
             else None
         | [] \<Rightarrow> None)
      else map_option (\<lambda>r. utf8_code_point u @ r) (str2rstrUTF8 us))"

definition rawMD5 :: "nat list \<Rightarrow> nat list option" where
  "rawMD5 s = map_option rstrMD5 (str2rstrUTF8 s)"

definition hexMD5 :: "nat list \<Rightarrow> string option" where
  "hexMD5 s = map_option rstr2hex (rawMD5 s)"

definition rawHMACMD5 :: "nat list \<Rightarrow> nat list \<Rightarrow> nat list option" where
  "rawHMACMD5 k d = (case str2rstrUTF8 k of
       None \<Rightarrow> None
     | Some k' \<Rightarrow> map_option (rstrHMACMD5 k') (str2rstrUTF8 d))"

definition hexHMACMD5 :: "nat list \<Rightarrow> nat list \<Rightarrow> string option" where
  "hexHMACMD5 k d = map_option rstr2hex (rawHMACMD5 k d)"

text \<open>The exported function: \<open>Inl\<close> raw char codes, \<open>Inr\<close> hexadecimal text. A missing or empty key
  selects plain MD5.\<close>

definition md5 :: "nat list \<Rightarrow> nat list option \<Rightarrow> bool \<Rightarrow> (nat list + string) option" where
  "md5 s key raw =
     (case key of
        Some (k # ks) \<Rightarrow>
          if raw then map_option Inl (rawHMACMD5 (k # ks) s) else map_option Inr (hexHMACMD5 (k # ks) s)
      | _ \<Rightarrow> if raw then map_option Inl (rawMD5 s) else map_option Inr (hexMD5 s))"

section \<open>The RFC 1321 algorithm\<close>

definition rfc_fun :: "nat \<Rightarrow> i32 \<Rightarrow> i32 \<Rightarrow> i32 \<Rightarrow> i32" where
  "rfc_fun i b c d =
     (if i < 16 then b AND c OR NOT b AND d
      else if i < 32 then b AND d OR c AND NOT d
      else if i < 48 then b XOR c XOR d
      else c XOR (b OR NOT d))"

definition rfc_index :: "nat \<Rightarrow> nat" where
  "rfc_index i =
     (if i < 16 then i else if i < 32 then (5 * i + 1) mod 16
      else if i < 48 then (3 * i + 5) mod 16 else 7 * i mod 16)"

definition rfc_shift :: "nat \<Rightarrow> nat" where
  "rfc_shift i = [7, 12, 17, 22, 5, 9, 14, 20, 4, 11, 16, 23, 6, 10, 15, 21] ! (4 * (i div 16) + i mod 4)"

definition rfc_T :: "i32 list" where
  "rfc_T =
    [0xd76aa478, 0xe8c7b756, 0x242070db, 0xc1bdceee, 0xf57c0faf, 0x4787c62a, 0xa8304613, 0xfd469501,
     0x698098d8, 0x8b44f7af, 0xffff5bb1, 0x895cd7be, 0x6b901122, 0xfd987193, 0xa679438e, 0x49b40821,
     0xf61e2562, 0xc040b340, 0x265e5a51, 0xe9b6c7aa, 0xd62f105d, 0x02441453, 0xd8a1e681, 0xe7d3fbc8,
     0x21e1cde6, 0xc33707d6, 0xf4d50d87, 0x455a14ed, 0xa9e3e905, 0xfcefa3f8, 0x676f02d9, 0x8d2a4c8a,
     0xfffa3942, 0x8771f681, 0x6d9d6122, 0xfde5380c, 0xa4beea44, 0x4bdecfa9, 0xf6bb4b60, 0xbebfbc70,
     0x289b7ec6, 0xeaa127fa, 0xd4ef3085, 0x04881d05, 0xd9d4d039, 0xe6db99e5, 0x1fa27cf8, 0xc4ac5665,
     0xf4292244, 0x432aff97, 0xab9423a7, 0xfc93a039, 0x655b59c3, 0x8f0ccc92, 0xffeff47d, 0x85845dd1,
     0x6fa87e4f, 0xfe2ce6e0, 0xa3014314, 0x4e0811a1, 0xf7537e82, 0xbd3af235, 0x2ad7d2bb, 0xeb86d391]"

definition rfc_step :: "(nat \<Rightarrow> i32) \<Rightarrow> nat \<Rightarrow> md5state \<Rightarrow> md5state" where
  "rfc_step x i st = (case st of (a, b, c, d) \<Rightarrow>
     (d, b + word_rotl (rfc_shift i) (a + rfc_fun i b c d + x (rfc_index i) + rfc_T ! i), b, c))"

definition rfc_block :: "(nat \<Rightarrow> i32) \<Rightarrow> md5state \<Rightarrow> md5state" where
  "rfc_block x st =
     (let (a, b, c, d) = fold (rfc_step x) [0..<64] st; (a', b', c', d') = st
      in (a + a', b + b', c + c', d + d'))"

text \<open>Padding: a one bit, zeros, the bit length in 64 bits, little endian; \<open>byte_at\<close> and
  \<open>word_at\<close> read a byte string as bytes and little-endian words, 0 past the end.\<close>

definition byte_at :: "bytes \<Rightarrow> nat \<Rightarrow> i32" where
  "byte_at bs i = (if i < length bs then ucast (bs ! i) else 0)"

definition word_at :: "bytes \<Rightarrow> nat \<Rightarrow> i32" where
  "word_at bs q = byte_at bs (4 * q) OR push_bit 8 (byte_at bs (4 * q + 1))
     OR push_bit 16 (byte_at bs (4 * q + 2)) OR push_bit 24 (byte_at bs (4 * q + 3))"

definition rfc_blocks :: "nat \<Rightarrow> nat" where
  "rfc_blocks n = (n + 8) div 64 + 1"

definition rfc_pad :: "bytes \<Rightarrow> bytes" where
  "rfc_pad bs = bs @ [0x80] @ replicate (64 * rfc_blocks (length bs) - length bs - 9) 0
     @ map (\<lambda>r. of_nat (8 * length bs div 256 ^ r)) [0..<8]"

definition rfc_digest :: "md5state \<Rightarrow> bytes" where
  "rfc_digest st = (case st of (a, b, c, d) \<Rightarrow>
     concat (map (\<lambda>w. map (\<lambda>r. ucast (drop_bit (8 * r) w)) [0..<4]) [a, b, c, d]))"

definition rfc_md5 :: "bytes \<Rightarrow> bytes" where
  "rfc_md5 bs = rfc_digest (fold (\<lambda>j. rfc_block (\<lambda>k. word_at (rfc_pad bs) (16 * j + k)))
     [0..<length (rfc_pad bs) div 64] (0x67452301, 0xefcdab89, 0x98badcfe, 0x10325476))"

section \<open>The block function\<close>

lemma split16: "push_bit 16 (signed_drop_bit 16 x) + (x AND 0xffff) = (x :: i32)"
proof -
  have m: "(0xffff :: i32) = mask 16" by (simp add: mask_eq_exp_minus_1)
  have d: "push_bit 16 (signed_drop_bit 16 x) AND (x AND 0xffff) = 0"
    unfolding m by (rule bit_word_eqI) (auto simp: bit_simps)
  have "push_bit 16 (signed_drop_bit 16 x) OR (x AND 0xffff) = x"
    unfolding m by (rule bit_word_eqI) (auto simp: bit_simps)
  then show ?thesis using d by (simp add: disjunctive_add_eq_or)
qed

lemma push_or16: "push_bit 16 (m :: i32) OR (l AND 0xffff) = push_bit 16 m + (l AND 0xffff)"
proof -
  have m: "(0xffff :: i32) = mask 16" by (simp add: mask_eq_exp_minus_1)
  have "push_bit 16 m AND (l AND 0xffff) = 0"
    unfolding m by (rule bit_word_eqI) (auto simp: bit_simps)
  then show ?thesis by (simp add: disjunctive_add_eq_or)
qed

lemma safeAdd_plus [simp]: "safeAdd x y = x + y"
proof -
  let ?l = "(x AND 0xffff) + (y AND 0xffff)"
  have "safeAdd x y = push_bit 16 (signed_drop_bit 16 x) + push_bit 16 (signed_drop_bit 16 y)
      + (push_bit 16 (signed_drop_bit 16 ?l) + (?l AND 0xffff))"
    unfolding safeAdd_def Let_def push_or16 push_bit_add by (simp only: ac_simps)
  also have "\<dots> = (push_bit 16 (signed_drop_bit 16 x) + (x AND 0xffff))
      + (push_bit 16 (signed_drop_bit 16 y) + (y AND 0xffff))"
    unfolding split16 [of ?l] by (simp only: ac_simps)
  also have "\<dots> = x + y" by (simp only: split16)
  finally show ?thesis .
qed

lemma bitRotateLeft_rotl: "0 < n \<Longrightarrow> n < 32 \<Longrightarrow> bitRotateLeft x n = word_rotl n x"
proof (rule bit_word_eqI)
  fix m assume n: "0 < n" "n < 32" and m: "m < LENGTH(32)"
  have rot: "bit (word_rotl n x) m \<longleftrightarrow> bit x ((m + (32 - n)) mod 32)"
    using n m by (simp add: bit_word_rotl_iff)
  have lhs: "bit (bitRotateLeft x n) m \<longleftrightarrow> n \<le> m \<and> bit x (m - n) \<or> bit x (32 - n + m)"
    using m by (auto simp: bitRotateLeft_def bit_simps)
  show "bit (bitRotateLeft x n) m = bit (word_rotl n x) m"
  proof (cases "n \<le> m")
    case True
    then have "m + (32 - n) = (m - n) + 32" using n by simp
    moreover have "(m - n + 32) mod 32 = m - n" using m by simp
    ultimately have "(m + (32 - n)) mod 32 = m - n" by metis
    moreover have "\<not> bit x (32 - n + m)" using True n by (auto dest: bit_imp_le_length)
    ultimately show ?thesis using True by (simp only: rot lhs) simp
  next
    case False
    then have "(m + (32 - n)) mod 32 = 32 - n + m" using n m by simp
    then show ?thesis using False by (simp only: rot lhs) simp
  qed
qed

lemma md5cmn_rotl:
  "0 < s \<Longrightarrow> s < 32 \<Longrightarrow> md5cmn q a b x s t = b + word_rotl s (a + q + x + t)"
  by (simp add: md5cmn_def bitRotateLeft_rotl ac_simps)

lemma rfc_T_rows: "rfc_T = map (\<lambda>(r, f, k, s, t). t) md5_rows"
  by (simp add: rfc_T_def md5_rows_def)

lemma quad_ref:
  assumes "j < 16"
  shows "fold (exec_row x) (take 4 (drop (4 * j) md5_rows)) st = fold (rfc_step x) [4 * j..<4 * j + 4] st"
proof -
  obtain a b c d where st: "st = (a, b, c, d)" by (cases st)
  have up: "[4 * j..<4 * j + 4] = [4 * j, 4 * j + 1, 4 * j + 2, 4 * j + 3]"
    by (simp add: upt_rec)
  have "j \<in> set [0..<16]" using assms by simp
  moreover have "[0..<16] = [0, 1, 2, 3, 4, 5, 6, 7, 8, 9, 10, 11, 12, 13, 14, 15]" by (simp add: upt_rec)
  ultimately have "j \<in> {0, 1, 2, 3, 4, 5, 6, 7, 8, 9, 10, 11, 12, 13, 14, 15}" by (metis list.simps(15) list.set(1))
  then show ?thesis
    unfolding st up rfc_step_def rfc_T_rows md5_rows_def
    by (elim insertE emptyE)
      (simp_all add: rfc_shift_def rfc_fun_def rfc_index_def numeral_2_eq_2 [symmetric]
        md5ff_def md5gg_def md5hh_def md5ii_def md5cmn_rotl)
qed

lemma rows_ref: "fold (exec_row x) md5_rows st = fold (rfc_step x) [0..<64] st"
proof -
  have "fold (exec_row x) (take (4 * n) md5_rows) st = fold (rfc_step x) [0..<4 * n] st" if "n \<le> 16" for n
    using that
  proof (induction n)
    case (Suc n)
    have "take (4 * Suc n) md5_rows = take (4 * n) md5_rows @ take 4 (drop (4 * n) md5_rows)"
      using take_add [of "4 * n" 4 md5_rows] by (simp add: add.commute)
    moreover have "[0..<4 * Suc n] = [0..<4 * n] @ [4 * n..<4 * n + 4]"
      using upt_add_eq_append [of 0 "4 * n" 4] by (simp add: add.commute)
    ultimately show ?case using Suc by (simp add: quad_ref)
  qed simp
  from this [of 16] show ?thesis by (simp add: md5_rows_def)
qed

lemma md5_block_ref: "md5_block x i st = rfc_block (\<lambda>k. arr_get x (i + k)) st"
  by (simp add: md5_block_def rfc_block_def rows_ref split: prod.split)

section \<open>Padding and digest\<close>

lemma arr_get_set: "arr_get (arr_set x (int i) v) q = (if q = i then v else arr_get x q)"
  by (auto simp: arr_get_def arr_set_def nth_append)

lemma length_arr_set: "length (arr_set x (int i) v) = max (length x) (i + 1)"
  by (auto simp: arr_set_def)

lemma arr_get_or: "arr_get (arr_or x (int i) v) q = (if q = i then arr_get x q OR v else arr_get x q)"
  by (auto simp: arr_or_def arr_get_set)

lemma length_arr_or: "length (arr_or x (int i) v) = max (length x) (i + 1)"
  by (auto simp: arr_or_def length_arr_set)

lemma byte_at_append: "byte_at (xs @ ys) i = (if i < length xs then byte_at xs i else byte_at ys (i - length xs))"
  by (auto simp: byte_at_def nth_append)

lemma byte_at_snoc: "byte_at (bs @ [b]) i = (if i = length bs then ucast b else byte_at bs i)"
  by (auto simp: byte_at_def nth_append)

lemma byte_at_end [simp]: "length bs \<le> i \<Longrightarrow> byte_at bs i = 0"
  by (simp add: byte_at_def)

lemma word_at_snoc:
  "word_at (bs @ [b]) q =
     (if q = length bs div 4 then word_at bs q OR push_bit (8 * (length bs mod 4)) (ucast b)
      else word_at bs q)"
proof -
  obtain p r where n: "length bs = 4 * p + r" "r < 4"
    by (metis mult_div_mod_eq mod_less_divisor zero_less_numeral)
  then have d: "length bs div 4 = p" "length bs mod 4 = r" by auto
  have r: "r = 0 \<or> r = 1 \<or> r = 2 \<or> r = 3" using n(2) by auto
  show ?thesis
  proof (cases "q = p")
    case True
    with r n show ?thesis
      unfolding d word_at_def byte_at_snoc
      by (elim disjE) (simp_all add: or.assoc)
  next
    case False
    then have "4 * q + k \<noteq> 4 * p + r" if "k < 4" for k
      using that n(2) by presburger
    from this [of 0] this [of 1] this [of 2] this [of 3] False show ?thesis
      unfolding d word_at_def byte_at_snoc by (simp add: n(1))
  qed
qed

lemma ff_mask: "(0xff :: i32) = mask 8"
  by (simp add: mask_eq_exp_minus_1)

lemma ff_ucast: "(of_nat n :: i32) AND 0xff = ucast (of_nat n :: 8 word)"
  unfolding ff_mask by (rule bit_word_eqI) (auto simp: bit_simps)

lemma ff_unat: "unat ((w :: i32) AND 0xff) = unat (ucast w :: 8 word)"
proof -
  have "w AND 0xff = ucast (ucast w :: 8 word)"
    unfolding ff_mask by (rule bit_word_eqI) (auto simp: bit_simps)
  moreover have "unat (ucast v :: i32) = unat v" for v :: "8 word"
  proof -
    have "unat v < 2 ^ LENGTH(8)" by (rule unsigned_less)
    then show ?thesis by (simp add: unsigned_ucast_eq take_bit_nat_eq_self)
  qed
  ultimately show ?thesis by simp
qed

lemma rstr2binl_fold:
  assumes "m \<le> length s"
  shows "length (fold (\<lambda>j out. arr_or out (int (j div 4)) (push_bit (8 * j mod 32) (of_nat (s ! j) AND 0xff)))
        [0..<m] (replicate (length s div 4) 0)) = max (length s div 4) ((m + 3) div 4)
    \<and> (\<forall>q. arr_get (fold (\<lambda>j out. arr_or out (int (j div 4)) (push_bit (8 * j mod 32) (of_nat (s ! j) AND 0xff)))
        [0..<m] (replicate (length s div 4) 0)) q = word_at (map of_nat (take m s)) q)"
  using assms
proof (induction m)
  case 0
  then show ?case by (simp add: arr_get_def word_at_def)
next
  case (Suc m)
  have t: "map of_nat (take (Suc m) s) = map of_nat (take m s) @ [of_nat (s ! m) :: 8 word]"
    using Suc.prems by (simp add: take_Suc_conv_app_nth)
  have sh: "8 * m mod 32 = 8 * (m mod 4)" by (simp add: mult_mod_right)
  show ?case
    using Suc by (auto simp: length_arr_or arr_get_or t word_at_snoc ff_ucast sh)
qed

lemma rstr2binl_words:
  "length (rstr2binl s) = (length s + 3) div 4"
  "arr_get (rstr2binl s) q = word_at (map of_nat s) q"
  using rstr2binl_fold [of "length s" s] by (auto simp: rstr2binl_def)

lemma sint_of_nat_small: "k < 2 ^ 31 \<Longrightarrow> sint (of_nat k :: i32) = int k"
  by (simp add: signed_of_nat signed_take_bit_int_eq_self)

lemma sint_shift: "m < 2 ^ 31 \<Longrightarrow> sint (signed_drop_bit 5 (of_nat m :: i32)) = int (m div 32)"
  by (simp add: sint_signed_drop_bit_eq signed_of_nat signed_take_bit_int_eq_self drop_bit_eq_div zdiv_int)

lemma sint_block: "m < 2 ^ 31 \<Longrightarrow>
  sint (push_bit 4 (drop_bit 9 (of_nat (m + 64) :: i32))) + 14 = int (16 * ((m + 64) div 512) + 14)"
proof -
  assume m: "m < 2 ^ 31"
  have "(drop_bit 9 (of_nat k) :: i32) = of_nat (k div 512)" if "k < 2 ^ 32" for k
    using that by (intro word_unat_eq_iff [THEN iffD2])
      (simp add: unat_drop_bit_eq drop_bit_eq_div unat_of_nat unat_div)
  from this [of "m + 64"] m have "(drop_bit 9 (of_nat (m + 64)) :: i32) = of_nat ((m + 64) div 512)"
    by simp
  then have "push_bit 4 (drop_bit 9 (of_nat (m + 64) :: i32)) = of_nat (16 * ((m + 64) div 512))"
    by (simp add: push_bit_eq_mult)
  moreover have "16 * ((m + 64) div 512) < 2 ^ 31" using m by simp
  ultimately have "sint (push_bit 4 (drop_bit 9 (of_nat (m + 64) :: i32))) = int (16 * ((m + 64) div 512))"
    by (metis sint_of_nat_small)
  then show ?thesis by (simp only: of_nat_add of_nat_numeral)
qed

lemma binl_loop_fold:
  "length x = 16 * nb - 1 \<Longrightarrow> j \<le> nb \<Longrightarrow> 0 < nb \<Longrightarrow>
   binl_loop x (16 * j) st = fold (\<lambda>j. md5_block x (16 * j)) [j..<nb] st"
proof (induction "nb - j" arbitrary: j st)
  case 0
  then have "\<not> 16 * j < length x" by simp
  then show ?case using 0 by (subst binl_loop.simps) simp
next
  case (Suc k)
  then have "16 * j < length x" "[j..<nb] = j # [Suc j..<nb]"
    by (auto simp: upt_conv_Cons)
  moreover have "binl_loop x (16 * j + 16) st' = fold (\<lambda>j. md5_block x (16 * j)) [Suc j..<nb] st'" for st'
    using Suc.hyps(1) [of "Suc j" st'] Suc.hyps(2) Suc.prems by (simp add: add.commute)
  ultimately show ?case by (subst binl_loop.simps) simp
qed

lemma bit_byte: "bit (ucast (of_nat (N div 2 ^ k) :: 8 word) :: i32) m \<longleftrightarrow> m < 8 \<and> bit N (m + k)"
  by (auto simp: bit_simps drop_bit_eq_div [symmetric] ac_simps)

lemma le32_bytes:
  "ucast (of_nat N :: 8 word) OR push_bit 8 (ucast (of_nat (N div 2 ^ 8) :: 8 word))
     OR push_bit 16 (ucast (of_nat (N div 2 ^ 16) :: 8 word))
     OR push_bit 24 (ucast (of_nat (N div 2 ^ 24) :: 8 word)) = (of_nat N :: i32)" (is "?l = _")
proof (rule bit_word_eqI)
  fix m assume "m < LENGTH(32)"
  then have "m < 32" by simp
  have d: "m < 8 \<or> 8 \<le> m \<and> m < 16 \<or> 16 \<le> m \<and> m < 24 \<or> 24 \<le> m" by linarith
  have b0: "bit (ucast (of_nat N :: 8 word) :: i32) m \<longleftrightarrow> m < 8 \<and> bit N m"
    using bit_byte [of N 0 m] by simp
  show "bit ?l m = bit (of_nat N :: i32) m"
    using \<open>m < 32\<close> d by (elim disjE) (auto simp: bit_or_iff bit_push_bit_iff b0 bit_of_nat_iff
        bit_byte [of N 8, simplified] bit_byte [of N 16, simplified] bit_byte [of N 24, simplified])
qed

lemma pad_facts:
  fixes bs :: bytes
  assumes "8 * length bs < 2 ^ 31"
  defines "nb \<equiv> rfc_blocks (length bs)"
  shows "length bs + 9 \<le> 64 * nb" "length (rfc_pad bs) = 64 * nb"
    "q < 16 * nb - 2 \<Longrightarrow> word_at (rfc_pad bs) q = word_at (bs @ [0x80]) q"
    "word_at (rfc_pad bs) (16 * nb - 2) = of_nat (8 * length bs)"
    "word_at (rfc_pad bs) (16 * nb - 1) = 0"
proof -
  let ?N = "8 * length bs" let ?tl = "map (\<lambda>r. of_nat (?N div 256 ^ r)) [0..<8] :: bytes"
  let ?p = "bs @ [0x80] @ replicate (64 * nb - length bs - 9) (0 :: 8 word)"
  show le: "length bs + 9 \<le> 64 * nb" unfolding nb_def rfc_blocks_def by simp
  then show "length (rfc_pad bs) = 64 * nb" by (simp add: rfc_pad_def nb_def)
  have lp: "length ?p = 64 * nb - 8" using le by simp
  have z0: "byte_at (replicate n 0) i = 0" for n i by (simp add: byte_at_def)
  have p: "byte_at ?p i = byte_at (bs @ [0x80]) i" for i
    unfolding append_assoc [symmetric] byte_at_append [of "bs @ [0x80]"] by (simp add: z0)
  have pad: "rfc_pad bs = ?p @ ?tl" by (simp add: rfc_pad_def nb_def)
  have b: "byte_at (rfc_pad bs) i = (if i < 64 * nb - 8 then byte_at (bs @ [0x80]) i
      else byte_at ?tl (i - (64 * nb - 8)))" for i
    unfolding pad byte_at_append [of ?p] p lp ..
  have t: "byte_at ?tl r = ucast (of_nat (?N div 2 ^ (8 * r)) :: 8 word)" if "r < 8" for r
    using that by (simp add: byte_at_def power_mult)
  show "word_at (rfc_pad bs) q = word_at (bs @ [0x80]) q" if "q < 16 * nb - 2"
    using that by (simp add: word_at_def b)
  have tb: "byte_at (rfc_pad bs) (64 * nb - 8 + r) = byte_at ?tl r" for r by (simp add: b)
  have w: "word_at (rfc_pad bs) (16 * nb - 2 + k) = byte_at ?tl (4 * k) OR push_bit 8 (byte_at ?tl (4 * k + 1))
      OR push_bit 16 (byte_at ?tl (4 * k + 2)) OR push_bit 24 (byte_at ?tl (4 * k + 3))" for k
  proof -
    have e: "4 * (16 * nb - 2 + k) + r = 64 * nb - 8 + (4 * k + r)" for r using le by simp
    have e0: "4 * (16 * nb - 2 + k) = 64 * nb - 8 + 4 * k" using le by simp
    show ?thesis unfolding word_at_def e unfolding e0 tb ..
  qed
  show "word_at (rfc_pad bs) (16 * nb - 2) = of_nat ?N"
    using w [of 0] t [of 0] t [of 1] t [of 2] t [of 3] le32_bytes [of ?N]
    by (simp add: numeral_2_eq_2 [symmetric])
  have z: "?N div 2 ^ (8 * r) = 0" if "4 \<le> r" for r
  proof -
    have "(2::nat) ^ 31 \<le> 2 ^ (8 * r)" using that by (intro power_increasing) auto
    then show ?thesis using assms(1) by (simp add: div_less)
  qed
  have "byte_at ?tl r = 0" if "4 \<le> r" "r < 8" for r using t z that by simp
  then have "word_at (rfc_pad bs) (16 * nb - 2 + 1) = 0" unfolding w by simp
  moreover have "16 * nb - 2 + 1 = 16 * nb - 1" using le by simp
  ultimately show "word_at (rfc_pad bs) (16 * nb - 1) = 0" by metis
qed

lemma rfc_block_cong:
  assumes "\<And>k. k < 16 \<Longrightarrow> x k = y k"
  shows "rfc_block x st = rfc_block y st"
proof -
  have "fold (rfc_step x) [0..<64] st = fold (rfc_step y) [0..<64] st"
    by (rule fold_cong) (auto simp: rfc_step_def rfc_index_def assms)
  then show ?thesis by (simp add: rfc_block_def)
qed

lemma digest_code: "binl2rstr [a, b, c, d] = map unat (rfc_digest (a, b, c, d))"
  by (simp add: binl2rstr_def rfc_digest_def ff_unat arr_get_def upt_rec)

lemma binlMD5_state:
  assumes n: "8 * length bs < 2 ^ 31"
    and x: "length x = (length bs + 3) div 4" "\<And>q. arr_get x q = word_at bs q"
  shows "binlMD5 x (8 * length bs) = (case fold (\<lambda>j. rfc_block (\<lambda>k. word_at (rfc_pad bs) (16 * j + k)))
       [0..<length (rfc_pad bs) div 64] md5_init of (a, b, c, d) \<Rightarrow> [a, b, c, d])"
proof -
  let ?n = "length bs" let ?nb = "rfc_blocks ?n"
  define x1 where "x1 = arr_or x (int (?n div 4)) (push_bit (8 * (?n mod 4)) 0x80)"
  define x2 where "x2 = arr_set x1 (int (16 * ?nb - 2)) (of_nat (8 * ?n))"
  have x1: "arr_get x1 q = word_at (bs @ [0x80]) q" "length x1 = max ((?n + 3) div 4) (?n div 4 + 1)" for q
    by (auto simp: x1_def arr_get_or x word_at_snoc length_arr_or)
  have l1: "length x1 \<le> 16 * ?nb - 2"
    using pad_facts(1) [OF n] x1(2) by linarith
  have l2: "length x2 = 16 * ?nb - 1" "0 < ?nb"
    using l1 unfolding x2_def length_arr_set by (auto simp: rfc_blocks_def)
  have get: "arr_get x2 q = word_at (rfc_pad bs) q" if "q < 16 * ?nb" for q
  proof -
    have "q < 16 * ?nb - 2 \<or> q = 16 * ?nb - 2 \<or> q = 16 * ?nb - 1" using that by auto
    then consider "q < 16 * ?nb - 2" | "q = 16 * ?nb - 2" | "q = 16 * ?nb - 1" by blast
    then show ?thesis
    proof cases
      case 3
      then show ?thesis using pad_facts(5) [OF n] l2 by (simp add: arr_get_def)
    qed (unfold x2_def arr_get_set x1, simp_all add: pad_facts(3,4) [OF n])
  qed
  have blk: "md5_block x2 (16 * j) st = rfc_block (\<lambda>k. word_at (rfc_pad bs) (16 * j + k)) st"
    if "j < ?nb" for j st
    unfolding md5_block_ref by (rule rfc_block_cong) (use that in \<open>auto intro!: get\<close>)
  have "8 * ?n div 32 = ?n div 4" "8 * ?n mod 32 = 8 * (?n mod 4)"
    "16 * ((8 * ?n + 64) div 512) + 14 = 16 * ?nb - 2"
    by (auto simp: mult_mod_right rfc_blocks_def)
  then have "binlMD5 x (8 * ?n) = (case binl_loop x2 0 md5_init of (a, b, c, d) \<Rightarrow> [a, b, c, d])"
    unfolding binlMD5_def Let_def sint_shift [OF n] sint_block [OF n] x2_def x1_def by simp
  also have "binl_loop x2 0 md5_init = fold (\<lambda>j. md5_block x2 (16 * j)) [0..<?nb] md5_init"
    using binl_loop_fold [of x2 ?nb 0] l2 by simp
  also have "\<dots> = fold (\<lambda>j. rfc_block (\<lambda>k. word_at (rfc_pad bs) (16 * j + k))) [0..<?nb] md5_init"
    by (rule fold_cong) (auto simp: blk)
  finally show ?thesis using pad_facts(2) [OF n] by simp
qed

text \<open>
  Claim C12. The bundled MD5 is MD5: for every message of bytes of less than \<open>2 ^ 28\<close> bytes, the
  code's packing into words, padding, unrolled rounds with 16-bit additions and unpacking compute
  the RFC 1321 digest.
\<close>

theorem md5_is_rfc1321:
  assumes "8 * length bs < 2 ^ 31"
  shows "rstrMD5 (map unat bs) = map unat (rfc_md5 bs)"
proof -
  let ?s = "map unat bs"
  have b: "map of_nat ?s = bs" by (simp add: comp_def map_idI)
  have i: "md5_init = (0x67452301, 0xefcdab89, 0x98badcfe, 0x10325476)" by (simp add: md5_init_def)
  have "binlMD5 (rstr2binl ?s) (8 * length bs) = (case fold (\<lambda>j. rfc_block (\<lambda>k. word_at (rfc_pad bs) (16 * j + k)))
       [0..<length (rfc_pad bs) div 64] md5_init of (a, b, c, d) \<Rightarrow> [a, b, c, d])"
    by (rule binlMD5_state [OF assms]) (simp only: rstr2binl_words b length_map)+
  then show ?thesis
    unfolding rstrMD5_def rfc_md5_def i
    by (simp add: mult.commute digest_code split: prod.split)
qed

theorem md5_is_rfc1321_witness:
  "rstrMD5 (map unat ([97, 98, 99] :: bytes)) = map unat (rfc_md5 [97, 98, 99])"
  by (rule md5_is_rfc1321) simp

end
