(* ===== verification/Fa_Conflict.thy ===== *)
theory Fa_Conflict
  imports Fa_Md5
begin

text \<open>
  The conflict detector, \<^verbatim>\<open>src/static/fa6/js/conflict-detection.js\<close> (lines 123--174, 551--896 and 1511--1517).
  It keys every script, link and style element of the page by the MD5 of its source, loads each in
  an iframe of its own, polls there for traces of Font Awesome, and collects the verdicts that the
  frames post back. Texts of the page are lists of UTF-16 code units. What happens in time is an
  argument: \<open>fn k\<close> is what the polled function returns at its call number \<open>k\<close>, and \<open>delivered k\<close> the
  message events the browser has delivered by then. Durations are whole milliseconds, \<open>None\<close> being
  \<^verbatim>\<open>NaN\<close>, the value of an attribute that is not a number.
\<close>

type_synonym units = "nat list"

definition units :: "string \<Rightarrow> units" where
  "units s = map of_char s"

section \<open>Elements and their keys\<close>

record page_tag =
  tg_ident :: nat
  tg_ignored :: bool
  tg_tagName :: units
  tg_src :: units
  tg_href :: units
  tg_rel :: units
  tg_innerText :: units

text \<open>\<^verbatim>\<open>md5ForNode\<close>; \<open>None\<close> is the exception of \<^verbatim>\<open>encodeURIComponent\<close> on a lone surrogate.\<close>

definition md5_hex :: "units \<Rightarrow> jsv option" where
  "md5_hex s = (case md5 s None False of Some (Inr h) \<Rightarrow> Some (JStr h) | _ \<Rightarrow> None)"

definition md5ForNode :: "page_tag \<Rightarrow> jsv option" where
  "md5ForNode t =
     (if tg_src t \<noteq> [] then md5_hex (tg_src t)
      else if tg_href t \<noteq> [] then md5_hex (tg_href t)
      else if tg_innerText t \<noteq> [] then md5_hex (tg_innerText t)
      else Some Undefined)"

section \<open>Polling\<close>

text \<open>\<^verbatim>\<open>pollUntil\<close>: the number of the call that returned true, or \<open>None\<close> for the rejection. The call
  number \<open>k\<close> is made \<open>initialDuration + 250 * k\<close> milliseconds after the start.\<close>

definition poll_again :: "int option \<Rightarrow> int \<Rightarrow> bool" where
  "poll_again maxDuration next = (case maxDuration of Some m \<Rightarrow> next \<le> m | None \<Rightarrow> False)"

function poll :: "(nat \<Rightarrow> bool) \<Rightarrow> int option \<Rightarrow> nat \<Rightarrow> int \<Rightarrow> nat option" where
  "poll fn maxDuration k cumulativeDuration =
     (if fn k then Some k
      else let nextCumulativeDuration = 250 + cumulativeDuration
           in if poll_again maxDuration nextCumulativeDuration
              then poll fn maxDuration (Suc k) nextCumulativeDuration
              else None)"
  by pat_completeness auto
termination
  by (relation "measure (\<lambda>(fn, m, k, c). nat (the m - c))")
    (auto simp: poll_again_def split: option.splits)

declare poll.simps [simp del]

definition pollUntil :: "(nat \<Rightarrow> bool) \<Rightarrow> int option \<Rightarrow> nat option" where
  "pollUntil fn maxDuration = poll fn maxDuration 0 0"

section \<open>The frames\<close>

datatype technology = JsTech | Webfont

record diag =
  dg_key :: string
  dg_tech :: technology
  dg_node :: page_tag

datatype msg_type = FontawesomeConflict | NoConflict | OtherMessage

text \<open>The data of a message; an absent property is \<open>None\<close>.\<close>

record msg_data =
  ms_type :: msg_type
  ms_src :: "units option"
  ms_href :: "units option"
  ms_innerText :: units
  ms_tagName :: units
  ms_md5 :: string

text \<open>\<^verbatim>\<open>diagScriptFun\<close>, which polls for up to the detector's timeout. The message of a frame whose
  style sheet did no harm carries \<^verbatim>\<open>node.src\<close>, which links and styles do not have, as its
  \<^verbatim>\<open>href\<close>.\<close>

definition diagScriptFun :: "diag \<Rightarrow> (nat \<Rightarrow> bool) \<Rightarrow> int option \<Rightarrow> msg_data" where
  "diagScriptFun d fn timeout =
     (let n = dg_node d; hit = pollUntil fn timeout \<noteq> None
      in \<lparr>ms_type = (if hit then FontawesomeConflict else NoConflict),
          ms_src = (if dg_tech d = JsTech then Some (tg_src n) else None),
          ms_href = (if dg_tech d = Webfont \<and> hit then Some (tg_href n) else None),
          ms_innerText = tg_innerText n, ms_tagName = tg_tagName n, ms_md5 = dg_key d\<rparr>)"

text \<open>The elements under test: the node itself under its key, and the copy that goes into a frame.\<close>

fun run_diags :: "technology \<Rightarrow> (page_tag \<Rightarrow> page_tag) \<Rightarrow> page_tag list \<Rightarrow> page_tag obj \<times> diag list
    \<Rightarrow> (page_tag obj \<times> diag list) option" where
  "run_diags tech copy [] acc = Some acc"
| "run_diags tech copy (t # ts) (byMD5, ds) = (case md5ForNode t of
       None \<Rightarrow> None
     | Some v \<Rightarrow> run_diags tech copy ts
         (obj_set byMD5 (to_str v) t, ds @ [\<lparr>dg_key = to_str v, dg_tech = tech, dg_node = copy t\<rparr>]))"

definition has_infix :: "units \<Rightarrow> units \<Rightarrow> bool" where
  "has_infix p s \<longleftrightarrow> list_ex (\<lambda>i. starts_with p (drop i s)) [0..<Suc (length s)]"

text \<open>What the frame of a style sheet polls for: the font family of a test icon.\<close>

definition webfont_trace :: "units \<Rightarrow> bool" where
  "webfont_trace fontFamily \<longleftrightarrow> has_infix (units ''FontAwesome'') fontFamily
     \<or> has_infix (units ''Font Awesome 5'') fontFamily \<or> has_infix (units ''Font Awesome 6'') fontFamily"

definition link_copy :: "page_tag \<Rightarrow> page_tag" where
  "link_copy t = t\<lparr>tg_src := [], tg_innerText := []\<rparr>"

definition style_copy :: "page_tag \<Rightarrow> page_tag" where
  "style_copy t = t\<lparr>tg_src := [], tg_href := [], tg_rel := []\<rparr>"

text \<open>\<open>replacementClass\<close> is that of the page's \<^verbatim>\<open>FontAwesomeConfig\<close>, if it has one, a plain word.\<close>

definition detectWebfontConflicts ::
  "string option \<Rightarrow> page_tag list \<Rightarrow> page_tag list \<Rightarrow> (page_tag obj \<times> diag list) option" where
  "detectWebfontConflicts replacementClass links styles =
     (let linkTags = filter (\<lambda>t. \<not> tg_ignored t) links;
          styleTags = filter (\<lambda>t. \<not> tg_ignored t \<and>
             (case replacementClass of
                Some c \<Rightarrow> \<not> has_infix (units (''svg:not(:root).'' @ c)) (tg_innerText t) | None \<Rightarrow> True)) styles
      in case run_diags Webfont link_copy linkTags ([], []) of
           None \<Rightarrow> None
         | Some acc \<Rightarrow> run_diags Webfont style_copy styleTags acc)"

definition detectSvgConflicts :: "nat option \<Rightarrow> page_tag list \<Rightarrow> (page_tag obj \<times> diag list) option" where
  "detectSvgConflicts currentScript scripts =
     run_diags JsTech (\<lambda>t. t\<lparr>tg_href := [], tg_rel := []\<rparr>)
       (filter (\<lambda>t. \<not> tg_ignored t \<and> Some (tg_ident t) \<noteq> currentScript) scripts) ([], [])"

section \<open>Collecting the verdicts\<close>

record nodes_tested =
  nt_conflict :: "msg_data obj"
  nt_noConflict :: "msg_data obj"

record msg_event =
  ev_origin :: string
  ev_data :: "msg_data option"

definition no_nodes_tested :: nodes_tested where
  "no_nodes_tested = \<lparr>nt_conflict = [], nt_noConflict = []\<rparr>"

definition onmessage :: "string \<Rightarrow> nodes_tested \<Rightarrow> msg_event \<Rightarrow> nodes_tested" where
  "onmessage origin nt e =
     (if origin = ''file://'' \<or> ev_origin e = origin
      then case ev_data e of
             None \<Rightarrow> nt
           | Some d \<Rightarrow>
               if ms_type d = FontawesomeConflict
               then nt\<lparr>nt_conflict := obj_set (nt_conflict nt) (ms_md5 d) d\<rparr>
               else if ms_type d = NoConflict
               then nt\<lparr>nt_noConflict := obj_set (nt_noConflict nt) (ms_md5 d) d\<rparr>
               else nt
      else nt)"

definition collected :: "string \<Rightarrow> msg_event list \<Rightarrow> nodes_tested" where
  "collected origin es = foldl (onmessage origin) no_nodes_tested es"

definition tested_count :: "nodes_tested \<Rightarrow> nat" where
  "tested_count nt = length (obj_keys (nt_conflict nt)) + length (obj_keys (nt_noConflict nt))"

section \<open>The report\<close>

definition timedOutTests :: "nodes_tested \<Rightarrow> page_tag obj \<Rightarrow> page_tag obj" where
  "timedOutTests nt nodesFound =
     fold (\<lambda>key ob. case map_of nodesFound key of
         Some t \<Rightarrow> if js_in key (nt_conflict nt) \<or> js_in key (nt_noConflict nt) then ob else obj_set ob key t
       | None \<Rightarrow> ob) (obj_keys nodesFound) []"

text \<open>A row of a printed table: tag, source and an excerpt of the text.\<close>

type_synonym report_row = "units \<times> units \<times> units"

definition report_row :: "units \<Rightarrow> units option \<Rightarrow> units option \<Rightarrow> units \<Rightarrow> report_row" where
  "report_row tagName src href innerText =
     (let given = (\<lambda>u. case u of Some (c # cs) \<Rightarrow> True | _ \<Rightarrow> False)
      in (tagName,
          if given src then the src else if given href then the href else units ''n/a'',
          if innerText \<noteq> [] then take 200 innerText @ units ''...'' else units ''(empty)''))"

definition msg_row :: "msg_data \<Rightarrow> report_row" where
  "msg_row d = report_row (ms_tagName d) (ms_src d) (ms_href d) (ms_innerText d)"

definition tag_row :: "page_tag \<Rightarrow> report_row" where
  "tag_row t = report_row (tg_tagName t) (Some (tg_src t)) (Some (tg_href t)) (tg_innerText t)"

record detection_report =
  rp_conflicts :: "report_row obj"
  rp_noConflicts :: "report_row obj"
  rp_leftovers :: "report_row obj"

definition table_of :: "('a \<Rightarrow> report_row) \<Rightarrow> 'a obj \<Rightarrow> report_row obj" where
  "table_of row ob = js_reduce ob (\<lambda>data item key. obj_set data key (row item)) []"

definition detector_report :: "nodes_tested \<Rightarrow> page_tag obj \<Rightarrow> detection_report" where
  "detector_report nt nodesFound =
     \<lparr>rp_conflicts = table_of msg_row (nt_conflict nt), rp_noConflicts = table_of msg_row (nt_noConflict nt),
      rp_leftovers = table_of tag_row (timedOutTests nt nodesFound)\<rparr>"

section \<open>The detector\<close>

datatype detection_end = AllGood | Done nat | TimeOut

record detection =
  dt_detectionDone :: bool
  dt_nodesTested :: "nodes_tested option"
  dt_nodesFound :: "page_tag obj option"

definition setDoneResults :: "detection \<Rightarrow> nodes_tested \<Rightarrow> page_tag obj \<Rightarrow> detection" where
  "setDoneResults w nt found = w\<lparr>dt_nodesTested := Some nt, dt_nodesFound := Some found, dt_detectionDone := True\<rparr>"

record page =
  pg_origin :: string
  pg_currentScript :: "nat option"
  pg_replacementClass :: "string option"
  pg_scripts :: "page_tag list"
  pg_links :: "page_tag list"
  pg_styles :: "page_tag list"
  pg_timeout :: "int option"
  pg_maxWait :: "int option"

text \<open>\<open>last_call\<close> is the number of the last call of a poll that runs into its time limit; the results
  are read right after it.\<close>

definition masterTimeout :: "page \<Rightarrow> int option" where
  "masterTimeout pg = (case (pg_timeout pg, pg_maxWait pg) of (Some t, Some w) \<Rightarrow> Some (t + w) | _ \<Rightarrow> None)"

definition last_call :: "int option \<Rightarrow> nat" where
  "last_call maxDuration = (case maxDuration of Some m \<Rightarrow> nat (m div 250) | None \<Rightarrow> 0)"

definition conflictDetection ::
  "page \<Rightarrow> (nat \<Rightarrow> msg_event list) \<Rightarrow> detection \<Rightarrow> (detection_end \<times> detection) option" where
  "conflictDetection pg delivered w =
     (case (detectSvgConflicts (pg_currentScript pg) (pg_scripts pg),
            detectWebfontConflicts (pg_replacementClass pg) (pg_links pg) (pg_styles pg)) of
        (Some (scriptsToTest, _), Some (cssToTest, _)) \<Rightarrow>
          let nodesFound = spread (spread [] scriptsToTest) cssToTest;
              testCount = length (obj_keys scriptsToTest) + length (obj_keys cssToTest);
              tested = (\<lambda>k. collected (pg_origin pg) (delivered k))
          in if testCount = 0 then Some (AllGood, w)
             else case pollUntil (\<lambda>k. testCount \<le> tested_count (tested k)) (masterTimeout pg) of
                    Some k \<Rightarrow> Some (Done k, setDoneResults w (tested k) nodesFound)
                  | None \<Rightarrow> Some (TimeOut,
                      setDoneResults w (tested (last_call (masterTimeout pg))) nodesFound)
      | _ \<Rightarrow> None)"

section \<open>Starting the detector\<close>

text \<open>\<^verbatim>\<open>+text\<close> for a text that is a whole number or none; fractions, exponents, other bases and infinity are
  outside the model.\<close>

definition whole_number :: "string \<Rightarrow> int option" where
  "whole_number s =
     (let t = js_trim s;
          (neg, ds) = (case t of c # cs \<Rightarrow> if c = CHR ''-'' then (True, cs) else if c = CHR ''+'' then (False, cs) else (False, t)
                       | [] \<Rightarrow> (False, []))
      in if t = [] then Some 0
         else if ds \<noteq> [] \<and> list_all is_digit ds then Some ((if neg then - 1 else 1) * int (read_digits ds))
         else None)"

definition attr_duration :: "string option \<Rightarrow> string \<Rightarrow> int option" where
  "attr_duration attr fallback = whole_number (case attr of Some (c # cs) \<Rightarrow> c # cs | _ \<Rightarrow> fallback)"

text \<open>What \<^verbatim>\<open>window.FontAwesomeDetection\<close> may set before the script runs; the report function is left out, since
  it only prints.\<close>

record detection_settings =
  ds_timeout :: "int option option"
  ds_maxWait :: "int option option"

text \<open>The element that loads the script: its two attributes.\<close>

record loading_script =
  ls_ident :: nat
  ls_timeout :: "string option"
  ls_maxWait :: "string option"

text \<open>The whole script: \<open>None\<close> is an exception, of reading an attribute of a missing \<^verbatim>\<open>currentScript\<close>
  or of the detection, which \<^verbatim>\<open>bunker\<close> lets through because \<^verbatim>\<open>process\<close> does not exist in a
  browser. Results of an earlier run are cleared.\<close>

definition fresh_detection :: detection where
  "fresh_detection = \<lparr>dt_detectionDone = False, dt_nodesTested = None, dt_nodesFound = None\<rparr>"

definition configured_page :: "loading_script \<Rightarrow> detection_settings \<Rightarrow> page \<Rightarrow> page" where
  "configured_page ls initialConfig pg =
     pg\<lparr>pg_currentScript := Some (ls_ident ls),
        pg_timeout := (case ds_timeout initialConfig of Some t \<Rightarrow> t | None \<Rightarrow> attr_duration (ls_timeout ls) ''2000''),
        pg_maxWait := (case ds_maxWait initialConfig of Some t \<Rightarrow> t | None \<Rightarrow> attr_duration (ls_maxWait ls) ''5000'')\<rparr>"

definition detector_script ::
  "environment \<Rightarrow> loading_script option \<Rightarrow> detection_settings \<Rightarrow> page \<Rightarrow> (nat \<Rightarrow> msg_event list)
    \<Rightarrow> (detection_end option \<times> detection) option" where
  "detector_script en currentScript initialConfig pg delivered = (case currentScript of
       None \<Rightarrow> None
     | Some ls \<Rightarrow>
         if IS_BROWSER en \<and> IS_DOM en
         then map_option (apfst Some) (conflictDetection (configured_page ls initialConfig pg) delivered fresh_detection)
         else Some (None, fresh_detection))"

section \<open>Properties\<close>

subsection \<open>Polling\<close>

lemma poll_Some_iff:
  "poll fn (Some m) k c = Some j \<longleftrightarrow>
     k \<le> j \<and> fn j \<and> (\<forall>i. k \<le> i \<and> i < j \<longrightarrow> \<not> fn i) \<and> (j = k \<or> c + 250 * int (j - k) \<le> m)"
proof (induction fn "Some m" k c rule: poll.induct)
  case (1 fn k c)
  show ?case
  proof (cases "fn k")
    case True
    then show ?thesis by (subst poll.simps) (auto simp: le_less)
  next
    case False
    let ?next = "poll_again (Some m) (250 + c)"
    have step: "poll fn (Some m) k c = (if ?next then poll fn (Some m) (Suc k) (250 + c) else None)"
      using False by (subst poll.simps) (simp add: Let_def)
    have "k \<le> j \<and> fn j \<and> (\<forall>i. k \<le> i \<and> i < j \<longrightarrow> \<not> fn i) \<longleftrightarrow>
        Suc k \<le> j \<and> fn j \<and> (\<forall>i. Suc k \<le> i \<and> i < j \<longrightarrow> \<not> fn i)"
      using False by (metis Suc_leD Suc_leI le_less not_less_eq_eq)
    moreover have "Suc k \<le> j \<Longrightarrow> (j = k \<or> c + 250 * int (j - k) \<le> m) \<longleftrightarrow>
        ?next \<and> (j = Suc k \<or> 250 + c + 250 * int (j - Suc k) \<le> m)"
      by (auto simp: poll_again_def of_nat_diff)
    ultimately show ?thesis using 1 [OF False refl] unfolding step by auto
  qed
qed

lemma pollUntil_Some_iff:
  "pollUntil fn (Some m) = Some j \<longleftrightarrow> fn j \<and> (\<forall>i<j. \<not> fn i) \<and> (j = 0 \<or> 250 * int j \<le> m)"
  by (simp add: pollUntil_def poll_Some_iff)

lemma pollUntil_None: "pollUntil fn None = (if fn 0 then Some 0 else None)"
  unfolding pollUntil_def by (subst poll.simps) (simp add: poll_again_def)

lemma pollUntil_find:
  "pollUntil fn maxDuration = find fn [0..<Suc (last_call maxDuration)]"
proof (cases maxDuration)
  case None
  then show ?thesis by (simp add: pollUntil_None last_call_def)
next
  case (Some m)
  have bound: "j = 0 \<or> 250 * int j \<le> m \<longleftrightarrow> j < Suc (last_call maxDuration)" for j
    using Some by (auto simp: last_call_def zdiv_int nat_less_iff le_nat_iff less_Suc_eq_le)
  have "pollUntil fn maxDuration = Some j \<longleftrightarrow> find fn [0..<Suc (last_call maxDuration)] = Some j" for j
    unfolding Some pollUntil_Some_iff bound [unfolded Some] find_Some_iff by (auto simp del: upt_Suc)
  then show ?thesis by (metis option.exhaust)
qed

text \<open>
  Claim C35. Polling always ends, and says exactly when: with a time limit of \<open>m\<close> milliseconds it
  resolves iff one of the calls made within the limit returns true, the first call or one that is
  \<open>250 * k \<le> m\<close> milliseconds later, and then at the first that does; it rejects otherwise. With a
  limit that is not a number only the first call is made.
\<close>

theorem poll_exact:
  "pollUntil fn (Some m) = (if \<exists>k. (k = 0 \<or> 250 * int k \<le> m) \<and> fn k then Some (LEAST k. fn k) else None)
   \<and> pollUntil fn None = (if fn 0 then Some 0 else None)"
proof -
  have le: "(LEAST k. fn k) \<le> k" if "fn k" for k using that by (rule Least_le)
  have fn: "fn (LEAST k. fn k)" if "fn k" for k using that by (rule LeastI)
  show ?thesis
  proof (cases "\<exists>k. (k = 0 \<or> 250 * int k \<le> m) \<and> fn k")
    case True
    then obtain k where k: "k = 0 \<or> 250 * int k \<le> m" "fn k" by blast
    then have "(LEAST k. fn k) = 0 \<or> 250 * int (LEAST k. fn k) \<le> m"
      using le [of k] by fastforce
    then have "pollUntil fn (Some m) = Some (LEAST k. fn k)"
      unfolding pollUntil_Some_iff using fn [OF k(2)] not_less_Least by blast
    with True show ?thesis by (simp add: pollUntil_None)
  next
    case False
    then have "pollUntil fn (Some m) = None"
      by (metis option.exhaust pollUntil_Some_iff)
    with False show ?thesis by (simp add: pollUntil_None)
  qed
qed

subsection \<open>Verdicts\<close>

text \<open>The keys for which the page has accepted a verdict of the given type.\<close>

definition verdict_keys :: "string \<Rightarrow> msg_event list \<Rightarrow> msg_type \<Rightarrow> string set" where
  "verdict_keys origin es ty =
     {ms_md5 d | e d. e \<in> set es \<and> (origin = ''file://'' \<or> ev_origin e = origin) \<and> ev_data e = Some d \<and> ms_type d = ty}"

lemma collected_snoc: "collected origin (es @ [e]) = onmessage origin (collected origin es) e"
  by (simp add: collected_def)

lemma collected_keys:
  "fst ` set (nt_conflict (collected origin es)) = verdict_keys origin es FontawesomeConflict
   \<and> distinct (map fst (nt_conflict (collected origin es)))
   \<and> fst ` set (nt_noConflict (collected origin es)) = verdict_keys origin es NoConflict
   \<and> distinct (map fst (nt_noConflict (collected origin es)))"
proof (induction es rule: rev_induct)
  case Nil
  then show ?case by (simp add: collected_def no_nodes_tested_def verdict_keys_def)
next
  case (snoc e es)
  have new: "verdict_keys origin (es @ [e]) ty = verdict_keys origin es ty \<union> verdict_keys origin [e] ty" for ty
    by (auto simp: verdict_keys_def)
  have one: "verdict_keys origin [e] ty = (if origin = ''file://'' \<or> ev_origin e = origin
      then case ev_data e of Some d \<Rightarrow> if ms_type d = ty then {ms_md5 d} else {} | None \<Rightarrow> {} else {})" for ty
    by (auto simp: verdict_keys_def split: option.splits)
  define ok where "ok \<longleftrightarrow> origin = ''file://'' \<or> ev_origin e = origin"
  show ?case
    using snoc unfolding collected_snoc new one onmessage_def ok_def [symmetric]
    by (cases ok; cases "ev_data e") (simp_all add: fst_obj_set distinct_obj_set)
qed

lemma length_obj_keys [simp]: "length (obj_keys ob) = length ob"
proof -
  have "length (filter P (map fst ob)) + length (filter (\<lambda>k. \<not> P k) (map fst ob)) = length ob" for P
    using sum_length_filter_compl [of P "map fst ob"] by simp
  then show ?thesis by (simp add: obj_keys_def Let_def)
qed

lemma finite_verdict_keys [simp]: "finite (verdict_keys origin es ty)"
  by (rule finite_subset [of _ "(\<lambda>e. ms_md5 (the (ev_data e))) ` set es"]) (force simp: verdict_keys_def)+

lemma length_keys: "distinct (map fst ob) \<Longrightarrow> length ob = card (fst ` set ob)"
  using distinct_card [of "map fst ob"] by simp

lemma tested_count_collected:
  "tested_count (collected origin es) =
     card (verdict_keys origin es FontawesomeConflict) + card (verdict_keys origin es NoConflict)"
  using collected_keys [of origin es] by (simp add: tested_count_def length_keys)

lemma run_diags_distinct:
  "run_diags tech cp ts (ob, ds) = Some (ob', ds') \<Longrightarrow> distinct (map fst ob) \<Longrightarrow> distinct (map fst ob')"
  by (induction ts arbitrary: ob ds) (auto simp: distinct_obj_set split: option.splits)

lemma detect_distinct:
  "detectSvgConflicts cur scripts = Some (a, ds) \<Longrightarrow> distinct (map fst a)"
  "detectWebfontConflicts rc links styles = Some (b, ds') \<Longrightarrow> distinct (map fst b)"
  by (auto simp: detectSvgConflicts_def detectWebfontConflicts_def Let_def
    split: option.splits dest: run_diags_distinct)

lemma js_in_own: "k \<in> fst ` set ob \<Longrightarrow> js_in k ob"
  by (auto simp: js_in_def get_prop_def split: option.splits) (metis map_of_eq_None_iff image_eqI fst_conv)

lemma timedOutTests_Nil:
  assumes "fst ` set found \<subseteq> fst ` set (nt_conflict nt) \<union> fst ` set (nt_noConflict nt)"
  shows "timedOutTests nt found = []"
proof -
  have "fold (\<lambda>key ob. case map_of found key of
         Some t \<Rightarrow> if js_in key (nt_conflict nt) \<or> js_in key (nt_noConflict nt) then ob else obj_set ob key t
       | None \<Rightarrow> ob) ks [] = []" if "set ks \<subseteq> fst ` set found" for ks
    using that
  proof (induction ks)
    case (Cons key ks)
    then have "js_in key (nt_conflict nt) \<or> js_in key (nt_noConflict nt)"
      using assms js_in_own [of key] by auto
    with Cons show ?case by (simp split: option.split)
  qed simp
  from this [of "obj_keys found"] show ?thesis by (simp add: timedOutTests_def set_obj_keys)
qed

lemma keys_spread: "fst ` set (spread (spread [] a) b) = fst ` set a \<union> fst ` set b"
proof -
  have "fst ` set ob = dom (map_of ob)" for ob :: "'a obj" by (simp add: dom_map_of_conv_image_fst)
  then show ?thesis by (simp add: Un_commute)
qed

text \<open>The two sets of elements under test, when the page has some.\<close>

definition tests_of :: "page \<Rightarrow> page_tag obj \<Rightarrow> page_tag obj \<Rightarrow> bool" where
  "tests_of pg scripts css \<longleftrightarrow> scripts @ css \<noteq> [] \<and>
     (\<exists>ds. detectSvgConflicts (pg_currentScript pg) (pg_scripts pg) = Some (scripts, ds)) \<and>
     (\<exists>ds. detectWebfontConflicts (pg_replacementClass pg) (pg_links pg) (pg_styles pg) = Some (css, ds))"

lemma conflictDetection_tests:
  assumes "tests_of pg scripts css"
  shows "conflictDetection pg delivered w =
     (let found = spread (spread [] scripts) css; tested = (\<lambda>k. collected (pg_origin pg) (delivered k))
      in case pollUntil (\<lambda>k. length scripts + length css \<le> tested_count (tested k)) (masterTimeout pg) of
           Some k \<Rightarrow> Some (Done k, setDoneResults w (tested k) found)
         | None \<Rightarrow> Some (TimeOut, setDoneResults w (tested (last_call (masterTimeout pg))) found))"
  using assms by (auto simp: tests_of_def conflictDetection_def Let_def)

text \<open>
  Claim C34. The detector finishes: when no script has the same key as a style sheet and the page
  has accepted a verdict for every key by the poll number \<open>k\<close>, within the total time limit, the
  detector ends with its results at that poll or an earlier one.
\<close>

theorem detection_completes:
  assumes "tests_of pg scripts css" and "fst ` set scripts \<inter> fst ` set css = {}"
    and "fst ` set (scripts @ css) \<subseteq> verdict_keys (pg_origin pg) (delivered k) FontawesomeConflict
           \<union> verdict_keys (pg_origin pg) (delivered k) NoConflict"
    and "k \<le> last_call (masterTimeout pg)"
  shows "\<exists>j\<le>k. conflictDetection pg delivered w = Some (Done j,
     setDoneResults w (collected (pg_origin pg) (delivered j)) (spread (spread [] scripts) css))"
proof -
  let ?fn = "\<lambda>j. length scripts + length css \<le> tested_count (collected (pg_origin pg) (delivered j))"
  have d: "distinct (map fst scripts)" "distinct (map fst css)"
    using assms(1) detect_distinct by (auto simp: tests_of_def)
  have "length scripts + length css = card (fst ` set (scripts @ css))"
    using d assms(2) by (simp add: length_keys image_Un card_Un_disjoint)
  also have "\<dots> \<le> card (verdict_keys (pg_origin pg) (delivered k) FontawesomeConflict
           \<union> verdict_keys (pg_origin pg) (delivered k) NoConflict)"
    by (rule card_mono) (use assms(3) in auto)
  also have "\<dots> \<le> tested_count (collected (pg_origin pg) (delivered k))"
    unfolding tested_count_collected by (rule card_Un_le)
  finally have "?fn k" .
  then have "find ?fn [0..<Suc (last_call (masterTimeout pg))] \<noteq> None"
    using assms(4) by (auto simp: find_None_iff less_Suc_eq_le simp del: upt_Suc)
  then obtain j where j: "find ?fn [0..<Suc (last_call (masterTimeout pg))] = Some j" by blast
  then have "\<forall>i<j. \<not> ?fn i" by (auto simp: find_Some_iff simp del: upt_Suc)
  with \<open>?fn k\<close> have "j \<le> k" using not_le by blast
  with j show ?thesis by (auto simp: conflictDetection_tests [OF assms(1)] pollUntil_find Let_def)
qed

text \<open>A page with one inline script that is empty, as a loader may leave it, and its verdict.\<close>

definition empty_tag :: page_tag where
  "empty_tag = \<lparr>tg_ident = 1, tg_ignored = False, tg_tagName = [], tg_src = [], tg_href = [], tg_rel = [], tg_innerText = []\<rparr>"

definition demo_page :: "page_tag list \<Rightarrow> page" where
  "demo_page styles = \<lparr>pg_origin = ''https://a'', pg_currentScript = Some 0, pg_replacementClass = None,
     pg_scripts = [empty_tag], pg_links = [], pg_styles = styles, pg_timeout = Some 2000, pg_maxWait = Some 5000\<rparr>"

definition demo_event :: msg_event where
  "demo_event = \<lparr>ev_origin = ''https://a'', ev_data = Some \<lparr>ms_type = NoConflict, ms_src = None, ms_href = None,
     ms_innerText = [], ms_tagName = [], ms_md5 = ''undefined''\<rparr>\<rparr>"

lemmas demo_page_simps = demo_page_def empty_tag_def tests_of_def detectSvgConflicts_def
  detectWebfontConflicts_def md5ForNode_def

lemma demo_page_tests:
  "tests_of (demo_page []) [(''undefined'', empty_tag)] []"
  "tests_of (demo_page [empty_tag]) [(''undefined'', empty_tag)] [(''undefined'', empty_tag)]"
  by (simp_all add: demo_page_simps)

lemma demo_verdicts:
  "verdict_keys ''https://a'' [demo_event] NoConflict = {''undefined''}"
  "verdict_keys ''https://a'' [demo_event] FontawesomeConflict = {}"
  by (auto simp: verdict_keys_def demo_event_def)

theorem detection_completes_witness:
  "\<exists>j\<le>3. conflictDetection (demo_page []) (\<lambda>k. if k < 3 then [] else [demo_event])
       \<lparr>dt_detectionDone = False, dt_nodesTested = None, dt_nodesFound = None\<rparr> =
     Some (Done j, setDoneResults \<lparr>dt_detectionDone = False, dt_nodesTested = None, dt_nodesFound = None\<rparr>
       (collected (pg_origin (demo_page [])) (if j < 3 then [] else [demo_event]))
       (spread (spread [] [(''undefined'', empty_tag)]) []))"
  by (rule detection_completes [OF demo_page_tests(1)])
    (simp_all add: demo_page_def demo_verdicts last_call_def masterTimeout_def)

text \<open>
  A finished detection leaves nothing out: if the accepted verdicts are about elements of
  the page and no element got both, then when the detector reports completion (rather than a time
  out) its table of leftovers is empty and the results it publishes are the ones it counted.
\<close>

lemma done_is_complete:
  assumes "tests_of pg scripts css" and "fst ` set scripts \<inter> fst ` set css = {}"
    and "conflictDetection pg delivered w = Some (Done k, w')"
    and "verdict_keys (pg_origin pg) (delivered k) FontawesomeConflict
           \<inter> verdict_keys (pg_origin pg) (delivered k) NoConflict = {}"
    and "verdict_keys (pg_origin pg) (delivered k) FontawesomeConflict
           \<union> verdict_keys (pg_origin pg) (delivered k) NoConflict \<subseteq> fst ` set (scripts @ css)"
  shows "dt_detectionDone w' \<and> (\<exists>nt found. dt_nodesTested w' = Some nt \<and> dt_nodesFound w' = Some found
    \<and> fst ` set found = fst ` set (nt_conflict nt) \<union> fst ` set (nt_noConflict nt)
    \<and> rp_leftovers (detector_report nt found) = [])"
proof -
  let ?nt = "collected (pg_origin pg) (delivered k)" and ?found = "spread (spread [] scripts) css"
  let ?c = "verdict_keys (pg_origin pg) (delivered k) FontawesomeConflict"
  let ?n = "verdict_keys (pg_origin pg) (delivered k) NoConflict"
  have res: "w' = setDoneResults w ?nt ?found" "length scripts + length css \<le> tested_count ?nt"
    using assms(3) unfolding conflictDetection_tests [OF assms(1)] pollUntil_find
    by (auto simp: Let_def find_Some_iff simp del: upt_Suc split: option.splits)
  have d: "distinct (map fst scripts)" "distinct (map fst css)"
    using assms(1) detect_distinct by (auto simp: tests_of_def)
  have "card (fst ` set (scripts @ css)) = length scripts + length css"
    using d assms(2) by (simp add: length_keys image_Un card_Un_disjoint)
  also have "\<dots> \<le> card (?c \<union> ?n)"
    using res(2) assms(4) by (simp add: tested_count_collected card_Un_disjoint)
  finally have "?c \<union> ?n = fst ` set (scripts @ css)"
    by (intro card_seteq) (use assms(5) in auto)
  then have all: "fst ` set ?found = fst ` set (nt_conflict ?nt) \<union> fst ` set (nt_noConflict ?nt)"
    using collected_keys [of "pg_origin pg" "delivered k"] by (simp add: keys_spread image_Un)
  then have "timedOutTests ?nt ?found = []" by (intro timedOutTests_Nil) simp
  then have "rp_leftovers (detector_report ?nt ?found) = []"
    by (simp add: detector_report_def table_of_def js_reduce_def obj_keys_def)
  with all res(1) show ?thesis by (simp add: setDoneResults_def)
qed

lemma done_is_complete_example:
  "\<exists>w'. conflictDetection (demo_page []) (\<lambda>k. [demo_event])
       \<lparr>dt_detectionDone = False, dt_nodesTested = None, dt_nodesFound = None\<rparr> = Some (Done 0, w')
     \<and> dt_detectionDone w' \<and> (\<exists>nt found. dt_nodesTested w' = Some nt \<and> dt_nodesFound w' = Some found
       \<and> fst ` set found = fst ` set (nt_conflict nt) \<union> fst ` set (nt_noConflict nt)
       \<and> rp_leftovers (detector_report nt found) = [])"
proof -
  let ?w = "\<lparr>dt_detectionDone = False, dt_nodesTested = None, dt_nodesFound = None\<rparr>"
  have "pollUntil (\<lambda>k. 1 \<le> tested_count (collected ''https://a'' [demo_event])) (Some 7000) = Some 0"
    by (simp add: pollUntil_find tested_count_collected demo_verdicts last_call_def upt_conv_Cons del: upt_Suc)
  then obtain w' where run: "conflictDetection (demo_page []) (\<lambda>k. [demo_event]) ?w = Some (Done 0, w')"
    by (simp add: conflictDetection_tests [OF demo_page_tests(1)] Let_def)
      (simp add: demo_page_def masterTimeout_def)
  show ?thesis
    by (intro exI [of _ w'] conjI run done_is_complete [OF demo_page_tests(1) _ run, THEN conjunct1]
      done_is_complete [OF demo_page_tests(1) _ run, THEN conjunct2])
      (simp_all add: demo_page_def demo_verdicts)
qed

text \<open>
  A script and a style sheet with the same key make the detector wait in vain: the total
  counts the key twice, the verdicts once. Without a conflict on the page, whatever verdicts arrive
  and when, the detection ends in a time out. Elements without a source or text, whose key is the
  word \<^verbatim>\<open>undefined\<close>, are such a pair.
\<close>

lemma shared_key_times_out:
  assumes "tests_of pg scripts css" and "fst ` set scripts \<inter> fst ` set css \<noteq> {}"
    and "\<forall>k. verdict_keys (pg_origin pg) (delivered k) FontawesomeConflict = {}"
    and "\<forall>k. verdict_keys (pg_origin pg) (delivered k) NoConflict \<subseteq> fst ` set (scripts @ css)"
  shows "\<exists>w'. conflictDetection pg delivered w = Some (TimeOut, w')"
proof -
  have d: "distinct (map fst scripts)" "distinct (map fst css)"
    using assms(1) detect_distinct by (auto simp: tests_of_def)
  have "0 < card (fst ` set scripts \<inter> fst ` set css)" using assms(2) by (simp add: card_gt_0_iff)
  then have less: "card (fst ` set (scripts @ css)) < length scripts + length css"
    using card_Un_Int [of "fst ` set scripts" "fst ` set css"] d by (simp add: length_keys image_Un)
  have "tested_count (collected (pg_origin pg) (delivered k)) \<le> card (fst ` set (scripts @ css))" for k
    using card_mono [OF _ assms(4) [rule_format, of k]] assms(3) by (simp add: tested_count_collected)
  with less have "\<not> length scripts + length css \<le> tested_count (collected (pg_origin pg) (delivered k))" for k
    using le_trans not_le by blast
  then have "pollUntil (\<lambda>k. length scripts + length css \<le> tested_count (collected (pg_origin pg) (delivered k)))
      (masterTimeout pg) = None"
    unfolding pollUntil_find by (simp add: find_None_iff del: upt_Suc)
  then show ?thesis by (simp add: conflictDetection_tests [OF assms(1)] Let_def)
qed

lemma shared_key_times_out_example:
  "\<exists>w'. conflictDetection (demo_page [empty_tag]) (\<lambda>k. [demo_event, demo_event])
       \<lparr>dt_detectionDone = False, dt_nodesTested = None, dt_nodesFound = None\<rparr> = Some (TimeOut, w')"
  by (rule shared_key_times_out [OF demo_page_tests(2)])
    (auto simp: demo_page_def verdict_keys_def demo_event_def)

subsection \<open>Starting\<close>

text \<open>Without attributes and settings a test may take two seconds and the whole run seven: twenty-nine polls.\<close>

lemma detector_defaults:
  assumes "ls_timeout ls = None" "ls_maxWait ls = None" "ds_timeout ini = None" "ds_maxWait ini = None"
  shows "pg_timeout (configured_page ls ini pg) = Some 2000" "masterTimeout (configured_page ls ini pg) = Some 7000"
    "last_call (masterTimeout (configured_page ls ini pg)) = 28"
  using assms
  by (simp_all add: configured_page_def attr_duration_def whole_number_def masterTimeout_def last_call_def js_trim_def js_space_def
      is_digit_def read_digits_def digit_value_def)

text \<open>A run that starts in a browser ends, for whatever the frames post: it raises an exception if some text to hash is
  ill-formed, and otherwise leaves its results unless there was nothing to test.\<close>

lemma detector_ends:
  assumes "IS_BROWSER en" "IS_DOM en" "detector_script en (Some ls) ini pg delivered = Some (e, w)"
  shows "\<exists>x. e = Some x \<and> (x = AllGood \<longrightarrow> w = fresh_detection) \<and> (x \<noteq> AllGood \<longrightarrow> dt_detectionDone w)"
  using assms
  by (auto simp: detector_script_def conflictDetection_def setDoneResults_def Let_def split: option.splits if_splits prod.splits)

text \<open>The traces end at version 6: a style sheet of version 7, which this package is, is reported as harmless.\<close>

lemma version_7_fonts_missed:
  assumes "\<And>k. family k = units ''\"Font Awesome 7 Free\"''"
  shows "ms_type (diagScriptFun d (\<lambda>k. webfont_trace (family k)) timeout) = NoConflict"
proof -
  have "\<not> webfont_trace (units ''\"Font Awesome 7 Free\"'')" by code_simp
  then show ?thesis using assms by (simp add: diagScriptFun_def pollUntil_find find_None_iff Let_def)
qed

end
