(* ===== verification/Spec2Isabelle.thy ===== *)
theory Spec2Isabelle
  imports System Concurrent Timing Addresses Fa_Styles Fa_Load Fa_Api Fa_Conflict
begin

text \<open>
  \<^bold>\<open>A verification development of centralisd.\<close>

  \<^bold>\<open>The program.\<close> centralisd is one Go binary (\<^verbatim>\<open>src/src\<close>) that runs, by its configuration, as one of
  three kinds of node. \<^emph>\<open>Slaves\<close> run containers and virtual machines and connect to a \<^emph>\<open>master\<close>; masters
  connect to the \<^emph>\<open>orchestrator\<close>, which keeps a registry of the masters of each cluster and serves the
  web interface. All connections carry JSON packets, one per line, after a handshake in which the
  connecting side proves possession of an ed25519 key whose hash is its identifier. A command enters
  at the orchestrator, is routed to a master by the registry, relayed to a node, run by a handler
  there, and its reply travels back, matched to its request by an identifier on each connection. The
  pages use the Font Awesome library, vendored under \<^verbatim>\<open>src/static/fa6/js\<close>, which replaces icon elements
  by inline svg and comes with a detector of conflicting copies of itself.

  \<^bold>\<open>The theories of the Go program\<close>, each importing the ones before it that it calls:

  \<^item> \<open>Prelude\<close>, \<open>Encoding\<close>, \<open>Json\<close>: errors as sums, white space and splitting of byte strings, base64url,
    decimal numbers, the JSON writer and reader with the round trip \<open>parse_json_print\<close>; and the locale
    \<open>step_system\<close> of invariants, interpreted on each step relation below whose invariant needs no
    hypothesis (\<open>orch_step\<close>, \<open>master_step\<close> and \<open>page_step\<close> of the icon library), and on \<open>world_step\<close>, whose
    hypothesis is part of its start.
  \<^item> \<open>Types\<close>, \<open>Protocol\<close>: \<^verbatim>\<open>core/protocol\<close>; a record with encoder and decoder per payload struct, line
    framing, packets, identities and challenges. Shown: a stream of packets is read back as written.
  \<^item> \<open>Registry\<close>: \<^verbatim>\<open>orchestrator/registry\<close>; the allow list over an interface of the database and the store
    of masters with its time to live. Locale \<open>master_store\<close> is what its clients rely on, interpreted on
    the store; shown: the store refines a specification by the history of updates.
  \<^item> \<open>Config\<close>: \<^verbatim>\<open>core/config\<close>, \<^verbatim>\<open>main.go\<close> and \<^verbatim>\<open>orchestrator/db\<close>; what \<^verbatim>\<open>main\<close> starts, the whitelists, and
    what a start leaves in the allow list.
  \<^item> \<open>Pending\<close>: \<^verbatim>\<open>sendRequest\<close> and \<^verbatim>\<open>resolveReply\<close> of both servers, split where they block. Locale
    \<open>request_table\<close> holds the contract, interpreted for the orchestrator's and the master's variant;
    shown: replies reach exactly the callers that wait for them, under every interleaving.
  \<^item> \<open>Orch_Tcp\<close>: \<^verbatim>\<open>orchestrator/tcp\<close>; handshake, packet loop, table of masters and commands. The goroutines
    interleave by the inductive relation \<open>orch_step\<close>; the invariant \<open>orch_inv\<close> gives that everything in
    the registry and the table was authenticated. Also the exact meaning of the configured whitelist
    and the routing of commands.
  \<^item> \<open>Master\<close>: \<^verbatim>\<open>src/src/master\<close>; nodes, their server (relation \<open>master_step\<close>), the login at the
    orchestrator, the relay of commands and the aggregated list of machines. \<open>Addresses\<close>: the addresses of
    the local interfaces, shown to be listed exactly and readable.
  \<^item> \<open>Virt\<close>, \<open>Slave\<close>: \<^verbatim>\<open>src/src/slave\<close>; computations with errors on a world, the libvirt helpers, every
    command handler, heartbeat, firewall, login and packet loop. Shown: a command travels end to end,
    the logins of both kinds of client succeed against the servers' handshakes, the XML given to
    libvirt cannot be injected into, and deletion is guarded.
  \<^item> \<open>Web\<close>: \<^verbatim>\<open>orchestrator/web\<close>; the pages, the data they show and the forms that become commands, on a
    world whose connections are those of \<open>Orch_Tcp\<close>. Shown: which pages exist, that only a \<^verbatim>\<open>POST\<close> sends
    a command that changes anything, at most one and to the node of its path, that such a node can be
    reached, and that the form for a new machine arrives at the node's handler as filled in.
  \<^item> \<open>System\<close>: the processes together. A page's command runs through the request tables and connections of
    the other theories, each process reading what the one before has written, to the handler on the
    node and back. What a page relies on is the locale \<open>node_service\<close>, interpreted on this composition;
    shown: the page tells what its action did on the node, and a deletion without force does nothing.
  \<^item> \<open>Link\<close>, \<open>Concurrent\<close>: the same processes with everything interleaved. \<open>Link\<close> is one connection with both
    its ends: the request table, the bytes each side has written and not yet read, and a record of what was
    asked and answered; the locale \<open>wire_table\<close> extends \<open>request_table\<close> and is interpreted for both
    variants. \<open>Concurrent\<close> puts the orchestrator, a master and its nodes together: each clause of the
    relation \<open>world_step\<close> is one turn of one goroutine, made of the functions above, and nodes join and leave.
    Shown: a caller can receive nothing but the relay's error or what the handler of its own command
    returned on its node. Identifiers of requests do not repeat on a connection (they are random), and
    commands for the master itself are left to \<open>Master\<close>.
  \<^item> \<open>Timing\<close>: the heartbeat loop of a master against the packet loop of a node, and the announcements of
    a master against the time to live of the registry, in nanoseconds; shown: which commands a
    connection survives, and which times to live keep a connected master listed.

  \<^bold>\<open>The theories of the Font Awesome library\<close>:

  \<^item> \<open>Js_Base\<close>: values and objects of the language as far as the code uses them; an object is an ordered
    list of properties, and a lookup also sees the members inherited from \<^verbatim>\<open>Object.prototype\<close>.
  \<^item> \<open>Fa_Tables\<close>, \<open>Fa_Config\<close>, \<open>Fa_Resolve\<close>, \<open>Fa_Styles\<close>: the constant tables, the configuration, and the
    resolution of class lists to a prefix and a name.
  \<^item> \<open>Fa_Library\<close>: packs, shims and lookup tables; shown: the tables agree with the packs in every
    reachable state and an added icon is found under its names.
  \<^item> \<open>Fa_Load\<close>: the scripts of a page, which meet in a shared namespace; shown: the order in which they run
    does not matter for any lookup.
  \<^item> \<open>Fa_Render\<close>, \<open>Fa_Dom\<close>: abstract nodes, their markup, and the replacement of elements; shown: texts
    and attributes cannot inject markup, and a replacement is not replaced again.
  \<^item> \<open>Fa_Pseudo\<close>, \<open>Fa_Selectors\<close>: icons for pseudo-elements. A replacement is a call and a continuation,
    and the relation \<open>pseudo_step\<close> interleaves them; shown: no position ever has two generated elements,
    when a second scan changes nothing, and that the selectors of the style sheets are split as
    meant unless parentheses nest.
  \<^item> \<open>Fa_Plugins\<close>: the plugins with their hooks and providers, and the life of a page from the start of the
    script; shown: the hooks compose to the direct definitions of \<open>Fa_Dom\<close>, every function that waits for
    the document runs once, the style sheet is inserted once, and what \<^verbatim>\<open>noAuto\<close> fails to stop.
  \<^item> \<open>Fa_Api\<close>: the functions \<^verbatim>\<open>icon\<close>, \<^verbatim>\<open>layer\<close>, \<^verbatim>\<open>counter\<close> and \<^verbatim>\<open>text\<close> and the values with getters that they
    return; shown: an added icon is drawn under each of its names, and the functions and the
    replacement of elements make the same icons.
  \<^item> \<open>Fa_Md5\<close>, \<open>Fa_Conflict\<close>: the conflict detector; its digest is the MD5 of RFC 1321, which is stated
    here as a reference definition, its polling ends, and so does every run that starts.

  \<^bold>\<open>Conventions.\<close> Go strings are byte strings (\<^typ>\<open>string\<close>), bytes are words of 8 bits, a value with an
  error is a sum with the error on the left, a \<^verbatim>\<open>nil\<close> pointer is \<^term>\<open>None\<close>. Times, random bytes and the
  order in which a map is visited are arguments. Code that is not in the repository is an argument
  too (as is what the browser computes): the database (\<open>gorm\<close>), SHA-256 and ed25519 (\<open>crypto\<close>), key files and their decoders (\<open>keystore\<close>),
  libvirt (\<open>virt\<close>), Docker (\<open>engine\<close>) and the hardware readings; what a theorem needs of them is one of
  its hypotheses, such as \<open>signs\<close> for a key pair or \<open>gorm_ok\<close> for the database. Where a goroutine blocks, the
  function is split there, and other goroutines may run in between.

  \<^bold>\<open>Bounds and fuel.\<close> The JSON reader runs on fuel, and the length of the text is enough
  (\<open>parse_print\<close>); \<open>heartbeat_loop\<close> takes a number of turns, and its theorems are for every number or
  give one that is enough; \<open>read_packets\<close> takes a number of packets larger than the stream holds; the polling of
  the conflict detector takes its number of attempts from the code. All other recursions are proved
  to terminate. The MD5 equality is for inputs below \<open>2^31\<close> bits, where the code's shifts are those of
  the algorithm.

  \<^bold>\<open>Not modelled.\<close> Logging, deadlines of sockets, templates, style sheets and
  embedding hold no logic of their own; of the web server, the templates' execution and the
  multiplexer's redirects. XML, YAML, PEM and X.509 decoding are arguments. Of the JavaScript, these are
  left out: the performance marks; the helpers that the transpiler and the polyfills add, of which
  \<open>Js_Base\<close> holds the ones with a meaning of their own; the copies of the tables that the conflict
  detector and the shims carry without using them; the regular expressions for svg source files, which
  nothing in the bundle uses; and the icon data: the drawings in \<^verbatim>\<open>solid.js\<close>, \<^verbatim>\<open>regular.js\<close>
  and \<^verbatim>\<open>brands.js\<close> and the rows of \<^verbatim>\<open>v4-shims.js\<close> are arguments of the model, so that its theorems hold
  for every set of icons, and \<^verbatim>\<open>all.js\<close> repeats them and \<^verbatim>\<open>fontawesome.js\<close>.
\<close>

end
